(* ===== verification/Prelude.thy ===== *)
theory Prelude
  imports Main "HOL-Library.Word"
begin

text \<open>
  Shared vocabulary of the development: the JavaScript strings, the values the client library
  can catch (\<open>thrown\<close>), finite runs of event-driven components, and the two locales every
  event-driven component of the library is an instance of (an invariant kept by each step, and
  a budget that bounds how often an output can be produced).

  JavaScript strings are HOL \<open>string\<close>s: lists of the code units below 256, all the code
  inspects. Everything the code does with strings (\<open>startsWith\<close>, \<open>slice\<close>, \<open>includes\<close>,
  \<open>lastIndexOf\<close>, \<open>trim\<close>) is written out here on such lists.
\<close>

named_theorems ops \<open>definitions of the operations of the modelled classes\<close>

section \<open>JavaScript strings\<close>

type_synonym byte = "8 word"

definition starts_with :: "string \<Rightarrow> string \<Rightarrow> bool" where
  "starts_with p s \<longleftrightarrow> take (length p) s = p"

lemma starts_with_iff: "starts_with p s \<longleftrightarrow> (\<exists>r. s = p @ r)"
  unfolding starts_with_def by (metis append_eq_conv_conj)

lemma starts_with_append [simp]: "starts_with p (p @ r)"
  by (simp add: starts_with_iff)

text \<open>The white space of \<open>trim\<close> and of \<open>\s\<close>, as far as it is below 256.\<close>

definition js_space :: "char \<Rightarrow> bool" where
  "js_space c \<longleftrightarrow> of_char c \<in> {9, 10, 11, 12, 13, 32, 160 :: nat}"

definition js_trim :: "string \<Rightarrow> string" where
  "js_trim s = rev (dropWhile js_space (rev (dropWhile js_space s)))"

lemma js_trim_id:
  assumes "s = [] \<or> \<not> js_space (hd s) \<and> \<not> js_space (last s)"
  shows "js_trim s = s"
proof (cases "s = []")
  case False
  with assms have "dropWhile js_space s = s" by (cases s) auto
  moreover have "dropWhile js_space (rev s) = rev s"
    using False assms by (cases s rule: rev_cases) auto
  ultimately show ?thesis by (simp add: js_trim_def)
qed (simp add: js_trim_def)

lemma dropWhile_dropWhile_rev:
  "dropWhile P (rev (dropWhile P (rev (dropWhile P s)))) = rev (dropWhile P (rev (dropWhile P s)))"
proof (cases "dropWhile P s")
  case (Cons c t)
  then have "\<not> P c" by (metis dropWhile_eq_Cons_conv)
  then have "rev (dropWhile P (rev (c # t))) = c # rev (dropWhile P (rev t))"
    by (simp add: dropWhile_append3)
  with \<open>\<not> P c\<close> show ?thesis unfolding Cons by simp
next
  case Nil
  show ?thesis unfolding Nil by simp
qed

lemma js_trim_trim [simp]: "js_trim (js_trim s) = js_trim s"
  unfolding js_trim_def by (simp add: dropWhile_dropWhile_rev)

lemma takeWhile_until: "\<forall>x \<in> set xs. P x \<Longrightarrow> \<not> P y \<Longrightarrow> takeWhile P (xs @ y # r) = xs"
  by (induction xs) auto

lemma dropWhile_until: "\<forall>x \<in> set xs. P x \<Longrightarrow> \<not> P y \<Longrightarrow> dropWhile P (xs @ y # r) = y # r"
  by (induction xs) auto

text \<open>\<open>s.lastIndexOf(c)\<close>: \<open>None\<close> is the \<open>-1\<close> of the source.\<close>

fun last_index_of :: "char \<Rightarrow> string \<Rightarrow> nat option" where
  "last_index_of c [] = None"
| "last_index_of c (x # xs) =
     (case last_index_of c xs of
        Some i \<Rightarrow> Some (Suc i)
      | None \<Rightarrow> if x = c then Some 0 else None)"

lemma last_index_of_None: "last_index_of c s = None \<longleftrightarrow> c \<notin> set s"
  by (induction s) (auto split: option.splits)

lemma last_index_of_append:
  "c \<notin> set r \<Longrightarrow> last_index_of c (l @ c # r) = Some (length l)"
proof (induction l)
  case Nil
  then show ?case by (auto simp: last_index_of_None split: option.splits)
next
  case (Cons x l)
  then show ?case by simp
qed

lemma last_index_of_Some:
  "last_index_of c s = Some i \<Longrightarrow> s = take i s @ c # drop (Suc i) s \<and> c \<notin> set (drop (Suc i) s)"
proof (induction s arbitrary: i)
  case (Cons x xs)
  then show ?case by (auto simp: last_index_of_None split: option.splits if_splits)
qed simp

text \<open>\<open>s.indexOf(c)\<close>.\<close>

fun index_of :: "char \<Rightarrow> string \<Rightarrow> nat option" where
  "index_of c [] = None"
| "index_of c (x # xs) = (if x = c then Some 0 else map_option Suc (index_of c xs))"

lemma index_of_None: "index_of c s = None \<longleftrightarrow> c \<notin> set s"
  by (induction s) auto

lemma take_index_of: "index_of c s = Some i \<Longrightarrow> take i s = takeWhile (\<lambda>x. x \<noteq> c) s"
  by (induction s arbitrary: i) (auto split: if_splits)

text \<open>The digits, and the number a sequence of them stands for.\<close>

definition is_digit :: "char \<Rightarrow> bool" where
  "is_digit c \<longleftrightarrow> (48 :: nat) \<le> of_char c \<and> of_char c \<le> (57 :: nat)"

fun decimal :: "nat \<Rightarrow> string \<Rightarrow> nat" where
  "decimal acc [] = acc"
| "decimal acc (c # s) = decimal (acc * 10 + (of_char c - 48)) s"

section \<open>What a catch clause can receive\<close>

text \<open>
  A thrown or rejected value, by what the code observes of it: whether it is an \<open>Error\<close>
  (with its message and the value of a string-valued \<open>code\<close> property, if it has one), the
  \<open>AbortRaceError\<close> marker, or any other value (is it an object, what \<open>String(v)\<close> gives,
  the \<open>code\<close> property).
\<close>

datatype thrown =
    Err (err_text: string) (err_code: "string option")
  | AbortRace string
  | NonErr (is_obj: bool) (shown: string) (prop_code: "string option")

section \<open>Results\<close>

fun bindE :: "'e + 'a \<Rightarrow> ('a \<Rightarrow> 'e + 'b) \<Rightarrow> 'e + 'b" where
  "bindE (Inl e) f = Inl e"
| "bindE (Inr a) f = f a"

lemma bindE_Inr_iff: "bindE r f = Inr b \<longleftrightarrow> (\<exists>a. r = Inr a \<and> f a = Inr b)"
  by (cases r) auto

lemma bindE_cong [fundef_cong]:
  "r = r' \<Longrightarrow> (\<And>a. r' = Inr a \<Longrightarrow> f a = f' a) \<Longrightarrow> bindE r f = bindE r' f'"
  by (cases r') auto

section \<open>Event-driven components\<close>

text \<open>
  A component is a step function from a state and an event to the next state and the list of
  things it does (promises it settles, messages it sends). \<open>run\<close> feeds it a whole list of
  events.
\<close>

fun run :: "('s \<Rightarrow> 'e \<Rightarrow> 's \<times> 'o list) \<Rightarrow> 's \<Rightarrow> 'e list \<Rightarrow> 's \<times> 'o list" where
  "run step s [] = (s, [])"
| "run step s (e # es) =
     (let (s1, o1) = step s e; (s2, o2) = run step s1 es in (s2, o1 @ o2))"

lemma run_append:
  "run step s (xs @ ys) =
     (let (s1, o1) = run step s xs; (s2, o2) = run step s1 ys in (s2, o1 @ o2))"
  by (induction xs arbitrary: s) (auto simp: Let_def split: prod.splits)

lemma fst_run_append: "fst (run step s (xs @ ys)) = fst (run step (fst (run step s xs)) ys)"
  by (simp add: run_append Let_def split: prod.splits)

lemma run_snoc:
  "run step s (es @ [e]) =
     (let (s1, o1) = run step s es; (s2, o2) = step s1 e in (s2, o1 @ o2))"
  by (simp add: run_append Let_def split: prod.splits)

lemma fst_run_snoc: "fst (run step s (es @ [e])) = fst (step (fst (run step s es)) e)"
  by (simp add: run_snoc Let_def split: prod.splits)

lemma snd_run_snoc:
  "snd (run step s (es @ [e])) = snd (run step s es) @ snd (step (fst (run step s es)) e)"
  by (simp add: run_snoc Let_def split: prod.splits)

lemmas run_snoc_simps = fst_run_snoc snd_run_snoc

text \<open>
  Timers of the language: \<open>setTimeout\<close> and \<open>setInterval\<close> turn a delay outside \<open>1 \<dots> 2 ^ 31 - 1\<close>
  milliseconds into 1.
\<close>

definition timer_delay :: "int \<Rightarrow> int" where
  "timer_delay ms = (if 1 \<le> ms \<and> ms \<le> 2147483647 then ms else 1)"

lemma timer_delay_pos [simp]: "0 < timer_delay ms" "1 \<le> nat (timer_delay ms)"
  by (auto simp: timer_delay_def)

locale event_machine =
  fixes step :: "'s \<Rightarrow> 'e \<Rightarrow> 's \<times> 'o list"
    and inv :: "'s \<Rightarrow> bool"
  assumes step_inv: "inv s \<Longrightarrow> inv (fst (step s e))"
begin

lemma run_inv: "inv s \<Longrightarrow> inv (fst (run step s es))"
proof (induction es rule: rev_induct)
  case (snoc e es)
  then show ?case by (simp add: fst_run_snoc step_inv)
qed simp

end

text \<open>
  A budget: \<open>fuel\<close> is what the state still has to spend, \<open>gain e\<close> what an event adds to it,
  \<open>price o\<close> what an output costs. If no step overspends, no run does.
\<close>

locale budgeted_machine = event_machine step inv
  for step :: "'s \<Rightarrow> 'e \<Rightarrow> 's \<times> 'o list" and inv :: "'s \<Rightarrow> bool" +
  fixes fuel :: "'s \<Rightarrow> nat" and gain :: "'e \<Rightarrow> nat" and price :: "'o \<Rightarrow> nat"
  assumes step_budget:
    "inv s \<Longrightarrow> sum_list (map price (snd (step s e))) + fuel (fst (step s e)) \<le> fuel s + gain e"
begin

lemma run_budget:
  assumes "inv s"
  shows "sum_list (map price (snd (run step s es))) + fuel (fst (run step s es))
           \<le> fuel s + sum_list (map gain es)"
proof (induction es rule: rev_induct)
  case (snoc e es)
  from step_budget [OF run_inv [OF assms], of es e] snoc show ?case
    by (simp add: run_snoc_simps)
qed simp

lemma run_price_bound:
  "inv s \<Longrightarrow> sum_list (map price (snd (run step s es))) \<le> fuel s + sum_list (map gain es)"
  using run_budget [of s es] by linarith

end

lemma sum_list_indicator:
  "sum_list (map (\<lambda>x. if P x then 1 else 0) xs) = length (filter P xs)"
  by (induction xs) auto

end
