(* ===== verification/Errors.thy ===== *)
theory Errors
  imports Prelude
begin

text \<open>
  \<open>src/errors.ts\<close>: the coercion of anything thrown into an \<open>Error\<close>, its message, the error
  an abort signal gives, and \<open>raceAbort\<close>, which races a promise against an abort signal. A
  race is a state machine over two kinds of events: the promise's reaction running, and the
  signal's \<open>abort\<close> event.
\<close>

section \<open>Messages\<close>

definition mk_error :: "string \<Rightarrow> thrown" where
  "mk_error msg = Err msg None"

fun as_error :: "thrown \<Rightarrow> thrown" where
  "as_error (Err m c) = Err m c"
| "as_error (AbortRace m) = AbortRace m"
| "as_error (NonErr b s c) = Err s None"

fun error_text :: "thrown \<Rightarrow> string" where
  "error_text (Err m c) = m"
| "error_text (AbortRace m) = m"
| "error_text (NonErr b s c) = s"

definition err_message :: "thrown \<Rightarrow> string" where
  "err_message e = error_text (as_error e)"

text \<open>\<open>reason\<close> is \<open>signal?.reason\<close>; \<open>None\<close> is \<open>undefined\<close> or \<open>null\<close>.\<close>

definition aborted_error :: "thrown option \<Rightarrow> string \<Rightarrow> thrown" where
  "aborted_error reason context =
     (case reason of
        Some (Err m c) \<Rightarrow> mk_error (''signet: '' @ context @ '': aborted: '' @ m)
      | Some (AbortRace m) \<Rightarrow> mk_error (''signet: '' @ context @ '': aborted: '' @ m)
      | Some (NonErr b s c) \<Rightarrow> mk_error (''signet: '' @ context @ '': aborted: '' @ s)
      | None \<Rightarrow> mk_error (''signet: '' @ context @ '': aborted''))"

lemma err_message_mk [simp]: "err_message (mk_error m) = m"
  by (simp add: err_message_def mk_error_def)

lemma as_error_idem [simp]: "as_error (as_error e) = as_error e"
  by (cases e) auto

lemma err_message_as_error [simp]: "err_message (as_error e) = err_message e"
  by (simp add: err_message_def)

lemma aborted_error_mentions_context:
  "\<exists>rest. aborted_error reason context = mk_error (''signet: '' @ context @ '': aborted'' @ rest)"
  by (cases reason; simp add: aborted_error_def split: thrown.splits) auto

section \<open>raceAbort\<close>

datatype 'a race_event = Settled "thrown + 'a" | SignalAborts

record 'a race =
  race_out :: "(thrown + 'a) option"
  race_listens :: bool

definition abort_marker :: thrown where
  "abort_marker = AbortRace ''aborted''"

text \<open>The argument is the signal: absent, or present with its \<open>aborted\<close> flag.\<close>

fun race_start :: "bool option \<Rightarrow> 'a race" where
  "race_start None = \<lparr>race_out = None, race_listens = False\<rparr>"
| "race_start (Some True) = \<lparr>race_out = Some (Inl abort_marker), race_listens = False\<rparr>"
| "race_start (Some False) = \<lparr>race_out = None, race_listens = True\<rparr>"

text \<open>A promise keeps the first outcome it gets.\<close>

definition settle :: "'r option \<Rightarrow> 'r \<Rightarrow> 'r option" where
  "settle p r = (case p of None \<Rightarrow> Some r | Some x \<Rightarrow> Some x)"

lemma settle_simps [simp]: "settle None r = Some r" "settle (Some x) r = Some x"
  by (simp_all add: settle_def)

lemma settle_not_None [simp]: "settle p r \<noteq> None"
  by (simp add: settle_def split: option.split)

fun race_step :: "'a race \<Rightarrow> 'a race_event \<Rightarrow> 'a race" where
  "race_step s (Settled r) = \<lparr>race_out = settle (race_out s) r, race_listens = False\<rparr>"
| "race_step s SignalAborts =
     (if race_listens s
      then \<lparr>race_out = settle (race_out s) (Inl abort_marker), race_listens = False\<rparr>
      else s)"

definition race_abort :: "bool option \<Rightarrow> 'a race_event list \<Rightarrow> 'a race" where
  "race_abort sig es = foldl race_step (race_start sig) es"

text \<open>What the race must give, stated without the machine.\<close>

fun first_settled :: "'a race_event list \<Rightarrow> (thrown + 'a) option" where
  "first_settled [] = None"
| "first_settled (Settled r # es) = Some r"
| "first_settled (SignalAborts # es) = first_settled es"

definition race_spec :: "bool option \<Rightarrow> 'a race_event list \<Rightarrow> (thrown + 'a) option" where
  "race_spec sig es =
     (case sig of
        None \<Rightarrow> first_settled es
      | Some True \<Rightarrow> Some (Inl abort_marker)
      | Some False \<Rightarrow>
          (case es of [] \<Rightarrow> None
           | Settled r # _ \<Rightarrow> Some r
           | SignalAborts # _ \<Rightarrow> Some (Inl abort_marker)))"

lemma foldl_race_latched:
  "race_out s = Some r \<Longrightarrow> race_out (foldl race_step s es) = Some r"
proof (induction es arbitrary: s)
  case (Cons e es)
  then show ?case by (cases e) auto
qed simp

lemma foldl_race_deaf:
  "race_out s = None \<Longrightarrow> \<not> race_listens s \<Longrightarrow> race_out (foldl race_step s es) = first_settled es"
proof (induction es arbitrary: s)
  case (Cons e es)
  then show ?case by (cases e) (auto simp: foldl_race_latched)
qed simp

lemma race_abort_spec: "race_out (race_abort sig es) = race_spec sig es"
proof (cases sig)
  case None
  then show ?thesis by (simp add: race_abort_def race_spec_def foldl_race_deaf)
next
  case (Some aborted)
  show ?thesis
  proof (cases aborted)
    case True
    with Some show ?thesis by (simp add: race_abort_def race_spec_def foldl_race_latched)
  next
    case False
    with Some show ?thesis
      by (cases es; cases "hd es")
         (auto simp: race_abort_def race_spec_def foldl_race_latched)
  qed
qed

lemma race_listens_stays_off:
  "\<not> race_listens s \<Longrightarrow> \<not> race_listens (foldl race_step s es)"
proof (induction es arbitrary: s)
  case (Cons e es)
  then show ?case by (cases e) auto
qed simp

lemma race_listens_unsettled:
  "race_listens s \<longrightarrow> race_out s = None \<Longrightarrow>
   race_listens (foldl race_step s es) \<longrightarrow> race_out (foldl race_step s es) = None"
proof (induction es arbitrary: s)
  case (Cons e es)
  then show ?case by (cases e) auto
qed simp

lemma race_start_unsettled: "race_listens (race_start sig) \<longrightarrow> race_out (race_start sig) = None"
  by (cases sig rule: race_start.cases) auto

lemma race_settled_no_listener:
  "race_out (race_abort sig es) \<noteq> None \<Longrightarrow> \<not> race_listens (race_abort sig es)"
  using race_listens_unsettled [OF race_start_unsettled, of sig es] by (auto simp: race_abort_def)

end
