(* ===== verification/Mailbox.thy ===== *)
theory Mailbox
  imports Errors
begin

text \<open>
  \<open>src/async-mailbox.ts\<close>: the queue between a push-style producer (the events of a gRPC
  stream) and a consumer that awaits \<open>next()\<close>. The state is the class's three fields; a
  waiter is the \<open>resolve\<close> callback of one pending \<open>next()\<close>, represented by the number of
  that call. An operation returns the new state and the promises it resolves.

  The main result is that the interleaving of producer and consumer does not matter: the
  \<open>k\<close>-th \<open>next()\<close> gets the \<open>k\<close>-th value pushed before the terminal item, or the terminal
  item if there are fewer, and is pending exactly when neither exists yet.
\<close>

section \<open>The class\<close>

datatype 'a mailbox_item = Value 'a | Error thrown | Done

record 'a mailbox =
  buffered :: "'a list"
  mb_waiters :: "nat list"
  terminal :: "'a mailbox_item option"

definition mailbox_new :: "'a mailbox" where
  "mailbox_new = \<lparr>buffered = [], mb_waiters = [], terminal = None\<rparr>"

definition push_value :: "'a \<Rightarrow> 'a mailbox \<Rightarrow> 'a mailbox \<times> (nat \<times> 'a mailbox_item) list" where
  "push_value v m =
     (if terminal m \<noteq> None then (m, [])
      else (case mb_waiters m of
              w # ws \<Rightarrow> (m\<lparr>mb_waiters := ws\<rparr>, [(w, Value v)])
            | [] \<Rightarrow> (m\<lparr>buffered := buffered m @ [v]\<rparr>, [])))"

definition push_terminal ::
  "'a mailbox_item \<Rightarrow> 'a mailbox \<Rightarrow> 'a mailbox \<times> (nat \<times> 'a mailbox_item) list" where
  "push_terminal item m =
     (if terminal m \<noteq> None then (m, [])
      else (m\<lparr>terminal := Some item, mb_waiters := []\<rparr>, map (\<lambda>w. (w, item)) (mb_waiters m)))"

definition mailbox_next :: "nat \<Rightarrow> 'a mailbox \<Rightarrow> 'a mailbox \<times> (nat \<times> 'a mailbox_item) list" where
  "mailbox_next w m =
     (case buffered m of
        v # vs \<Rightarrow> (m\<lparr>buffered := vs\<rparr>, [(w, Value v)])
      | [] \<Rightarrow> (case terminal m of
                Some item \<Rightarrow> (m, [(w, item)])
              | None \<Rightarrow> (m\<lparr>mb_waiters := mb_waiters m @ [w]\<rparr>, [])))"

lemmas mailbox_ops [ops] = push_value_def push_terminal_def mailbox_next_def

section \<open>Runs\<close>

text \<open>A run numbers the calls of \<open>next()\<close> from 0.\<close>

datatype 'a mb_event = PushValue 'a | PushTerminal "'a mailbox_item" | Next

type_synonym 'a mb_sys = "'a mailbox \<times> nat"

fun mb_step :: "'a mb_sys \<Rightarrow> 'a mb_event \<Rightarrow> 'a mb_sys \<times> (nat \<times> 'a mailbox_item) list" where
  "mb_step (m, n) (PushValue v) = (let (m', out) = push_value v m in ((m', n), out))"
| "mb_step (m, n) (PushTerminal i) = (let (m', out) = push_terminal i m in ((m', n), out))"
| "mb_step (m, n) Next = (let (m', out) = mailbox_next n m in ((m', Suc n), out))"

definition mb_start :: "'a mb_sys" where
  "mb_start = (mailbox_new, 0)"

section \<open>The specification\<close>

fun values_before_end :: "'a mb_event list \<Rightarrow> 'a list" where
  "values_before_end [] = []"
| "values_before_end (PushValue v # es) = v # values_before_end es"
| "values_before_end (PushTerminal i # es) = []"
| "values_before_end (Next # es) = values_before_end es"

fun first_terminal :: "'a mb_event list \<Rightarrow> 'a mailbox_item option" where
  "first_terminal [] = None"
| "first_terminal (PushTerminal i # es) = Some i"
| "first_terminal (_ # es) = first_terminal es"

definition calls_of_next :: "'a mb_event list \<Rightarrow> nat" where
  "calls_of_next es = length (filter (\<lambda>e. e = Next) es)"

definition nth_answer :: "'a mb_event list \<Rightarrow> nat \<Rightarrow> 'a mailbox_item option" where
  "nth_answer es k =
     (let vs = values_before_end es
      in if k < length vs then Some (Value (vs ! k)) else first_terminal es)"

lemma first_terminal_snoc:
  "first_terminal (es @ [e]) =
     (case first_terminal es of
        Some i \<Rightarrow> Some i | None \<Rightarrow> (case e of PushTerminal i \<Rightarrow> Some i | _ \<Rightarrow> None))"
  by (induction es rule: first_terminal.induct) (auto split: mb_event.split)

lemma values_before_end_snoc:
  "values_before_end (es @ [e]) =
     (case e of
        PushValue v \<Rightarrow> (if first_terminal es = None then values_before_end es @ [v]
                       else values_before_end es)
      | _ \<Rightarrow> values_before_end es)"
  by (induction es rule: first_terminal.induct) (auto split: mb_event.split)

lemma calls_of_next_snoc:
  "calls_of_next (es @ [e]) = (if e = Next then Suc (calls_of_next es) else calls_of_next es)"
  by (simp add: calls_of_next_def)

lemmas snoc_simps = first_terminal_snoc values_before_end_snoc calls_of_next_snoc

section \<open>The state as a function of the history\<close>

definition mb_state_of :: "'a mb_event list \<Rightarrow> 'a mb_sys" where
  "mb_state_of es =
     (let vs = values_before_end es; n = calls_of_next es; t = first_terminal es
      in (\<lparr>buffered = drop n vs,
           mb_waiters = (if t = None then [length vs ..< n] else []),
           terminal = t\<rparr>, n))"

lemma drop_Cons_nth: "drop n vs = x # xs \<Longrightarrow> n < length vs \<and> vs ! n = x \<and> drop (Suc n) vs = xs"
  by (metis Cons_nth_drop_Suc drop_all list.inject list.simps(3) not_le)

lemma run_mb_state: "fst (run mb_step mb_start es) = mb_state_of es"
proof (induction es rule: rev_induct)
  case Nil
  show ?case by (simp add: mb_start_def mailbox_new_def mb_state_of_def calls_of_next_def)
next
  case (snoc e es)
  show ?case
  proof (cases e)
    case (PushValue v)
    show ?thesis
      using PushValue
      by (auto simp: fst_run_snoc snoc.IH mb_state_of_def Let_def snoc_simps push_value_def
          upt_eq_Cons_conv split: list.splits)
  next
    case (PushTerminal i)
    then show ?thesis
      by (auto simp: fst_run_snoc snoc.IH mb_state_of_def Let_def snoc_simps push_terminal_def)
  next
    case Next
    then show ?thesis
      by (auto simp: fst_run_snoc snoc.IH mb_state_of_def Let_def snoc_simps mailbox_next_def
          dest!: drop_Cons_nth split: list.splits option.splits)
  qed
qed

definition answers :: "'a mb_event list \<Rightarrow> (nat \<times> 'a mailbox_item) list" where
  "answers es = snd (run mb_step mb_start es)"

lemma answers_snoc:
  "answers (es @ [e]) = answers es @ snd (mb_step (mb_state_of es) e)"
  by (simp add: answers_def snd_run_snoc run_mb_state)

lemma set_answers:
  "set (answers es) = {(k, a). k < calls_of_next es \<and> nth_answer es k = Some a}"
proof (induction es rule: rev_induct)
  case Nil
  show ?case by (simp add: answers_def calls_of_next_def)
next
  case (snoc e es)
  show ?case
  proof (cases e)
    case (PushValue v)
    then show ?thesis
      by (auto simp: answers_snoc snoc.IH mb_state_of_def Let_def snoc_simps push_value_def
          nth_answer_def nth_append upt_eq_Cons_conv split: list.splits if_splits)
  next
    case (PushTerminal i)
    then show ?thesis
      by (auto simp: answers_snoc snoc.IH mb_state_of_def Let_def snoc_simps push_terminal_def
          nth_answer_def split: if_splits)
  next
    case Next
    then show ?thesis
      by (auto simp: answers_snoc snoc.IH mb_state_of_def Let_def snoc_simps mailbox_next_def
          nth_answer_def less_Suc_eq dest!: drop_Cons_nth split: list.splits option.splits if_splits)
  qed
qed

lemma distinct_answers: "distinct (map fst (answers es))"
proof (induction es rule: rev_induct)
  case Nil
  show ?case by (simp add: answers_def)
next
  case (snoc e es)
  have "distinct (map fst (snd (mb_step (mb_state_of es) e)))"
    by (cases e) (auto simp: mb_state_of_def Let_def push_value_def push_terminal_def
        mailbox_next_def comp_def split: list.splits option.splits)
  moreover have "fst ` set (snd (mb_step (mb_state_of es) e)) \<inter> fst ` set (answers es) = {}"
    by (cases e) (auto simp: mb_state_of_def Let_def push_value_def push_terminal_def
        mailbox_next_def set_answers nth_answer_def upt_eq_Cons_conv split: list.splits option.splits)
  ultimately show ?case
    by (auto simp: answers_snoc snoc.IH)
qed

section \<open>The mailbox as an instance of the shared contracts\<close>

text \<open>A consumer waits only when there is nothing to hand out.\<close>

definition mb_inv :: "'a mb_sys \<Rightarrow> bool" where
  "mb_inv s \<longleftrightarrow> (mb_waiters (fst s) \<noteq> [] \<longrightarrow> buffered (fst s) = [] \<and> terminal (fst s) = None)"

definition mb_gain :: "'a mb_event \<Rightarrow> nat" where
  "mb_gain e = (case e of Next \<Rightarrow> 1 | _ \<Rightarrow> 0)"

lemma sum_list_ones [simp]: "sum_list (map (\<lambda>x. Suc 0) xs) = length xs"
  by (induction xs) auto

interpretation mb: budgeted_machine mb_step mb_inv "\<lambda>s. length (mb_waiters (fst s))" mb_gain "\<lambda>_. 1"
proof unfold_locales
  fix s :: "'a mb_sys" and e
  obtain m n where s: "s = (m, n)" by fastforce
  assume inv: "mb_inv s"
  show "mb_inv (fst (mb_step s e))"
    using inv by (cases e) (auto simp: s mb_inv_def ops split: list.splits option.splits)
  show "sum_list (map (\<lambda>_. 1) (snd (mb_step s e))) + length (mb_waiters (fst (fst (mb_step s e))))
          \<le> length (mb_waiters (fst s)) + mb_gain e"
    by (cases e) (auto simp: s mb_gain_def ops split: list.splits option.splits)
qed

lemma mb_inv_start [simp]: "mb_inv mb_start"
  by (simp add: mb_inv_def mb_start_def mailbox_new_def)

end
