(* ===== verification/Streams.thy ===== *)
theory Streams
  imports Mailbox
begin

text \<open>
  The two stream adapters of \<open>src/restart.ts\<close> (\<open>lockStreamFromGrpc\<close>, \<open>watchStreamFromGrpc\<close>).
  Both feed the events of a gRPC stream into a mailbox and give a \<open>recv()\<close> that awaits its
  next item; the lock stream also has \<open>send\<close> and \<open>closeSend\<close>.

  The interface \<open>recv_source\<close> is what the receive loops of the library rely on: an answer,
  once there, never changes; answers come in order; an error is the answer of every later
  call too. The adapters' model is shown to provide it.
\<close>

section \<open>recv()\<close>

datatype 'a grpc_event = OnData 'a | OnError thrown | OnEnd

text \<open>A stream is driven by its gRPC events and by the consumer calling \<open>recv()\<close>.\<close>

datatype 'a stream_event = Grpc "'a grpc_event" | CallRecv

fun mailbox_event :: "'a stream_event \<Rightarrow> 'a mb_event" where
  "mailbox_event (Grpc (OnData msg)) = PushValue msg"
| "mailbox_event (Grpc (OnError err)) = PushTerminal (Error (as_error err))"
| "mailbox_event (Grpc OnEnd) = PushTerminal Done"
| "mailbox_event CallRecv = Next"

fun recv_result :: "string \<Rightarrow> 'a mailbox_item \<Rightarrow> thrown + 'a" where
  "recv_result closed_msg (Value v) = Inr v"
| "recv_result closed_msg (Error err) = Inl err"
| "recv_result closed_msg Done = Inl (mk_error closed_msg)"

definition lock_closed_msg :: string where
  "lock_closed_msg = ''signet: AcquireRestartLock stream closed by server''"

definition watch_closed_msg :: string where
  "watch_closed_msg = ''signet: WatchServiceBundle stream closed by server''"

text \<open>The settled \<open>recv()\<close> promises of a run, by the number of the call.\<close>

definition recv_answers :: "string \<Rightarrow> 'a stream_event list \<Rightarrow> (nat \<times> (thrown + 'a)) list" where
  "recv_answers closed_msg es =
     map (\<lambda>(k, item). (k, recv_result closed_msg item)) (answers (map mailbox_event es))"

definition lock_stream_recv :: "'a stream_event list \<Rightarrow> (nat \<times> (thrown + 'a)) list" where
  "lock_stream_recv = recv_answers lock_closed_msg"

definition watch_stream_recv :: "'a stream_event list \<Rightarrow> (nat \<times> (thrown + 'a)) list" where
  "watch_stream_recv = recv_answers watch_closed_msg"

section \<open>The receive contract\<close>

text \<open>
  \<open>outcome es k\<close> is what the \<open>k\<close>-th \<open>recv()\<close> gives (or will give, when it is called) after
  the events \<open>es\<close>. \<open>recv_run\<close> is a loop that awaits one \<open>recv()\<close> after the other and stops at
  the first rejection, as both loops of the library do; \<open>n\<close> bounds the calls.
\<close>

fun recv_run :: "(nat \<Rightarrow> (thrown + 'a) option) \<Rightarrow> nat \<Rightarrow> nat \<Rightarrow> (thrown + 'a) list" where
  "recv_run out 0 k = []"
| "recv_run out (Suc n) k =
     (case out k of
        None \<Rightarrow> []
      | Some (Inl e) \<Rightarrow> [Inl e]
      | Some (Inr v) \<Rightarrow> Inr v # recv_run out n (Suc k))"

locale recv_source =
  fixes outcome :: "'ev list \<Rightarrow> nat \<Rightarrow> (thrown + 'a) option"
  assumes stable: "outcome es k = Some r \<Longrightarrow> outcome (es @ fs) k = Some r"
    and latched: "outcome es k = Some (Inl e) \<Longrightarrow> k \<le> j \<Longrightarrow> outcome es j = Some (Inl e)"
    and in_order: "outcome es k \<noteq> None \<Longrightarrow> j \<le> k \<Longrightarrow> outcome es j \<noteq> None"
begin

lemma value_before_value:
  assumes "outcome es k = Some (Inr v)" and "j \<le> k"
  shows "\<exists>w. outcome es j = Some (Inr w)"
proof -
  obtain r where r: "outcome es j = Some r" using in_order [of es k j] assms by auto
  show ?thesis
  proof (cases r)
    case (Inl e)
    with r have "outcome es k = Some (Inl e)" by (intro latched [of es j e k]) (use assms in simp_all)
    with assms show ?thesis by simp
  qed (use r in simp)
qed

lemma one_error:
  assumes e: "outcome es k = Some (Inl e)" and f: "outcome es j = Some (Inl f)"
  shows "e = f"
proof -
  from e have "outcome es (max k j) = Some (Inl e)" by (rule latched) simp
  moreover from f have "outcome es (max k j) = Some (Inl f)" by (rule latched) simp
  ultimately show ?thesis by simp
qed

lemma recv_run_grows:
  "\<exists>rest. recv_run (outcome (es @ fs)) n k = recv_run (outcome es) n k @ rest"
proof (induction n arbitrary: k)
  case (Suc n)
  show ?case
  proof (cases "outcome es k")
    case (Some r)
    then have "outcome (es @ fs) k = Some r" by (rule stable)
    with Some Suc.IH [of "Suc k"] show ?thesis by (cases r) auto
  qed simp
qed simp

end

lemma recv_run_shape:
  "\<exists>vs. recv_run out n k = map Inr vs \<or> (\<exists>e. recv_run out n k = map Inr vs @ [Inl e])"
proof (induction n arbitrary: k)
  case (Suc n)
  from Suc [of "Suc k"] obtain vs where
    "recv_run out n (Suc k) = map Inr vs \<or> (\<exists>e. recv_run out n (Suc k) = map Inr vs @ [Inl e])"
    by blast
  then have "recv_run out (Suc n) k = map Inr (v # vs) \<or>
      (\<exists>e. recv_run out (Suc n) k = map Inr (v # vs) @ [Inl e])" if "out k = Some (Inr v)" for v
    using that by auto
  moreover have "recv_run out (Suc n) k = map Inr [] @ [Inl e]" if "out k = Some (Inl e)" for e
    using that by simp
  moreover have "recv_run out (Suc n) k = map Inr []" if "out k = None"
    using that by simp
  ultimately show ?case by (metis not_None_eq sumE)
qed simp

lemma recv_run_error_last:
  "Inl e \<in> set (recv_run out n k) \<Longrightarrow> last (recv_run out n k) = Inl e"
  using recv_run_shape [of out n k] by auto

section \<open>The adapters keep the contract\<close>

definition stream_outcome :: "string \<Rightarrow> 'a stream_event list \<Rightarrow> nat \<Rightarrow> (thrown + 'a) option" where
  "stream_outcome closed_msg es k =
     map_option (recv_result closed_msg) (nth_answer (map mailbox_event es) k)"

text \<open>The values delivered before the stream ended, and how it ended.\<close>

definition stream_values :: "'a stream_event list \<Rightarrow> 'a list" where
  "stream_values es = values_before_end (map mailbox_event es)"

definition stream_end :: "string \<Rightarrow> 'a stream_event list \<Rightarrow> (thrown + 'a) option" where
  "stream_end closed_msg es =
     map_option (recv_result closed_msg) (first_terminal (map mailbox_event es))"

lemma stream_outcome_eq:
  "stream_outcome closed_msg es k =
     (if k < length (stream_values es) then Some (Inr (stream_values es ! k))
      else stream_end closed_msg es)"
  by (simp add: stream_outcome_def nth_answer_def stream_values_def stream_end_def Let_def)

lemma first_terminal_stream:
  "first_terminal (map mailbox_event es) = Some i \<Longrightarrow> i = Done \<or> (\<exists>err. i = Error err)"
proof (induction es)
  case (Cons e es)
  then show ?case by (cases e rule: mailbox_event.cases) auto
qed simp

lemma first_terminal_append:
  "first_terminal (xs @ ys) =
     (case first_terminal xs of Some i \<Rightarrow> Some i | None \<Rightarrow> first_terminal ys)"
  by (induction xs rule: first_terminal.induct) auto

lemma values_before_end_append:
  "values_before_end (xs @ ys) =
     (if first_terminal xs = None then values_before_end xs @ values_before_end ys
      else values_before_end xs)"
  by (induction xs rule: first_terminal.induct) auto

lemma stream_end_error: "stream_end c es = Some r \<Longrightarrow> \<exists>e. r = Inl e"
  by (auto simp: stream_end_def dest!: first_terminal_stream)

lemma stream_append:
  "stream_values (es @ fs) =
     (if stream_end c es = None then stream_values es @ stream_values fs else stream_values es)"
  "stream_end c (es @ fs) =
     (case stream_end c es of Some r \<Rightarrow> Some r | None \<Rightarrow> stream_end c fs)"
  by (auto simp: stream_values_def stream_end_def values_before_end_append first_terminal_append
      split: option.split)

interpretation stream: recv_source "stream_outcome closed_msg"
proof unfold_locales
  fix es fs :: "'a stream_event list" and k r
  assume "stream_outcome closed_msg es k = Some r"
  then show "stream_outcome closed_msg (es @ fs) k = Some r"
    by (auto simp: stream_outcome_eq stream_append [where c = closed_msg] nth_append
        split: if_splits)
next
  fix es :: "'a stream_event list" and k j e
  assume "stream_outcome closed_msg es k = Some (Inl e)" "k \<le> j"
  then show "stream_outcome closed_msg es j = Some (Inl e)"
    by (auto simp: stream_outcome_eq split: if_splits)
next
  fix es :: "'a stream_event list" and k j
  assume "stream_outcome closed_msg es k \<noteq> None" "j \<le> k"
  then show "stream_outcome closed_msg es j \<noteq> None"
    by (auto simp: stream_outcome_eq split: if_splits)
qed

lemma recv_run_stream:
  "recv_run (stream_outcome closed_msg es) n k =
     map Inr (take n (drop k (stream_values es))) @
     (if length (stream_values es) < k + n
      then (case stream_end closed_msg es of Some r \<Rightarrow> [r] | None \<Rightarrow> []) else [])"
  if "k \<le> length (stream_values es)"
  using that
proof (induction n arbitrary: k)
  case (Suc n)
  show ?case
  proof (cases "k < length (stream_values es)")
    case True
    with Suc show ?thesis
      by (simp add: stream_outcome_eq Cons_nth_drop_Suc [symmetric])
  next
    case False
    with Suc.prems show ?thesis
      by (auto simp: stream_outcome_eq dest: stream_end_error split: option.split sum.split)
  qed
qed simp

lemma set_recv_answers:
  "set (recv_answers c es) =
     {(k, r). k < length (filter (\<lambda>e. e = CallRecv) es) \<and> stream_outcome c es k = Some r}"
proof -
  have "calls_of_next (map mailbox_event es) = length (filter (\<lambda>e. e = CallRecv) es)"
  proof (induction es)
    case (Cons e es)
    have "mailbox_event e = Next \<longleftrightarrow> e = CallRecv" by (cases e rule: mailbox_event.cases) auto
    with Cons show ?case by (simp add: calls_of_next_def)
  qed (simp add: calls_of_next_def)
  then show ?thesis
    by (force simp: recv_answers_def set_answers stream_outcome_def)
qed

lemma distinct_recv_answers: "distinct (map fst (recv_answers c es))"
proof -
  have "map fst (recv_answers c es) = map fst (answers (map mailbox_event es))"
    by (simp add: recv_answers_def comp_def case_prod_beta)
  then show ?thesis by (simp add: distinct_answers)
qed

section \<open>The sending half of the lock stream\<close>

record 'req sink =
  send_closed :: bool
  written :: "'req list"
  ends :: nat

definition sink_new :: "'req sink" where
  "sink_new = \<lparr>send_closed = False, written = [], ends = 0\<rparr>"

definition send_after_close_error :: thrown where
  "send_after_close_error =
     mk_error ''signet: cannot send on AcquireRestartLock stream after Release/closeSend''"

definition sink_send :: "'req \<Rightarrow> 'req sink \<Rightarrow> thrown + 'req sink" where
  "sink_send req s =
     (if send_closed s then Inl send_after_close_error
      else Inr (s\<lparr>written := written s @ [req]\<rparr>))"

definition sink_close_send :: "'req sink \<Rightarrow> 'req sink" where
  "sink_close_send s = (if send_closed s then s else s\<lparr>send_closed := True, ends := Suc (ends s)\<rparr>)"

lemmas sink_ops [ops] = sink_send_def sink_close_send_def

lemma sink_close_idem [simp]: "sink_close_send (sink_close_send s) = sink_close_send s"
  by (simp add: sink_close_send_def)

end
