(* ===== verification/BundleWatch.thy ===== *)
theory BundleWatch
  imports Streams
begin

text \<open>
  The class \<open>BundleWatch\<close> of \<open>src/restart.ts\<close>: a one-place, coalescing change signal with any
  number of pending \<open>next()\<close> calls. As in \<open>Mailbox\<close>, a waiter is the number of its call and an
  operation returns the promises it resolves.
\<close>

section \<open>The class\<close>

record bundle_watch =
  pending :: bool
  watch_closed :: bool
  bw_waiters :: "nat list"

definition bundle_watch_new :: bundle_watch where
  "bundle_watch_new = \<lparr>pending = False, watch_closed = False, bw_waiters = []\<rparr>"

definition signal_change :: "bundle_watch \<Rightarrow> bundle_watch \<times> (nat \<times> bool) list" where
  "signal_change w =
     (if watch_closed w \<or> pending w then (w, [])
      else (case bw_waiters w of
              x # xs \<Rightarrow> (w\<lparr>bw_waiters := xs\<rparr>, [(x, True)])
            | [] \<Rightarrow> (w\<lparr>pending := True\<rparr>, [])))"

definition close_watch :: "bundle_watch \<Rightarrow> bundle_watch \<times> (nat \<times> bool) list" where
  "close_watch w =
     (if watch_closed w then (w, [])
      else (w\<lparr>watch_closed := True, bw_waiters := []\<rparr>, map (\<lambda>x. (x, False)) (bw_waiters w)))"

definition watch_next :: "nat \<Rightarrow> bundle_watch \<Rightarrow> bundle_watch \<times> (nat \<times> bool) list" where
  "watch_next x w =
     (if pending w then (w\<lparr>pending := False\<rparr>, [(x, True)])
      else if watch_closed w then (w, [(x, False)])
      else (w\<lparr>bw_waiters := bw_waiters w @ [x]\<rparr>, []))"

lemmas bundle_watch_ops [ops] = signal_change_def close_watch_def watch_next_def

text \<open>
  \<open>for await\<close> over the watch: \<open>next()\<close> after \<open>next()\<close> until one gives false. Given the answers
  in order, this is the number of iterations and whether the loop has ended.
\<close>

fun watch_iterate :: "bool list \<Rightarrow> nat \<times> bool" where
  "watch_iterate [] = (0, False)"
| "watch_iterate (False # bs) = (0, True)"
| "watch_iterate (True # bs) = (case watch_iterate bs of (n, ended) \<Rightarrow> (Suc n, ended))"

section \<open>Runs and the invariant\<close>

datatype bw_event = SignalChange | CloseWatch | NextChange

type_synonym bw_sys = "bundle_watch \<times> nat"

fun bw_step :: "bw_sys \<Rightarrow> bw_event \<Rightarrow> bw_sys \<times> (nat \<times> bool) list" where
  "bw_step (w, n) SignalChange = (let (w', out) = signal_change w in ((w', n), out))"
| "bw_step (w, n) CloseWatch = (let (w', out) = close_watch w in ((w', n), out))"
| "bw_step (w, n) NextChange = (let (w', out) = watch_next n w in ((w', Suc n), out))"

definition bw_start :: bw_sys where
  "bw_start = (bundle_watch_new, 0)"

text \<open>A call waits only when there is nothing to tell it.\<close>

definition bw_inv :: "bw_sys \<Rightarrow> bool" where
  "bw_inv s \<longleftrightarrow> (bw_waiters (fst s) \<noteq> [] \<longrightarrow> \<not> pending (fst s) \<and> \<not> watch_closed (fst s))"

lemma bw_inv_start [simp]: "bw_inv bw_start"
  by (simp add: bw_inv_def bw_start_def bundle_watch_new_def)

lemma bw_step_inv: "bw_inv s \<Longrightarrow> bw_inv (fst (bw_step s e))"
  by (cases "(s, e)" rule: bw_step.cases) (auto simp: bw_inv_def ops split: list.splits)

definition true_price :: "nat \<times> bool \<Rightarrow> nat" where
  "true_price r = (if snd r then 1 else 0)"

definition signal_gain :: "bw_event \<Rightarrow> nat" where
  "signal_gain e = (if e = SignalChange then 1 else 0)"

definition next_gain :: "bw_event \<Rightarrow> nat" where
  "next_gain e = (if e = NextChange then 1 else 0)"

text \<open>Each \<open>true\<close> is paid for by a change signal; each answer is paid for by a call.\<close>

interpretation bw_true: budgeted_machine bw_step bw_inv
  "\<lambda>s. if pending (fst s) then 1 else 0" signal_gain true_price
proof unfold_locales
  fix s e assume "bw_inv s"
  then show "bw_inv (fst (bw_step s e))" by (rule bw_step_inv)
  show "sum_list (map true_price (snd (bw_step s e))) + (if pending (fst (fst (bw_step s e))) then 1 else 0)
          \<le> (if pending (fst s) then 1 else 0) + signal_gain e"
    by (cases "(s, e)" rule: bw_step.cases)
       (auto simp: true_price_def signal_gain_def comp_def ops split: list.splits)
qed

interpretation bw_call: budgeted_machine bw_step bw_inv
  "\<lambda>s. length (bw_waiters (fst s))" next_gain "\<lambda>_. 1"
proof unfold_locales
  fix s e
  show "sum_list (map (\<lambda>_. 1) (snd (bw_step s e))) + length (bw_waiters (fst (fst (bw_step s e))))
          \<le> length (bw_waiters (fst s)) + next_gain e"
    by (cases "(s, e)" rule: bw_step.cases)
       (auto simp: next_gain_def ops split: list.splits)
qed

lemma true_price_count:
  "sum_list (map true_price outs) = length (filter (\<lambda>(k, b). b) outs)"
  by (induction outs) (auto simp: true_price_def)

lemma signal_gain_count:
  "sum_list (map signal_gain es) = length (filter (\<lambda>e. e = SignalChange) es)"
  by (induction es) (auto simp: signal_gain_def)

lemma bw_trues_bounded:
  "length (filter (\<lambda>(k, b). b) (snd (run bw_step bw_start es)))
     \<le> length (filter (\<lambda>e. e = SignalChange) es)"
  using bw_true.run_price_bound [OF bw_inv_start, of es]
  by (simp add: true_price_count signal_gain_count bw_start_def bundle_watch_new_def)

section \<open>Every call is answered once, or waiting\<close>

lemma bw_count:
  "snd (fst (run bw_step bw_start es)) = length (filter (\<lambda>e. e = NextChange) es)"
proof (induction es rule: rev_induct)
  case (snoc e es)
  then show ?case
    by (cases "(fst (run bw_step bw_start es), e)" rule: bw_step.cases)
       (auto simp: fst_run_snoc ops split: list.splits)
qed (simp add: bw_start_def)

definition answered_once :: "bw_sys \<Rightarrow> (nat \<times> bool) list \<Rightarrow> bool" where
  "answered_once s outs \<longleftrightarrow>
     distinct (map fst outs @ bw_waiters (fst s)) \<and>
     set (map fst outs) \<union> set (bw_waiters (fst s)) = {..<snd s}"

lemma answered_once_step:
  "answered_once s outs \<Longrightarrow> answered_once (fst (bw_step s e)) (outs @ snd (bw_step s e))"
  by (cases "(s, e)" rule: bw_step.cases)
     (auto simp: answered_once_def comp_def lessThan_Suc image_image ops split: list.splits)

lemma answered_once_run:
  "answered_once (fst (run bw_step bw_start es)) (snd (run bw_step bw_start es))"
proof (induction es rule: rev_induct)
  case Nil
  show ?case by (simp add: answered_once_def bw_start_def bundle_watch_new_def)
next
  case (snoc e es)
  then show ?case by (simp add: run_snoc_simps answered_once_step)
qed

section \<open>Changes are coalesced but not lost\<close>

lemma closed_run: "watch_closed (fst s) \<Longrightarrow> watch_closed (fst (fst (run bw_step s es)))"
proof (induction es rule: rev_induct)
  case (snoc e es)
  then show ?case
    by (cases "(fst (run bw_step s es), e)" rule: bw_step.cases)
       (auto simp: fst_run_snoc ops split: list.splits)
qed simp

lemma pending_kept:
  "pending (fst s) \<Longrightarrow> NextChange \<notin> set es \<Longrightarrow> pending (fst (fst (run bw_step s es)))"
proof (induction es rule: rev_induct)
  case (snoc e es)
  then show ?case
    by (cases "(fst (run bw_step s es), e)" rule: bw_step.cases)
       (auto simp: fst_run_snoc ops split: list.splits)
qed simp

lemma change_not_lost:
  assumes "\<not> watch_closed (fst s)"
  shows "(\<exists>k. snd (bw_step s SignalChange) = [(k, True)]) \<or>
         (NextChange \<notin> set es \<longrightarrow>
          (\<exists>k. snd (bw_step (fst (run bw_step (fst (bw_step s SignalChange)) es)) NextChange) = [(k, True)]))"
proof (cases "\<exists>k. snd (bw_step s SignalChange) = [(k, True)]")
  case False
  let ?s = "fst (bw_step s SignalChange)"
  from assms False have "pending (fst ?s)"
    by (cases s) (auto simp: ops split: list.splits if_splits)
  then have "NextChange \<notin> set es \<Longrightarrow> pending (fst (fst (run bw_step ?s es)))"
    by (rule pending_kept)
  then show ?thesis
    by (cases "fst (run bw_step ?s es)") (auto simp: ops)
qed simp

lemma burst_coalesced:
  assumes "\<not> watch_closed w" and "bw_waiters w = []" and "0 < m"
  shows "run bw_step (w, n) (replicate m SignalChange) = ((w\<lparr>pending := True\<rparr>, n), [])"
  using \<open>0 < m\<close>
proof (induction m)
  case (Suc m)
  have rep: "replicate (Suc m) SignalChange = replicate m SignalChange @ [SignalChange]"
    by (simp add: replicate_append_same)
  show ?case
  proof (cases "m = 0")
    case True
    with assms show ?thesis by (cases "pending w") (auto simp: ops)
  next
    case False
    with Suc.IH show ?thesis unfolding rep run_snoc by (simp add: ops)
  qed
qed simp

section \<open>Closing\<close>

lemma false_only_after_close:
  "(k, False) \<in> set (snd (run bw_step bw_start es)) \<Longrightarrow> CloseWatch \<in> set es"
proof -
  have "(watch_closed (fst (fst (run bw_step bw_start es))) \<longrightarrow> CloseWatch \<in> set es) \<and>
        ((k, False) \<in> set (snd (run bw_step bw_start es)) \<longrightarrow> CloseWatch \<in> set es)"
  proof (induction es rule: rev_induct)
    case (snoc e es)
    then show ?case
      by (cases "(fst (run bw_step bw_start es), e)" rule: bw_step.cases)
         (auto simp: run_snoc_simps ops split: list.splits if_splits)
  qed (simp add: bw_start_def bundle_watch_new_def)
  then show "(k, False) \<in> set (snd (run bw_step bw_start es)) \<Longrightarrow> CloseWatch \<in> set es" by blast
qed

lemma closed_all_answered:
  assumes "watch_closed (fst (fst (run bw_step bw_start es)))"
  shows "set (map fst (snd (run bw_step bw_start es))) =
         {..<length (filter (\<lambda>e. e = NextChange) es)}"
proof -
  have "bw_inv (fst (run bw_step bw_start es))" by (rule bw_true.run_inv) simp
  with assms have "bw_waiters (fst (fst (run bw_step bw_start es))) = []"
    by (auto simp: bw_inv_def)
  with answered_once_run [of es] show ?thesis
    by (simp add: answered_once_def bw_count)
qed

lemma close_step_closes: "watch_closed (fst (fst (bw_step s CloseWatch)))"
  by (cases s) (auto simp: ops)

end
