(* ===== verification/WatchLoop.thy ===== *)
theory WatchLoop
  imports BundleWatch
begin

text \<open>
  \<open>runWatchLoop\<close> and \<open>watchBundle\<close> of \<open>src/restart.ts\<close>: the loop that opens a stream, receives
  from it until it fails, sleeps with an exponential back-off and opens the next one, until
  the abort signal fires. The loop is a state machine: its program counter is the \<open>await\<close> it is
  suspended at, its events are the ways that \<open>await\<close> can settle, the abort event, and the calls
  of \<open>next()\<close> made by the consumers of the watch.

  Times are integers (milliseconds). \<open>slept\<close> records how long every \<open>sleepOrAborted\<close> that set a
  timer sleeps: its argument, as far as \<open>setTimeout\<close> can hold it. \<open>opened\<close> counts the calls of
  \<open>open()\<close> that did not throw, \<open>cancelled\<close> are the streams cancelled by the abort listeners
  \<open>open()\<close> adds.
\<close>

section \<open>The loop\<close>

datatype loop_pc = Opening | Receiving | Sleeping | Returned

record watch_options =
  has_signal :: bool
  backoffMinMs :: "int option"
  backoffMaxMs :: "int option"

record watch_loop =
  pc :: loop_pc
  backoff :: int
  aborted :: bool
  slept :: "int list"
  watch :: bw_sys
  opened :: nat
  cancelled :: "nat list"

definition DEFAULT_BACKOFF_MIN_MS :: int where "DEFAULT_BACKOFF_MIN_MS = 1000"
definition DEFAULT_BACKOFF_MAX_MS :: int where "DEFAULT_BACKOFF_MAX_MS = 30000"

definition backoff_min :: "watch_options \<Rightarrow> int" where
  "backoff_min opts = (case backoffMinMs opts of Some m \<Rightarrow> m | None \<Rightarrow> DEFAULT_BACKOFF_MIN_MS)"

definition backoff_max :: "watch_options \<Rightarrow> int" where
  "backoff_max opts = (case backoffMaxMs opts of Some m \<Rightarrow> m | None \<Rightarrow> DEFAULT_BACKOFF_MAX_MS)"

definition next_backoff :: "int \<Rightarrow> int \<Rightarrow> int" where
  "next_backoff current maximum = min (current * 2) maximum"

text \<open>The value of \<open>WatchServiceBundleResponse_EventType.EVENT_TYPE_CHANGED\<close>.\<close>

definition EVENT_TYPE_CHANGED :: int where "EVENT_TYPE_CHANGED = 1"

datatype loop_event =
    OpenOk | OpenFails | Recv int | RecvFails | SleepDone | Abort | ConsumerNext

text \<open>\<open>return\<close>, through the \<open>finally\<close> that closes the watch.\<close>

definition loop_return :: "watch_loop \<Rightarrow> watch_loop \<times> (nat \<times> bool) list" where
  "loop_return s =
     (let (w, out) = bw_step (watch s) CloseWatch in (s\<lparr>pc := Returned, watch := w\<rparr>, out))"

text \<open>The top of the loop: leave when aborted, else call \<open>open()\<close> (opening the next stream).\<close>

definition loop_top :: "watch_loop \<Rightarrow> watch_loop \<times> (nat \<times> bool) list" where
  "loop_top s =
     (if aborted s then loop_return s else (s\<lparr>pc := Opening, opened := Suc (opened s)\<rparr>, []))"

text \<open>\<open>sleepOrAborted(backoff, signal)\<close>: false at once when already aborted, else a timer.\<close>

definition loop_sleep :: "watch_loop \<Rightarrow> watch_loop \<times> (nat \<times> bool) list" where
  "loop_sleep s =
     (if aborted s then loop_return s
      else (s\<lparr>pc := Sleeping, slept := slept s @ [timer_delay (backoff s)]\<rparr>, []))"

fun loop_step ::
  "watch_options \<Rightarrow> watch_loop \<Rightarrow> loop_event \<Rightarrow> watch_loop \<times> (nat \<times> bool) list" where
  "loop_step opts s OpenOk = (if pc s = Opening then (s\<lparr>pc := Receiving\<rparr>, []) else (s, []))"
| "loop_step opts s OpenFails =
     (if pc s = Opening then loop_sleep (s\<lparr>opened := opened s - 1\<rparr>) else (s, []))"
| "loop_step opts s (Recv event_type) =
     (if pc s = Receiving
      then (let s1 = s\<lparr>backoff := backoff_min opts\<rparr>
            in if event_type = EVENT_TYPE_CHANGED
               then (let (w, out) = bw_step (watch s1) SignalChange in (s1\<lparr>watch := w\<rparr>, out))
               else (s1, []))
      else (s, []))"
| "loop_step opts s RecvFails = (if pc s = Receiving then loop_sleep s else (s, []))"
| "loop_step opts s SleepDone =
     (if pc s = Sleeping
      then loop_top (s\<lparr>backoff := next_backoff (backoff s) (backoff_max opts)\<rparr>)
      else (s, []))"
| "loop_step opts s Abort =
     (if has_signal opts \<and> \<not> aborted s
      then (let s1 = s\<lparr>aborted := True, cancelled := [0..<opened s]\<rparr>
            in if pc s1 = Returned then (s1, []) else loop_return s1)
      else (s, []))"
| "loop_step opts s ConsumerNext =
     (let (w, out) = bw_step (watch s) NextChange in (s\<lparr>watch := w\<rparr>, out))"

text \<open>\<open>watchBundle\<close>: a new watch and a running loop; the signal may already be aborted.\<close>

definition watch_bundle :: "watch_options \<Rightarrow> bool \<Rightarrow> watch_loop \<times> (nat \<times> bool) list" where
  "watch_bundle opts already_aborted =
     loop_top \<lparr>pc = Opening, backoff = backoff_min opts,
               aborted = has_signal opts \<and> already_aborted, slept = [], watch = bw_start,
               opened = 0, cancelled = []\<rparr>"

lemmas loop_ops [ops] = loop_return_def loop_top_def loop_sleep_def

definition loop_run ::
  "watch_options \<Rightarrow> bool \<Rightarrow> loop_event list \<Rightarrow> watch_loop \<times> (nat \<times> bool) list" where
  "loop_run opts a es =
     (let (s, o1) = watch_bundle opts a; (s', o2) = run (loop_step opts) s es in (s', o1 @ o2))"

abbreviation loop_after :: "watch_options \<Rightarrow> bool \<Rightarrow> loop_event list \<Rightarrow> watch_loop" where
  "loop_after opts a es \<equiv> fst (loop_run opts a es)"

lemma loop_run_snoc:
  "loop_after opts a (es @ [e]) = fst (loop_step opts (loop_after opts a es) e)"
  "snd (loop_run opts a (es @ [e])) =
     snd (loop_run opts a es) @ snd (loop_step opts (loop_after opts a es) e)"
  by (simp_all add: loop_run_def run_snoc Let_def split: prod.splits)

lemma loop_after_eq: "loop_after opts a es = fst (run (loop_step opts) (fst (watch_bundle opts a)) es)"
  by (simp add: loop_run_def split: prod.splits)

lemma loop_run_Nil: "loop_run opts a [] = watch_bundle opts a"
  by (simp add: loop_run_def split: prod.splits)

text \<open>Case analysis on a step, with all operations unfolded.\<close>

lemmas loop_step_cases = loop_step.cases [of "(opts, s, e)" for opts s e]

section \<open>The watch inside the loop is a run of the watch\<close>

text \<open>
  What the loop does to its watch is a run of \<open>BundleWatch\<close> events; the signals in it are
  responses of type \<open>EVENT_TYPE_CHANGED\<close>, the calls of \<open>next()\<close> are the consumers'.
\<close>

definition watch_trace_ok :: "loop_event list \<Rightarrow> bw_event list \<Rightarrow> bool" where
  "watch_trace_ok es ws \<longleftrightarrow>
     length (filter (\<lambda>e. e = SignalChange) ws) \<le> length (filter (\<lambda>e. e = Recv EVENT_TYPE_CHANGED) es) \<and>
     length (filter (\<lambda>e. e = NextChange) ws) = length (filter (\<lambda>e. e = ConsumerNext) es)"

lemma watch_step_shape:
  "(watch (fst (loop_step opts s e)), snd (loop_step opts s e)) = (watch s, []) \<and> e \<noteq> ConsumerNext \<or>
   (watch (fst (loop_step opts s e)), snd (loop_step opts s e)) = bw_step (watch s) CloseWatch \<and>
     e \<noteq> ConsumerNext \<or>
   (watch (fst (loop_step opts s e)), snd (loop_step opts s e)) = bw_step (watch s) SignalChange \<and>
     e = Recv EVENT_TYPE_CHANGED \<or>
   (watch (fst (loop_step opts s e)), snd (loop_step opts s e)) = bw_step (watch s) NextChange \<and>
     e = ConsumerNext"
  by (cases "(opts, s, e)" rule: loop_step.cases) (auto simp: loop_ops Let_def split: prod.splits)

lemma run_one: "run step s [x] = step s x"
  by (simp split: prod.splits)

lemma watch_step_trace:
  "\<exists>ws. (watch (fst (loop_step opts s e)), snd (loop_step opts s e)) = run bw_step (watch s) ws \<and>
        watch_trace_ok [e] ws"
  using watch_step_shape [of opts s e]
proof (elim disjE conjE)
  assume "(watch (fst (loop_step opts s e)), snd (loop_step opts s e)) = (watch s, [])"
    and "e \<noteq> ConsumerNext"
  then show ?thesis by (intro exI [of _ "[]"]) (simp add: watch_trace_ok_def)
qed (rule exI, rule conjI, subst run_one, assumption, simp add: watch_trace_ok_def)+

lemma watch_trace:
  "\<exists>ws. (watch (loop_after opts a es), snd (loop_run opts a es)) = run bw_step bw_start ws \<and>
        watch_trace_ok es ws"
proof (induction es rule: rev_induct)
  case Nil
  show ?case
  proof (cases "has_signal opts \<and> a")
    case True
    then show ?thesis
      by (intro exI [of _ "[CloseWatch]"])
         (auto simp: loop_run_Nil watch_bundle_def watch_trace_ok_def loop_ops split: prod.splits)
  next
    case False
    then show ?thesis
      by (intro exI [of _ "[]"])
         (auto simp: loop_run_Nil watch_bundle_def watch_trace_ok_def loop_ops)
  qed
next
  case (snoc e es)
  then obtain ws where
    ws: "(watch (loop_after opts a es), snd (loop_run opts a es)) = run bw_step bw_start ws"
      "watch_trace_ok es ws" by blast
  obtain vs where
    vs: "(watch (fst (loop_step opts (loop_after opts a es) e)),
          snd (loop_step opts (loop_after opts a es) e)) = run bw_step (watch (loop_after opts a es)) vs"
      "watch_trace_ok [e] vs" using watch_step_trace by blast
  have "(watch (loop_after opts a (es @ [e])), snd (loop_run opts a (es @ [e]))) =
        run bw_step bw_start (ws @ vs)"
    by (simp add: loop_run_snoc run_append ws(1) [symmetric] vs(1) [symmetric])
  moreover have "watch_trace_ok (es @ [e]) (ws @ vs)"
    using ws(2) vs(2) by (auto simp: watch_trace_ok_def split: if_splits)
  ultimately show ?case by blast
qed

section \<open>Stopping\<close>

definition loop_inv :: "watch_options \<Rightarrow> watch_loop \<Rightarrow> bool" where
  "loop_inv opts s \<longleftrightarrow>
     (pc s = Returned \<longleftrightarrow> aborted s) \<and>
     (aborted s \<longrightarrow> has_signal opts) \<and>
     (watch_closed (fst (watch s)) \<longleftrightarrow> pc s = Returned) \<and>
     (aborted s \<longrightarrow> cancelled s = [0..<opened s]) \<and>
     (\<not> aborted s \<longrightarrow> cancelled s = [])"

lemma bw_step_closed:
  "watch_closed (fst (fst (bw_step w CloseWatch)))"
  "watch_closed (fst (fst (bw_step w SignalChange))) = watch_closed (fst w)"
  "watch_closed (fst (fst (bw_step w NextChange))) = watch_closed (fst w)"
  by (cases w; auto simp: bundle_watch_ops split: list.splits)+

lemma loop_step_inv: "loop_inv opts s \<Longrightarrow> loop_inv opts (fst (loop_step opts s e))"
  using bw_step_closed [of "watch s"]
  by (cases "(opts, s, e)" rule: loop_step.cases)
     (auto simp: loop_inv_def loop_ops Let_def split: prod.splits)

interpretation loop: event_machine "loop_step opts" "loop_inv opts" for opts
  by unfold_locales (rule loop_step_inv)

lemma watch_bundle_inv: "loop_inv opts (fst (watch_bundle opts a))"
  using bw_step_closed(1) [of bw_start]
  by (auto simp: watch_bundle_def loop_inv_def loop_ops bw_start_def bundle_watch_new_def
      split: prod.splits)

lemma loop_after_inv: "loop_inv opts (loop_after opts a es)"
  unfolding loop_after_eq by (rule loop.run_inv [OF watch_bundle_inv])

lemma loop_aborted_iff:
  "aborted (loop_after opts a es) \<longleftrightarrow> has_signal opts \<and> (a \<or> Abort \<in> set es)"
proof (induction es rule: rev_induct)
  case Nil
  show ?case by (auto simp: loop_run_Nil watch_bundle_def ops split: prod.splits)
next
  case (snoc e es)
  have "aborted (fst (loop_step opts s e)) \<longleftrightarrow> aborted s \<or> has_signal opts \<and> e = Abort" for s
    by (cases "(opts, s, e)" rule: loop_step.cases) (auto simp: loop_ops Let_def split: prod.splits)
  with snoc show ?case by (auto simp: loop_run_snoc)
qed

section \<open>Back-off\<close>

text \<open>The back-off after \<open>i\<close> failures in a row, from \<open>lo\<close>, capped at \<open>hi\<close>.\<close>

primrec backoff_seq :: "int \<Rightarrow> int \<Rightarrow> nat \<Rightarrow> int" where
  "backoff_seq hi lo 0 = lo"
| "backoff_seq hi lo (Suc i) = next_backoff (backoff_seq hi lo i) hi"

lemma backoff_seq_shift: "backoff_seq hi (next_backoff lo hi) i = backoff_seq hi lo (Suc i)"
  by (induction i) auto

definition backoff_ok :: "watch_options \<Rightarrow> watch_loop \<Rightarrow> bool" where
  "backoff_ok opts s \<longleftrightarrow>
     (\<exists>i. backoff s = backoff_seq (backoff_max opts) (backoff_min opts) i) \<and>
     (\<forall>d \<in> set (slept s). \<exists>i. d = timer_delay (backoff_seq (backoff_max opts) (backoff_min opts) i))"

lemma loop_step_backoff: "backoff_ok opts s \<Longrightarrow> backoff_ok opts (fst (loop_step opts s e))"
proof -
  assume ok: "backoff_ok opts s"
  then obtain i where i: "backoff s = backoff_seq (backoff_max opts) (backoff_min opts) i"
    by (auto simp: backoff_ok_def)
  have suc: "\<exists>j. next_backoff (backoff s) (backoff_max opts) =
      backoff_seq (backoff_max opts) (backoff_min opts) j"
    by (rule exI [of _ "Suc i"]) (simp add: i)
  have zero: "\<exists>j. backoff_min opts = backoff_seq (backoff_max opts) (backoff_min opts) j"
    by (rule exI [of _ 0]) simp
  show ?thesis
    using ok suc zero
    by (cases "(opts, s, e)" rule: loop_step.cases)
       (auto simp: backoff_ok_def loop_ops Let_def split: prod.splits)
qed

interpretation loop_backoff: event_machine "loop_step opts" "backoff_ok opts" for opts
  by unfold_locales (rule loop_step_backoff)

lemma loop_after_backoff: "backoff_ok opts (loop_after opts a es)"
proof -
  have "backoff_ok opts (fst (watch_bundle opts a))"
    by (auto simp: watch_bundle_def backoff_ok_def loop_ops intro: exI [of _ 0] split: prod.splits)
  then show ?thesis unfolding loop_after_eq by (rule loop_backoff.run_inv)
qed

lemma backoff_seq_closed:
  assumes "0 \<le> lo" "0 \<le> hi"
  shows "backoff_seq hi lo i = (if i = 0 then lo else min (lo * 2 ^ i) hi)"
proof (induction i)
  case (Suc i)
  have "min (min (lo * 2 ^ i) hi * 2) hi = min (lo * 2 ^ Suc i) hi"
    using assms by (simp add: min_def)
  with Suc show ?case by (cases "i = 0") (auto simp: next_backoff_def)
qed simp

text \<open>Cycles in which nothing is received: the stream fails to open, or opens and fails.\<close>

datatype failing_cycle = FailsToOpen | FailsToReceive

fun cycle_events :: "failing_cycle \<Rightarrow> loop_event list" where
  "cycle_events FailsToOpen = [OpenFails, SleepDone]"
| "cycle_events FailsToReceive = [OpenOk, RecvFails, SleepDone]"

fun opens :: "failing_cycle \<Rightarrow> nat" where
  "opens FailsToOpen = 0"
| "opens FailsToReceive = 1"

lemma failing_cycle_run:
  assumes "pc s = Opening" and "\<not> aborted s" and "0 < opened s"
  shows "fst (run (loop_step opts) s (cycle_events c)) =
           s\<lparr>backoff := next_backoff (backoff s) (backoff_max opts),
             slept := slept s @ [timer_delay (backoff s)], opened := opened s + opens c\<rparr>"
  using assms by (cases c) (auto simp: loop_ops)

lemma failing_cycles_slept:
  assumes "pc s = Opening" and "\<not> aborted s" and "0 < opened s"
  shows "slept (fst (run (loop_step opts) s (concat (map cycle_events cs)))) =
           slept s @ map (\<lambda>i. timer_delay (backoff_seq (backoff_max opts) (backoff s) i)) [0..<length cs]"
  using assms
proof (induction cs arbitrary: s)
  case (Cons c cs)
  let ?s = "s\<lparr>backoff := next_backoff (backoff s) (backoff_max opts),
             slept := slept s @ [timer_delay (backoff s)], opened := opened s + opens c\<rparr>"
  have "fst (run (loop_step opts) s (concat (map cycle_events (c # cs)))) =
        fst (run (loop_step opts) ?s (concat (map cycle_events cs)))"
    using failing_cycle_run [OF Cons.prems, of opts c] by (simp add: fst_run_append)
  then show ?case
    using Cons.IH [of ?s] Cons.prems
    by (simp add: upt_conv_Cons map_Suc_upt [symmetric] comp_def backoff_seq_shift
        del: upt_Suc backoff_seq.simps(2))
qed simp

end
