(* ===== verification/Debounce.thy ===== *)
theory Debounce
  imports WatchLoop
begin

text \<open>
  \<open>debounceUntilQuiet\<close> of \<open>src/restart.ts\<close>. The debouncer is a state machine
  over the watch of \<open>BundleWatch\<close>, with one pending \<open>next()\<close> and the timer of the current turn of
  its loop; time passes a millisecond at a time. The result says what debouncing means: it
  returns at the first moment at which no change has been signalled for as long as its timer runs:
  \<open>debounceMs\<close>, or one millisecond when \<open>setTimeout\<close> cannot hold it.
\<close>

section \<open>debounceUntilQuiet\<close>

record debouncer =
  deb_watch :: bw_sys
  pending_change :: nat
  remaining :: nat
  timers :: nat
  deb_result :: "(thrown + unit) option"

datatype deb_event = Elapse | ChangeSignalled | WatchClosed | SignalAborted

lemma next_true:
  "bw_step w NextChange = ((w', n), (k, True) # rest) \<Longrightarrow> pending (fst w) \<and> \<not> pending w'"
  by (cases w) (auto simp: watch_next_def split: if_splits)

text \<open>
  A turn of the loop: \<open>watch.next()\<close> and a fresh timer, which runs for as many milliseconds as
  \<open>setTimeout\<close> makes of \<open>debounceMs\<close>. The watch may answer at once (a change
  was pending, or it is closed), and then the change wins the race against the timer.
\<close>

abbreviation ticks :: "int \<Rightarrow> nat" where
  "ticks debounceMs \<equiv> nat (timer_delay debounceMs)"

function next_turn :: "thrown option \<Rightarrow> int \<Rightarrow> debouncer \<Rightarrow> debouncer" where
  "next_turn reason debounceMs s =
     (case bw_step (deb_watch s) NextChange of (w, settled) \<Rightarrow>
        (let s1 = s\<lparr>deb_watch := w, pending_change := snd (deb_watch s), remaining := ticks debounceMs,
                    timers := Suc (timers s)\<rparr>
         in (case settled of
               [] \<Rightarrow> s1
             | (k, ok) # _ \<Rightarrow>
                 (if ok then next_turn reason debounceMs s1
                  else s1\<lparr>deb_result := Some (Inl (aborted_error reason ''waitForRestart''))\<rparr>))))"
  by pat_completeness auto
termination
  by (relation "measure (\<lambda>(reason, debounceMs, s). if pending (fst (deb_watch s)) then 1 else 0)")
     (auto dest!: next_true [OF sym])

declare next_turn.simps [simp del]

text \<open>What the \<open>next()\<close> promises that settle do to the running race.\<close>

definition deb_react :: "thrown option \<Rightarrow> int \<Rightarrow> debouncer \<Rightarrow> (nat \<times> bool) list \<Rightarrow> debouncer" where
  "deb_react reason debounceMs s settled =
     (if (pending_change s, True) \<in> set settled then next_turn reason debounceMs s
      else if (pending_change s, False) \<in> set settled
        then s\<lparr>deb_result := Some (Inl (aborted_error reason ''waitForRestart''))\<rparr>
      else s)"

fun deb_step :: "thrown option \<Rightarrow> int \<Rightarrow> debouncer \<Rightarrow> deb_event \<Rightarrow> debouncer" where
  "deb_step reason debounceMs s Elapse =
     (if deb_result s \<noteq> None then s
      else if remaining s \<le> 1 then s\<lparr>deb_result := Some (Inr ())\<rparr>
      else s\<lparr>remaining := remaining s - 1\<rparr>)"
| "deb_step reason debounceMs s ChangeSignalled =
     (case bw_step (deb_watch s) SignalChange of (w, settled) \<Rightarrow>
        (if deb_result s = None then deb_react reason debounceMs (s\<lparr>deb_watch := w\<rparr>) settled
         else s\<lparr>deb_watch := w\<rparr>))"
| "deb_step reason debounceMs s WatchClosed =
     (case bw_step (deb_watch s) CloseWatch of (w, settled) \<Rightarrow>
        (if deb_result s = None then deb_react reason debounceMs (s\<lparr>deb_watch := w\<rparr>) settled
         else s\<lparr>deb_watch := w\<rparr>))"
| "deb_step reason debounceMs s SignalAborted =
     (if deb_result s \<noteq> None then s
      else s\<lparr>deb_result := Some (Inl (aborted_error reason ''waitForRestart''))\<rparr>)"

definition debounce_until_quiet :: "thrown option \<Rightarrow> int \<Rightarrow> bw_sys \<Rightarrow> deb_event list \<Rightarrow> debouncer" where
  "debounce_until_quiet reason debounceMs w es =
     foldl (deb_step reason debounceMs)
       (next_turn reason debounceMs
          \<lparr>deb_watch = w, pending_change = 0, remaining = 0, timers = 0, deb_result = None\<rparr>) es"

section \<open>When it returns\<close>

text \<open>The debouncer without the watch: \<open>k\<close> milliseconds are left of the current timer.\<close>

fun quiet :: "nat \<Rightarrow> nat \<Rightarrow> deb_event list \<Rightarrow> bool option" where
  "quiet ms k [] = None"
| "quiet ms k (Elapse # es) = (if k \<le> 1 then Some True else quiet ms (k - 1) es)"
| "quiet ms k (ChangeSignalled # es) = quiet ms ms es"
| "quiet ms k (WatchClosed # es) = Some False"
| "quiet ms k (SignalAborted # es) = Some False"

definition undisturbed :: "deb_event list \<Rightarrow> bool" where
  "undisturbed es \<longleftrightarrow> WatchClosed \<notin> set es \<and> SignalAborted \<notin> set es"

lemma quiet_iff:
  "1 \<le> k \<Longrightarrow> k \<le> ms \<Longrightarrow>
   quiet ms k es = Some True \<longleftrightarrow>
     (\<exists>r. es = replicate k Elapse @ r) \<or>
     (\<exists>p r. es = p @ replicate ms Elapse @ r \<and> undisturbed p)"
proof (induction ms k es rule: quiet.induct)
  case (1 ms k)
  then show ?case by auto
next
  case (2 ms k es)
  have shorter: "\<exists>r. es = replicate (k - 1) Elapse @ r" if "Elapse # es = replicate ms Elapse @ r" for r
  proof -
    from that 2 have "es = replicate (ms - 1) Elapse @ r" by (cases ms) auto
    also have "ms - 1 = (k - 1) + (ms - k)" using "2.prems" by simp
    finally show ?thesis unfolding replicate_add by auto
  qed
  have Cons: "(\<exists>p r. Elapse # es = p @ replicate ms Elapse @ r \<and> undisturbed p) \<longleftrightarrow>
      (\<exists>r. Elapse # es = replicate ms Elapse @ r) \<or>
      (\<exists>p r. es = p @ replicate ms Elapse @ r \<and> undisturbed p)"
  proof
    assume "\<exists>p r. Elapse # es = p @ replicate ms Elapse @ r \<and> undisturbed p"
    then obtain p r where "Elapse # es = p @ replicate ms Elapse @ r" "undisturbed p" by blast
    then show "(\<exists>r. Elapse # es = replicate ms Elapse @ r) \<or>
      (\<exists>p r. es = p @ replicate ms Elapse @ r \<and> undisturbed p)"
      by (cases p) (auto simp: undisturbed_def)
  next
    assume "(\<exists>r. Elapse # es = replicate ms Elapse @ r) \<or>
      (\<exists>p r. es = p @ replicate ms Elapse @ r \<and> undisturbed p)"
    then show "\<exists>p r. Elapse # es = p @ replicate ms Elapse @ r \<and> undisturbed p"
    proof (elim disjE exE conjE)
      fix r assume "Elapse # es = replicate ms Elapse @ r"
      then show ?thesis by (intro exI [of _ "[]"] exI [of _ r]) (simp add: undisturbed_def)
    next
      fix p r assume "es = p @ replicate ms Elapse @ r" "undisturbed p"
      then show ?thesis by (intro exI [of _ "Elapse # p"] exI [of _ r]) (simp add: undisturbed_def)
    qed
  qed
  show ?case
  proof (cases "k \<le> 1")
    case True
    with "2.prems" have "k = 1" by simp
    then show ?thesis by simp
  next
    case False
    have "(\<exists>r. Elapse # es = replicate k Elapse @ r) \<longleftrightarrow> (\<exists>r. es = replicate (k - 1) Elapse @ r)"
      using False by (cases k) auto
    with 2 False shorter show ?thesis unfolding Cons by auto
  qed
next
  case (3 ms k es)
  have "(\<exists>p r. ChangeSignalled # es = p @ replicate ms Elapse @ r \<and> undisturbed p) \<longleftrightarrow>
      (\<exists>p r. es = p @ replicate ms Elapse @ r \<and> undisturbed p)"
  proof
    assume "\<exists>p r. ChangeSignalled # es = p @ replicate ms Elapse @ r \<and> undisturbed p"
    then obtain p r where p: "ChangeSignalled # es = p @ replicate ms Elapse @ r" "undisturbed p" by blast
    moreover have "p \<noteq> []" using p(1) "3.prems" by (cases ms) auto
    ultimately show "\<exists>p r. es = p @ replicate ms Elapse @ r \<and> undisturbed p"
      by (cases p) (auto simp: undisturbed_def)
  next
    assume "\<exists>p r. es = p @ replicate ms Elapse @ r \<and> undisturbed p"
    then obtain p r where "es = p @ replicate ms Elapse @ r" "undisturbed p" by blast
    then show "\<exists>p r. ChangeSignalled # es = p @ replicate ms Elapse @ r \<and> undisturbed p"
      by (intro exI [of _ "ChangeSignalled # p"] exI [of _ r]) (simp add: undisturbed_def)
  qed
  moreover have "\<not> (\<exists>r. ChangeSignalled # es = replicate k Elapse @ r)"
    using "3.prems" by (cases k) auto
  moreover have "(\<exists>r. es = replicate ms Elapse @ r) \<Longrightarrow>
      \<exists>p r. es = p @ replicate ms Elapse @ r \<and> undisturbed p"
    by (auto intro: exI [of _ "[]"] simp: undisturbed_def)
  ultimately show ?case using 3 by auto
next
  case (4 ms k es)
  have "\<not> undisturbed p" if "WatchClosed # es = p @ replicate ms Elapse @ r" for p r
    using that 4 by (cases p; cases ms) (auto simp: undisturbed_def)
  moreover have "WatchClosed # es \<noteq> replicate k Elapse @ r" for r
    using 4 by (cases k) auto
  ultimately show ?case by auto
next
  case (5 ms k es)
  have "\<not> undisturbed p" if "SignalAborted # es = p @ replicate ms Elapse @ r" for p r
    using that 5 by (cases p; cases ms) (auto simp: undisturbed_def)
  moreover have "SignalAborted # es \<noteq> replicate k Elapse @ r" for r
    using 5 by (cases k) auto
  ultimately show ?case by auto
qed

text \<open>While the debouncer runs, its \<open>next()\<close> is the only waiter of an open watch.\<close>

definition deb_waits :: "debouncer \<Rightarrow> bool" where
  "deb_waits s \<longleftrightarrow> deb_result s = None \<and> \<not> pending (fst (deb_watch s)) \<and> \<not> watch_closed (fst (deb_watch s)) \<and>
     bw_waiters (fst (deb_watch s)) = [pending_change s]"

definition outcome_of :: "thrown option \<Rightarrow> bool option \<Rightarrow> (thrown + unit) option" where
  "outcome_of reason r =
     map_option (\<lambda>ok. if ok then Inr () else Inl (aborted_error reason ''waitForRestart'')) r"

lemma next_turn_waits:
  assumes "deb_result s = None" "\<not> watch_closed (fst (deb_watch s))" "bw_waiters (fst (deb_watch s)) = []"
  shows "deb_waits (next_turn reason debounceMs s) \<and> remaining (next_turn reason debounceMs s) = ticks debounceMs"
proof -
  obtain w n where w: "deb_watch s = (w, n)" by fastforce
  have quiet_turn: "deb_waits (next_turn reason debounceMs t) \<and> remaining (next_turn reason debounceMs t) = ticks debounceMs"
    if "deb_result t = None" "\<not> watch_closed (fst (deb_watch t))" "bw_waiters (fst (deb_watch t)) = []"
      "\<not> pending (fst (deb_watch t))" for t
    using that
    by (cases "deb_watch t") (subst (1 2) next_turn.simps, simp add: watch_next_def deb_waits_def)
  show ?thesis
  proof (cases "pending w")
    case True
    let ?t = "s\<lparr>deb_watch := (w\<lparr>pending := False\<rparr>, Suc n), pending_change := n, remaining := ticks debounceMs,
               timers := Suc (timers s)\<rparr>"
    have "next_turn reason debounceMs s = next_turn reason debounceMs ?t"
      using True w by (subst next_turn.simps) (simp add: watch_next_def Let_def)
    moreover have "deb_waits (next_turn reason debounceMs ?t) \<and> remaining (next_turn reason debounceMs ?t) = ticks debounceMs"
      using assms w by (intro quiet_turn) simp_all
    ultimately show ?thesis by simp
  next
    case False
    then show ?thesis using assms w by (intro quiet_turn) simp_all
  qed
qed

lemma deb_done: "deb_result s = Some r \<Longrightarrow> deb_result (foldl (deb_step reason debounceMs) s es) = Some r"
proof (induction es arbitrary: s)
  case (Cons e es)
  have "deb_result (deb_step reason debounceMs s e) = Some r"
    using Cons.prems by (cases e) (auto split: prod.split)
  then show ?case using Cons.IH by simp
qed simp

lemma deb_run:
  "deb_waits s \<Longrightarrow>
   deb_result (foldl (deb_step reason debounceMs) s es) = outcome_of reason (quiet (ticks debounceMs) (remaining s) es)"
proof (induction es arbitrary: s)
  case Nil
  then show ?case by (simp add: outcome_of_def deb_waits_def)
next
  case (Cons e es)
  obtain w n where w: "deb_watch s = (w, n)" by fastforce
  show ?case
  proof (cases e)
    case Elapse
    show ?thesis
    proof (cases "remaining s \<le> 1")
      case True
      then show ?thesis
        using Cons.prems Elapse by (simp add: deb_done outcome_of_def deb_waits_def)
    next
      case False
      then show ?thesis
        using Cons.IH [of "s\<lparr>remaining := remaining s - 1\<rparr>"] Cons.prems Elapse
        by (simp add: deb_waits_def)
    qed
  next
    case ChangeSignalled
    let ?t = "s\<lparr>deb_watch := (w\<lparr>bw_waiters := []\<rparr>, n)\<rparr>"
    have "deb_step reason debounceMs s e = next_turn reason debounceMs ?t"
      using Cons.prems ChangeSignalled w by (simp add: deb_waits_def signal_change_def deb_react_def)
    moreover have "deb_waits (next_turn reason debounceMs ?t) \<and> remaining (next_turn reason debounceMs ?t) = ticks debounceMs"
      using Cons.prems w by (intro next_turn_waits) (simp_all add: deb_waits_def)
    ultimately show ?thesis using Cons.IH [of "next_turn reason debounceMs ?t"] ChangeSignalled by simp
  next
    case WatchClosed
    then show ?thesis
      using Cons.prems w
      by (simp add: deb_waits_def close_watch_def deb_react_def deb_done outcome_of_def)
  next
    case SignalAborted
    then show ?thesis
      using Cons.prems by (simp add: deb_waits_def deb_done outcome_of_def)
  qed
qed

lemma debounce_result:
  assumes "\<not> watch_closed (fst w)" "bw_waiters (fst w) = []"
  shows "deb_result (debounce_until_quiet reason debounceMs w es) = outcome_of reason (quiet (ticks debounceMs) (ticks debounceMs) es)"
proof -
  let ?s = "\<lparr>deb_watch = w, pending_change = 0, remaining = 0, timers = 0, deb_result = None\<rparr>"
  from assms have "deb_waits (next_turn reason debounceMs ?s)" "remaining (next_turn reason debounceMs ?s) = ticks debounceMs"
    using next_turn_waits [of ?s reason debounceMs] by simp_all
  with deb_run show ?thesis by (simp add: debounce_until_quiet_def)
qed

lemma debounce_returns_iff:
  assumes "\<not> watch_closed (fst w)" "bw_waiters (fst w) = []"
  shows "deb_result (debounce_until_quiet reason debounceMs w es) = Some (Inr ()) \<longleftrightarrow>
     (\<exists>p r. es = p @ replicate (ticks debounceMs) Elapse @ r \<and> undisturbed p)"
proof -
  have "outcome_of reason x = Some (Inr ()) \<longleftrightarrow> x = Some True" for x
    by (auto simp: outcome_of_def)
  moreover have "(\<exists>r. es = replicate (ticks debounceMs) Elapse @ r) \<Longrightarrow>
      \<exists>p r. es = p @ replicate (ticks debounceMs) Elapse @ r \<and> undisturbed p"
    by (auto intro: exI [of _ "[]"] simp: undisturbed_def)
  ultimately show ?thesis
    using debounce_result [OF assms(1,2)] quiet_iff [of "ticks debounceMs" "ticks debounceMs" es] timer_delay_pos(2) [of debounceMs] by auto
qed

end
