(* ===== verification/JsValue.thy ===== *)
theory JsValue
  imports Prelude
begin

text \<open>
  The JavaScript values of the \<open>any\<close> fields (\<open>google.protobuf.Value\<close>, \<open>Struct\<close>): what
  \<open>Value.wrap\<close> distinguishes by \<open>typeof\<close> and \<open>Array.isArray\<close>. A number is its IEEE 754 bit
  pattern. \<open>JOther\<close> is a value of any other \<open>typeof\<close> (function, symbol, bigint), with that
  \<open>typeof\<close>.

  An object is its list of own enumerable properties in enumeration order: array-index keys
  ascending, then the other keys in the order they were created. \<open>obj_set\<close> is the assignment
  \<open>o[k] = v\<close>: it overwrites in place, inserts an index key at its place, appends any other key,
  and creates no property for the key \<open>__proto__\<close> (assigning to it sets the prototype).
\<close>

datatype js =
    JUndefined
  | JNull
  | JBool bool
  | JNumber "64 word"
  | JString string
  | JArray "js list"
  | JObject "(string \<times> js) list"
  | JOther string

type_synonym obj = "(string \<times> js) list"

section \<open>Keys\<close>

text \<open>An array index: the canonical decimal of a number below \<open>2 ^ 32 - 1\<close>.\<close>

definition digit_val :: "char \<Rightarrow> nat option" where
  "digit_val c = (let n = of_char c :: nat in if 48 \<le> n \<and> n \<le> 57 then Some (n - 48) else None)"

fun decimal_val :: "nat \<Rightarrow> string \<Rightarrow> nat option" where
  "decimal_val acc [] = Some acc"
| "decimal_val acc (c # cs) =
     (case digit_val c of None \<Rightarrow> None | Some d \<Rightarrow> decimal_val (acc * 10 + d) cs)"

definition index_key :: "string \<Rightarrow> nat option" where
  "index_key k =
     (if k = [] \<or> (hd k = CHR ''0'' \<and> length k > 1) then None
      else (case decimal_val 0 k of
              None \<Rightarrow> None | Some n \<Rightarrow> if n < 4294967295 then Some n else None))"

definition proto_key :: string where
  "proto_key = ''__proto__''"

text \<open>\<open>before k l\<close>: a new key \<open>k\<close> is enumerated before the present key \<open>l\<close>.\<close>

definition before :: "string \<Rightarrow> string \<Rightarrow> bool" where
  "before k l =
     (case index_key k of
        None \<Rightarrow> False
      | Some i \<Rightarrow> (case index_key l of None \<Rightarrow> True | Some j \<Rightarrow> i < j))"

fun obj_insert :: "string \<Rightarrow> 'v \<Rightarrow> (string \<times> 'v) list \<Rightarrow> (string \<times> 'v) list" where
  "obj_insert k v [] = [(k, v)]"
| "obj_insert k v ((l, w) # o1) =
     (if k = l then (k, v) # o1
      else if before k l then (k, v) # (l, w) # o1
      else (l, w) # obj_insert k v o1)"

definition obj_set :: "string \<Rightarrow> 'v \<Rightarrow> (string \<times> 'v) list \<Rightarrow> (string \<times> 'v) list" where
  "obj_set k v ob =
     (if k = proto_key then ob
      else if k \<in> fst ` set ob then map (\<lambda>(l, w). if l = k then (l, v) else (l, w)) ob
      else obj_insert k v ob)"

text \<open>Copying property by property: \<open>for (const key of Object.keys(o)) target[key] = o[key]\<close>.\<close>

definition obj_copy :: "(string \<times> 'v) list \<Rightarrow> (string \<times> 'v) list" where
  "obj_copy ob = fold (\<lambda>(k, v). obj_set k v) ob []"

section \<open>Canonical objects\<close>

text \<open>
  The enumeration order of an object whose properties were created by assignments: distinct
  keys, none of them \<open>__proto__\<close>, and no key that would have been enumerated before an earlier
  one.
\<close>

fun canonical :: "string list \<Rightarrow> bool" where
  "canonical [] \<longleftrightarrow> True"
| "canonical (k # ks) \<longleftrightarrow> k \<noteq> proto_key \<and> k \<notin> set ks \<and> (\<forall>l \<in> set ks. \<not> before l k) \<and> canonical ks"

lemma canonical_append:
  "canonical (xs @ ys) \<longleftrightarrow>
     canonical xs \<and> canonical ys \<and> set xs \<inter> set ys = {} \<and> (\<forall>k \<in> set xs. \<forall>l \<in> set ys. \<not> before l k)"
  by (induction xs) auto

lemma obj_insert_end:
  "k \<notin> fst ` set ob \<Longrightarrow> \<forall>l \<in> fst ` set ob. \<not> before k l \<Longrightarrow> obj_insert k v ob = ob @ [(k, v)]"
  by (induction ob rule: obj_insert.induct) auto

lemma obj_set_append:
  assumes "canonical (map fst (ob @ [(k, v)]))"
  shows "obj_set k v ob = ob @ [(k, v)]"
proof -
  from assms have "k \<noteq> proto_key" "k \<notin> fst ` set ob" "\<forall>l \<in> fst ` set ob. \<not> before k l"
    by (auto simp: canonical_append)
  then show ?thesis by (simp add: obj_set_def obj_insert_end)
qed

lemma fold_obj_set:
  "canonical (map fst (ob @ new)) \<Longrightarrow> fold (\<lambda>(k, v). obj_set k v) new ob = ob @ new"
proof (induction new arbitrary: ob)
  case (Cons kv new)
  obtain k v where kv: "kv = (k, v)" by fastforce
  from Cons.prems have "canonical (map fst (ob @ [(k, v)]))" by (auto simp: kv canonical_append)
  then have "obj_set k v ob = ob @ [kv]" by (simp only: obj_set_append kv)
  with Cons.IH [of "ob @ [kv]"] Cons.prems show ?case by (simp add: kv)
qed simp

lemma obj_copy_canonical: "canonical (map fst ob) \<Longrightarrow> obj_copy ob = ob"
  using fold_obj_set [of "[]" ob] by (simp add: obj_copy_def)

text \<open>The key \<open>__proto__\<close> never becomes a property by assignment.\<close>

lemma obj_insert_keys: "fst ` set (obj_insert k v ob) = insert k (fst ` set ob)"
  by (induction ob rule: obj_insert.induct) auto

lemma overwrite_keys [simp]:
  "map fst (map (\<lambda>(l, w). if l = k then (l, v) else (l, w)) ob) = map fst ob"
  by (induction ob) auto

lemma obj_set_keys:
  "fst ` set (obj_set k v ob) = (if k = proto_key then {} else {k}) \<union> fst ` set ob"
proof (cases "k \<in> fst ` set ob \<and> k \<noteq> proto_key")
  case True
  then have "fst ` set (obj_set k v ob) =
      set (map fst (map (\<lambda>(l, w). if l = k then (l, v) else (l, w)) ob))"
    unfolding set_map by (simp add: obj_set_def)
  with True show ?thesis unfolding overwrite_keys by auto
qed (auto simp: obj_set_def obj_insert_keys)

lemma obj_set_no_proto: "proto_key \<notin> fst ` set ob \<Longrightarrow> proto_key \<notin> fst ` set (obj_set k v ob)"
  by (simp add: obj_set_keys)

lemma fold_obj_set_no_proto:
  "proto_key \<notin> fst ` set ob \<Longrightarrow> proto_key \<notin> fst ` set (fold (\<lambda>(k, v). obj_set k v) new ob)"
proof (induction new arbitrary: ob)
  case (Cons kv new)
  then show ?case by (cases kv) (simp add: obj_set_no_proto)
qed simp

lemma obj_copy_no_proto: "proto_key \<notin> fst ` set (obj_copy ob)"
  unfolding obj_copy_def by (rule fold_obj_set_no_proto) simp

text \<open>Whatever is assigned to an object with canonical keys leaves them canonical.\<close>

lemma before_trans: "before m k \<Longrightarrow> before k l \<Longrightarrow> before m l"
  by (auto simp: before_def split: option.splits)

lemma canonical_insert:
  "canonical (map fst ob) \<Longrightarrow> k \<noteq> proto_key \<Longrightarrow> k \<notin> fst ` set ob \<Longrightarrow> canonical (map fst (obj_insert k v ob))"
proof (induction k v ob rule: obj_insert.induct)
  case (2 k v l w ob)
  show ?case
  proof (cases "before k l")
    case True
    then have "\<not> before l k" by (auto simp: before_def split: option.splits)
    moreover have "\<not> before m k" if "m \<in> fst ` set ob" for m
      using that "2.prems"(1) before_trans [OF _ True] by auto
    ultimately show ?thesis using True "2.prems" by auto
  next
    case False
    moreover have "set (map fst (obj_insert k v ob)) = insert k (fst ` set ob)"
      using obj_insert_keys [of k v ob] by simp
    ultimately show ?thesis using "2.IH" "2.prems" by auto
  qed
qed simp

lemma canonical_obj_set: "canonical (map fst ob) \<Longrightarrow> canonical (map fst (obj_set k v ob))"
  using canonical_insert [of ob k v] unfolding obj_set_def by (simp del: map_map)

lemma canonical_fold_obj_set:
  "canonical (map fst ob) \<Longrightarrow> canonical (map fst (fold (\<lambda>(k, v). obj_set k v) new ob))"
proof (induction new arbitrary: ob)
  case (Cons kv new)
  then show ?case by (cases kv) (simp add: canonical_obj_set)
qed simp

lemma canonical_obj_copy: "canonical (map fst (obj_copy ob))"
  unfolding obj_copy_def by (rule canonical_fold_obj_set) simp

section \<open>Values that survive the wire\<close>

text \<open>
  \<open>wf_js\<close>: every object inside is canonical and holds no \<open>undefined\<close>, and there is no value of
  an unsupported \<open>typeof\<close>. Arrays may hold \<open>undefined\<close>.
\<close>

fun wf_js :: "js \<Rightarrow> bool" where
  "wf_js (JArray xs) \<longleftrightarrow> (\<forall>x \<in> set xs. wf_js x)"
| "wf_js (JObject ob) \<longleftrightarrow> canonical (map fst ob) \<and> (\<forall>kv \<in> set ob. snd kv \<noteq> JUndefined \<and> wf_js (snd kv))"
| "wf_js (JOther t) \<longleftrightarrow> False"
| "wf_js _ \<longleftrightarrow> True"

definition wf_obj :: "obj \<Rightarrow> bool" where
  "wf_obj ob \<longleftrightarrow> wf_js (JObject ob)"

text \<open>
  How deep the decoders nest to read a value: one level for the \<open>Value\<close>, one more for the
  \<open>ListValue\<close> of an array, two more for the \<open>Struct\<close> and the map entries of an object.
\<close>

fun js_depth :: "js \<Rightarrow> nat" where
  "js_depth (JArray xs) = Suc (Suc (Max (insert 0 (js_depth ` set xs))))"
| "js_depth (JObject ob) =
     Suc (if ob = [] then 1 else Suc (Suc (Max (insert 0 ((\<lambda>kv. js_depth (snd kv)) ` set ob)))))"
| "js_depth _ = 1"

definition obj_depth :: "obj \<Rightarrow> nat" where
  "obj_depth ob = js_depth (JObject ob) - 1"

end
