(* ===== verification/Wire.thy ===== *)
theory Wire
  imports Prelude
begin

text \<open>
  What every generated codec under \<open>src/gen\<close> shares. The reader and the writer
  (\<open>@bufbuild/protobuf/wire\<close>) are not part of the repository: they are a parameter, a record
  \<open>wire\<close> of functions, and \<open>wire_ok\<close> and \<open>wire_progress\<close> state what their documentation
  promises (a value that was written is read back; a read moves forward inside the buffer).
  The generated code itself is modelled here: the shape of \<open>encode\<close> (a sequence of optional
  fields) and the shape of \<open>decode\<close> (the recursion limit, the loop over tags, the skipping of
  unknown fields, the end-group and zero tags that stop it).

  A function of the reader takes the whole buffer and a position and gives the value and the
  new position, or \<open>None\<close> when it throws. A function of the writer gives the bytes it appends,
  or \<open>None\<close> when it throws.
\<close>

section \<open>The external reader and writer\<close>

record wire =
  w_uint32 :: "nat \<Rightarrow> byte list"
  w_int32 :: "int \<Rightarrow> byte list option"
  w_int64 :: "int \<Rightarrow> byte list option"
  w_bool :: "bool \<Rightarrow> byte list"
  w_double :: "64 word \<Rightarrow> byte list"
  w_string :: "string \<Rightarrow> byte list"
  w_bytes :: "byte list \<Rightarrow> byte list"
  w_join :: "byte list \<Rightarrow> byte list"
  r_uint32 :: "byte list \<Rightarrow> nat \<Rightarrow> (nat \<times> nat) option"
  r_int32 :: "byte list \<Rightarrow> nat \<Rightarrow> (int \<times> nat) option"
  r_int64 :: "byte list \<Rightarrow> nat \<Rightarrow> (int \<times> nat) option"
  r_bool :: "byte list \<Rightarrow> nat \<Rightarrow> (bool \<times> nat) option"
  r_double :: "byte list \<Rightarrow> nat \<Rightarrow> (64 word \<times> nat) option"
  r_string :: "byte list \<Rightarrow> nat \<Rightarrow> (string \<times> nat) option"
  r_bytes :: "byte list \<Rightarrow> nat \<Rightarrow> (byte list \<times> nat) option"
  r_skip :: "byte list \<Rightarrow> nat \<Rightarrow> nat \<Rightarrow> nat option"

text \<open>\<open>reads r b v\<close>: wherever \<open>b\<close> stands in a buffer, \<open>r\<close> reads \<open>v\<close> from it and stops behind it.\<close>

definition reads :: "(byte list \<Rightarrow> nat \<Rightarrow> ('v \<times> nat) option) \<Rightarrow> byte list \<Rightarrow> 'v \<Rightarrow> bool" where
  "reads r b v \<longleftrightarrow> (\<forall>pre post. r (pre @ b @ post) (length pre) = Some (v, length pre + length b))"

lemma readsD: "reads r b v \<Longrightarrow> r (pre @ b @ post) (length pre) = Some (v, length pre + length b)"
  by (simp add: reads_def)

definition in_int32 :: "int \<Rightarrow> bool" where
  "in_int32 i \<longleftrightarrow> - (2 ^ 31) \<le> i \<and> i < 2 ^ 31"

definition in_int64 :: "int \<Rightarrow> bool" where
  "in_int64 i \<longleftrightarrow> - (2 ^ 63) \<le> i \<and> i < 2 ^ 63"

text \<open>Lengths are \<open>uint32\<close> on the wire.\<close>

definition small :: "byte list \<Rightarrow> bool" where
  "small b \<longleftrightarrow> length b < 2 ^ 32"

lemma small_append: "small (a @ b) \<Longrightarrow> small a" "small (a @ b) \<Longrightarrow> small b"
  by (auto simp: small_def)

definition wire_ok :: "wire \<Rightarrow> bool" where
  "wire_ok W \<longleftrightarrow>
     (\<forall>n < 2 ^ 32. reads (r_uint32 W) (w_uint32 W n) n \<and> w_uint32 W n \<noteq> []) \<and>
     (\<forall>i. if in_int32 i then (\<exists>b. w_int32 W i = Some b \<and> reads (r_int32 W) b i)
          else w_int32 W i = None) \<and>
     (\<forall>i. if in_int64 i then (\<exists>b. w_int64 W i = Some b \<and> reads (r_int64 W) b i)
          else w_int64 W i = None) \<and>
     (\<forall>x. reads (r_bool W) (w_bool W x) x) \<and>
     (\<forall>x. reads (r_double W) (w_double W x) x) \<and>
     (\<forall>s. small (w_string W s) \<longrightarrow> reads (r_string W) (w_string W s) s) \<and>
     (\<forall>s. small (w_bytes W s) \<longrightarrow> reads (r_bytes W) (w_bytes W s) s) \<and>
     (\<forall>b. w_join W b = w_uint32 W (length b) @ b)"

lemma wire_ok_uint32:
  "wire_ok W \<Longrightarrow> n < 2 ^ 32 \<Longrightarrow> reads (r_uint32 W) (w_uint32 W n) n"
  "wire_ok W \<Longrightarrow> n < 2 ^ 32 \<Longrightarrow> w_uint32 W n \<noteq> []"
  by (auto simp: wire_ok_def)

lemma wire_ok_int32:
  "wire_ok W \<Longrightarrow> w_int32 W i = Some b \<Longrightarrow> reads (r_int32 W) b i"
  "wire_ok W \<Longrightarrow> in_int32 i \<Longrightarrow> \<exists>b. w_int32 W i = Some b"
  "wire_ok W \<Longrightarrow> w_int32 W i = None \<longleftrightarrow> \<not> in_int32 i"
  unfolding wire_ok_def by (metis option.distinct(1) option.inject)+

lemma wire_ok_int64:
  "wire_ok W \<Longrightarrow> w_int64 W i = Some b \<Longrightarrow> reads (r_int64 W) b i"
  "wire_ok W \<Longrightarrow> in_int64 i \<Longrightarrow> \<exists>b. w_int64 W i = Some b"
  "wire_ok W \<Longrightarrow> w_int64 W i = None \<longleftrightarrow> \<not> in_int64 i"
  unfolding wire_ok_def by (metis option.distinct(1) option.inject)+

lemma wire_ok_plain:
  "wire_ok W \<Longrightarrow> reads (r_bool W) (w_bool W x) x"
  "wire_ok W \<Longrightarrow> reads (r_double W) (w_double W d) d"
  "wire_ok W \<Longrightarrow> small (w_string W s) \<Longrightarrow> reads (r_string W) (w_string W s) s"
  "wire_ok W \<Longrightarrow> small (w_bytes W bs) \<Longrightarrow> reads (r_bytes W) (w_bytes W bs) bs"
  "wire_ok W \<Longrightarrow> w_join W b = w_uint32 W (length b) @ b"
  by (simp_all add: wire_ok_def)

text \<open>Reading moves forward and stays inside the buffer.\<close>

definition forward :: "(byte list \<Rightarrow> nat \<Rightarrow> ('v \<times> nat) option) \<Rightarrow> bool" where
  "forward r \<longleftrightarrow> (\<forall>buf p v q. r buf p = Some (v, q) \<longrightarrow> p \<le> q \<and> q \<le> length buf)"

definition wire_progress :: "wire \<Rightarrow> bool" where
  "wire_progress W \<longleftrightarrow>
     (\<forall>buf p v q. r_uint32 W buf p = Some (v, q) \<longrightarrow> p < q \<and> q \<le> length buf) \<and>
     forward (r_int32 W) \<and> forward (r_int64 W) \<and> forward (r_bool W) \<and> forward (r_double W) \<and>
     forward (r_string W) \<and> forward (r_bytes W) \<and>
     (\<forall>buf p t q. r_skip W buf p t = Some q \<longrightarrow> p \<le> q \<and> q \<le> length buf)"

section \<open>Encoding a message: a sequence of optional fields\<close>

fun enc_fields :: "byte list option list \<Rightarrow> byte list option" where
  "enc_fields [] = Some []"
| "enc_fields (None # xs) = None"
| "enc_fields (Some b # xs) = map_option (\<lambda>c. b @ c) (enc_fields xs)"

definition f_string :: "wire \<Rightarrow> nat \<Rightarrow> string \<Rightarrow> byte list option" where
  "f_string W tag s = Some (if s \<noteq> '''' then w_uint32 W tag @ w_string W s else [])"

definition f_bytes :: "wire \<Rightarrow> nat \<Rightarrow> byte list \<Rightarrow> byte list option" where
  "f_bytes W tag s = Some (if length s \<noteq> 0 then w_uint32 W tag @ w_bytes W s else [])"

definition f_bool :: "wire \<Rightarrow> nat \<Rightarrow> bool \<Rightarrow> byte list option" where
  "f_bool W tag x = Some (if x \<noteq> False then w_uint32 W tag @ w_bool W x else [])"

definition f_int32 :: "wire \<Rightarrow> nat \<Rightarrow> int \<Rightarrow> byte list option" where
  "f_int32 W tag i =
     (if i \<noteq> 0 then map_option (\<lambda>b. w_uint32 W tag @ b) (w_int32 W i) else Some [])"

definition f_int64 :: "wire \<Rightarrow> nat \<Rightarrow> int \<Rightarrow> byte list option" where
  "f_int64 W tag i =
     (if i \<noteq> 0 then map_option (\<lambda>b. w_uint32 W tag @ b) (w_int64 W i) else Some [])"

text \<open>A field with presence: \<open>undefined\<close> is \<open>None\<close>.\<close>

definition f_opt_bytes :: "wire \<Rightarrow> nat \<Rightarrow> byte list option \<Rightarrow> byte list option" where
  "f_opt_bytes W tag x =
     Some (case x of None \<Rightarrow> [] | Some s \<Rightarrow> w_uint32 W tag @ w_bytes W s)"

definition f_msg :: "wire \<Rightarrow> nat \<Rightarrow> ('m \<Rightarrow> byte list option) \<Rightarrow> 'm option \<Rightarrow> byte list option" where
  "f_msg W tag enc x =
     (case x of
        None \<Rightarrow> Some []
      | Some m \<Rightarrow> map_option (\<lambda>b. w_uint32 W tag @ w_join W b) (enc m))"

definition f_rep_string :: "wire \<Rightarrow> nat \<Rightarrow> string list \<Rightarrow> byte list option" where
  "f_rep_string W tag xs = enc_fields (map (\<lambda>s. Some (w_uint32 W tag @ w_string W s)) xs)"

definition f_rep_msg :: "wire \<Rightarrow> nat \<Rightarrow> ('m \<Rightarrow> byte list option) \<Rightarrow> 'm list \<Rightarrow> byte list option" where
  "f_rep_msg W tag enc xs =
     enc_fields (map (\<lambda>m. map_option (\<lambda>b. w_uint32 W tag @ w_join W b) (enc m)) xs)"

section \<open>Decoding a message\<close>

datatype decode_error = WireError | RecursionLimit | UnsafeInteger

text \<open>
  What the \<open>switch\<close> does with a tag: nothing (\<open>break\<close>), throw, or update the message and
  continue from a new position. \<open>None\<close> stands for a nested decoder that does not return.
\<close>

datatype 'm handled = NotHandled | Fails decode_error | Handled 'm nat

type_synonym 'm handler = "byte list \<Rightarrow> nat \<Rightarrow> nat \<Rightarrow> 'm \<Rightarrow> 'm handled option"

partial_function (option) dec_loop ::
  "wire \<Rightarrow> 'm handler \<Rightarrow> byte list \<Rightarrow> nat \<Rightarrow> nat \<Rightarrow> 'm \<Rightarrow> (decode_error + 'm \<times> nat) option" where
  "dec_loop W h buf end_pos pos m =
     (if pos < end_pos
      then (case r_uint32 W buf pos of
              None \<Rightarrow> Some (Inl WireError)
            | Some (tag, p1) \<Rightarrow>
                Option.bind (h buf tag p1 m) (\<lambda>r. case r of
                    Fails e \<Rightarrow> Some (Inl e)
                  | Handled m' p2 \<Rightarrow> dec_loop W h buf end_pos p2 m'
                  | NotHandled \<Rightarrow>
                      (if tag mod 8 = 4 \<or> tag = 0 then Some (Inr (m, p1))
                       else (case r_skip W buf p1 (tag mod 8) of
                               None \<Rightarrow> Some (Inl WireError)
                             | Some p2 \<Rightarrow> dec_loop W h buf end_pos p2 m))))
      else Some (Inr (m, pos)))"

type_synonym 'm decoder = "byte list \<Rightarrow> nat \<Rightarrow> nat \<Rightarrow> (decode_error + 'm \<times> nat) option"

text \<open>
  The body of every \<open>decode\<close>: \<open>rem\<close> is 100 minus the decode depth, so 0 is the recursion limit.
  The handler gets what is left for nested messages.
\<close>

definition decode_message :: "wire \<Rightarrow> (nat \<Rightarrow> 'm handler) \<Rightarrow> 'm \<Rightarrow> nat \<Rightarrow> 'm decoder" where
  "decode_message W h base rem buf pos len =
     (case rem of
        0 \<Rightarrow> Some (Inl RecursionLimit)
      | Suc r \<Rightarrow> dec_loop W (h r) buf (pos + len) pos base)"

definition decode_limit :: nat where
  "decode_limit = 100"

text \<open>\<open>decode(bytes)\<close>: a fresh reader at depth 0.\<close>

definition decode_top :: "(nat \<Rightarrow> 'm decoder) \<Rightarrow> byte list \<Rightarrow> (decode_error + 'm) option" where
  "decode_top dec bs = map_option (map_sum id fst) (dec decode_limit bs 0 (length bs))"

text \<open>The reads of a field inside a handler.\<close>

definition rd :: "(byte list \<Rightarrow> nat \<Rightarrow> ('v \<times> nat) option) \<Rightarrow> byte list \<Rightarrow> nat \<Rightarrow> ('v \<Rightarrow> 'm) \<Rightarrow> 'm handled option" where
  "rd r buf p upd =
     Some (case r buf p of None \<Rightarrow> Fails WireError | Some (v, q) \<Rightarrow> Handled (upd v) q)"

definition rd_msg ::
  "wire \<Rightarrow> 'v decoder \<Rightarrow> byte list \<Rightarrow> nat \<Rightarrow> ('v \<Rightarrow> 'm) \<Rightarrow> 'm handled option" where
  "rd_msg W dec buf p upd =
     (case r_uint32 W buf p of
        None \<Rightarrow> Some (Fails WireError)
      | Some (len, q) \<Rightarrow>
          map_option (\<lambda>r. case r of Inl e \<Rightarrow> Fails e | Inr (v, q') \<Rightarrow> Handled (upd v) q')
            (dec buf q len))"

end
