(* ===== verification/Codec.thy ===== *)
theory Codec
  imports Wire
begin

text \<open>
  The laws every message codec obeys, proved once. \<open>consumes W h b m m'\<close>: where the bytes \<open>b\<close>
  stand in a buffer, the decoding loop with handler \<open>h\<close> goes from message \<open>m\<close> to \<open>m'\<close> over them.
  Each kind of field has a lemma that says what its encoding does to the loop; a message is the
  sequence of its fields. The locale \<open>decoder_returns\<close> says that a decoder always returns and
  stays inside the buffer, its extension \<open>codec\<close> that it reads back what the encoder wrote.
\<close>

section \<open>Walking over encoded fields\<close>

definition consumes :: "wire \<Rightarrow> 'm handler \<Rightarrow> byte list \<Rightarrow> 'm \<Rightarrow> 'm \<Rightarrow> bool" where
  "consumes W h b m m' \<longleftrightarrow>
     (\<forall>pre post end_pos. length pre + length b \<le> end_pos \<longrightarrow>
        dec_loop W h (pre @ b @ post) end_pos (length pre) m =
        dec_loop W h (pre @ b @ post) end_pos (length pre + length b) m')"

lemma consumes_Nil [simp]: "consumes W h [] m m"
  by (simp add: consumes_def)

lemma consumesD:
  "consumes W h b m m' \<Longrightarrow> length pre + length b \<le> end_pos \<Longrightarrow>
   dec_loop W h (pre @ b @ post) end_pos (length pre) m =
   dec_loop W h (pre @ b @ post) end_pos (length pre + length b) m'"
  by (simp add: consumes_def)

lemma consumes_append:
  assumes "consumes W h a m m1" and "consumes W h b m1 m2"
  shows "consumes W h (a @ b) m m2"
  unfolding consumes_def
proof (intro allI impI)
  fix pre post :: "byte list" and end_pos
  assume le: "length pre + length (a @ b) \<le> end_pos"
  have "dec_loop W h (pre @ a @ (b @ post)) end_pos (length pre) m =
        dec_loop W h (pre @ a @ (b @ post)) end_pos (length pre + length a) m1"
    using le by (intro consumesD [OF assms(1)]) simp
  also have "\<dots> = dec_loop W h ((pre @ a) @ b @ post) end_pos (length (pre @ a)) m1"
    by simp
  also have "\<dots> = dec_loop W h ((pre @ a) @ b @ post) end_pos (length (pre @ a) + length b) m2"
    using le by (intro consumesD [OF assms(2)]) simp
  finally show "dec_loop W h (pre @ (a @ b) @ post) end_pos (length pre) m =
      dec_loop W h (pre @ (a @ b) @ post) end_pos (length pre + length (a @ b)) m2"
    by (simp add: add.assoc)
qed

text \<open>One field: a tag, then bytes the handler consumes.\<close>

lemma consumes_field:
  assumes W: "wire_ok W" and tag: "tag < 2 ^ 32"
    and h: "\<And>pre post. h (pre @ vb @ post) tag (length pre) m =
              Some (Handled m' (length pre + length vb))"
  shows "consumes W h (w_uint32 W tag @ vb) m m'"
  unfolding consumes_def
proof (intro allI impI)
  fix pre post :: "byte list" and end_pos
  let ?t = "w_uint32 W tag"
  let ?buf = "pre @ (?t @ vb) @ post"
  assume le: "length pre + length (?t @ vb) \<le> end_pos"
  have r: "r_uint32 W ?buf (length pre) = Some (tag, length pre + length ?t)"
    using readsD [OF wire_ok_uint32(1) [OF W tag], of pre "vb @ post"] by simp
  have lt: "length pre < end_pos"
    using le wire_ok_uint32(2) [OF W tag] by (cases ?t) auto
  have hv: "h ?buf tag (length pre + length ?t) m =
      Some (Handled m' (length pre + length (?t @ vb)))"
    using h [of "pre @ ?t" post] by (simp add: add.assoc)
  show "dec_loop W h ?buf end_pos (length pre) m =
      dec_loop W h ?buf end_pos (length pre + length (?t @ vb)) m'"
    by (subst dec_loop.simps) (simp only: lt r hv if_True option.case prod.case
        Option.bind.bind_lunit handled.case)
qed

text \<open>
  A field the handler does not know is skipped: \<open>skipped W tag vb\<close> says that the reader can skip
  the bytes \<open>vb\<close> of a field with this tag, and that the tag does not end a message.
\<close>

definition skipped :: "wire \<Rightarrow> nat \<Rightarrow> byte list \<Rightarrow> bool" where
  "skipped W tag vb \<longleftrightarrow> tag < 2 ^ 32 \<and> tag mod 8 \<noteq> 4 \<and>
     (\<forall>pre post. r_skip W (pre @ vb @ post) (length pre) (tag mod 8) = Some (length pre + length vb))"

lemma consumes_unknown:
  assumes W: "wire_ok W" and skip: "skipped W tag vb" and tag: "0 < tag"
    and h: "\<And>buf p. h buf tag p m = Some NotHandled"
  shows "consumes W h (w_uint32 W tag @ vb) m m"
  unfolding consumes_def
proof (intro allI impI)
  fix pre post :: "byte list" and end_pos
  let ?t = "w_uint32 W tag"
  let ?buf = "pre @ (?t @ vb) @ post"
  assume le: "length pre + length (?t @ vb) \<le> end_pos"
  have tag32: "tag < 2 ^ 32" and wt: "tag mod 8 \<noteq> 4" using skip by (simp_all add: skipped_def)
  have r: "r_uint32 W ?buf (length pre) = Some (tag, length pre + length ?t)"
    using readsD [OF wire_ok_uint32(1) [OF W tag32], of pre "vb @ post"] by simp
  have lt: "length pre < end_pos"
    using le wire_ok_uint32(2) [OF W tag32] by (cases ?t) auto
  have "r_skip W ((pre @ ?t) @ vb @ post) (length (pre @ ?t)) (tag mod 8) =
      Some (length (pre @ ?t) + length vb)"
    using skip unfolding skipped_def by blast
  then have s: "r_skip W ?buf (length pre + length ?t) (tag mod 8) = Some (length pre + length (?t @ vb))"
    by (simp add: add.assoc)
  show "dec_loop W h ?buf end_pos (length pre) m =
      dec_loop W h ?buf end_pos (length pre + length (?t @ vb)) m"
    using wt tag by (subst dec_loop.simps) (simp add: lt r h s del: append_assoc)
qed

text \<open>
  Any number of fields whose tag is not among the \<open>known\<close> ones: a field number the message does not
  have, or one it has with another wire type.
\<close>

definition unknown_fields :: "wire \<Rightarrow> nat list \<Rightarrow> byte list \<Rightarrow> bool" where
  "unknown_fields W known u \<longleftrightarrow>
     (\<exists>ts. u = concat (map (\<lambda>(tag, vb). w_uint32 W tag @ vb) ts) \<and>
        list_all (\<lambda>(tag, vb). 0 < tag \<and> tag \<notin> set known \<and> skipped W tag vb) ts)"

lemma unknown_fields_Nil [simp]: "unknown_fields W known []"
  unfolding unknown_fields_def by (intro exI [of _ "[]"]) simp

lemma unknown_fields_Cons:
  "0 < tag \<Longrightarrow> tag \<notin> set known \<Longrightarrow> skipped W tag vb \<Longrightarrow> unknown_fields W known u \<Longrightarrow>
     unknown_fields W known (w_uint32 W tag @ vb @ u)"
proof -
  assume t: "0 < tag" "tag \<notin> set known" "skipped W tag vb" and "unknown_fields W known u"
  then obtain ts where "u = concat (map (\<lambda>(tag, vb). w_uint32 W tag @ vb) ts)"
    "list_all (\<lambda>(tag, vb). 0 < tag \<and> tag \<notin> set known \<and> skipped W tag vb) ts" by (auto simp: unknown_fields_def)
  with t show "unknown_fields W known (w_uint32 W tag @ vb @ u)"
    unfolding unknown_fields_def by (intro exI [of _ "(tag, vb) # ts"]) simp
qed

lemma consumes_unknown_fields:
  assumes "wire_ok W" and "unknown_fields W known u"
    and h: "\<And>tag buf p. tag \<notin> set known \<Longrightarrow> h buf tag p m = Some NotHandled"
  shows "consumes W h u m m"
proof -
  obtain ts where u: "u = concat (map (\<lambda>(tag, vb). w_uint32 W tag @ vb) ts)"
    and ts: "list_all (\<lambda>(tag, vb). 0 < tag \<and> tag \<notin> set known \<and> skipped W tag vb) ts"
    using assms(2) by (auto simp: unknown_fields_def)
  show ?thesis
    using ts unfolding u
  proof (induction ts)
    case (Cons t ts)
    obtain tag vb where t: "t = (tag, vb)" by fastforce
    have "consumes W h (w_uint32 W tag @ vb) m m"
      using Cons.prems h by (intro consumes_unknown [OF assms(1)]) (auto simp: t)
    from consumes_append [OF this] Cons show ?case by (simp add: t)
  qed simp
qed

lemma consumes_rd:
  assumes "wire_ok W" and "tag < 2 ^ 32" and "reads r vb v"
    and "\<And>buf p. h buf tag p m = rd r buf p upd"
  shows "consumes W h (w_uint32 W tag @ vb) m (upd v)"
  by (rule consumes_field [OF assms(1,2)]) (simp add: assms(4) rd_def readsD [OF assms(3)])

lemma consumes_enc_Cons:
  assumes "enc_fields (x # xs) = Some b" and "small b"
    and "\<And>b1. x = Some b1 \<Longrightarrow> small b1 \<Longrightarrow> consumes W h b1 m mid"
    and "\<And>b2. enc_fields xs = Some b2 \<Longrightarrow> small b2 \<Longrightarrow> consumes W h b2 mid m'"
  shows "consumes W h b m m'"
proof -
  obtain b1 b2 where b: "x = Some b1" "enc_fields xs = Some b2" "b = b1 @ b2"
    using assms(1) by (cases x) auto
  then show ?thesis
    using assms small_append [of b1 b2] by (auto intro: consumes_append)
qed

lemma consumes_enc_Nil: "enc_fields [] = Some b \<Longrightarrow> consumes W h b m m"
  by simp

text \<open>The kinds of fields.\<close>


lemma consumes_string:
  assumes "f_string W tag s = Some b" and "wire_ok W" and "small b" and "tag < 2 ^ 32"
    and "\<And>buf p. h buf tag p m = rd (r_string W) buf p (\<lambda>v. upd v m)" and "upd '''' m = m"
  shows "consumes W h b m (upd s m)"
proof (cases "s = ''''")
  case False
  with assms(1) have b: "b = w_uint32 W tag @ w_string W s" by (simp add: f_string_def)
  with assms(2,3) have "reads (r_string W) (w_string W s) s"
    by (auto intro: wire_ok_plain dest: small_append)
  then show ?thesis unfolding b by (rule consumes_rd [OF assms(2,4)]) (rule assms(5))
qed (use assms in \<open>simp add: f_string_def\<close>)

lemma consumes_bytes:
  assumes "f_bytes W tag s = Some b" and "wire_ok W" and "small b" and "tag < 2 ^ 32"
    and "\<And>buf p. h buf tag p m = rd (r_bytes W) buf p (\<lambda>v. upd v m)" and "upd [] m = m"
  shows "consumes W h b m (upd s m)"
proof (cases "s = []")
  case False
  with assms(1) have b: "b = w_uint32 W tag @ w_bytes W s" by (simp add: f_bytes_def)
  with assms(2,3) have "reads (r_bytes W) (w_bytes W s) s"
    by (auto intro: wire_ok_plain dest: small_append)
  then show ?thesis unfolding b by (rule consumes_rd [OF assms(2,4)]) (rule assms(5))
qed (use assms in \<open>simp add: f_bytes_def\<close>)

lemma consumes_opt_bytes:
  assumes "f_opt_bytes W tag x = Some b" and "wire_ok W" and "small b" and "tag < 2 ^ 32"
    and "\<And>buf p. h buf tag p m = rd (r_bytes W) buf p (\<lambda>v. upd (Some v) m)" and "upd None m = m"
  shows "consumes W h b m (upd x m)"
proof (cases x)
  case (Some s)
  with assms(1) have b: "b = w_uint32 W tag @ w_bytes W s" by (simp add: f_opt_bytes_def)
  with assms(2,3) have "reads (r_bytes W) (w_bytes W s) s"
    by (auto intro: wire_ok_plain dest: small_append)
  then show ?thesis unfolding b Some by (rule consumes_rd [OF assms(2,4)]) (rule assms(5))
qed (use assms in \<open>simp add: f_opt_bytes_def\<close>)

lemma consumes_bool:
  assumes "f_bool W tag x = Some b" and "wire_ok W" and "small b" and "tag < 2 ^ 32"
    and "\<And>buf p. h buf tag p m = rd (r_bool W) buf p (\<lambda>v. upd v m)" and "upd False m = m"
  shows "consumes W h b m (upd x m)"
proof (cases x)
  case True
  with assms(1) have b: "b = w_uint32 W tag @ w_bool W x" by (simp add: f_bool_def)
  show ?thesis
    unfolding b using assms(2)
    by (intro consumes_rd [OF assms(2,4)]) (simp_all add: wire_ok_plain assms(5))
qed (use assms in \<open>simp add: f_bool_def\<close>)

lemma consumes_int32:
  assumes "f_int32 W tag i = Some b" and "wire_ok W" and "small b" and "tag < 2 ^ 32"
    and "\<And>buf p. h buf tag p m = rd (r_int32 W) buf p (\<lambda>v. upd v m)" and "upd 0 m = m"
  shows "consumes W h b m (upd i m)"
proof (cases "i = 0")
  case False
  with assms(1) obtain vb where b: "b = w_uint32 W tag @ vb" and vb: "w_int32 W i = Some vb"
    by (auto simp: f_int32_def)
  show ?thesis
    unfolding b by (rule consumes_rd [OF assms(2,4) wire_ok_int32(1) [OF assms(2) vb]]) (rule assms(5))
qed (use assms in \<open>simp add: f_int32_def\<close>)

text \<open>\<open>int64\<close> is read through a conversion (\<open>longToNumber\<close>) that may throw.\<close>

lemma consumes_int64:
  assumes "f_int64 W tag i = Some b" and "wire_ok W" and "small b" and "tag < 2 ^ 32"
    and "\<And>buf p q. r_int64 W buf p = Some (i, q) \<Longrightarrow> h buf tag p m = Some (Handled (upd i m) q)"
    and "upd 0 m = m"
  shows "consumes W h b m (upd i m)"
proof (cases "i = 0")
  case False
  with assms(1) obtain vb where b: "b = w_uint32 W tag @ vb" and vb: "w_int64 W i = Some vb"
    by (auto simp: f_int64_def)
  show ?thesis
    unfolding b using readsD [OF wire_ok_int64(1) [OF assms(2) vb]]
    by (intro consumes_field [OF assms(2,4)] assms(5)) blast
qed (use assms in \<open>simp add: f_int64_def\<close>)

lemma consumes_rep_string:
  assumes "f_rep_string W tag xs = Some b" and "wire_ok W" and "small b" and "tag < 2 ^ 32"
    and "\<And>buf p m. h buf tag p m = rd (r_string W) buf p (\<lambda>v. upd v m)"
  shows "consumes W h b m (fold upd xs m)"
  using assms(1,3)
proof (induction xs arbitrary: b m)
  case (Cons s xs)
  show ?case
  proof (rule consumes_enc_Cons [where mid = "upd s m"])
    show "enc_fields (Some (w_uint32 W tag @ w_string W s) #
        map (\<lambda>s. Some (w_uint32 W tag @ w_string W s)) xs) = Some b"
      using Cons.prems(1) by (simp add: f_rep_string_def)
    show "consumes W h b1 m (upd s m)"
      if "Some (w_uint32 W tag @ w_string W s) = Some b1" "small b1" for b1
      using that wire_ok_plain(3) [OF assms(2), of s] small_append [of "w_uint32 W tag" "w_string W s"]
      by (auto intro: consumes_rd [OF assms(2,4)] simp: assms(5))
  qed (use Cons in \<open>auto simp: f_rep_string_def\<close>)
qed (use assms in \<open>simp add: f_rep_string_def\<close>)

text \<open>
  \<open>decodes d b v\<close>: wherever \<open>b\<close> stands, the decoder \<open>d\<close>, told its length, reads \<open>v\<close> and stops
  behind it. The remaining kinds of fields hold nested messages.
\<close>

definition decodes :: "'v decoder \<Rightarrow> byte list \<Rightarrow> 'v \<Rightarrow> bool" where
  "decodes d b v \<longleftrightarrow>
     (\<forall>pre post. d (pre @ b @ post) (length pre) (length b) = Some (Inr (v, length pre + length b)))"

lemma decodesD:
  "decodes d b v \<Longrightarrow> d (pre @ b @ post) (length pre) (length b) = Some (Inr (v, length pre + length b))"
  by (simp add: decodes_def)

lemma small_join: "wire_ok W \<Longrightarrow> small (w_uint32 W tag @ w_join W vb) \<Longrightarrow> small vb"
  by (auto simp: wire_ok_plain(5) dest: small_append)

lemma consumes_nested:
  assumes W: "wire_ok W" and "tag < 2 ^ 32" and "small vb" and d: "decodes d vb w"
    and "\<And>buf p. h buf tag p m = rd_msg W d buf p U"
  shows "consumes W h (w_uint32 W tag @ w_join W vb) m (U w)"
proof (rule consumes_field [OF assms(1,2)])
  fix pre post :: "byte list"
  let ?l = "w_uint32 W (length vb)"
  have "r_uint32 W (pre @ ?l @ vb @ post) (length pre) = Some (length vb, length pre + length ?l)"
    using assms(3) by (intro readsD wire_ok_uint32 [OF W]) (simp add: small_def)
  moreover have "d ((pre @ ?l) @ vb @ post) (length (pre @ ?l)) (length vb) =
      Some (Inr (w, length (pre @ ?l) + length vb))"
    by (rule decodesD [OF d])
  ultimately show "h (pre @ w_join W vb @ post) tag (length pre) m =
      Some (Handled (U w) (length pre + length (w_join W vb)))"
    by (simp add: assms(5) rd_msg_def wire_ok_plain(5) [OF W] add.assoc)
qed

lemma consumes_msg:
  assumes "f_msg W tag enc x = Some b" and "wire_ok W" and "small b" and "tag < 2 ^ 32"
    and "\<And>v vb. x = Some v \<Longrightarrow> enc v = Some vb \<Longrightarrow> small vb \<Longrightarrow> decodes d vb v"
    and "\<And>buf p. h buf tag p m = rd_msg W d buf p (\<lambda>v. upd (Some v) m)"
    and "upd None m = m"
  shows "consumes W h b m (upd x m)"
proof (cases x)
  case (Some v)
  with assms(1) obtain vb where b: "b = w_uint32 W tag @ w_join W vb" and vb: "enc v = Some vb"
    by (auto simp: f_msg_def)
  have sv: "small vb" using small_join [OF assms(2)] assms(3) b by blast
  show ?thesis
    unfolding b Some
    by (rule consumes_nested [OF assms(2,4) sv assms(5) [OF Some vb sv], of h m "\<lambda>v. upd (Some v) m"])
       (rule assms(6))
qed (use assms in \<open>simp add: f_msg_def\<close>)

lemma consumes_rep_msg:
  assumes "f_rep_msg W tag enc xs = Some b" and "wire_ok W" and "small b" and "tag < 2 ^ 32"
    and "\<And>v vb. v \<in> set xs \<Longrightarrow> enc v = Some vb \<Longrightarrow> small vb \<Longrightarrow> \<exists>w. decodes d vb w \<and> un w = v"
    and "\<And>buf p m. h buf tag p m = rd_msg W d buf p (\<lambda>w. upd (un w) m)"
  shows "consumes W h b m (fold upd xs m)"
  using assms(1,3,5)
proof (induction xs arbitrary: b m)
  case (Cons v xs)
  let ?one = "\<lambda>m. map_option (\<lambda>b. w_uint32 W tag @ w_join W b) (enc m)"
  show ?case
  proof (rule consumes_enc_Cons [where mid = "upd v m"])
    show "enc_fields (?one v # map ?one xs) = Some b"
      using Cons.prems(1) by (simp add: f_rep_msg_def)
    show "consumes W h b1 m (upd v m)" if one: "?one v = Some b1" and "small b1" for b1
    proof -
      from one obtain vb where b1: "b1 = w_uint32 W tag @ w_join W vb" and vb: "enc v = Some vb"
        by auto
      have sv: "small vb" using small_join [OF assms(2)] that(2) b1 by blast
      with Cons.prems(3) [of v, OF _ vb] obtain w where "decodes d vb w" "un w = v" by auto
      then show ?thesis
        unfolding b1 using consumes_nested [OF assms(2,4) sv, of d w h m "\<lambda>w. upd (un w) m"]
        by (simp add: assms(6))
    qed
    show "consumes W h b2 (upd v m) (fold upd (v # xs) m)"
      if "enc_fields (map ?one xs) = Some b2" and "small b2" for b2
      using Cons.IH [of b2 "upd v m"] that Cons.prems(3) by (simp add: f_rep_msg_def)
  qed (rule Cons.prems(2))
qed (use assms in \<open>simp add: f_rep_msg_def\<close>)

section \<open>Decoders return\<close>

definition goes_on :: "byte list \<Rightarrow> nat \<Rightarrow> 'm handled option \<Rightarrow> bool" where
  "goes_on buf p x \<longleftrightarrow> (\<exists>r. x = Some r \<and> (\<forall>m q. r = Handled m q \<longrightarrow> p \<le> q \<and> q \<le> length buf))"

lemma goes_on_not_handled [simp]: "goes_on buf p (Some NotHandled)"
  by (simp add: goes_on_def)

lemma goes_on_rd: "forward r \<Longrightarrow> goes_on buf p (rd r buf p upd)"
  by (auto simp: goes_on_def rd_def forward_def split: option.split)

definition returns_forward :: "'m decoder \<Rightarrow> bool" where
  "returns_forward d \<longleftrightarrow>
     (\<forall>buf p len. p \<le> length buf \<longrightarrow>
        (\<exists>r. d buf p len = Some r \<and> (\<forall>m q. r = Inr (m, q) \<longrightarrow> p \<le> q \<and> q \<le> length buf)))"

lemma returns_forwardD:
  "returns_forward d \<Longrightarrow> p \<le> length buf \<Longrightarrow>
   \<exists>r. d buf p len = Some r \<and> (\<forall>m q. r = Inr (m, q) \<longrightarrow> p \<le> q \<and> q \<le> length buf)"
  by (simp add: returns_forward_def)

lemma goes_on_rd_msg:
  assumes "wire_progress W" and d: "returns_forward d"
  shows "goes_on buf p (rd_msg W d buf p upd)"
proof (cases "r_uint32 W buf p")
  case (Some lq)
  obtain len q where lq: "lq = (len, q)" by fastforce
  with assms Some have q: "p < q" "q \<le> length buf" by (auto simp: wire_progress_def)
  from returns_forwardD [OF d q(2), of len] obtain r where
    "d buf q len = Some r" "\<forall>m q'. r = Inr (m, q') \<longrightarrow> q \<le> q' \<and> q' \<le> length buf" by blast
  with q(1) Some lq show ?thesis
    by (auto simp: goes_on_def rd_msg_def split: sum.splits)
qed (simp add: goes_on_def rd_msg_def)

text \<open>
  What a message type's \<open>encode\<close> and \<open>decode\<close> promise: every valid message can be written, and
  what was written is read back; every byte string is either decoded or rejected.
\<close>

definition sound_codec ::
  "wire \<Rightarrow> (wire \<Rightarrow> nat \<Rightarrow> 'm decoder) \<Rightarrow> (wire \<Rightarrow> 'm \<Rightarrow> byte list option) \<Rightarrow> ('m \<Rightarrow> bool) \<Rightarrow> ('m \<Rightarrow> nat) \<Rightarrow> bool" where
  "sound_codec W dec enc valid depth \<longleftrightarrow>
     (\<forall>m. valid m \<longrightarrow>
        (\<exists>b. enc W m = Some b \<and>
             (small b \<and> depth m \<le> decode_limit \<longrightarrow> decode_top (dec W) b = Some (Inr m))))"

text \<open>Fields the decoder does not know, before and after the message, change nothing.\<close>

definition ignores_unknown ::
  "wire \<Rightarrow> (wire \<Rightarrow> nat \<Rightarrow> 'm decoder) \<Rightarrow> (wire \<Rightarrow> 'm \<Rightarrow> byte list option) \<Rightarrow> nat list \<Rightarrow> ('m \<Rightarrow> bool) \<Rightarrow>
   ('m \<Rightarrow> nat) \<Rightarrow> bool" where
  "ignores_unknown W dec enc known valid depth \<longleftrightarrow>
     (\<forall>m b u v. valid m \<and> enc W m = Some b \<and> small b \<and> depth m \<le> decode_limit \<and>
        unknown_fields W known u \<and> unknown_fields W known v \<longrightarrow>
        decode_top (dec W) (u @ b @ v) = Some (Inr m))"

definition total_decoder :: "wire \<Rightarrow> (wire \<Rightarrow> nat \<Rightarrow> 'm decoder) \<Rightarrow> bool" where
  "total_decoder W dec \<longleftrightarrow> (\<forall>bs. \<exists>r. decode_top (dec W) bs = Some r)"

locale decoder_returns =
  fixes dec :: "wire \<Rightarrow> nat \<Rightarrow> 'm decoder"
  assumes returns: "wire_progress W \<Longrightarrow> returns_forward (dec W rem)"
begin

lemma decode_top_returns:
  assumes "wire_progress W"
  shows "\<exists>r. decode_top (dec W) bs = Some r"
  using returns_forwardD [OF returns [OF assms], of 0 bs decode_limit "length bs"]
  by (auto simp: decode_top_def)

lemma total: "wire_progress W \<Longrightarrow> total_decoder W dec"
  by (simp add: total_decoder_def decode_top_returns)

end

lemma dec_loop_returns:
  assumes W: "wire_progress W" and h: "\<And>tag p m. p \<le> length buf \<Longrightarrow> goes_on buf p (h buf tag p m)"
    and p: "p \<le> length buf"
  shows "\<exists>r. dec_loop W h buf end_pos p m = Some r \<and>
             (\<forall>m q. r = Inr (m, q) \<longrightarrow> p \<le> q \<and> q \<le> length buf)"
  using p
proof (induction "length buf - p" arbitrary: p m rule: less_induct)
  case less
  have step: "\<exists>r. dec_loop W h buf end_pos q m' = Some r \<and>
      (\<forall>m q'. r = Inr (m, q') \<longrightarrow> p \<le> q' \<and> q' \<le> length buf)"
    if "p < q" "q \<le> length buf" for q m'
    using less.hyps [of q m'] that less.prems by fastforce
  show ?case
  proof (cases "p < end_pos")
    case True
    show ?thesis
    proof (cases "r_uint32 W buf p")
      case (Some tq)
      obtain tag q where tq: "tq = (tag, q)" by fastforce
      with W Some have q: "p < q" "q \<le> length buf" by (auto simp: wire_progress_def)
      obtain r where r: "h buf tag q m = Some r" "\<forall>m q'. r = Handled m q' \<longrightarrow> q \<le> q' \<and> q' \<le> length buf"
        using h [OF q(2), of tag m] unfolding goes_on_def by blast
      show ?thesis
      proof (cases r)
        case (Handled m' q')
        with r have "p < q'" "q' \<le> length buf" using q by auto
        from step [OF this] True Some tq r Handled show ?thesis
          by (subst dec_loop.simps) simp
      next
        case NotHandled
        show ?thesis
        proof (cases "r_skip W buf q (tag mod 8)")
          case (Some q')
          have "q \<le> q' \<and> q' \<le> length buf" using W Some unfolding wire_progress_def by blast
          then have "p < q'" "q' \<le> length buf" using q by auto
          from step [OF this] True \<open>r_uint32 W buf p = Some tq\<close> tq r NotHandled Some q show ?thesis
            by (subst dec_loop.simps) simp
        qed (use True Some tq r NotHandled q in \<open>subst dec_loop.simps, simp\<close>)
      qed (use True Some tq r in \<open>subst dec_loop.simps, simp\<close>)
    qed (use True in \<open>subst dec_loop.simps, simp\<close>)
  qed (use less.prems in \<open>subst dec_loop.simps, simp\<close>)
qed

lemma dec_loop_forward:
  assumes "wire_progress W" and "\<And>buf tag p m. goes_on buf p (h buf tag p m)"
  shows "returns_forward (\<lambda>buf pos len. dec_loop W h buf (pos + len) pos base)"
  unfolding returns_forward_def by (intro allI impI dec_loop_returns [OF assms(1)] assms(2))

lemma decode_message_returns:
  assumes "wire_progress W" and "\<And>r buf tag p m. goes_on buf p (h r buf tag p m)"
  shows "returns_forward (decode_message W h base rem)"
proof (cases rem)
  case (Suc r)
  then show ?thesis
    using dec_loop_forward [OF assms(1), of "h r" base] assms(2)
    unfolding decode_message_def returns_forward_def by simp
qed (simp add: decode_message_def returns_forward_def)

section \<open>Codecs read back what they wrote\<close>

locale codec = decoder_returns dec
  for dec :: "wire \<Rightarrow> nat \<Rightarrow> 'm decoder" +
  fixes enc :: "wire \<Rightarrow> 'm \<Rightarrow> byte list option" and valid :: "'m \<Rightarrow> bool" and depth :: "'m \<Rightarrow> nat"
  assumes enc_total: "wire_ok W \<Longrightarrow> valid m \<Longrightarrow> \<exists>b. enc W m = Some b"
    and dec_enc: "wire_ok W \<Longrightarrow> valid m \<Longrightarrow> enc W m = Some b \<Longrightarrow> small b \<Longrightarrow> depth m \<le> rem \<Longrightarrow>
      decodes (dec W rem) b m"
begin

lemma decode_top_enc:
  assumes "wire_ok W" "valid m" "enc W m = Some b" "small b" "depth m \<le> decode_limit"
  shows "decode_top (dec W) b = Some (Inr m)"
  using decodesD [OF dec_enc [OF assms], of "[]" "[]"] by (simp add: decode_top_def)

lemma sound: "wire_ok W \<Longrightarrow> sound_codec W dec enc valid depth"
  unfolding sound_codec_def using enc_total decode_top_enc by blast

lemma enc_injective:
  assumes "wire_ok W" "valid m" "valid m'" "depth m \<le> decode_limit" "depth m' \<le> decode_limit"
    and "enc W m = Some b" "enc W m' = Some b" "small b"
  shows "m = m'"
  using decode_top_enc [of W m b] decode_top_enc [of W m' b] assms by simp

end

text \<open>What a codec's proof has to show: the loop consumes the encoding.\<close>

lemma dec_loop_consumes:
  assumes "consumes W h b base m"
  shows "decodes (\<lambda>buf pos len. dec_loop W h buf (pos + len) pos base) b m"
  unfolding decodes_def
proof (intro allI)
  fix pre post :: "byte list"
  show "dec_loop W h (pre @ b @ post) (length pre + length b) (length pre) base =
      Some (Inr (m, length pre + length b))"
    unfolding consumesD [OF assms order.refl]
    by (simp add: dec_loop.simps [of W h _ _ "length pre + length b"])
qed

lemma decode_message_consumes:
  assumes "consumes W (h r) b base m" and "rem = Suc r"
  shows "decodes (decode_message W h base rem) b m"
  using dec_loop_consumes [OF assms(1)]
  unfolding decodes_def decode_message_def assms(2) nat.case .

text \<open>Totality of the field encoders.\<close>

lemma enc_fields_total: "\<forall>x \<in> set xs. \<exists>b. x = Some b \<Longrightarrow> \<exists>b. enc_fields xs = Some b"
  by (induction xs) auto

lemma field_total [simp]:
  "\<exists>b. f_string W tag s = Some b" "\<exists>b. f_bytes W tag bs = Some b" "\<exists>b. f_bool W tag x = Some b"
  "\<exists>b. f_opt_bytes W tag ob = Some b" "\<exists>b. f_rep_string W tag ss = Some b"
  by (simp_all add: f_string_def f_bytes_def f_bool_def f_opt_bytes_def f_rep_string_def
      enc_fields_total)

lemma int_field_total:
  "wire_ok W \<Longrightarrow> in_int32 i \<Longrightarrow> \<exists>b. f_int32 W tag i = Some b"
  "wire_ok W \<Longrightarrow> in_int64 j \<Longrightarrow> \<exists>b. f_int64 W tag j = Some b"
  using wire_ok_int32(2) wire_ok_int64(2) by (fastforce simp: f_int32_def f_int64_def)+

lemma msg_field_total:
  "(\<And>v. x = Some v \<Longrightarrow> \<exists>b. enc v = Some b) \<Longrightarrow> \<exists>b. f_msg W tag enc x = Some b"
  "(\<And>v. v \<in> set xs \<Longrightarrow> \<exists>b. enc v = Some b) \<Longrightarrow> \<exists>b. f_rep_msg W tag enc xs = Some b"
  by (fastforce simp: f_msg_def f_rep_msg_def split: option.split intro!: enc_fields_total)+

end
