(* ===== verification/StructCodec.thy ===== *)
theory StructCodec
  imports JsValue Codec
begin

text \<open>
  \<open>src/gen/google/protobuf/struct.ts\<close>: the codecs of \<open>Value\<close>, \<open>Struct\<close>, its map entries and
  \<open>ListValue\<close>, with \<open>wrap\<close> and \<open>unwrap\<close>. They call each other: a value may hold a structure or
  a list of values. The encoders recurse on the height of the value; the decoders on what is
  left of the recursion limit.
\<close>

section \<open>Messages\<close>

record Value =
  nullValue :: "int option"
  numberValue :: "64 word option"
  stringValue :: "string option"
  boolValue :: "bool option"
  structValue :: "obj option"
  listValue :: "js list option"

record Struct =
  struct_fields :: obj

record Struct_FieldsEntry =
  key :: string
  entry_value :: js

record ListValue =
  list_values :: "js list"

definition createBaseValue :: Value where
  "createBaseValue = \<lparr>nullValue = None, numberValue = None, stringValue = None, boolValue = None,
     structValue = None, listValue = None\<rparr>"

definition createBaseStruct :: Struct where
  "createBaseStruct = \<lparr>struct_fields = []\<rparr>"

definition createBaseStruct_FieldsEntry :: Struct_FieldsEntry where
  "createBaseStruct_FieldsEntry = \<lparr>key = '''', entry_value = JUndefined\<rparr>"

definition createBaseListValue :: ListValue where
  "createBaseListValue = \<lparr>list_values = []\<rparr>"

section \<open>wrap and unwrap\<close>

text \<open>\<open>None\<close>: the \<open>throw\<close> for an unsupported \<open>typeof\<close>.\<close>

fun Value_wrap :: "js \<Rightarrow> Value option" where
  "Value_wrap JNull = Some (createBaseValue\<lparr>nullValue := Some 0\<rparr>)"
| "Value_wrap (JBool x) = Some (createBaseValue\<lparr>boolValue := Some x\<rparr>)"
| "Value_wrap (JNumber n) = Some (createBaseValue\<lparr>numberValue := Some n\<rparr>)"
| "Value_wrap (JString s) = Some (createBaseValue\<lparr>stringValue := Some s\<rparr>)"
| "Value_wrap (JArray xs) = Some (createBaseValue\<lparr>listValue := Some xs\<rparr>)"
| "Value_wrap (JObject ob) = Some (createBaseValue\<lparr>structValue := Some ob\<rparr>)"
| "Value_wrap JUndefined = Some createBaseValue"
| "Value_wrap (JOther t) = None"

definition Value_unwrap :: "Value \<Rightarrow> js" where
  "Value_unwrap m =
     (case stringValue m of Some s \<Rightarrow> JString s | None \<Rightarrow>
      case numberValue m of Some n \<Rightarrow> JNumber n | None \<Rightarrow>
      case boolValue m of Some x \<Rightarrow> JBool x | None \<Rightarrow>
      case structValue m of Some ob \<Rightarrow> JObject ob | None \<Rightarrow>
      case listValue m of Some xs \<Rightarrow> JArray xs | None \<Rightarrow>
      case nullValue m of Some i \<Rightarrow> JNull | None \<Rightarrow> JUndefined)"

definition Struct_wrap :: "obj option \<Rightarrow> Struct" where
  "Struct_wrap ob = (case ob of None \<Rightarrow> createBaseStruct | Some o1 \<Rightarrow> \<lparr>struct_fields = obj_copy o1\<rparr>)"

definition Struct_unwrap :: "Struct \<Rightarrow> obj" where
  "Struct_unwrap s = obj_copy (struct_fields s)"

definition ListValue_wrap :: "js list option \<Rightarrow> ListValue" where
  "ListValue_wrap xs = \<lparr>list_values = (case xs of None \<Rightarrow> [] | Some ys \<Rightarrow> ys)\<rparr>"

definition ListValue_unwrap :: "ListValue \<Rightarrow> js list" where
  "ListValue_unwrap l = list_values l"

lemma Value_unwrap_wrap: "Value_wrap v = Some m \<Longrightarrow> Value_unwrap m = v"
  by (cases v) (auto simp: Value_unwrap_def createBaseValue_def)

lemma Value_wrap_total: "Value_wrap v = None \<longleftrightarrow> (\<exists>t. v = JOther t)"
  by (cases v) auto

section \<open>Heights\<close>

fun js_height :: "js \<Rightarrow> nat" where
  "js_height (JArray xs) = Suc (Max (insert 0 (js_height ` set xs)))"
| "js_height (JObject ob) = Suc (Max (insert 0 ((\<lambda>kv. js_height (snd kv)) ` set ob)))"
| "js_height _ = 1"

definition obj_height :: "obj \<Rightarrow> nat" where
  "obj_height ob = Max (insert 0 ((\<lambda>kv. js_height (snd kv)) ` set ob))"

definition list_height :: "js list \<Rightarrow> nat" where
  "list_height xs = Max (insert 0 (js_height ` set xs))"

definition value_height :: "Value \<Rightarrow> nat" where
  "value_height m =
     max (case structValue m of None \<Rightarrow> 0 | Some ob \<Rightarrow> obj_height ob)
         (case listValue m of None \<Rightarrow> 0 | Some xs \<Rightarrow> list_height xs)"

lemma value_height_wrap: "Value_wrap v = Some m \<Longrightarrow> value_height m < js_height v"
  by (cases v) (auto simp: value_height_def createBaseValue_def obj_height_def list_height_def)

lemma obj_height_member: "(k, v) \<in> set ob \<Longrightarrow> js_height v \<le> obj_height ob"
  unfolding obj_height_def by (rule Max_ge) force+

lemma list_height_member: "v \<in> set xs \<Longrightarrow> js_height v \<le> list_height xs"
  unfolding list_height_def by (rule Max_ge) auto

lemma obj_insert_values: "snd ` set (obj_insert k v ob) \<subseteq> insert v (snd ` set ob)"
  by (induction k v ob rule: obj_insert.induct) auto

lemma obj_overwrite_values:
  "snd ` set (map (\<lambda>(l, w). if l = k then (l, v) else (l, w)) ob) \<subseteq> insert v (snd ` set ob)"
  unfolding set_map image_image
proof (rule image_subsetI)
  fix x
  assume "x \<in> set ob"
  then have "snd x \<in> snd ` set ob" by (rule imageI)
  then show "snd (case x of (l, w) \<Rightarrow> if l = k then (l, v) else (l, w)) \<in> insert v (snd ` set ob)"
    by (cases x) auto
qed

lemma obj_set_values: "snd ` set (obj_set k v ob) \<subseteq> insert v (snd ` set ob)"
  using obj_insert_values [of k v ob] obj_overwrite_values [of k v ob]
  unfolding obj_set_def by (simp add: subset_insertI del: set_map)

lemma fold_obj_set_values:
  "snd ` set (fold (\<lambda>(k, v). obj_set k v) new ob) \<subseteq> snd ` set ob \<union> snd ` set new"
proof (induction new arbitrary: ob)
  case (Cons kv new)
  obtain k v where kv: "kv = (k, v)" by fastforce
  have "snd ` set (fold (\<lambda>(k, v). obj_set k v) new (obj_set k v ob)) \<subseteq>
      snd ` set (obj_set k v ob) \<union> snd ` set new" by (rule Cons.IH)
  also have "\<dots> \<subseteq> snd ` set ob \<union> snd ` set (kv # new)"
    using obj_set_values [of k v ob] kv by auto
  finally show ?case by (simp add: kv)
qed simp

lemma obj_copy_values: "snd ` set (obj_copy ob) \<subseteq> snd ` set ob"
  unfolding obj_copy_def using fold_obj_set_values [of ob "[]"] by simp

lemma obj_height_alt: "obj_height ob = Max (insert 0 (js_height ` (snd ` set ob)))"
  by (simp add: obj_height_def image_image)

lemma obj_height_copy: "obj_height (obj_copy ob) \<le> obj_height ob"
  unfolding obj_height_alt by (intro Max_mono insert_mono image_mono obj_copy_values) auto

lemma obj_height_wrap: "obj_height (struct_fields (Struct_wrap (Some ob))) \<le> obj_height ob"
  by (simp add: Struct_wrap_def obj_height_copy)

section \<open>encode\<close>

text \<open>A field of type \<open>any\<close>: written unless \<open>undefined\<close>.\<close>

definition f_any :: "wire \<Rightarrow> nat \<Rightarrow> (js \<Rightarrow> byte list option) \<Rightarrow> js \<Rightarrow> byte list option" where
  "f_any W tag enc v =
     (if v \<noteq> JUndefined then map_option (\<lambda>b. w_uint32 W tag @ w_join W b) (enc v) else Some [])"

lemma f_msg_cong [fundef_cong]:
  "W = W' \<Longrightarrow> tag = tag' \<Longrightarrow> x = x' \<Longrightarrow> (\<And>v. x' = Some v \<Longrightarrow> enc v = enc' v) \<Longrightarrow>
   f_msg W tag enc x = f_msg W' tag' enc' x'"
  by (cases x') (auto simp: f_msg_def)

lemma f_any_cong [fundef_cong]:
  "W = W' \<Longrightarrow> tag = tag' \<Longrightarrow> v = v' \<Longrightarrow> (v' \<noteq> JUndefined \<Longrightarrow> enc v' = enc' v') \<Longrightarrow>
   f_any W tag enc v = f_any W' tag' enc' v'"
  by (auto simp: f_any_def)

lemma f_rep_msg_cong [fundef_cong]:
  "W = W' \<Longrightarrow> tag = tag' \<Longrightarrow> xs = xs' \<Longrightarrow> (\<And>v. v \<in> set xs' \<Longrightarrow> enc v = enc' v) \<Longrightarrow>
   f_rep_msg W tag enc xs = f_rep_msg W' tag' enc' xs'"
  unfolding f_rep_msg_def by (auto intro!: arg_cong [where f = enc_fields])

lemma f_opt_field_cong [fundef_cong]:
  "x = x' \<Longrightarrow> (\<And>v. x' = Some v \<Longrightarrow> f v = f' v) \<Longrightarrow> Option.bind x f = Option.bind x' f'"
  by (cases x') auto

definition f_opt :: "('v \<Rightarrow> byte list option) \<Rightarrow> 'v option \<Rightarrow> byte list option" where
  "f_opt enc x = (case x of None \<Rightarrow> Some [] | Some v \<Rightarrow> enc v)"

function (sequential)
  Value_encode :: "wire \<Rightarrow> Value \<Rightarrow> byte list option" and
  Struct_encode :: "wire \<Rightarrow> Struct \<Rightarrow> byte list option" and
  Struct_FieldsEntry_encode :: "wire \<Rightarrow> Struct_FieldsEntry \<Rightarrow> byte list option" and
  ListValue_encode :: "wire \<Rightarrow> ListValue \<Rightarrow> byte list option"
where
  "Value_encode W m = enc_fields
     [f_opt (\<lambda>i. map_option (\<lambda>b. w_uint32 W 8 @ b) (w_int32 W i)) (nullValue m),
      f_opt (\<lambda>d. Some (w_uint32 W 17 @ w_double W d)) (numberValue m),
      f_opt (\<lambda>s. Some (w_uint32 W 26 @ w_string W s)) (stringValue m),
      f_opt (\<lambda>x. Some (w_uint32 W 32 @ w_bool W x)) (boolValue m),
      f_msg W 42 (\<lambda>ob. Struct_encode W (Struct_wrap (Some ob))) (structValue m),
      f_msg W 50 (\<lambda>xs. ListValue_encode W (ListValue_wrap (Some xs))) (listValue m)]"
| "Struct_encode W s = enc_fields (map
     (\<lambda>(k, v). if v \<noteq> JUndefined
               then map_option (\<lambda>b. w_uint32 W 10 @ w_join W b)
                      (Struct_FieldsEntry_encode W \<lparr>key = k, entry_value = v\<rparr>)
               else Some [])
     (struct_fields s))"
| "Struct_FieldsEntry_encode W e = enc_fields
     [f_string W 10 (key e),
      f_any W 18 (\<lambda>v. Option.bind (Value_wrap v) (\<lambda>m. Value_encode W m)) (entry_value e)]"
| "ListValue_encode W l =
     f_rep_msg W 10 (\<lambda>v. Option.bind (Value_wrap v) (\<lambda>m. Value_encode W m)) (list_values l)"
  by pat_completeness auto
termination
proof (relation "measure (\<lambda>x. case x of
      Inl (Inl (W, m)) \<Rightarrow> 4 * value_height m + 3
    | Inl (Inr (W, s)) \<Rightarrow> 4 * obj_height (struct_fields s) + 2
    | Inr (Inl (W, e)) \<Rightarrow> 4 * js_height (entry_value e) + 1
    | Inr (Inr (W, l)) \<Rightarrow> 4 * list_height (list_values l) + 2)", goal_cases)
  case (2 W m ob)
  then show ?case using obj_height_wrap [of ob] by (simp add: value_height_def)
next
  case (3 W m xs)
  then show ?case by (simp add: value_height_def ListValue_wrap_def)
next
  case (4 W s kv k v)
  then show ?case using obj_height_member [of k v "struct_fields s"] by simp
next
  case (5 W e m)
  then show ?case using value_height_wrap [of "entry_value e" m] by simp
next
  case (6 W l v m)
  then show ?case
    using value_height_wrap [of v m] list_height_member [of v "list_values l"] by simp
qed simp_all

declare Value_encode.simps [simp del] Struct_encode.simps [simp del]
  Struct_FieldsEntry_encode.simps [simp del] ListValue_encode.simps [simp del]

text \<open>\<open>Value.encode(Value.wrap(v))\<close>.\<close>

definition any_encode :: "wire \<Rightarrow> js \<Rightarrow> byte list option" where
  "any_encode W v = Option.bind (Value_wrap v) (\<lambda>m. Value_encode W m)"

section \<open>decode\<close>

definition Value_field ::
  "wire \<Rightarrow> Struct decoder \<Rightarrow> ListValue decoder \<Rightarrow> Value handler" where
  "Value_field W dec_struct dec_list buf tag p m =
     (if tag = 8 then rd (r_int32 W) buf p (\<lambda>v. m\<lparr>nullValue := Some v\<rparr>)
      else if tag = 17 then rd (r_double W) buf p (\<lambda>v. m\<lparr>numberValue := Some v\<rparr>)
      else if tag = 26 then rd (r_string W) buf p (\<lambda>v. m\<lparr>stringValue := Some v\<rparr>)
      else if tag = 32 then rd (r_bool W) buf p (\<lambda>v. m\<lparr>boolValue := Some v\<rparr>)
      else if tag = 42 then rd_msg W dec_struct buf p (\<lambda>s. m\<lparr>structValue := Some (Struct_unwrap s)\<rparr>)
      else if tag = 50 then rd_msg W dec_list buf p (\<lambda>l. m\<lparr>listValue := Some (ListValue_unwrap l)\<rparr>)
      else Some NotHandled)"

definition Struct_field :: "wire \<Rightarrow> Struct_FieldsEntry decoder \<Rightarrow> Struct handler" where
  "Struct_field W dec_entry buf tag p m =
     (if tag = 10 then rd_msg W dec_entry buf p
         (\<lambda>e. if entry_value e \<noteq> JUndefined
              then m\<lparr>struct_fields := obj_set (key e) (entry_value e) (struct_fields m)\<rparr> else m)
      else Some NotHandled)"

definition Struct_FieldsEntry_field :: "wire \<Rightarrow> Value decoder \<Rightarrow> Struct_FieldsEntry handler" where
  "Struct_FieldsEntry_field W dec_value buf tag p m =
     (if tag = 10 then rd (r_string W) buf p (\<lambda>v. m\<lparr>key := v\<rparr>)
      else if tag = 18 then rd_msg W dec_value buf p (\<lambda>v. m\<lparr>entry_value := Value_unwrap v\<rparr>)
      else Some NotHandled)"

definition ListValue_field :: "wire \<Rightarrow> Value decoder \<Rightarrow> ListValue handler" where
  "ListValue_field W dec_value buf tag p m =
     (if tag = 10 then rd_msg W dec_value buf p
         (\<lambda>v. m\<lparr>list_values := list_values m @ [Value_unwrap v]\<rparr>)
      else Some NotHandled)"

fun Value_dec :: "wire \<Rightarrow> nat \<Rightarrow> Value decoder"
and Struct_dec :: "wire \<Rightarrow> nat \<Rightarrow> Struct decoder"
and Struct_FieldsEntry_dec :: "wire \<Rightarrow> nat \<Rightarrow> Struct_FieldsEntry decoder"
and ListValue_dec :: "wire \<Rightarrow> nat \<Rightarrow> ListValue decoder"
where
  "Value_dec W 0 = (\<lambda>buf pos len. Some (Inl RecursionLimit))"
| "Value_dec W (Suc r) = (\<lambda>buf pos len.
     dec_loop W (Value_field W (Struct_dec W r) (ListValue_dec W r)) buf (pos + len) pos createBaseValue)"
| "Struct_dec W 0 = (\<lambda>buf pos len. Some (Inl RecursionLimit))"
| "Struct_dec W (Suc r) = (\<lambda>buf pos len.
     dec_loop W (Struct_field W (Struct_FieldsEntry_dec W r)) buf (pos + len) pos createBaseStruct)"
| "Struct_FieldsEntry_dec W 0 = (\<lambda>buf pos len. Some (Inl RecursionLimit))"
| "Struct_FieldsEntry_dec W (Suc r) = (\<lambda>buf pos len.
     dec_loop W (Struct_FieldsEntry_field W (Value_dec W r)) buf (pos + len) pos
       createBaseStruct_FieldsEntry)"
| "ListValue_dec W 0 = (\<lambda>buf pos len. Some (Inl RecursionLimit))"
| "ListValue_dec W (Suc r) = (\<lambda>buf pos len.
     dec_loop W (ListValue_field W (Value_dec W r)) buf (pos + len) pos createBaseListValue)"

section \<open>The decoders return\<close>

lemma goes_on_fields:
  assumes "wire_progress W"
  shows
    "returns_forward ds \<Longrightarrow> returns_forward dl \<Longrightarrow> goes_on buf p (Value_field W ds dl buf tag p m)"
    "returns_forward de \<Longrightarrow> goes_on buf p (Struct_field W de buf tag p s)"
    "returns_forward dv \<Longrightarrow> goes_on buf p (Struct_FieldsEntry_field W dv buf tag p e)"
    "returns_forward dv \<Longrightarrow> goes_on buf p (ListValue_field W dv buf tag p l)"
  using assms
  by (auto simp: Value_field_def Struct_field_def Struct_FieldsEntry_field_def ListValue_field_def
      wire_progress_def intro!: goes_on_rd goes_on_rd_msg [OF assms])

lemma struct_decoders_return:
  assumes "wire_progress W"
  shows "returns_forward (Value_dec W r) \<and> returns_forward (Struct_dec W r) \<and>
         returns_forward (Struct_FieldsEntry_dec W r) \<and> returns_forward (ListValue_dec W r)"
proof (induction r)
  case 0
  show ?case by (simp add: returns_forward_def)
next
  case (Suc r)
  then show ?case by (auto intro!: dec_loop_forward [OF assms] goes_on_fields [OF assms])
qed

section \<open>The decoders read back what the encoders wrote\<close>

definition value_reads_back :: "wire \<Rightarrow> nat \<Rightarrow> bool" where
  "value_reads_back W r \<longleftrightarrow>
     (\<forall>v m b. wf_js v \<longrightarrow> Value_wrap v = Some m \<longrightarrow> Value_encode W m = Some b \<longrightarrow> small b \<longrightarrow>
        js_depth v \<le> r \<longrightarrow> decodes (Value_dec W r) b m)"

lemma value_reads_backD:
  "value_reads_back W r \<Longrightarrow> wf_js v \<Longrightarrow> Value_wrap v = Some m \<Longrightarrow> Value_encode W m = Some b \<Longrightarrow>
   small b \<Longrightarrow> js_depth v \<le> r \<Longrightarrow> decodes (Value_dec W r) b m"
  by (simp add: value_reads_back_def)

lemma any_reads_back:
  "value_reads_back W r \<Longrightarrow> wf_js v \<Longrightarrow> any_encode W v = Some b \<Longrightarrow> small b \<Longrightarrow> js_depth v \<le> r \<Longrightarrow>
   \<exists>m. decodes (Value_dec W r) b m \<and> Value_unwrap m = v"
  by (auto simp: any_encode_def bind_eq_Some_conv intro: value_reads_backD Value_unwrap_wrap)

lemma any_encode_fold: "(\<lambda>v. Option.bind (Value_wrap v) (\<lambda>m. Value_encode W m)) = any_encode W"
  by (simp add: any_encode_def fun_eq_iff)

lemma consumes_any:
  assumes "f_any W tag (any_encode W) v = Some b" and "wire_ok W" and "small b" and "tag < 2 ^ 32"
    and "value_reads_back W r" and "wf_js v" and "js_depth v \<le> r"
    and "\<And>buf p. h buf tag p m = rd_msg W (Value_dec W r) buf p (\<lambda>w. upd (Value_unwrap w) m)"
    and "upd JUndefined m = m"
  shows "consumes W h b m (upd v m)"
proof (cases "v = JUndefined")
  case False
  with assms(1) obtain vb where b: "b = w_uint32 W tag @ w_join W vb" and vb: "any_encode W v = Some vb"
    by (auto simp: f_any_def)
  have sv: "small vb" using small_join [OF assms(2)] assms(3) b by blast
  obtain w where w: "decodes (Value_dec W r) vb w" "Value_unwrap w = v"
    using any_reads_back [OF assms(5,6) vb sv assms(7)] by blast
  show ?thesis
    unfolding b
    using consumes_nested [OF assms(2,4) sv w(1), of h m "\<lambda>w. upd (Value_unwrap w) m"] assms(8) w(2)
    by simp
qed (use assms in \<open>simp add: f_any_def\<close>)

lemma entry_reads_back:
  assumes W: "wire_ok W" and V: "value_reads_back W r"
    and b: "Struct_FieldsEntry_encode W \<lparr>key = k, entry_value = v\<rparr> = Some b" "small b"
    and v: "wf_js v" "js_depth v \<le> r"
  shows "decodes (Struct_FieldsEntry_dec W (Suc r)) b \<lparr>key = k, entry_value = v\<rparr>"
proof -
  let ?h = "Struct_FieldsEntry_field W (Value_dec W r)"
  have "consumes W ?h b createBaseStruct_FieldsEntry \<lparr>key = k, entry_value = v\<rparr>"
  proof (rule consumes_enc_Cons)
    show "enc_fields (f_string W 10 k # [f_any W 18 (any_encode W) v]) = Some b"
      using b(1) by (simp add: Struct_FieldsEntry_encode.simps any_encode_fold)
    show "consumes W ?h b1 createBaseStruct_FieldsEntry (createBaseStruct_FieldsEntry\<lparr>key := k\<rparr>)"
      if "f_string W 10 k = Some b1" "small b1" for b1
      using consumes_string [OF that(1) W that(2), of ?h createBaseStruct_FieldsEntry "\<lambda>v m. m\<lparr>key := v\<rparr>"]
      by (simp add: Struct_FieldsEntry_field_def createBaseStruct_FieldsEntry_def)
    show "consumes W ?h b2 (createBaseStruct_FieldsEntry\<lparr>key := k\<rparr>) \<lparr>key = k, entry_value = v\<rparr>"
      if "enc_fields [f_any W 18 (any_encode W) v] = Some b2" "small b2" for b2
    proof -
      from that(1) have "f_any W 18 (any_encode W) v = Some b2" by (cases "f_any W 18 (any_encode W) v") auto
      from consumes_any [OF this W that(2) _ V v, of ?h
            "createBaseStruct_FieldsEntry\<lparr>key := k\<rparr>" "\<lambda>v m. m\<lparr>entry_value := v\<rparr>"]
      show ?thesis by (simp add: Struct_FieldsEntry_field_def createBaseStruct_FieldsEntry_def)
    qed
  qed (rule b(2))
  from dec_loop_consumes [OF this] show ?thesis by simp
qed

lemma struct_entries_consumed:
  assumes W: "wire_ok W" and V: "value_reads_back W r"
    and b: "enc_fields (map (\<lambda>(k, v). if v \<noteq> JUndefined
               then map_option (\<lambda>b. w_uint32 W 10 @ w_join W b)
                      (Struct_FieldsEntry_encode W \<lparr>key = k, entry_value = v\<rparr>)
               else Some []) ob) = Some b" "small b"
    and ob: "canonical (map fst (done1 @ ob))"
      "\<forall>kv \<in> set ob. snd kv \<noteq> JUndefined \<and> wf_js (snd kv) \<and> js_depth (snd kv) \<le> r"
  shows "consumes W (Struct_field W (Struct_FieldsEntry_dec W (Suc r))) b
           \<lparr>struct_fields = done1\<rparr> \<lparr>struct_fields = done1 @ ob\<rparr>"
  using b ob
proof (induction ob arbitrary: done1 b)
  case (Cons kv ob)
  let ?h = "Struct_field W (Struct_FieldsEntry_dec W (Suc r))"
  let ?one = "\<lambda>(k, v). if v \<noteq> JUndefined
               then map_option (\<lambda>b. w_uint32 W 10 @ w_join W b)
                      (Struct_FieldsEntry_encode W \<lparr>key = k, entry_value = v\<rparr>)
               else Some []"
  obtain k v where kv: "kv = (k, v)" by fastforce
  show ?case
  proof (rule consumes_enc_Cons [where mid = "\<lparr>struct_fields = done1 @ [kv]\<rparr>"])
    show "enc_fields (?one kv # map ?one ob) = Some b" using Cons.prems(1) by simp
    show "consumes W ?h b1 \<lparr>struct_fields = done1\<rparr> \<lparr>struct_fields = done1 @ [kv]\<rparr>"
      if one: "?one kv = Some b1" and "small b1" for b1
    proof -
      have v: "v \<noteq> JUndefined" "wf_js v" "js_depth v \<le> r" using Cons.prems(4) kv by auto
      with one obtain vb where b1: "b1 = w_uint32 W 10 @ w_join W vb"
        and vb: "Struct_FieldsEntry_encode W \<lparr>key = k, entry_value = v\<rparr> = Some vb"
        by (auto simp: kv)
      have sv: "small vb" using small_join [OF W] that(2) b1 by blast
      have "canonical (map fst (done1 @ [(k, v)]))"
        using Cons.prems(3) by (auto simp: kv canonical_append)
      then have "obj_set k v done1 = done1 @ [kv]" by (simp only: obj_set_append kv)
      then show ?thesis
        unfolding b1
        using consumes_nested [OF W _ sv entry_reads_back [OF W V vb sv v(2,3)], of 10 ?h
            "\<lparr>struct_fields = done1\<rparr>" "\<lambda>e. if entry_value e \<noteq> JUndefined
              then \<lparr>struct_fields = done1\<rparr>
                \<lparr>struct_fields := obj_set (key e) (entry_value e) (struct_fields \<lparr>struct_fields = done1\<rparr>)\<rparr>
              else \<lparr>struct_fields = done1\<rparr>"] v(1)
        by (simp add: Struct_field_def del: Struct_FieldsEntry_dec.simps)
    qed
    show "consumes W ?h b2 \<lparr>struct_fields = done1 @ [kv]\<rparr> \<lparr>struct_fields = done1 @ kv # ob\<rparr>"
      if "enc_fields (map ?one ob) = Some b2" "small b2" for b2
      using Cons.IH [OF that, of "done1 @ [kv]"] Cons.prems(3,4) by simp
  qed (rule Cons.prems(2))
qed simp

lemma struct_reads_back:
  assumes W: "wire_ok W" and V: "\<And>r'. Suc (Suc r') = r \<Longrightarrow> value_reads_back W r'"
    and b: "Struct_encode W \<lparr>struct_fields = ob\<rparr> = Some b" "small b"
    and ob: "wf_obj ob" "obj_depth ob \<le> r"
  shows "decodes (Struct_dec W r) b \<lparr>struct_fields = ob\<rparr>"
proof (cases "ob = []")
  case True
  with b(1) have "b = []" by (simp add: Struct_encode.simps)
  moreover obtain r' where "r = Suc r'" using ob(2) True by (cases r) (auto simp: obj_depth_def)
  ultimately show ?thesis
    using dec_loop_consumes [OF consumes_Nil] True by (simp add: createBaseStruct_def)
next
  case False
  then obtain r' where r: "r = Suc (Suc r')"
    using ob(2) by (cases r; cases "r - 1") (auto simp: obj_depth_def)
  have d: "js_depth (snd kv) \<le> r'" if "kv \<in> set ob" for kv
    using ob(2) False r that by (auto simp: obj_depth_def)
  have "consumes W (Struct_field W (Struct_FieldsEntry_dec W (Suc r'))) b
      \<lparr>struct_fields = []\<rparr> \<lparr>struct_fields = [] @ ob\<rparr>"
    by (rule struct_entries_consumed [OF W V [OF r [symmetric]]])
       (use b ob d in \<open>auto simp: Struct_encode.simps wf_obj_def\<close>)
  from dec_loop_consumes [OF this] show ?thesis by (simp add: r createBaseStruct_def)
qed

lemma list_reads_back:
  assumes W: "wire_ok W" and V: "value_reads_back W r"
    and b: "ListValue_encode W \<lparr>list_values = xs\<rparr> = Some b" "small b"
    and xs: "\<forall>x \<in> set xs. wf_js x \<and> js_depth x \<le> r"
  shows "decodes (ListValue_dec W (Suc r)) b \<lparr>list_values = xs\<rparr>"
proof -
  let ?h = "ListValue_field W (Value_dec W r)"
  let ?add = "\<lambda>v m. m\<lparr>list_values := list_values m @ [v]\<rparr>"
  have "f_rep_msg W 10 (any_encode W) xs = Some b"
    using b(1) by (simp add: ListValue_encode.simps any_encode_fold)
  then have "consumes W ?h b createBaseListValue (fold ?add xs createBaseListValue)"
  proof (rule consumes_rep_msg [where d = "Value_dec W r" and un = Value_unwrap])
    fix v vb
    assume "v \<in> set xs" "any_encode W v = Some vb" "small vb"
    then show "\<exists>w. decodes (Value_dec W r) vb w \<and> Value_unwrap w = v"
      using any_reads_back [OF V] xs by blast
  qed (use W b in \<open>simp_all add: ListValue_field_def\<close>)
  moreover have "fold ?add xs m = m\<lparr>list_values := list_values m @ xs\<rparr>" for m :: ListValue
    by (induction xs arbitrary: m) auto
  ultimately have "consumes W ?h b createBaseListValue \<lparr>list_values = xs\<rparr>"
    by (simp add: createBaseListValue_def)
  from dec_loop_consumes [OF this] show ?thesis by simp
qed

lemma enc_fields_None [simp]: "enc_fields (f_opt e None # xs) = enc_fields xs"
  "enc_fields (f_msg W t e' None # xs) = enc_fields xs"
  by (cases "enc_fields xs"; simp add: f_opt_def f_msg_def)+

lemma single_reads_back:
  assumes "wire_ok W" and "enc_fields [x] = Some b"
    and "x = Some b \<Longrightarrow> consumes W (Value_field W (Struct_dec W r) (ListValue_dec W r)) b createBaseValue m"
  shows "decodes (Value_dec W (Suc r)) b m"
proof -
  from assms(2) have "x = Some b" by (cases x) auto
  from dec_loop_consumes [OF assms(3) [OF this]] show ?thesis by simp
qed


lemma enc_fields_tail:
  "enc_fields (y # ys) = Some [] \<Longrightarrow> enc_fields (x # y # ys) = enc_fields [x]"
  by (cases x) auto

lemma Value_encode_wrap:
  "Value_encode W (createBaseValue\<lparr>nullValue := Some 0\<rparr>) =
     enc_fields [map_option (\<lambda>b. w_uint32 W 8 @ b) (w_int32 W 0)]"
  "Value_encode W (createBaseValue\<lparr>numberValue := Some d\<rparr>) =
     enc_fields [Some (w_uint32 W 17 @ w_double W d)]"
  "Value_encode W (createBaseValue\<lparr>stringValue := Some s\<rparr>) =
     enc_fields [Some (w_uint32 W 26 @ w_string W s)]"
  "Value_encode W (createBaseValue\<lparr>boolValue := Some x\<rparr>) =
     enc_fields [Some (w_uint32 W 32 @ w_bool W x)]"
  "Value_encode W (createBaseValue\<lparr>structValue := Some ob\<rparr>) =
     enc_fields [f_msg W 42 (\<lambda>ob. Struct_encode W (Struct_wrap (Some ob))) (Some ob)]"
  "Value_encode W (createBaseValue\<lparr>listValue := Some xs\<rparr>) =
     enc_fields [f_msg W 50 (\<lambda>xs. ListValue_encode W (ListValue_wrap (Some xs))) (Some xs)]"
  "Value_encode W createBaseValue = enc_fields []"
  by (simp_all add: Value_encode.simps createBaseValue_def f_opt_def [of _ "Some _"] enc_fields_tail
      del: enc_fields.simps(3))

lemma value_reads_back_step:
  assumes W: "wire_ok W" and IH: "\<And>r'. r' < r \<Longrightarrow> value_reads_back W r'"
  shows "value_reads_back W r"
  unfolding value_reads_back_def
proof (intro allI impI)
  fix v m b
  assume v: "wf_js v" "Value_wrap v = Some m" "Value_encode W m = Some b" "small b" "js_depth v \<le> r"
  obtain r1 where r: "r = Suc r1" using v(5) by (cases r; cases v) auto
  note single = single_reads_back [OF W, of _ b r1 m]
  show "decodes (Value_dec W r) b m" unfolding r
  proof (cases v)
    case JUndefined
    then have "m = createBaseValue" "b = []" using v by (auto simp: Value_encode_wrap)
    then show "decodes (Value_dec W (Suc r1)) b m"
      using dec_loop_consumes [OF consumes_Nil] by simp
  next
    case JNull
    then have m: "m = createBaseValue\<lparr>nullValue := Some 0\<rparr>" using v by simp
    show "decodes (Value_dec W (Suc r1)) b m"
    proof (rule single)
      show "enc_fields [map_option (\<lambda>b. w_uint32 W 8 @ b) (w_int32 W 0)] = Some b"
        using v(3) by (simp only: m Value_encode_wrap)
      assume "map_option (\<lambda>b. w_uint32 W 8 @ b) (w_int32 W 0) = Some b"
      then obtain b0 where b0: "b = w_uint32 W 8 @ b0" "w_int32 W 0 = Some b0" by auto
      show "consumes W (Value_field W (Struct_dec W r1) (ListValue_dec W r1)) b createBaseValue m"
        unfolding b0 m
        by (rule consumes_rd [OF W _ wire_ok_int32(1) [OF W b0(2)]]) (simp_all add: Value_field_def)
    qed
  next
    case (JNumber d)
    then have m: "m = createBaseValue\<lparr>numberValue := Some d\<rparr>" using v by simp
    show "decodes (Value_dec W (Suc r1)) b m"
    proof (rule single)
      show "enc_fields [Some (w_uint32 W 17 @ w_double W d)] = Some b"
        using v(3) by (simp only: m Value_encode_wrap)
      assume "Some (w_uint32 W 17 @ w_double W d) = Some b"
      then have b: "b = w_uint32 W 17 @ w_double W d" by simp
      show "consumes W (Value_field W (Struct_dec W r1) (ListValue_dec W r1)) b createBaseValue m"
        unfolding b m
        by (rule consumes_rd [OF W _ wire_ok_plain(2) [OF W]]) (simp_all add: Value_field_def)
    qed
  next
    case (JString s)
    then have m: "m = createBaseValue\<lparr>stringValue := Some s\<rparr>" using v by simp
    show "decodes (Value_dec W (Suc r1)) b m"
    proof (rule single)
      show "enc_fields [Some (w_uint32 W 26 @ w_string W s)] = Some b"
        using v(3) by (simp only: m Value_encode_wrap)
      assume "Some (w_uint32 W 26 @ w_string W s) = Some b"
      then have b: "b = w_uint32 W 26 @ w_string W s" by simp
      have sm: "small (w_string W s)" using v(4) b small_append by blast
      show "consumes W (Value_field W (Struct_dec W r1) (ListValue_dec W r1)) b createBaseValue m"
        unfolding b m
        by (rule consumes_rd [OF W _ wire_ok_plain(3) [OF W sm]]) (simp_all add: Value_field_def)
    qed
  next
    case (JBool x)
    then have m: "m = createBaseValue\<lparr>boolValue := Some x\<rparr>" using v by simp
    show "decodes (Value_dec W (Suc r1)) b m"
    proof (rule single)
      show "enc_fields [Some (w_uint32 W 32 @ w_bool W x)] = Some b"
        using v(3) by (simp only: m Value_encode_wrap)
      assume "Some (w_uint32 W 32 @ w_bool W x) = Some b"
      then have b: "b = w_uint32 W 32 @ w_bool W x" by simp
      show "consumes W (Value_field W (Struct_dec W r1) (ListValue_dec W r1)) b createBaseValue m"
        unfolding b m
        by (rule consumes_rd [OF W _ wire_ok_plain(1) [OF W]]) (simp_all add: Value_field_def)
    qed
  next
    case (JObject ob)
    then have m: "m = createBaseValue\<lparr>structValue := Some ob\<rparr>" using v by simp
    have copy: "Struct_wrap (Some ob) = \<lparr>struct_fields = ob\<rparr>" "obj_copy ob = ob"
      using v(1) JObject by (simp_all add: Struct_wrap_def obj_copy_canonical)
    show "decodes (Value_dec W (Suc r1)) b m"
    proof (rule single)
      let ?f = "f_msg W 42 (\<lambda>ob. Struct_encode W (Struct_wrap (Some ob))) (Some ob)"
      show "enc_fields [?f] = Some b" using v(3) by (simp only: m Value_encode_wrap)
      assume "?f = Some b"
      then obtain vb where b: "b = w_uint32 W 42 @ w_join W vb"
        and vb: "Struct_encode W \<lparr>struct_fields = ob\<rparr> = Some vb"
        by (auto simp: f_msg_def copy)
      have sm: "small vb" using small_join [OF W] v(4) b by blast
      have "decodes (Struct_dec W r1) vb \<lparr>struct_fields = ob\<rparr>"
        by (rule struct_reads_back [OF W IH vb sm])
           (use v(1,5) JObject r in \<open>auto simp: wf_obj_def obj_depth_def\<close>)
      from consumes_nested [OF W _ sm this, of 42
          "Value_field W (Struct_dec W r1) (ListValue_dec W r1)" createBaseValue
          "\<lambda>s. createBaseValue\<lparr>structValue := Some (Struct_unwrap s)\<rparr>"]
      show "consumes W (Value_field W (Struct_dec W r1) (ListValue_dec W r1)) b createBaseValue m"
        unfolding b m by (simp add: Value_field_def Struct_unwrap_def copy)
    qed
  next
    case (JArray xs)
    then have m: "m = createBaseValue\<lparr>listValue := Some xs\<rparr>" using v by simp
    obtain r2 where r1: "r1 = Suc r2" using v(5) JArray r by (cases r1) auto
    show "decodes (Value_dec W (Suc r1)) b m"
    proof (rule single)
      let ?f = "f_msg W 50 (\<lambda>xs. ListValue_encode W (ListValue_wrap (Some xs))) (Some xs)"
      show "enc_fields [?f] = Some b" using v(3) by (simp only: m Value_encode_wrap)
      assume "?f = Some b"
      then obtain vb where b: "b = w_uint32 W 50 @ w_join W vb"
        and vb: "ListValue_encode W \<lparr>list_values = xs\<rparr> = Some vb"
        by (auto simp: f_msg_def ListValue_wrap_def)
      have sm: "small vb" using small_join [OF W] v(4) b by blast
      have "decodes (ListValue_dec W r1) vb \<lparr>list_values = xs\<rparr>"
        unfolding r1
        by (rule list_reads_back [OF W IH vb sm]) (use v(1,5) JArray r r1 in auto)
      from consumes_nested [OF W _ sm this, of 50
          "Value_field W (Struct_dec W r1) (ListValue_dec W r1)" createBaseValue
          "\<lambda>l. createBaseValue\<lparr>listValue := Some (ListValue_unwrap l)\<rparr>"]
      show "consumes W (Value_field W (Struct_dec W r1) (ListValue_dec W r1)) b createBaseValue m"
        unfolding b m by (simp add: Value_field_def ListValue_unwrap_def)
    qed
  qed (use v(2) in simp)
qed

lemma value_reads_back: "wire_ok W \<Longrightarrow> value_reads_back W r"
  by (induction r rule: less_induct) (rule value_reads_back_step)


section \<open>Every well-formed value can be encoded\<close>

lemma enc_fields_single: "enc_fields [x] = x"
  by (cases x) auto

lemma any_encode_simps:
  "any_encode W (JArray xs) =
     map_option (\<lambda>b. w_uint32 W 50 @ w_join W b) (f_rep_msg W 10 (any_encode W) xs)"
  "any_encode W (JObject ob) =
     map_option (\<lambda>b. w_uint32 W 42 @ w_join W b) (Struct_encode W (Struct_wrap (Some ob)))"
  "any_encode W (JNumber d) = Some (w_uint32 W 17 @ w_double W d)"
  "any_encode W (JString s) = Some (w_uint32 W 26 @ w_string W s)"
  "any_encode W (JBool x) = Some (w_uint32 W 32 @ w_bool W x)"
  "any_encode W JNull = map_option (\<lambda>b. w_uint32 W 8 @ b) (w_int32 W 0)"
  "any_encode W JUndefined = Some []"
  "any_encode W (JOther t) = None"
proof -
  have rep: "ListValue_encode W \<lparr>list_values = xs\<rparr> = f_rep_msg W 10 (any_encode W) xs"
    by (simp add: ListValue_encode.simps any_encode_fold)
  show "any_encode W (JArray xs) =
      map_option (\<lambda>b. w_uint32 W 50 @ w_join W b) (f_rep_msg W 10 (any_encode W) xs)"
    unfolding rep [symmetric]
    by (simp add: any_encode_def Value_encode_wrap f_msg_def ListValue_wrap_def enc_fields_single)
qed (simp_all add: any_encode_def Value_encode_wrap f_msg_def enc_fields_single)

lemma any_encode_total:
  assumes W: "wire_ok W"
  shows "wf_js v \<Longrightarrow> \<exists>b. any_encode W v = Some b"
proof (induction v rule: wf_js.induct)
  case (1 xs)
  then show ?case
    using msg_field_total(2) [of xs "any_encode W" W 10] by (auto simp: any_encode_simps)
next
  case (2 ob)
  have entry: "\<exists>b. Struct_FieldsEntry_encode W \<lparr>key = k, entry_value = v\<rparr> = Some b"
    if "(k, v) \<in> set ob" for k v
  proof -
    have "wf_js (snd (k, v))" using "2.prems" that unfolding wf_js.simps by blast
    with "2.IH" [of "(k, v)"] that obtain b where "any_encode W v = Some b" by auto
    then show ?thesis
      by (simp add: Struct_FieldsEntry_encode.simps any_encode_fold f_any_def f_string_def)
  qed
  have "Struct_wrap (Some ob) = \<lparr>struct_fields = ob\<rparr>"
    using 2 by (simp add: Struct_wrap_def obj_copy_canonical)
  moreover have "\<exists>b. Struct_encode W \<lparr>struct_fields = ob\<rparr> = Some b"
    unfolding Struct_encode.simps using entry by (intro enc_fields_total) fastforce
  ultimately show ?case by (auto simp: any_encode_simps)
next
  case "4_2"
  obtain b where "w_int32 W 0 = Some b" using wire_ok_int32(2) [OF W, of 0] by (auto simp: in_int32_def)
  then show ?case by (simp add: any_encode_simps)
qed (simp_all add: any_encode_simps)

text \<open>The codec of an object field: \<open>Struct.encode(Struct.wrap(o))\<close> and \<open>Struct.unwrap(Struct.decode(\<dots>))\<close>.\<close>

definition obj_encode :: "wire \<Rightarrow> obj \<Rightarrow> byte list option" where
  "obj_encode W ob = Struct_encode W (Struct_wrap (Some ob))"

lemma Struct_wrap_wf: "wf_obj ob \<Longrightarrow> Struct_wrap (Some ob) = \<lparr>struct_fields = ob\<rparr>"
  by (simp add: Struct_wrap_def obj_copy_canonical wf_obj_def)

lemma obj_encode_total:
  assumes "wire_ok W" and "wf_obj ob"
  shows "\<exists>b. obj_encode W ob = Some b"
  using any_encode_total [OF assms(1), of "JObject ob"] assms(2)
  by (auto simp: any_encode_simps obj_encode_def wf_obj_def)

interpretation struct_codec: codec Struct_dec "Struct_encode"
  "\<lambda>s :: Struct. wf_obj (struct_fields s)" "\<lambda>s :: Struct. obj_depth (struct_fields s)"
proof unfold_locales
  fix W and m :: Struct
  assume "wire_ok W" "wf_obj (struct_fields m)"
  then show "\<exists>b. Struct_encode W m = Some b"
    using obj_encode_total [of W "struct_fields m"] Struct_wrap_wf [of "struct_fields m"]
    by (cases m) (simp add: obj_encode_def)
next
  fix W b rem and m :: Struct
  assume "wire_ok W" "wf_obj (struct_fields m)" "Struct_encode W m = Some b" "small b"
    "obj_depth (struct_fields m) \<le> rem"
  then show "decodes (Struct_dec W rem) b m"
    using struct_reads_back [of W rem "struct_fields m" b] value_reads_back
    by (cases m) simp
qed (use struct_decoders_return in blast)

interpretation value_codec: codec Value_dec Value_encode
  "\<lambda>m. \<exists>v. wf_js v \<and> Value_wrap v = Some m" "\<lambda>m. js_depth (Value_unwrap m)"
proof unfold_locales
  fix W m
  assume "wire_ok W" "\<exists>v. wf_js v \<and> Value_wrap v = Some m"
  then show "\<exists>b. Value_encode W m = Some b"
    using any_encode_total [of W] by (metis any_encode_def Option.bind.bind_lunit)
next
  fix W m b rem
  assume "wire_ok W" "\<exists>v. wf_js v \<and> Value_wrap v = Some m" "Value_encode W m = Some b" "small b"
    "js_depth (Value_unwrap m) \<le> rem"
  then show "decodes (Value_dec W rem) b m"
    using value_reads_backD [OF value_reads_back] Value_unwrap_wrap by auto
qed (use struct_decoders_return in blast)

interpretation list_codec: decoder_returns ListValue_dec
  by unfold_locales (use struct_decoders_return in blast)

interpretation entry_codec: decoder_returns Struct_FieldsEntry_dec
  by unfold_locales (use struct_decoders_return in blast)

end
