(* ===== verification/TimestampCodec.thy ===== *)
theory TimestampCodec
  imports Codec "HOL-Library.Log_Nat"
begin

text \<open>
  \<open>src/gen/google/protobuf/timestamp.ts\<close> and the conversions \<open>toTimestamp\<close> and \<open>fromTimestamp\<close>
  of \<open>src/gen/signet/v1/secrets.ts\<close>. A \<open>Date\<close> is its time value in milliseconds, or invalid.
  \<open>fromTimestamp\<close> computes with IEEE doubles: \<open>fl\<close> rounds an exact rational to the nearest
  double (ties to even; the values here are far from overflow).
\<close>

section \<open>Rounding to a double\<close>

definition round_half_even :: "rat \<Rightarrow> int" where
  "round_half_even y =
     (let f = \<lfloor>y\<rfloor>; r = y - of_int f
      in if r < 1 / 2 then f else if r > 1 / 2 then f + 1 else if even f then f else f + 1)"

text \<open>How often to double (to halve) a magnitude to reach 53 significant bits.\<close>

fun doublings :: "nat \<Rightarrow> rat \<Rightarrow> nat" where
  "doublings 0 x = 0"
| "doublings (Suc n) x = (if x \<ge> 2 ^ 52 then 0 else Suc (doublings n (2 * x)))"

fun halvings :: "nat \<Rightarrow> rat \<Rightarrow> nat" where
  "halvings 0 x = 0"
| "halvings (Suc n) x = (if x < 2 ^ 53 then 0 else Suc (halvings n (x / 2)))"

definition fl :: "rat \<Rightarrow> rat" where
  "fl x =
     (let up = doublings 1074 \<bar>x\<bar>; down = halvings 1024 \<bar>x\<bar>
      in of_int (round_half_even (x * 2 ^ up / 2 ^ down)) * 2 ^ down / 2 ^ up)"

lemma round_half_even_int [simp]: "round_half_even (of_int n) = n"
  by (simp add: round_half_even_def)

lemma fl_int: "\<bar>n\<bar> < 2 ^ 53 \<Longrightarrow> fl (of_int n) = of_int n"
proof -
  assume n: "\<bar>n\<bar> < 2 ^ 53"
  have down: "halvings (Suc k) \<bar>of_int n\<bar> = 0" for k
  proof -
    have "\<bar>of_int n :: rat\<bar> = of_int \<bar>n\<bar>" by simp
    also have "\<dots> < of_int (2 ^ 53)" using n by (simp only: of_int_less_iff)
    finally show ?thesis by simp
  qed
  have up: "(of_int n :: rat) * 2 ^ u / 2 ^ 0 = of_int (n * 2 ^ u)" for u by simp
  have suc: "(1024 :: nat) = Suc 1023" by simp
  show ?thesis
    unfolding fl_def Let_def suc down up round_half_even_int by simp
qed

section \<open>Timestamps and dates\<close>

record Timestamp =
  Timestamp_seconds :: int
  Timestamp_nanos :: int

datatype date = InvalidDate | Date int

text \<open>The range of time values.\<close>

definition max_time :: int where
  "max_time = 8640000000000000"

definition valid_date :: "date \<Rightarrow> bool" where
  "valid_date d \<longleftrightarrow> (case d of InvalidDate \<Rightarrow> False | Date ms \<Rightarrow> \<bar>ms\<bar> \<le> max_time)"

text \<open>\<open>new Date(millis)\<close> of a double.\<close>

definition new_date :: "rat \<Rightarrow> date" where
  "new_date ms =
     (if \<bar>ms\<bar> > of_int max_time then InvalidDate
      else Date (if 0 \<le> ms then \<lfloor>ms\<rfloor> else \<lceil>ms\<rceil>))"

text \<open>
  \<open>Math.trunc\<close> of a quotient and \<open>%\<close> of the source round towards zero. An invalid date has the
  time value \<open>NaN\<close>, both fields are then \<open>NaN\<close> (\<open>None\<close>), which the writer rejects.
\<close>

definition trunc_div :: "int \<Rightarrow> int \<Rightarrow> int" where
  "trunc_div a b = sgn a * (\<bar>a\<bar> div b)"

definition trunc_rem :: "int \<Rightarrow> int \<Rightarrow> int" where
  "trunc_rem a b = sgn a * (\<bar>a\<bar> mod b)"

lemma trunc_div_rem: "trunc_div a b * b + trunc_rem a b = a"
proof -
  have "trunc_div a b * b + trunc_rem a b = sgn a * (\<bar>a\<bar> div b * b + \<bar>a\<bar> mod b)"
    unfolding trunc_div_def trunc_rem_def by (simp only: distrib_left mult.assoc)
  also have "\<dots> = sgn a * \<bar>a\<bar>" by (simp only: div_mult_mod_eq)
  finally show ?thesis by (simp add: sgn_mult_abs)
qed

definition toTimestamp :: "date \<Rightarrow> Timestamp option" where
  "toTimestamp d =
     (case d of
        InvalidDate \<Rightarrow> None
      | Date ms \<Rightarrow> Some \<lparr>Timestamp_seconds = trunc_div ms 1000,
                        Timestamp_nanos = trunc_rem ms 1000 * 1000000\<rparr>)"

definition fromTimestamp :: "Timestamp \<Rightarrow> date" where
  "fromTimestamp t =
     (let millis = fl (of_int (Timestamp_seconds t) * 1000);
          millis = fl (millis + fl (of_int (Timestamp_nanos t) / 1000000))
      in new_date millis)"

text \<open>What the wire format asks of the two fields.\<close>

definition canonical_timestamp :: "Timestamp \<Rightarrow> bool" where
  "canonical_timestamp t \<longleftrightarrow> 0 \<le> Timestamp_nanos t \<and> Timestamp_nanos t \<le> 999999999"

lemma abs_trunc:
  assumes "0 < b"
  shows "\<bar>trunc_div a b * b\<bar> \<le> \<bar>a\<bar>" and "\<bar>trunc_rem a b\<bar> < b"
proof -
  have "\<bar>a\<bar> div b * b \<le> \<bar>a\<bar>"
    using div_mult_mod_eq [of "\<bar>a\<bar>" b] pos_mod_sign [OF assms, of "\<bar>a\<bar>"] by linarith
  moreover have "0 \<le> \<bar>a\<bar> div b * b" using assms by (simp add: pos_imp_zdiv_nonneg_iff)
  moreover have "trunc_div a b * b = sgn a * (\<bar>a\<bar> div b * b)"
    by (simp only: trunc_div_def mult.assoc)
  ultimately show "\<bar>trunc_div a b * b\<bar> \<le> \<bar>a\<bar>" by (auto simp: sgn_if)
  have "0 \<le> \<bar>a\<bar> mod b" "\<bar>a\<bar> mod b < b" using assms by simp_all
  then show "\<bar>trunc_rem a b\<bar> < b"
    using assms by (simp add: trunc_rem_def abs_mult abs_sgn_eq)
qed

lemma fromTimestamp_toTimestamp:
  assumes "valid_date d" and t: "toTimestamp d = Some t"
  shows "fromTimestamp t = d"
proof -
  obtain ms where d: "d = Date ms" and ms: "\<bar>ms\<bar> \<le> max_time"
    using assms(1) by (cases d) (auto simp: valid_date_def)
  let ?s = "trunc_div ms 1000" and ?r = "trunc_rem ms 1000"
  have s: "(of_int ?s :: rat) * 1000 = of_int (?s * 1000)" by simp
  have r: "(of_int (?r * 1000000) :: rat) / 1000000 = of_int ?r" by simp
  have small: "\<bar>?s * 1000\<bar> < 2 ^ 53" "\<bar>?r\<bar> < 2 ^ 53" "\<bar>ms\<bar> < 2 ^ 53"
    using abs_trunc [of 1000 ms] ms by (auto simp: max_time_def)
  have sum: "(of_int (?s * 1000) :: rat) + of_int ?r = of_int ms"
    using trunc_div_rem [of ms 1000] by (simp only: of_int_add [symmetric])
  have time: "\<bar>of_int ms :: rat\<bar> \<le> of_int max_time"
    using ms by (metis of_int_abs of_int_le_iff)
  have "fromTimestamp t = new_date (of_int ms)"
    using t unfolding fromTimestamp_def toTimestamp_def d Let_def
    by (auto simp only: date.case option.inject Timestamp.simps s r
        fl_int [OF small(1)] fl_int [OF small(2)] sum fl_int [OF small(3)])
  with time show ?thesis by (simp add: new_date_def d)
qed

lemma toTimestamp_negative:
  assumes "ms < 0" and "ms mod 1000 \<noteq> 0"
  shows "\<exists>t. toTimestamp (Date ms) = Some t \<and> \<not> canonical_timestamp t"
proof -
  have "\<not> 1000 dvd ms" using assms(2) by (simp add: dvd_eq_mod_eq_0)
  then have "\<not> 1000 dvd \<bar>ms\<bar>" by simp
  then have "\<bar>ms\<bar> mod 1000 \<noteq> 0" unfolding dvd_eq_mod_eq_0 .
  with pos_mod_sign [of 1000 "\<bar>ms\<bar>"] have "0 < \<bar>ms\<bar> mod 1000" by linarith
  then show ?thesis
    using assms(1) by (simp add: toTimestamp_def canonical_timestamp_def trunc_rem_def)
qed

lemma toTimestamp_canonical:
  assumes "0 \<le> ms"
  shows "\<exists>t. toTimestamp (Date ms) = Some t \<and> canonical_timestamp t"
  using assms pos_mod_bound [of 1000 ms] pos_mod_sign [of 1000 ms]
  by (cases "ms = 0") (simp_all add: toTimestamp_def canonical_timestamp_def trunc_rem_def)

section \<open>The codec\<close>

definition createBaseTimestamp :: Timestamp where
  "createBaseTimestamp = \<lparr>Timestamp_seconds = 0, Timestamp_nanos = 0\<rparr>"

definition longToNumber :: "int \<Rightarrow> int option" where
  "longToNumber num =
     (if num > 9007199254740991 then None
      else if num < - 9007199254740991 then None
      else Some num)"

definition Timestamp_encode :: "wire \<Rightarrow> Timestamp \<Rightarrow> byte list option" where
  "Timestamp_encode W m = enc_fields
     [f_int64 W 8 (Timestamp_seconds m),
      f_int32 W 16 (Timestamp_nanos m)]"

definition Timestamp_field :: "wire \<Rightarrow> nat \<Rightarrow> Timestamp handler" where
  "Timestamp_field W r buf tag p m =
     (if tag = 8 then
        Some (case r_int64 W buf p of
                None \<Rightarrow> Fails WireError
              | Some (i, q) \<Rightarrow> (case longToNumber i of
                  None \<Rightarrow> Fails UnsafeInteger
                | Some v \<Rightarrow> Handled (m\<lparr>Timestamp_seconds := v\<rparr>) q))
      else if tag = 16 then rd (r_int32 W) buf p (\<lambda>v. m\<lparr>Timestamp_nanos := v\<rparr>)
      else Some NotHandled)"

definition Timestamp_dec :: "wire \<Rightarrow> nat \<Rightarrow> Timestamp decoder" where
  "Timestamp_dec W = decode_message W (Timestamp_field W) createBaseTimestamp"

definition valid_Timestamp :: "Timestamp \<Rightarrow> bool" where
  "valid_Timestamp t \<longleftrightarrow> \<bar>Timestamp_seconds t\<bar> \<le> 9007199254740991 \<and> in_int32 (Timestamp_nanos t)"

lemma Timestamp_reads_back:
  assumes W: "wire_ok W" and m: "valid_Timestamp m" and b: "Timestamp_encode W m = Some b" "small b"
    and rem: "1 \<le> rem"
  shows "decodes (Timestamp_dec W rem) b m"
proof -
  obtain r where r: "rem = Suc r" using rem by (cases rem) auto
  have "consumes W (Timestamp_field W r) b createBaseTimestamp m"
  proof (rule consumes_enc_Cons [where mid = "createBaseTimestamp\<lparr>Timestamp_seconds := Timestamp_seconds m\<rparr>"])
    show "enc_fields [f_int64 W 8 (Timestamp_seconds m), f_int32 W 16 (Timestamp_nanos m)] = Some b"
      using b(1) by (simp add: Timestamp_encode_def)
    show "consumes W (Timestamp_field W r) b1 createBaseTimestamp
        (createBaseTimestamp\<lparr>Timestamp_seconds := Timestamp_seconds m\<rparr>)"
      if "f_int64 W 8 (Timestamp_seconds m) = Some b1" "small b1" for b1
      using m by (intro consumes_int64 [OF that(1) W that(2), of _ createBaseTimestamp
            "\<lambda>v m. m\<lparr>Timestamp_seconds := v\<rparr>"])
        (auto simp: Timestamp_field_def createBaseTimestamp_def valid_Timestamp_def longToNumber_def)
    show "consumes W (Timestamp_field W r) b2
        (createBaseTimestamp\<lparr>Timestamp_seconds := Timestamp_seconds m\<rparr>) m"
      if "enc_fields [f_int32 W 16 (Timestamp_nanos m)] = Some b2" "small b2" for b2
    proof -
      from that(1) have "f_int32 W 16 (Timestamp_nanos m) = Some b2"
        by (cases "f_int32 W 16 (Timestamp_nanos m)") auto
      from consumes_int32 [OF this W that(2), of "Timestamp_field W r"
          "createBaseTimestamp\<lparr>Timestamp_seconds := Timestamp_seconds m\<rparr>"
          "\<lambda>v m. m\<lparr>Timestamp_nanos := v\<rparr>"]
      show ?thesis by (cases m) (simp add: Timestamp_field_def createBaseTimestamp_def)
    qed
  qed (rule b(2))
  from decode_message_consumes [where h = "Timestamp_field W" and r = r, OF this r] show ?thesis by (simp add: Timestamp_dec_def)
qed

lemma goes_on_seconds:
  "forward (r_int64 W) \<Longrightarrow>
   goes_on buf p (Some (case r_int64 W buf p of
                None \<Rightarrow> Fails WireError
              | Some (i, q) \<Rightarrow> (case longToNumber i of
                  None \<Rightarrow> Fails UnsafeInteger
                | Some v \<Rightarrow> Handled (f v) q)))"
  by (auto simp: goes_on_def forward_def split: option.split)

interpretation timestamp_codec: codec Timestamp_dec Timestamp_encode valid_Timestamp "\<lambda>_. 1"
proof unfold_locales
  fix W rem assume W: "wire_progress W"
  show "returns_forward (Timestamp_dec W rem)"
    unfolding Timestamp_dec_def
    by (rule decode_message_returns [OF W])
       (use W goes_on_seconds in \<open>auto simp: Timestamp_field_def wire_progress_def intro!: goes_on_rd\<close>)
next
  fix W m assume "wire_ok W" "valid_Timestamp m"
  moreover have "in_int64 i" if "\<bar>i\<bar> \<le> 9007199254740991" for i
    using that by (auto simp: in_int64_def)
  ultimately show "\<exists>b. Timestamp_encode W m = Some b"
    unfolding Timestamp_encode_def valid_Timestamp_def
    by (intro enc_fields_total) (simp add: int_field_total)
qed (simp add: Timestamp_reads_back)

text \<open>The codec of a date field: \<open>Timestamp.encode(toTimestamp(d))\<close>.\<close>

definition date_encode :: "wire \<Rightarrow> date \<Rightarrow> byte list option" where
  "date_encode W d = Option.bind (toTimestamp d) (Timestamp_encode W)"

lemma toTimestamp_valid:
  assumes "valid_date d"
  shows "\<exists>t. toTimestamp d = Some t \<and> valid_Timestamp t"
proof -
  obtain ms where d: "d = Date ms" and ms: "\<bar>ms\<bar> \<le> max_time"
    using assms by (cases d) (auto simp: valid_date_def)
  from abs_trunc [of 1000 ms] ms show ?thesis
    by (auto simp: d toTimestamp_def valid_Timestamp_def max_time_def in_int32_def)
qed

lemma date_reads_back:
  assumes "wire_ok W" "valid_date d" "date_encode W d = Some b" "small b" "1 \<le> rem"
  shows "\<exists>t. decodes (Timestamp_dec W rem) b t \<and> fromTimestamp t = d"
proof -
  obtain t where t: "toTimestamp d = Some t" "valid_Timestamp t"
    using toTimestamp_valid [OF assms(2)] by blast
  with assms(3) have "Timestamp_encode W t = Some b" by (simp add: date_encode_def)
  from timestamp_codec.dec_enc [OF assms(1) t(2) this assms(4,5)]
    fromTimestamp_toTimestamp [OF assms(2) t(1)]
  show ?thesis by blast
qed

lemma date_encode_total: "wire_ok W \<Longrightarrow> valid_date d \<Longrightarrow> \<exists>b. date_encode W d = Some b"
  using toTimestamp_valid [of d] timestamp_codec.enc_total [of W] by (auto simp: date_encode_def)

lemma toTimestamp_canonical_iff:
  "(\<exists>t. toTimestamp (Date ms) = Some t \<and> canonical_timestamp t) \<longleftrightarrow> 0 \<le> ms \<or> ms mod 1000 = 0"
proof (cases "0 \<le> ms")
  case True
  then show ?thesis using toTimestamp_canonical by blast
next
  case False
  show ?thesis
  proof (cases "ms mod 1000 = 0")
    case True
    then have "\<bar>ms\<bar> mod 1000 = 0" using False by (simp add: zmod_zminus1_eq_if)
    then show ?thesis
      using True by (simp add: toTimestamp_def canonical_timestamp_def trunc_rem_def)
  next
    case neq: False
    from toTimestamp_negative [OF _ neq] False neq show ?thesis by auto
  qed
qed

end
