(* ===== verification/MessageCodec.thy ===== *)
theory MessageCodec
  imports StructCodec TimestampCodec
begin

text \<open>
  The proof every generated message codec shares. A message is a list of fields; a field is
  what \<open>encode\<close> writes for it and how its value is copied from one message to another. The
  locale \<open>message_codec\<close> asks of a message type that its encoder writes those fields, that its
  handler treats each of them lawfully, and that copying all fields rebuilds the message; its
  sublocale gives the contract \<open>codec\<close>. The lemmas \<open>law_\<dots>\<close> discharge the laws, one for each
  kind of field the generator emits.
\<close>

section \<open>Fields\<close>

type_synonym 'm fld = "('m \<Rightarrow> byte list option) \<times> ('m \<Rightarrow> 'm \<Rightarrow> 'm)"

text \<open>Where the field still has the value of \<open>base\<close>, its bytes set it to the value of \<open>m\<close>.\<close>

definition field_law :: "wire \<Rightarrow> nat \<Rightarrow> (nat \<Rightarrow> 'm handler) \<Rightarrow> 'm \<Rightarrow> 'm \<Rightarrow> 'm fld \<Rightarrow> bool" where
  "field_law W r h base m f \<longleftrightarrow>
     (\<forall>b acc. fst f m = Some b \<longrightarrow> small b \<longrightarrow> snd f base acc = acc \<longrightarrow> consumes W (h r) b acc (snd f m acc))"

fun rebuild :: "'m \<Rightarrow> 'm \<Rightarrow> 'm \<Rightarrow> 'm fld list \<Rightarrow> bool" where
  "rebuild base m acc [] \<longleftrightarrow> acc = m"
| "rebuild base m acc (f # fs) \<longleftrightarrow> snd f base acc = acc \<and> rebuild base m (snd f m acc) fs"

lemma rebuild_consumes:
  "enc_fields (map (\<lambda>f. fst f m) fs) = Some b \<Longrightarrow> small b \<Longrightarrow>
   list_all (field_law W r h base m) fs \<Longrightarrow> rebuild base m acc fs \<Longrightarrow> consumes W (h r) b acc m"
proof (induction fs arbitrary: b acc)
  case (Cons f fs)
  show ?case
  proof (rule consumes_enc_Cons [where mid = "snd f m acc"])
    show "enc_fields (fst f m # map (\<lambda>f. fst f m) fs) = Some b" using Cons.prems(1) by simp
    show "consumes W (h r) b1 acc (snd f m acc)" if "fst f m = Some b1" "small b1" for b1
      using that Cons.prems(3,4) by (simp add: field_law_def)
    show "consumes W (h r) b2 (snd f m acc) m"
      if "enc_fields (map (\<lambda>f. fst f m) fs) = Some b2" "small b2" for b2
      using Cons.IH [OF that] Cons.prems(3,4) by simp
  qed (rule Cons.prems(2))
qed simp

locale message_codec =
  fixes dec :: "wire \<Rightarrow> nat \<Rightarrow> 'm decoder" and h :: "wire \<Rightarrow> nat \<Rightarrow> 'm handler" and base :: 'm
    and enc :: "wire \<Rightarrow> 'm \<Rightarrow> byte list option" and valid :: "'m \<Rightarrow> bool" and depth :: "'m \<Rightarrow> nat"
    and fs :: "wire \<Rightarrow> 'm fld list" and known :: "nat list"
  assumes dec_eq: "dec W = decode_message W (h W) base"
    and goes: "wire_progress W \<Longrightarrow> goes_on buf p (h W r buf tag p m)"
    and enc_eq: "enc W m = enc_fields (map (\<lambda>f. fst f m) (fs W))"
    and fields_total: "wire_ok W \<Longrightarrow> valid m \<Longrightarrow> list_all (\<lambda>f. \<exists>b. fst f m = Some b) (fs W)"
    and laws: "wire_ok W \<Longrightarrow> valid m \<Longrightarrow> depth m \<le> Suc r \<Longrightarrow> list_all (field_law W r (h W) base m) (fs W)"
    and positive: "0 < depth m"
    and rebuilds: "rebuild base m base (fs W)"
    and unhandled: "tag \<notin> set known \<Longrightarrow> h W r buf tag p m = Some NotHandled"
begin

lemma message_consumed:
  assumes "wire_ok W" "valid m" "enc W m = Some b" "small b" "depth m \<le> Suc r"
  shows "consumes W (h W r) b base m"
  using assms laws [OF assms(1,2), of r] rebuilds
  by (intro rebuild_consumes [of m "fs W"]) (simp_all add: enc_eq)

lemma reads_back:
  assumes "wire_ok W" "valid m" "enc W m = Some b" "small b" "depth m \<le> rem"
  shows "decodes (dec W rem) b m"
proof -
  obtain r where r: "rem = Suc r" using assms(5) positive [of m] by (cases rem) auto
  have "consumes W (h W r) b base m" using assms by (intro message_consumed) (simp_all add: r)
  then show ?thesis
    unfolding dec_eq using r by (rule decode_message_consumes [where h = "h W" and r = r])
qed

lemma ignores:
  assumes "wire_ok W"
  shows "ignores_unknown W dec enc known valid depth"
  unfolding ignores_unknown_def
proof (intro allI impI, elim conjE)
  fix m b u v
  assume m: "valid m" "enc W m = Some b" "small b" "depth m \<le> decode_limit"
    and u: "unknown_fields W known u" "unknown_fields W known v"
  obtain r where r: "decode_limit = Suc r" by (simp add: decode_limit_def)
  have "consumes W (h W r) (u @ b @ v) base m"
    using m message_consumed [OF assms] consumes_unknown_fields [OF assms u(1), of "h W r" base]
      consumes_unknown_fields [OF assms u(2), of "h W r" m] unhandled
    by (intro consumes_append [of W "h W r" u base base] consumes_append [of W "h W r" b base m])
       (simp_all add: r)
  from decode_message_consumes [where h = "h W" and r = r, OF this r]
  show "decode_top (dec W) (u @ b @ v) = Some (Inr m)"
    unfolding dec_eq decode_top_def using decodesD [of _ "u @ b @ v" m "[]" "[]"] by fastforce
qed

end

sublocale message_codec \<subseteq> codec dec enc valid depth
proof unfold_locales
  fix W rem
  assume "wire_progress W"
  then show "returns_forward (dec W rem)"
    unfolding dec_eq by (intro decode_message_returns goes)
next
  fix W m
  assume "wire_ok W" "valid m"
  then show "\<exists>b. enc W m = Some b"
    using fields_total [of W m] by (auto simp: enc_eq list_all_iff intro!: enc_fields_total)
qed (rule reads_back)

section \<open>The kinds of fields\<close>

definition string_field where
  "string_field W tag get upd = (\<lambda>m. f_string W tag (get m), \<lambda>m. upd (get m))"

definition bytes_field where
  "bytes_field W tag get upd = (\<lambda>m. f_bytes W tag (get m), \<lambda>m. upd (get m))"

definition bool_field where
  "bool_field W tag get upd = (\<lambda>m. f_bool W tag (get m), \<lambda>m. upd (get m))"

definition int32_field where
  "int32_field W tag get upd = (\<lambda>m. f_int32 W tag (get m), \<lambda>m. upd (get m))"

definition opt_bytes_field where
  "opt_bytes_field W tag get upd = (\<lambda>m. f_opt_bytes W tag (get m), \<lambda>m. upd (get m))"

definition any_field where
  "any_field W tag get upd = (\<lambda>m. f_any W tag (any_encode W) (get m), \<lambda>m. upd (get m))"

definition msg_field where
  "msg_field W tag enc get upd = (\<lambda>m. f_msg W tag enc (get m), \<lambda>m. upd (get m))"

text \<open>A repeated field is appended to.\<close>

definition rep_string_field where
  "rep_string_field W tag get upd = (\<lambda>m. f_rep_string W tag (get m), \<lambda>m acc. upd (get acc @ get m) acc)"

definition rep_msg_field where
  "rep_msg_field W tag enc get upd = (\<lambda>m. f_rep_msg W tag enc (get m), \<lambda>m acc. upd (get acc @ get m) acc)"

lemmas field_kinds = string_field_def bytes_field_def bool_field_def int32_field_def
  opt_bytes_field_def any_field_def msg_field_def rep_string_field_def rep_msg_field_def

lemma fst_field [simp]:
  "fst (string_field W tag get1 upd1) m = f_string W tag (get1 m)"
  "fst (bytes_field W tag get2 upd2) m = f_bytes W tag (get2 m)"
  "fst (bool_field W tag get3 upd3) m = f_bool W tag (get3 m)"
  "fst (int32_field W tag get4 upd4) m = f_int32 W tag (get4 m)"
  "fst (opt_bytes_field W tag get5 upd5) m = f_opt_bytes W tag (get5 m)"
  "fst (any_field W tag get6 upd6) m = f_any W tag (any_encode W) (get6 m)"
  "fst (msg_field W tag enc get7 upd7) m = f_msg W tag enc (get7 m)"
  "fst (rep_string_field W tag get8 upd8) m = f_rep_string W tag (get8 m)"
  "fst (rep_msg_field W tag enc' get9 upd9) m = f_rep_msg W tag enc' (get9 m)"
  by (simp_all add: field_kinds)

lemma snd_field [simp]:
  "snd (string_field W tag get1 upd1) m = upd1 (get1 m)"
  "snd (bytes_field W tag get2 upd2) m = upd2 (get2 m)"
  "snd (bool_field W tag get3 upd3) m = upd3 (get3 m)"
  "snd (int32_field W tag get4 upd4) m = upd4 (get4 m)"
  "snd (opt_bytes_field W tag get5 upd5) m = upd5 (get5 m)"
  "snd (any_field W tag get6 upd6) m = upd6 (get6 m)"
  "snd (msg_field W tag enc get7 upd7) m = upd7 (get7 m)"
  "snd (rep_string_field W tag get8 upd8) m acc = upd8 (get8 acc @ get8 m) acc"
  "snd (rep_msg_field W tag enc' get9 upd9) m acc = upd9 (get9 acc @ get9 m) acc"
  by (simp_all add: field_kinds)

lemma law_string:
  "wire_ok W \<Longrightarrow> tag < 2 ^ 32 \<Longrightarrow> get base = '''' \<Longrightarrow>
   (\<And>buf p acc. h r buf tag p acc = rd (r_string W) buf p (\<lambda>v. upd v acc)) \<Longrightarrow>
   field_law W r h base m (string_field W tag get upd)"
  unfolding field_law_def string_field_def fst_conv snd_conv
  by (intro allI impI consumes_string) simp_all

lemma law_bytes:
  "wire_ok W \<Longrightarrow> tag < 2 ^ 32 \<Longrightarrow> get base = [] \<Longrightarrow>
   (\<And>buf p acc. h r buf tag p acc = rd (r_bytes W) buf p (\<lambda>v. upd v acc)) \<Longrightarrow>
   field_law W r h base m (bytes_field W tag get upd)"
  unfolding field_law_def bytes_field_def fst_conv snd_conv
  by (intro allI impI consumes_bytes) simp_all

lemma law_bool:
  "wire_ok W \<Longrightarrow> tag < 2 ^ 32 \<Longrightarrow> get base = False \<Longrightarrow>
   (\<And>buf p acc. h r buf tag p acc = rd (r_bool W) buf p (\<lambda>v. upd v acc)) \<Longrightarrow>
   field_law W r h base m (bool_field W tag get upd)"
  unfolding field_law_def bool_field_def fst_conv snd_conv
  by (intro allI impI consumes_bool) simp_all

lemma law_int32:
  "wire_ok W \<Longrightarrow> tag < 2 ^ 32 \<Longrightarrow> get base = 0 \<Longrightarrow>
   (\<And>buf p acc. h r buf tag p acc = rd (r_int32 W) buf p (\<lambda>v. upd v acc)) \<Longrightarrow>
   field_law W r h base m (int32_field W tag get upd)"
  unfolding field_law_def int32_field_def fst_conv snd_conv
  by (intro allI impI consumes_int32) simp_all

lemma law_opt_bytes:
  "wire_ok W \<Longrightarrow> tag < 2 ^ 32 \<Longrightarrow> get base = None \<Longrightarrow>
   (\<And>buf p acc. h r buf tag p acc = rd (r_bytes W) buf p (\<lambda>v. upd (Some v) acc)) \<Longrightarrow>
   field_law W r h base m (opt_bytes_field W tag get upd)"
  unfolding field_law_def opt_bytes_field_def fst_conv snd_conv
  by (intro allI impI consumes_opt_bytes) simp_all

lemma law_any:
  "wire_ok W \<Longrightarrow> tag < 2 ^ 32 \<Longrightarrow> get base = JUndefined \<Longrightarrow> wf_js (get m) \<Longrightarrow> js_depth (get m) \<le> r \<Longrightarrow>
   (\<And>buf p acc. h r buf tag p acc = rd_msg W (Value_dec W r) buf p (\<lambda>v. upd (Value_unwrap v) acc)) \<Longrightarrow>
   field_law W r h base m (any_field W tag get upd)"
  unfolding field_law_def any_field_def fst_conv snd_conv
  by (intro allI impI consumes_any [where r = r] value_reads_back) simp_all

text \<open>A nested message, through the conversion \<open>un\<close> of what its decoder gives.\<close>

definition nested_law ::
  "('v \<Rightarrow> byte list option) \<Rightarrow> 'w decoder \<Rightarrow> ('w \<Rightarrow> 'v) \<Rightarrow> ('v \<Rightarrow> bool) \<Rightarrow> bool" where
  "nested_law enc d un P \<longleftrightarrow>
     (\<forall>v vb. P v \<longrightarrow> enc v = Some vb \<longrightarrow> small vb \<longrightarrow> (\<exists>w. decodes d vb w \<and> un w = v))"

lemma law_msg:
  assumes "nested_law enc d un P" and "wire_ok W" and "tag < 2 ^ 32" and "get base = None"
    and "\<And>buf p acc. h r buf tag p acc = rd_msg W d buf p (\<lambda>w. upd (Some (un w)) acc)"
    and "pred_option P (get m)"
  shows "field_law W r h base m (msg_field W tag enc get upd)"
  unfolding field_law_def msg_field_def fst_conv snd_conv
proof (intro allI impI)
  fix b acc
  assume b: "f_msg W tag enc (get m) = Some b" "small b" and fresh: "upd (get base) acc = acc"
  show "consumes W (h r) b acc (upd (get m) acc)"
  proof (cases "get m")
    case (Some v)
    with b(1) obtain vb where vb: "b = w_uint32 W tag @ w_join W vb" "enc v = Some vb"
      by (auto simp: f_msg_def)
    have sv: "small vb" using small_join [OF assms(2)] b(2) vb by blast
    obtain w where "decodes d vb w" "un w = v"
      using assms(1,6) sv vb(2) Some by (auto simp: nested_law_def)
    then show ?thesis
      unfolding vb Some
      using consumes_nested [OF assms(2,3) sv, of d w "h r" acc "\<lambda>w. upd (Some (un w)) acc"] assms(5)
      by simp
  qed (use b fresh assms(4) in \<open>simp add: f_msg_def\<close>)
qed

lemma law_rep_string:
  assumes "wire_ok W" and "tag < 2 ^ 32"
    and h: "\<And>buf p acc. h r buf tag p acc = rd (r_string W) buf p (\<lambda>v. upd (get acc @ [v]) acc)"
    and lens: "\<And>x acc. get (upd x acc) = x" "\<And>x y acc. upd y (upd x acc) = upd y acc"
      "\<And>acc. upd (get acc) acc = acc"
  shows "field_law W r h base m (rep_string_field W tag get upd)"
  unfolding field_law_def rep_string_field_def fst_conv snd_conv
proof (intro allI impI)
  fix b acc
  assume b: "f_rep_string W tag (get m) = Some b" "small b"
  have "fold (\<lambda>v acc. upd (get acc @ [v]) acc) xs acc = upd (get acc @ xs) acc" for xs acc
    by (induction xs arbitrary: acc) (simp_all add: lens)
  with consumes_rep_string [OF b(1) assms(1) b(2) assms(2), of "h r" "\<lambda>v acc. upd (get acc @ [v]) acc"] h
  show "consumes W (h r) b acc (upd (get acc @ get m) acc)" by simp
qed

lemma law_rep_msg:
  assumes "nested_law enc d un P" and "wire_ok W" and "tag < 2 ^ 32"
    and h: "\<And>buf p acc. h r buf tag p acc = rd_msg W d buf p (\<lambda>w. upd (get acc @ [un w]) acc)"
    and lens: "\<And>x acc. get (upd x acc) = x" "\<And>x y acc. upd y (upd x acc) = upd y acc"
      "\<And>acc. upd (get acc) acc = acc"
    and "list_all P (get m)"
  shows "field_law W r h base m (rep_msg_field W tag enc get upd)"
  unfolding field_law_def rep_msg_field_def fst_conv snd_conv
proof (intro allI impI)
  fix b acc
  assume b: "f_rep_msg W tag enc (get m) = Some b" "small b"
  have "fold (\<lambda>v acc. upd (get acc @ [v]) acc) xs acc = upd (get acc @ xs) acc" for xs acc
    by (induction xs arbitrary: acc) (simp_all add: lens)
  with consumes_rep_msg [where un = un and d = d and h = "h r" and upd = "\<lambda>v acc. upd (get acc @ [v]) acc", OF b(1) assms(2) b(2) assms(3)]
  show "consumes W (h r) b acc (upd (get acc @ get m) acc)"
    using assms(1,8) h by (auto simp: nested_law_def list_all_iff)
qed

text \<open>The nested codecs, and how deep they nest.\<close>

definition opt_depth :: "('v \<Rightarrow> nat) \<Rightarrow> 'v option \<Rightarrow> nat" where
  "opt_depth d x = (case x of None \<Rightarrow> 0 | Some v \<Rightarrow> d v)"

definition list_depth :: "('v \<Rightarrow> nat) \<Rightarrow> 'v list \<Rightarrow> nat" where
  "list_depth d xs = fold (\<lambda>v n. max (d v) n) xs 0"

lemma all_true [simp]: "list_all (\<lambda>_. True) xs" "pred_option (\<lambda>_. True) x"
  by (simp_all add: list_all_iff option.pred_set)

lemma pred_option_depth: "pred_option P x \<Longrightarrow> opt_depth d x \<le> r \<Longrightarrow> pred_option (\<lambda>v. P v \<and> d v \<le> r) x"
  by (cases x) (auto simp: opt_depth_def)

lemma list_depth_le: "list_depth d xs \<le> r \<longleftrightarrow> list_all (\<lambda>v. d v \<le> r) xs"
proof -
  have "fold (\<lambda>v n. max (d v) n) xs n \<le> r \<longleftrightarrow> n \<le> r \<and> list_all (\<lambda>v. d v \<le> r) xs" for n
    by (induction xs arbitrary: n) auto
  then show ?thesis by (simp add: list_depth_def)
qed

lemma list_all_depth: "list_all P xs \<Longrightarrow> list_depth d xs \<le> r \<Longrightarrow> list_all (\<lambda>v. P v \<and> d v \<le> r) xs"
  by (auto simp: list_depth_le list_all_iff)

lemma nested_struct:
  "wire_ok W \<Longrightarrow>
   nested_law (obj_encode W) (Struct_dec W r) Struct_unwrap (\<lambda>ob. wf_obj ob \<and> obj_depth ob \<le> r)"
  unfolding nested_law_def
proof (intro allI impI)
  fix ob vb
  assume W: "wire_ok W" and ob: "wf_obj ob \<and> obj_depth ob \<le> r"
    and vb: "obj_encode W ob = Some vb" "small vb"
  from ob have "decodes (Struct_dec W r) vb \<lparr>struct_fields = ob\<rparr>"
    by (intro struct_codec.dec_enc [OF W _ _ vb(2)])
       (use vb Struct_wrap_wf in \<open>auto simp: obj_encode_def\<close>)
  moreover have "Struct_unwrap \<lparr>struct_fields = ob\<rparr> = ob"
    using ob by (simp add: Struct_unwrap_def wf_obj_def obj_copy_canonical)
  ultimately show "\<exists>w. decodes (Struct_dec W r) vb w \<and> Struct_unwrap w = ob" by blast
qed

lemma nested_date:
  "wire_ok W \<Longrightarrow>
   nested_law (date_encode W) (Timestamp_dec W r) fromTimestamp (\<lambda>d. valid_date d \<and> 1 \<le> r)"
  unfolding nested_law_def using date_reads_back by blast

lemma law_struct:
  "wire_ok W \<Longrightarrow> tag < 2 ^ 32 \<Longrightarrow> get base = None \<Longrightarrow>
   (\<And>buf p acc. h r buf tag p acc =
      rd_msg W (Struct_dec W r) buf p (\<lambda>w. upd (Some (Struct_unwrap w)) acc)) \<Longrightarrow>
   pred_option wf_obj (get m) \<Longrightarrow> opt_depth obj_depth (get m) \<le> r \<Longrightarrow>
   field_law W r h base m (msg_field W tag (obj_encode W) get upd)"
  by (rule law_msg [OF nested_struct _ _ _ _ pred_option_depth]) simp_all

lemma law_date:
  "wire_ok W \<Longrightarrow> tag < 2 ^ 32 \<Longrightarrow> get base = None \<Longrightarrow>
   (\<And>buf p acc. h r buf tag p acc =
      rd_msg W (Timestamp_dec W r) buf p (\<lambda>w. upd (Some (fromTimestamp w)) acc)) \<Longrightarrow>
   pred_option valid_date (get m) \<Longrightarrow> opt_depth (\<lambda>_. 1) (get m) \<le> r \<Longrightarrow>
   field_law W r h base m (msg_field W tag (date_encode W) get upd)"
  by (rule law_msg [OF nested_date _ _ _ _ pred_option_depth [where d = "\<lambda>_. 1"]]) simp_all

lemma opt_msg_total:
  "pred_option (\<lambda>v. \<exists>b. enc v = Some b) x \<Longrightarrow> \<exists>b. f_msg W tag enc x = Some b"
  "list_all (\<lambda>v. \<exists>b. enc v = Some b) xs \<Longrightarrow> \<exists>b. f_rep_msg W tag enc xs = Some b"
  by (cases x) (auto simp: list_all_iff intro!: msg_field_total)

lemma opt_struct_total:
  "wire_ok W \<Longrightarrow> pred_option wf_obj x \<Longrightarrow> \<exists>b. f_msg W tag (obj_encode W) x = Some b"
  by (cases x) (auto simp: obj_encode_total intro: opt_msg_total)

lemma opt_date_total:
  "wire_ok W \<Longrightarrow> pred_option valid_date x \<Longrightarrow> \<exists>b. f_msg W tag (date_encode W) x = Some b"
  by (cases x) (auto simp: date_encode_total intro: opt_msg_total)

context codec
begin

lemma nested: "wire_ok W \<Longrightarrow> nested_law (enc W) (dec W r) (\<lambda>m. m) (\<lambda>m. valid m \<and> depth m \<le> r)"
  unfolding nested_law_def using dec_enc by blast

lemma law_opt:
  "wire_ok W \<Longrightarrow> tag < 2 ^ 32 \<Longrightarrow> get base = None \<Longrightarrow>
   (\<And>buf p acc. h r buf tag p acc = rd_msg W (dec W r) buf p (\<lambda>w. upd (Some w) acc)) \<Longrightarrow>
   pred_option valid (get m) \<Longrightarrow> opt_depth depth (get m) \<le> r \<Longrightarrow>
   field_law W r h base m (msg_field W tag (enc W) get upd)"
  by (rule law_msg [OF nested _ _ _ _ pred_option_depth]) simp_all

lemma law_list:
  "wire_ok W \<Longrightarrow> tag < 2 ^ 32 \<Longrightarrow>
   (\<And>buf p acc. h r buf tag p acc = rd_msg W (dec W r) buf p (\<lambda>w. upd (get acc @ [w]) acc)) \<Longrightarrow>
   (\<And>x acc. get (upd x acc) = x) \<Longrightarrow> (\<And>x y acc. upd y (upd x acc) = upd y acc) \<Longrightarrow>
   (\<And>acc. upd (get acc) acc = acc) \<Longrightarrow>
   list_all valid (get m) \<Longrightarrow> list_depth depth (get m) \<le> r \<Longrightarrow>
   field_law W r h base m (rep_msg_field W tag (enc W) get upd)"
  by (rule law_rep_msg [OF nested _ _ _ _ _ _ list_all_depth]) simp_all

lemma opt_total: "wire_ok W \<Longrightarrow> pred_option valid x \<Longrightarrow> \<exists>b. f_msg W tag (enc W) x = Some b"
  by (cases x) (auto simp: enc_total intro: opt_msg_total)

lemma list_total: "wire_ok W \<Longrightarrow> list_all valid xs \<Longrightarrow> \<exists>b. f_rep_msg W tag (enc W) xs = Some b"
  by (rule opt_msg_total(2)) (auto simp: list_all_iff enc_total)

lemma goes_on_nested: "wire_progress W \<Longrightarrow> goes_on buf p (rd_msg W (dec W r) buf p u)"
  by (rule goes_on_rd_msg) (simp_all add: returns)

end

text \<open>The bundles the codec of each message is proved with.\<close>

lemma goes_on_if:
  "(c \<Longrightarrow> goes_on buf p x) \<Longrightarrow> (\<not> c \<Longrightarrow> goes_on buf p y) \<Longrightarrow> goes_on buf p (if c then x else y)"
  by simp

lemma forward_rd:
  "wire_progress W \<Longrightarrow> goes_on buf p (rd (r_string W) buf p u1)"
  "wire_progress W \<Longrightarrow> goes_on buf p (rd (r_bytes W) buf p u2)"
  "wire_progress W \<Longrightarrow> goes_on buf p (rd (r_bool W) buf p u3)"
  "wire_progress W \<Longrightarrow> goes_on buf p (rd (r_int32 W) buf p u4)"
  by (simp_all add: wire_progress_def goes_on_rd)

lemma forward_rd_msg:
  "wire_progress W \<Longrightarrow> goes_on buf p (rd_msg W (Value_dec W r) buf p u1)"
  "wire_progress W \<Longrightarrow> goes_on buf p (rd_msg W (Struct_dec W r) buf p u2)"
  "wire_progress W \<Longrightarrow> goes_on buf p (rd_msg W (Timestamp_dec W r) buf p u3)"
  by (simp_all add: goes_on_rd_msg value_codec.returns struct_codec.returns timestamp_codec.returns)

lemmas goes_on_intros = goes_on_if forward_rd forward_rd_msg goes_on_not_handled

lemma any_total: "wire_ok W \<Longrightarrow> wf_js v \<Longrightarrow> \<exists>b. f_any W tag (any_encode W) v = Some b"
  using any_encode_total [of W v] by (auto simp: f_any_def)

lemmas simple_laws = law_string law_bytes law_bool law_int32 law_opt_bytes law_rep_string

end
