(* ===== verification/SecretsMessages.thy ===== *)
theory SecretsMessages
  imports MessageCodec
begin

text \<open>
  The messages of \<open>src/gen/signet/v1/secrets.ts\<close>: for each, its fields, \<open>createBase\<dots>\<close>, \<open>encode\<close>,
  the \<open>switch\<close> of \<open>decode\<close> (\<open>\<dots>_field\<close>) and \<open>decode\<close> (\<open>\<dots>_dec\<close>), and the proof that it is a
  codec. An enumeration field is the number on the wire. \<open>valid_\<dots>\<close> says which values can be
  written (an \<open>int32\<close> in range, values with a JSON form, a valid date), \<open>depth_\<dots>\<close> how deep the
  decoder nests.
\<close>

subsection \<open>GetSecretRequest\<close>

record GetSecretRequest =
  GetSecretRequest_namespace :: string
  GetSecretRequest_service :: string
  GetSecretRequest_name :: string

definition createBaseGetSecretRequest :: GetSecretRequest where
  "createBaseGetSecretRequest =
     \<lparr>GetSecretRequest_namespace = '''', GetSecretRequest_service = '''',
      GetSecretRequest_name = ''''\<rparr>"

definition GetSecretRequest_encode :: "wire \<Rightarrow> GetSecretRequest \<Rightarrow> byte list option" where
  "GetSecretRequest_encode W m = enc_fields
     [f_string W 10 (GetSecretRequest_namespace m),
      f_string W 18 (GetSecretRequest_service m),
      f_string W 26 (GetSecretRequest_name m)]"

definition GetSecretRequest_field :: "wire \<Rightarrow> nat \<Rightarrow> GetSecretRequest handler" where
  "GetSecretRequest_field W r buf tag p m =
     (if tag = 10 then rd (r_string W) buf p (\<lambda>v. m\<lparr>GetSecretRequest_namespace := v\<rparr>)
      else if tag = 18 then rd (r_string W) buf p (\<lambda>v. m\<lparr>GetSecretRequest_service := v\<rparr>)
      else if tag = 26 then rd (r_string W) buf p (\<lambda>v. m\<lparr>GetSecretRequest_name := v\<rparr>)
      else Some NotHandled)"

definition GetSecretRequest_dec :: "wire \<Rightarrow> nat \<Rightarrow> GetSecretRequest decoder" where
  "GetSecretRequest_dec W = decode_message W (GetSecretRequest_field W) createBaseGetSecretRequest"

interpretation GetSecretRequest_codec: message_codec
  GetSecretRequest_dec GetSecretRequest_field createBaseGetSecretRequest GetSecretRequest_encode
  "\<lambda>_. True" "\<lambda>_. 1"
  "\<lambda>W. [string_field W 10 GetSecretRequest_namespace (\<lambda>v m. m\<lparr>GetSecretRequest_namespace := v\<rparr>),
       string_field W 18 GetSecretRequest_service (\<lambda>v m. m\<lparr>GetSecretRequest_service := v\<rparr>),
       string_field W 26 GetSecretRequest_name (\<lambda>v m. m\<lparr>GetSecretRequest_name := v\<rparr>)]"
  "[10, 18, 26]"
  by unfold_locales
     (auto simp: GetSecretRequest_dec_def GetSecretRequest_field_def
       GetSecretRequest_encode_def createBaseGetSecretRequest_def
       intro!: simple_laws goes_on_intros GetSecretRequest.equality)

subsection \<open>GetSecretResponse\<close>

record GetSecretResponse =
  GetSecretResponse_value :: "byte list"
  GetSecretResponse_version :: int

definition createBaseGetSecretResponse :: GetSecretResponse where
  "createBaseGetSecretResponse =
     \<lparr>GetSecretResponse_value = [], GetSecretResponse_version = 0\<rparr>"

definition GetSecretResponse_encode :: "wire \<Rightarrow> GetSecretResponse \<Rightarrow> byte list option" where
  "GetSecretResponse_encode W m = enc_fields
     [f_bytes W 10 (GetSecretResponse_value m),
      f_int32 W 16 (GetSecretResponse_version m)]"

definition GetSecretResponse_field :: "wire \<Rightarrow> nat \<Rightarrow> GetSecretResponse handler" where
  "GetSecretResponse_field W r buf tag p m =
     (if tag = 10 then rd (r_bytes W) buf p (\<lambda>v. m\<lparr>GetSecretResponse_value := v\<rparr>)
      else if tag = 16 then rd (r_int32 W) buf p (\<lambda>v. m\<lparr>GetSecretResponse_version := v\<rparr>)
      else Some NotHandled)"

definition GetSecretResponse_dec :: "wire \<Rightarrow> nat \<Rightarrow> GetSecretResponse decoder" where
  "GetSecretResponse_dec W = decode_message W (GetSecretResponse_field W) createBaseGetSecretResponse"

definition valid_GetSecretResponse :: "GetSecretResponse \<Rightarrow> bool" where
  "valid_GetSecretResponse m \<longleftrightarrow> in_int32 (GetSecretResponse_version m)"

interpretation GetSecretResponse_codec: message_codec
  GetSecretResponse_dec GetSecretResponse_field createBaseGetSecretResponse GetSecretResponse_encode
  "valid_GetSecretResponse" "\<lambda>_. 1"
  "\<lambda>W. [bytes_field W 10 GetSecretResponse_value (\<lambda>v m. m\<lparr>GetSecretResponse_value := v\<rparr>),
       int32_field W 16 GetSecretResponse_version (\<lambda>v m. m\<lparr>GetSecretResponse_version := v\<rparr>)]"
  "[10, 16]"
  by unfold_locales
     (auto simp: GetSecretResponse_dec_def GetSecretResponse_field_def
       GetSecretResponse_encode_def createBaseGetSecretResponse_def
       valid_GetSecretResponse_def int_field_total
       intro!: simple_laws goes_on_intros GetSecretResponse.equality)

subsection \<open>WatchSecretRequest\<close>

record WatchSecretRequest =
  WatchSecretRequest_namespace :: string
  WatchSecretRequest_service :: string
  WatchSecretRequest_name :: string

definition createBaseWatchSecretRequest :: WatchSecretRequest where
  "createBaseWatchSecretRequest =
     \<lparr>WatchSecretRequest_namespace = '''', WatchSecretRequest_service = '''',
      WatchSecretRequest_name = ''''\<rparr>"

definition WatchSecretRequest_encode :: "wire \<Rightarrow> WatchSecretRequest \<Rightarrow> byte list option" where
  "WatchSecretRequest_encode W m = enc_fields
     [f_string W 10 (WatchSecretRequest_namespace m),
      f_string W 18 (WatchSecretRequest_service m),
      f_string W 26 (WatchSecretRequest_name m)]"

definition WatchSecretRequest_field :: "wire \<Rightarrow> nat \<Rightarrow> WatchSecretRequest handler" where
  "WatchSecretRequest_field W r buf tag p m =
     (if tag = 10 then rd (r_string W) buf p (\<lambda>v. m\<lparr>WatchSecretRequest_namespace := v\<rparr>)
      else if tag = 18 then rd (r_string W) buf p (\<lambda>v. m\<lparr>WatchSecretRequest_service := v\<rparr>)
      else if tag = 26 then rd (r_string W) buf p (\<lambda>v. m\<lparr>WatchSecretRequest_name := v\<rparr>)
      else Some NotHandled)"

definition WatchSecretRequest_dec :: "wire \<Rightarrow> nat \<Rightarrow> WatchSecretRequest decoder" where
  "WatchSecretRequest_dec W = decode_message W (WatchSecretRequest_field W) createBaseWatchSecretRequest"

interpretation WatchSecretRequest_codec: message_codec
  WatchSecretRequest_dec WatchSecretRequest_field createBaseWatchSecretRequest WatchSecretRequest_encode
  "\<lambda>_. True" "\<lambda>_. 1"
  "\<lambda>W. [string_field W 10 WatchSecretRequest_namespace (\<lambda>v m. m\<lparr>WatchSecretRequest_namespace := v\<rparr>),
       string_field W 18 WatchSecretRequest_service (\<lambda>v m. m\<lparr>WatchSecretRequest_service := v\<rparr>),
       string_field W 26 WatchSecretRequest_name (\<lambda>v m. m\<lparr>WatchSecretRequest_name := v\<rparr>)]"
  "[10, 18, 26]"
  by unfold_locales
     (auto simp: WatchSecretRequest_dec_def WatchSecretRequest_field_def
       WatchSecretRequest_encode_def createBaseWatchSecretRequest_def
       intro!: simple_laws goes_on_intros WatchSecretRequest.equality)

subsection \<open>WatchSecretResponse\<close>

record WatchSecretResponse =
  WatchSecretResponse_eventType :: int
  WatchSecretResponse_namespace :: string
  WatchSecretResponse_service :: string
  WatchSecretResponse_name :: string
  WatchSecretResponse_value :: "byte list"
  WatchSecretResponse_version :: int

definition createBaseWatchSecretResponse :: WatchSecretResponse where
  "createBaseWatchSecretResponse =
     \<lparr>WatchSecretResponse_eventType = 0, WatchSecretResponse_namespace = '''',
      WatchSecretResponse_service = '''', WatchSecretResponse_name = '''',
      WatchSecretResponse_value = [], WatchSecretResponse_version = 0\<rparr>"

definition WatchSecretResponse_encode :: "wire \<Rightarrow> WatchSecretResponse \<Rightarrow> byte list option" where
  "WatchSecretResponse_encode W m = enc_fields
     [f_int32 W 8 (WatchSecretResponse_eventType m),
      f_string W 18 (WatchSecretResponse_namespace m),
      f_string W 26 (WatchSecretResponse_service m),
      f_string W 34 (WatchSecretResponse_name m),
      f_bytes W 42 (WatchSecretResponse_value m),
      f_int32 W 48 (WatchSecretResponse_version m)]"

definition WatchSecretResponse_field :: "wire \<Rightarrow> nat \<Rightarrow> WatchSecretResponse handler" where
  "WatchSecretResponse_field W r buf tag p m =
     (if tag = 8 then rd (r_int32 W) buf p (\<lambda>v. m\<lparr>WatchSecretResponse_eventType := v\<rparr>)
      else if tag = 18 then rd (r_string W) buf p (\<lambda>v. m\<lparr>WatchSecretResponse_namespace := v\<rparr>)
      else if tag = 26 then rd (r_string W) buf p (\<lambda>v. m\<lparr>WatchSecretResponse_service := v\<rparr>)
      else if tag = 34 then rd (r_string W) buf p (\<lambda>v. m\<lparr>WatchSecretResponse_name := v\<rparr>)
      else if tag = 42 then rd (r_bytes W) buf p (\<lambda>v. m\<lparr>WatchSecretResponse_value := v\<rparr>)
      else if tag = 48 then rd (r_int32 W) buf p (\<lambda>v. m\<lparr>WatchSecretResponse_version := v\<rparr>)
      else Some NotHandled)"

definition WatchSecretResponse_dec :: "wire \<Rightarrow> nat \<Rightarrow> WatchSecretResponse decoder" where
  "WatchSecretResponse_dec W = decode_message W (WatchSecretResponse_field W) createBaseWatchSecretResponse"

definition valid_WatchSecretResponse :: "WatchSecretResponse \<Rightarrow> bool" where
  "valid_WatchSecretResponse m \<longleftrightarrow> in_int32 (WatchSecretResponse_eventType m) \<and> in_int32 (WatchSecretResponse_version m)"

interpretation WatchSecretResponse_codec: message_codec
  WatchSecretResponse_dec WatchSecretResponse_field createBaseWatchSecretResponse WatchSecretResponse_encode
  "valid_WatchSecretResponse" "\<lambda>_. 1"
  "\<lambda>W. [int32_field W 8 WatchSecretResponse_eventType (\<lambda>v m. m\<lparr>WatchSecretResponse_eventType := v\<rparr>),
       string_field W 18 WatchSecretResponse_namespace (\<lambda>v m. m\<lparr>WatchSecretResponse_namespace := v\<rparr>),
       string_field W 26 WatchSecretResponse_service (\<lambda>v m. m\<lparr>WatchSecretResponse_service := v\<rparr>),
       string_field W 34 WatchSecretResponse_name (\<lambda>v m. m\<lparr>WatchSecretResponse_name := v\<rparr>),
       bytes_field W 42 WatchSecretResponse_value (\<lambda>v m. m\<lparr>WatchSecretResponse_value := v\<rparr>),
       int32_field W 48 WatchSecretResponse_version (\<lambda>v m. m\<lparr>WatchSecretResponse_version := v\<rparr>)]"
  "[8, 18, 26, 34, 42, 48]"
  by unfold_locales
     (auto simp: WatchSecretResponse_dec_def WatchSecretResponse_field_def
       WatchSecretResponse_encode_def createBaseWatchSecretResponse_def
       valid_WatchSecretResponse_def int_field_total
       intro!: simple_laws goes_on_intros WatchSecretResponse.equality)

subsection \<open>GetConfigRequest\<close>

record GetConfigRequest =
  GetConfigRequest_namespace :: string
  GetConfigRequest_service :: string
  GetConfigRequest_key :: string

definition createBaseGetConfigRequest :: GetConfigRequest where
  "createBaseGetConfigRequest =
     \<lparr>GetConfigRequest_namespace = '''', GetConfigRequest_service = '''',
      GetConfigRequest_key = ''''\<rparr>"

definition GetConfigRequest_encode :: "wire \<Rightarrow> GetConfigRequest \<Rightarrow> byte list option" where
  "GetConfigRequest_encode W m = enc_fields
     [f_string W 10 (GetConfigRequest_namespace m),
      f_string W 18 (GetConfigRequest_service m),
      f_string W 26 (GetConfigRequest_key m)]"

definition GetConfigRequest_field :: "wire \<Rightarrow> nat \<Rightarrow> GetConfigRequest handler" where
  "GetConfigRequest_field W r buf tag p m =
     (if tag = 10 then rd (r_string W) buf p (\<lambda>v. m\<lparr>GetConfigRequest_namespace := v\<rparr>)
      else if tag = 18 then rd (r_string W) buf p (\<lambda>v. m\<lparr>GetConfigRequest_service := v\<rparr>)
      else if tag = 26 then rd (r_string W) buf p (\<lambda>v. m\<lparr>GetConfigRequest_key := v\<rparr>)
      else Some NotHandled)"

definition GetConfigRequest_dec :: "wire \<Rightarrow> nat \<Rightarrow> GetConfigRequest decoder" where
  "GetConfigRequest_dec W = decode_message W (GetConfigRequest_field W) createBaseGetConfigRequest"

interpretation GetConfigRequest_codec: message_codec
  GetConfigRequest_dec GetConfigRequest_field createBaseGetConfigRequest GetConfigRequest_encode
  "\<lambda>_. True" "\<lambda>_. 1"
  "\<lambda>W. [string_field W 10 GetConfigRequest_namespace (\<lambda>v m. m\<lparr>GetConfigRequest_namespace := v\<rparr>),
       string_field W 18 GetConfigRequest_service (\<lambda>v m. m\<lparr>GetConfigRequest_service := v\<rparr>),
       string_field W 26 GetConfigRequest_key (\<lambda>v m. m\<lparr>GetConfigRequest_key := v\<rparr>)]"
  "[10, 18, 26]"
  by unfold_locales
     (auto simp: GetConfigRequest_dec_def GetConfigRequest_field_def
       GetConfigRequest_encode_def createBaseGetConfigRequest_def
       intro!: simple_laws goes_on_intros GetConfigRequest.equality)

subsection \<open>GetConfigResponse\<close>

record GetConfigResponse =
  GetConfigResponse_value :: js
  GetConfigResponse_version :: int

definition createBaseGetConfigResponse :: GetConfigResponse where
  "createBaseGetConfigResponse =
     \<lparr>GetConfigResponse_value = JUndefined, GetConfigResponse_version = 0\<rparr>"

definition GetConfigResponse_encode :: "wire \<Rightarrow> GetConfigResponse \<Rightarrow> byte list option" where
  "GetConfigResponse_encode W m = enc_fields
     [f_any W 10 (any_encode W) (GetConfigResponse_value m),
      f_int32 W 16 (GetConfigResponse_version m)]"

definition GetConfigResponse_field :: "wire \<Rightarrow> nat \<Rightarrow> GetConfigResponse handler" where
  "GetConfigResponse_field W r buf tag p m =
     (if tag = 10 then rd_msg W (Value_dec W r) buf p (\<lambda>v. m\<lparr>GetConfigResponse_value := Value_unwrap v\<rparr>)
      else if tag = 16 then rd (r_int32 W) buf p (\<lambda>v. m\<lparr>GetConfigResponse_version := v\<rparr>)
      else Some NotHandled)"

definition GetConfigResponse_dec :: "wire \<Rightarrow> nat \<Rightarrow> GetConfigResponse decoder" where
  "GetConfigResponse_dec W = decode_message W (GetConfigResponse_field W) createBaseGetConfigResponse"

definition valid_GetConfigResponse :: "GetConfigResponse \<Rightarrow> bool" where
  "valid_GetConfigResponse m \<longleftrightarrow> wf_js (GetConfigResponse_value m) \<and> in_int32 (GetConfigResponse_version m)"

definition depth_GetConfigResponse :: "GetConfigResponse \<Rightarrow> nat" where
  "depth_GetConfigResponse m = Suc (js_depth (GetConfigResponse_value m))"

interpretation GetConfigResponse_codec: message_codec
  GetConfigResponse_dec GetConfigResponse_field createBaseGetConfigResponse GetConfigResponse_encode
  "valid_GetConfigResponse" "depth_GetConfigResponse"
  "\<lambda>W. [any_field W 10 GetConfigResponse_value (\<lambda>v m. m\<lparr>GetConfigResponse_value := v\<rparr>),
       int32_field W 16 GetConfigResponse_version (\<lambda>v m. m\<lparr>GetConfigResponse_version := v\<rparr>)]"
  "[10, 16]"
  by unfold_locales
     (auto simp: GetConfigResponse_dec_def GetConfigResponse_field_def
       GetConfigResponse_encode_def createBaseGetConfigResponse_def
       valid_GetConfigResponse_def depth_GetConfigResponse_def any_total int_field_total
       intro!: simple_laws goes_on_intros law_any GetConfigResponse.equality)

subsection \<open>GetServiceConfigRequest\<close>

record GetServiceConfigRequest =
  GetServiceConfigRequest_namespace :: string
  GetServiceConfigRequest_service :: string

definition createBaseGetServiceConfigRequest :: GetServiceConfigRequest where
  "createBaseGetServiceConfigRequest =
     \<lparr>GetServiceConfigRequest_namespace = '''', GetServiceConfigRequest_service = ''''\<rparr>"

definition GetServiceConfigRequest_encode :: "wire \<Rightarrow> GetServiceConfigRequest \<Rightarrow> byte list option" where
  "GetServiceConfigRequest_encode W m = enc_fields
     [f_string W 10 (GetServiceConfigRequest_namespace m),
      f_string W 18 (GetServiceConfigRequest_service m)]"

definition GetServiceConfigRequest_field :: "wire \<Rightarrow> nat \<Rightarrow> GetServiceConfigRequest handler" where
  "GetServiceConfigRequest_field W r buf tag p m =
     (if tag = 10 then rd (r_string W) buf p (\<lambda>v. m\<lparr>GetServiceConfigRequest_namespace := v\<rparr>)
      else if tag = 18 then rd (r_string W) buf p (\<lambda>v. m\<lparr>GetServiceConfigRequest_service := v\<rparr>)
      else Some NotHandled)"

definition GetServiceConfigRequest_dec :: "wire \<Rightarrow> nat \<Rightarrow> GetServiceConfigRequest decoder" where
  "GetServiceConfigRequest_dec W = decode_message W (GetServiceConfigRequest_field W) createBaseGetServiceConfigRequest"

interpretation GetServiceConfigRequest_codec: message_codec
  GetServiceConfigRequest_dec GetServiceConfigRequest_field createBaseGetServiceConfigRequest GetServiceConfigRequest_encode
  "\<lambda>_. True" "\<lambda>_. 1"
  "\<lambda>W. [string_field W 10 GetServiceConfigRequest_namespace (\<lambda>v m. m\<lparr>GetServiceConfigRequest_namespace := v\<rparr>),
       string_field W 18 GetServiceConfigRequest_service (\<lambda>v m. m\<lparr>GetServiceConfigRequest_service := v\<rparr>)]"
  "[10, 18]"
  by unfold_locales
     (auto simp: GetServiceConfigRequest_dec_def GetServiceConfigRequest_field_def
       GetServiceConfigRequest_encode_def createBaseGetServiceConfigRequest_def
       intro!: simple_laws goes_on_intros GetServiceConfigRequest.equality)

subsection \<open>GetServiceConfigResponse\<close>

record GetServiceConfigResponse =
  GetServiceConfigResponse_values :: "obj option"
  GetServiceConfigResponse_version :: int

definition createBaseGetServiceConfigResponse :: GetServiceConfigResponse where
  "createBaseGetServiceConfigResponse =
     \<lparr>GetServiceConfigResponse_values = None, GetServiceConfigResponse_version = 0\<rparr>"

definition GetServiceConfigResponse_encode :: "wire \<Rightarrow> GetServiceConfigResponse \<Rightarrow> byte list option" where
  "GetServiceConfigResponse_encode W m = enc_fields
     [f_msg W 10 (obj_encode W) (GetServiceConfigResponse_values m),
      f_int32 W 16 (GetServiceConfigResponse_version m)]"

definition GetServiceConfigResponse_field :: "wire \<Rightarrow> nat \<Rightarrow> GetServiceConfigResponse handler" where
  "GetServiceConfigResponse_field W r buf tag p m =
     (if tag = 10 then rd_msg W (Struct_dec W r) buf p (\<lambda>v. m\<lparr>GetServiceConfigResponse_values := Some (Struct_unwrap v)\<rparr>)
      else if tag = 16 then rd (r_int32 W) buf p (\<lambda>v. m\<lparr>GetServiceConfigResponse_version := v\<rparr>)
      else Some NotHandled)"

definition GetServiceConfigResponse_dec :: "wire \<Rightarrow> nat \<Rightarrow> GetServiceConfigResponse decoder" where
  "GetServiceConfigResponse_dec W = decode_message W (GetServiceConfigResponse_field W) createBaseGetServiceConfigResponse"

definition valid_GetServiceConfigResponse :: "GetServiceConfigResponse \<Rightarrow> bool" where
  "valid_GetServiceConfigResponse m \<longleftrightarrow> pred_option wf_obj (GetServiceConfigResponse_values m) \<and> in_int32 (GetServiceConfigResponse_version m)"

definition depth_GetServiceConfigResponse :: "GetServiceConfigResponse \<Rightarrow> nat" where
  "depth_GetServiceConfigResponse m = Suc (opt_depth obj_depth (GetServiceConfigResponse_values m))"

interpretation GetServiceConfigResponse_codec: message_codec
  GetServiceConfigResponse_dec GetServiceConfigResponse_field createBaseGetServiceConfigResponse GetServiceConfigResponse_encode
  "valid_GetServiceConfigResponse" "depth_GetServiceConfigResponse"
  "\<lambda>W. [msg_field W 10 (obj_encode W) GetServiceConfigResponse_values (\<lambda>v m. m\<lparr>GetServiceConfigResponse_values := v\<rparr>),
       int32_field W 16 GetServiceConfigResponse_version (\<lambda>v m. m\<lparr>GetServiceConfigResponse_version := v\<rparr>)]"
  "[10, 16]"
  by unfold_locales
     (auto simp: GetServiceConfigResponse_dec_def GetServiceConfigResponse_field_def
       GetServiceConfigResponse_encode_def createBaseGetServiceConfigResponse_def
       valid_GetServiceConfigResponse_def depth_GetServiceConfigResponse_def opt_struct_total
       int_field_total
       intro!: simple_laws goes_on_intros law_struct GetServiceConfigResponse.equality)

subsection \<open>WatchServiceConfigRequest\<close>

record WatchServiceConfigRequest =
  WatchServiceConfigRequest_namespace :: string
  WatchServiceConfigRequest_service :: string

definition createBaseWatchServiceConfigRequest :: WatchServiceConfigRequest where
  "createBaseWatchServiceConfigRequest =
     \<lparr>WatchServiceConfigRequest_namespace = '''', WatchServiceConfigRequest_service = ''''\<rparr>"

definition WatchServiceConfigRequest_encode :: "wire \<Rightarrow> WatchServiceConfigRequest \<Rightarrow> byte list option" where
  "WatchServiceConfigRequest_encode W m = enc_fields
     [f_string W 10 (WatchServiceConfigRequest_namespace m),
      f_string W 18 (WatchServiceConfigRequest_service m)]"

definition WatchServiceConfigRequest_field :: "wire \<Rightarrow> nat \<Rightarrow> WatchServiceConfigRequest handler" where
  "WatchServiceConfigRequest_field W r buf tag p m =
     (if tag = 10 then rd (r_string W) buf p (\<lambda>v. m\<lparr>WatchServiceConfigRequest_namespace := v\<rparr>)
      else if tag = 18 then rd (r_string W) buf p (\<lambda>v. m\<lparr>WatchServiceConfigRequest_service := v\<rparr>)
      else Some NotHandled)"

definition WatchServiceConfigRequest_dec :: "wire \<Rightarrow> nat \<Rightarrow> WatchServiceConfigRequest decoder" where
  "WatchServiceConfigRequest_dec W = decode_message W (WatchServiceConfigRequest_field W) createBaseWatchServiceConfigRequest"

interpretation WatchServiceConfigRequest_codec: message_codec
  WatchServiceConfigRequest_dec WatchServiceConfigRequest_field createBaseWatchServiceConfigRequest WatchServiceConfigRequest_encode
  "\<lambda>_. True" "\<lambda>_. 1"
  "\<lambda>W. [string_field W 10 WatchServiceConfigRequest_namespace (\<lambda>v m. m\<lparr>WatchServiceConfigRequest_namespace := v\<rparr>),
       string_field W 18 WatchServiceConfigRequest_service (\<lambda>v m. m\<lparr>WatchServiceConfigRequest_service := v\<rparr>)]"
  "[10, 18]"
  by unfold_locales
     (auto simp: WatchServiceConfigRequest_dec_def WatchServiceConfigRequest_field_def
       WatchServiceConfigRequest_encode_def createBaseWatchServiceConfigRequest_def
       intro!: simple_laws goes_on_intros WatchServiceConfigRequest.equality)

subsection \<open>GetServiceBundleRequest\<close>

record GetServiceBundleRequest =
  GetServiceBundleRequest_namespace :: string
  GetServiceBundleRequest_service :: string

definition createBaseGetServiceBundleRequest :: GetServiceBundleRequest where
  "createBaseGetServiceBundleRequest =
     \<lparr>GetServiceBundleRequest_namespace = '''', GetServiceBundleRequest_service = ''''\<rparr>"

definition GetServiceBundleRequest_encode :: "wire \<Rightarrow> GetServiceBundleRequest \<Rightarrow> byte list option" where
  "GetServiceBundleRequest_encode W m = enc_fields
     [f_string W 10 (GetServiceBundleRequest_namespace m),
      f_string W 18 (GetServiceBundleRequest_service m)]"

definition GetServiceBundleRequest_field :: "wire \<Rightarrow> nat \<Rightarrow> GetServiceBundleRequest handler" where
  "GetServiceBundleRequest_field W r buf tag p m =
     (if tag = 10 then rd (r_string W) buf p (\<lambda>v. m\<lparr>GetServiceBundleRequest_namespace := v\<rparr>)
      else if tag = 18 then rd (r_string W) buf p (\<lambda>v. m\<lparr>GetServiceBundleRequest_service := v\<rparr>)
      else Some NotHandled)"

definition GetServiceBundleRequest_dec :: "wire \<Rightarrow> nat \<Rightarrow> GetServiceBundleRequest decoder" where
  "GetServiceBundleRequest_dec W = decode_message W (GetServiceBundleRequest_field W) createBaseGetServiceBundleRequest"

interpretation GetServiceBundleRequest_codec: message_codec
  GetServiceBundleRequest_dec GetServiceBundleRequest_field createBaseGetServiceBundleRequest GetServiceBundleRequest_encode
  "\<lambda>_. True" "\<lambda>_. 1"
  "\<lambda>W. [string_field W 10 GetServiceBundleRequest_namespace (\<lambda>v m. m\<lparr>GetServiceBundleRequest_namespace := v\<rparr>),
       string_field W 18 GetServiceBundleRequest_service (\<lambda>v m. m\<lparr>GetServiceBundleRequest_service := v\<rparr>)]"
  "[10, 18]"
  by unfold_locales
     (auto simp: GetServiceBundleRequest_dec_def GetServiceBundleRequest_field_def
       GetServiceBundleRequest_encode_def createBaseGetServiceBundleRequest_def
       intro!: simple_laws goes_on_intros GetServiceBundleRequest.equality)

subsection \<open>GetServiceBundleResponse\<close>

record GetServiceBundleResponse =
  GetServiceBundleResponse_bundle :: "obj option"
  GetServiceBundleResponse_configVersion :: int

definition createBaseGetServiceBundleResponse :: GetServiceBundleResponse where
  "createBaseGetServiceBundleResponse =
     \<lparr>GetServiceBundleResponse_bundle = None, GetServiceBundleResponse_configVersion = 0\<rparr>"

definition GetServiceBundleResponse_encode :: "wire \<Rightarrow> GetServiceBundleResponse \<Rightarrow> byte list option" where
  "GetServiceBundleResponse_encode W m = enc_fields
     [f_msg W 10 (obj_encode W) (GetServiceBundleResponse_bundle m),
      f_int32 W 16 (GetServiceBundleResponse_configVersion m)]"

definition GetServiceBundleResponse_field :: "wire \<Rightarrow> nat \<Rightarrow> GetServiceBundleResponse handler" where
  "GetServiceBundleResponse_field W r buf tag p m =
     (if tag = 10 then rd_msg W (Struct_dec W r) buf p (\<lambda>v. m\<lparr>GetServiceBundleResponse_bundle := Some (Struct_unwrap v)\<rparr>)
      else if tag = 16 then rd (r_int32 W) buf p (\<lambda>v. m\<lparr>GetServiceBundleResponse_configVersion := v\<rparr>)
      else Some NotHandled)"

definition GetServiceBundleResponse_dec :: "wire \<Rightarrow> nat \<Rightarrow> GetServiceBundleResponse decoder" where
  "GetServiceBundleResponse_dec W = decode_message W (GetServiceBundleResponse_field W) createBaseGetServiceBundleResponse"

definition valid_GetServiceBundleResponse :: "GetServiceBundleResponse \<Rightarrow> bool" where
  "valid_GetServiceBundleResponse m \<longleftrightarrow> pred_option wf_obj (GetServiceBundleResponse_bundle m) \<and> in_int32 (GetServiceBundleResponse_configVersion m)"

definition depth_GetServiceBundleResponse :: "GetServiceBundleResponse \<Rightarrow> nat" where
  "depth_GetServiceBundleResponse m = Suc (opt_depth obj_depth (GetServiceBundleResponse_bundle m))"

interpretation GetServiceBundleResponse_codec: message_codec
  GetServiceBundleResponse_dec GetServiceBundleResponse_field createBaseGetServiceBundleResponse GetServiceBundleResponse_encode
  "valid_GetServiceBundleResponse" "depth_GetServiceBundleResponse"
  "\<lambda>W. [msg_field W 10 (obj_encode W) GetServiceBundleResponse_bundle (\<lambda>v m. m\<lparr>GetServiceBundleResponse_bundle := v\<rparr>),
       int32_field W 16 GetServiceBundleResponse_configVersion (\<lambda>v m. m\<lparr>GetServiceBundleResponse_configVersion := v\<rparr>)]"
  "[10, 16]"
  by unfold_locales
     (auto simp: GetServiceBundleResponse_dec_def GetServiceBundleResponse_field_def
       GetServiceBundleResponse_encode_def createBaseGetServiceBundleResponse_def
       valid_GetServiceBundleResponse_def depth_GetServiceBundleResponse_def opt_struct_total
       int_field_total
       intro!: simple_laws goes_on_intros law_struct GetServiceBundleResponse.equality)

subsection \<open>WatchServiceBundleRequest\<close>

record WatchServiceBundleRequest =
  WatchServiceBundleRequest_namespace :: string
  WatchServiceBundleRequest_service :: string

definition createBaseWatchServiceBundleRequest :: WatchServiceBundleRequest where
  "createBaseWatchServiceBundleRequest =
     \<lparr>WatchServiceBundleRequest_namespace = '''', WatchServiceBundleRequest_service = ''''\<rparr>"

definition WatchServiceBundleRequest_encode :: "wire \<Rightarrow> WatchServiceBundleRequest \<Rightarrow> byte list option" where
  "WatchServiceBundleRequest_encode W m = enc_fields
     [f_string W 10 (WatchServiceBundleRequest_namespace m),
      f_string W 18 (WatchServiceBundleRequest_service m)]"

definition WatchServiceBundleRequest_field :: "wire \<Rightarrow> nat \<Rightarrow> WatchServiceBundleRequest handler" where
  "WatchServiceBundleRequest_field W r buf tag p m =
     (if tag = 10 then rd (r_string W) buf p (\<lambda>v. m\<lparr>WatchServiceBundleRequest_namespace := v\<rparr>)
      else if tag = 18 then rd (r_string W) buf p (\<lambda>v. m\<lparr>WatchServiceBundleRequest_service := v\<rparr>)
      else Some NotHandled)"

definition WatchServiceBundleRequest_dec :: "wire \<Rightarrow> nat \<Rightarrow> WatchServiceBundleRequest decoder" where
  "WatchServiceBundleRequest_dec W = decode_message W (WatchServiceBundleRequest_field W) createBaseWatchServiceBundleRequest"

interpretation WatchServiceBundleRequest_codec: message_codec
  WatchServiceBundleRequest_dec WatchServiceBundleRequest_field createBaseWatchServiceBundleRequest WatchServiceBundleRequest_encode
  "\<lambda>_. True" "\<lambda>_. 1"
  "\<lambda>W. [string_field W 10 WatchServiceBundleRequest_namespace (\<lambda>v m. m\<lparr>WatchServiceBundleRequest_namespace := v\<rparr>),
       string_field W 18 WatchServiceBundleRequest_service (\<lambda>v m. m\<lparr>WatchServiceBundleRequest_service := v\<rparr>)]"
  "[10, 18]"
  by unfold_locales
     (auto simp: WatchServiceBundleRequest_dec_def WatchServiceBundleRequest_field_def
       WatchServiceBundleRequest_encode_def createBaseWatchServiceBundleRequest_def
       intro!: simple_laws goes_on_intros WatchServiceBundleRequest.equality)

subsection \<open>WatchServiceBundleResponse\<close>

record WatchServiceBundleResponse =
  WatchServiceBundleResponse_eventType :: int
  WatchServiceBundleResponse_namespace :: string
  WatchServiceBundleResponse_service :: string

definition createBaseWatchServiceBundleResponse :: WatchServiceBundleResponse where
  "createBaseWatchServiceBundleResponse =
     \<lparr>WatchServiceBundleResponse_eventType = 0, WatchServiceBundleResponse_namespace = '''',
      WatchServiceBundleResponse_service = ''''\<rparr>"

definition WatchServiceBundleResponse_encode :: "wire \<Rightarrow> WatchServiceBundleResponse \<Rightarrow> byte list option" where
  "WatchServiceBundleResponse_encode W m = enc_fields
     [f_int32 W 8 (WatchServiceBundleResponse_eventType m),
      f_string W 18 (WatchServiceBundleResponse_namespace m),
      f_string W 26 (WatchServiceBundleResponse_service m)]"

definition WatchServiceBundleResponse_field :: "wire \<Rightarrow> nat \<Rightarrow> WatchServiceBundleResponse handler" where
  "WatchServiceBundleResponse_field W r buf tag p m =
     (if tag = 8 then rd (r_int32 W) buf p (\<lambda>v. m\<lparr>WatchServiceBundleResponse_eventType := v\<rparr>)
      else if tag = 18 then rd (r_string W) buf p (\<lambda>v. m\<lparr>WatchServiceBundleResponse_namespace := v\<rparr>)
      else if tag = 26 then rd (r_string W) buf p (\<lambda>v. m\<lparr>WatchServiceBundleResponse_service := v\<rparr>)
      else Some NotHandled)"

definition WatchServiceBundleResponse_dec :: "wire \<Rightarrow> nat \<Rightarrow> WatchServiceBundleResponse decoder" where
  "WatchServiceBundleResponse_dec W = decode_message W (WatchServiceBundleResponse_field W) createBaseWatchServiceBundleResponse"

definition valid_WatchServiceBundleResponse :: "WatchServiceBundleResponse \<Rightarrow> bool" where
  "valid_WatchServiceBundleResponse m \<longleftrightarrow> in_int32 (WatchServiceBundleResponse_eventType m)"

interpretation WatchServiceBundleResponse_codec: message_codec
  WatchServiceBundleResponse_dec WatchServiceBundleResponse_field createBaseWatchServiceBundleResponse WatchServiceBundleResponse_encode
  "valid_WatchServiceBundleResponse" "\<lambda>_. 1"
  "\<lambda>W. [int32_field W 8 WatchServiceBundleResponse_eventType (\<lambda>v m. m\<lparr>WatchServiceBundleResponse_eventType := v\<rparr>),
       string_field W 18 WatchServiceBundleResponse_namespace (\<lambda>v m. m\<lparr>WatchServiceBundleResponse_namespace := v\<rparr>),
       string_field W 26 WatchServiceBundleResponse_service (\<lambda>v m. m\<lparr>WatchServiceBundleResponse_service := v\<rparr>)]"
  "[8, 18, 26]"
  by unfold_locales
     (auto simp: WatchServiceBundleResponse_dec_def WatchServiceBundleResponse_field_def
       WatchServiceBundleResponse_encode_def createBaseWatchServiceBundleResponse_def
       valid_WatchServiceBundleResponse_def int_field_total
       intro!: simple_laws goes_on_intros WatchServiceBundleResponse.equality)

subsection \<open>AcquireRestartLockRequest\<close>

record AcquireRestartLockRequest =
  AcquireRestartLockRequest_namespace :: string
  AcquireRestartLockRequest_service :: string
  AcquireRestartLockRequest_ttlSeconds :: int
  AcquireRestartLockRequest_heartbeat :: bool

definition createBaseAcquireRestartLockRequest :: AcquireRestartLockRequest where
  "createBaseAcquireRestartLockRequest =
     \<lparr>AcquireRestartLockRequest_namespace = '''', AcquireRestartLockRequest_service = '''',
      AcquireRestartLockRequest_ttlSeconds = 0,
      AcquireRestartLockRequest_heartbeat = False\<rparr>"

definition AcquireRestartLockRequest_encode :: "wire \<Rightarrow> AcquireRestartLockRequest \<Rightarrow> byte list option" where
  "AcquireRestartLockRequest_encode W m = enc_fields
     [f_string W 10 (AcquireRestartLockRequest_namespace m),
      f_string W 18 (AcquireRestartLockRequest_service m),
      f_int32 W 24 (AcquireRestartLockRequest_ttlSeconds m),
      f_bool W 32 (AcquireRestartLockRequest_heartbeat m)]"

definition AcquireRestartLockRequest_field :: "wire \<Rightarrow> nat \<Rightarrow> AcquireRestartLockRequest handler" where
  "AcquireRestartLockRequest_field W r buf tag p m =
     (if tag = 10 then rd (r_string W) buf p (\<lambda>v. m\<lparr>AcquireRestartLockRequest_namespace := v\<rparr>)
      else if tag = 18 then rd (r_string W) buf p (\<lambda>v. m\<lparr>AcquireRestartLockRequest_service := v\<rparr>)
      else if tag = 24 then rd (r_int32 W) buf p (\<lambda>v. m\<lparr>AcquireRestartLockRequest_ttlSeconds := v\<rparr>)
      else if tag = 32 then rd (r_bool W) buf p (\<lambda>v. m\<lparr>AcquireRestartLockRequest_heartbeat := v\<rparr>)
      else Some NotHandled)"

definition AcquireRestartLockRequest_dec :: "wire \<Rightarrow> nat \<Rightarrow> AcquireRestartLockRequest decoder" where
  "AcquireRestartLockRequest_dec W = decode_message W (AcquireRestartLockRequest_field W) createBaseAcquireRestartLockRequest"

definition valid_AcquireRestartLockRequest :: "AcquireRestartLockRequest \<Rightarrow> bool" where
  "valid_AcquireRestartLockRequest m \<longleftrightarrow> in_int32 (AcquireRestartLockRequest_ttlSeconds m)"

interpretation AcquireRestartLockRequest_codec: message_codec
  AcquireRestartLockRequest_dec AcquireRestartLockRequest_field createBaseAcquireRestartLockRequest AcquireRestartLockRequest_encode
  "valid_AcquireRestartLockRequest" "\<lambda>_. 1"
  "\<lambda>W. [string_field W 10 AcquireRestartLockRequest_namespace (\<lambda>v m. m\<lparr>AcquireRestartLockRequest_namespace := v\<rparr>),
       string_field W 18 AcquireRestartLockRequest_service (\<lambda>v m. m\<lparr>AcquireRestartLockRequest_service := v\<rparr>),
       int32_field W 24 AcquireRestartLockRequest_ttlSeconds (\<lambda>v m. m\<lparr>AcquireRestartLockRequest_ttlSeconds := v\<rparr>),
       bool_field W 32 AcquireRestartLockRequest_heartbeat (\<lambda>v m. m\<lparr>AcquireRestartLockRequest_heartbeat := v\<rparr>)]"
  "[10, 18, 24, 32]"
  by unfold_locales
     (auto simp: AcquireRestartLockRequest_dec_def AcquireRestartLockRequest_field_def
       AcquireRestartLockRequest_encode_def createBaseAcquireRestartLockRequest_def
       valid_AcquireRestartLockRequest_def int_field_total
       intro!: simple_laws goes_on_intros AcquireRestartLockRequest.equality)

subsection \<open>AcquireRestartLockResponse\<close>

record AcquireRestartLockResponse =
  AcquireRestartLockResponse_messageType :: int
  AcquireRestartLockResponse_position :: int
  AcquireRestartLockResponse_token :: string
  AcquireRestartLockResponse_expiresAt :: "date option"

definition createBaseAcquireRestartLockResponse :: AcquireRestartLockResponse where
  "createBaseAcquireRestartLockResponse =
     \<lparr>AcquireRestartLockResponse_messageType = 0, AcquireRestartLockResponse_position = 0,
      AcquireRestartLockResponse_token = '''',
      AcquireRestartLockResponse_expiresAt = None\<rparr>"

definition AcquireRestartLockResponse_encode :: "wire \<Rightarrow> AcquireRestartLockResponse \<Rightarrow> byte list option" where
  "AcquireRestartLockResponse_encode W m = enc_fields
     [f_int32 W 8 (AcquireRestartLockResponse_messageType m),
      f_int32 W 16 (AcquireRestartLockResponse_position m),
      f_string W 26 (AcquireRestartLockResponse_token m),
      f_msg W 34 (date_encode W) (AcquireRestartLockResponse_expiresAt m)]"

definition AcquireRestartLockResponse_field :: "wire \<Rightarrow> nat \<Rightarrow> AcquireRestartLockResponse handler" where
  "AcquireRestartLockResponse_field W r buf tag p m =
     (if tag = 8 then rd (r_int32 W) buf p (\<lambda>v. m\<lparr>AcquireRestartLockResponse_messageType := v\<rparr>)
      else if tag = 16 then rd (r_int32 W) buf p (\<lambda>v. m\<lparr>AcquireRestartLockResponse_position := v\<rparr>)
      else if tag = 26 then rd (r_string W) buf p (\<lambda>v. m\<lparr>AcquireRestartLockResponse_token := v\<rparr>)
      else if tag = 34 then rd_msg W (Timestamp_dec W r) buf p (\<lambda>v. m\<lparr>AcquireRestartLockResponse_expiresAt := Some (fromTimestamp v)\<rparr>)
      else Some NotHandled)"

definition AcquireRestartLockResponse_dec :: "wire \<Rightarrow> nat \<Rightarrow> AcquireRestartLockResponse decoder" where
  "AcquireRestartLockResponse_dec W = decode_message W (AcquireRestartLockResponse_field W) createBaseAcquireRestartLockResponse"

definition valid_AcquireRestartLockResponse :: "AcquireRestartLockResponse \<Rightarrow> bool" where
  "valid_AcquireRestartLockResponse m \<longleftrightarrow> in_int32 (AcquireRestartLockResponse_messageType m) \<and> in_int32 (AcquireRestartLockResponse_position m) \<and> pred_option valid_date (AcquireRestartLockResponse_expiresAt m)"

definition depth_AcquireRestartLockResponse :: "AcquireRestartLockResponse \<Rightarrow> nat" where
  "depth_AcquireRestartLockResponse m = Suc (opt_depth (\<lambda>_. 1) (AcquireRestartLockResponse_expiresAt m))"

interpretation AcquireRestartLockResponse_codec: message_codec
  AcquireRestartLockResponse_dec AcquireRestartLockResponse_field createBaseAcquireRestartLockResponse AcquireRestartLockResponse_encode
  "valid_AcquireRestartLockResponse" "depth_AcquireRestartLockResponse"
  "\<lambda>W. [int32_field W 8 AcquireRestartLockResponse_messageType (\<lambda>v m. m\<lparr>AcquireRestartLockResponse_messageType := v\<rparr>),
       int32_field W 16 AcquireRestartLockResponse_position (\<lambda>v m. m\<lparr>AcquireRestartLockResponse_position := v\<rparr>),
       string_field W 26 AcquireRestartLockResponse_token (\<lambda>v m. m\<lparr>AcquireRestartLockResponse_token := v\<rparr>),
       msg_field W 34 (date_encode W) AcquireRestartLockResponse_expiresAt (\<lambda>v m. m\<lparr>AcquireRestartLockResponse_expiresAt := v\<rparr>)]"
  "[8, 16, 26, 34]"
  by unfold_locales
     (auto simp: AcquireRestartLockResponse_dec_def AcquireRestartLockResponse_field_def
       AcquireRestartLockResponse_encode_def createBaseAcquireRestartLockResponse_def
       valid_AcquireRestartLockResponse_def depth_AcquireRestartLockResponse_def
       opt_date_total int_field_total
       intro!: simple_laws goes_on_intros law_date AcquireRestartLockResponse.equality)

subsection \<open>WatchServiceConfigResponse\<close>

record WatchServiceConfigResponse =
  WatchServiceConfigResponse_eventType :: int
  WatchServiceConfigResponse_namespace :: string
  WatchServiceConfigResponse_service :: string
  WatchServiceConfigResponse_values :: "obj option"
  WatchServiceConfigResponse_version :: int

definition createBaseWatchServiceConfigResponse :: WatchServiceConfigResponse where
  "createBaseWatchServiceConfigResponse =
     \<lparr>WatchServiceConfigResponse_eventType = 0, WatchServiceConfigResponse_namespace = '''',
      WatchServiceConfigResponse_service = '''',
      WatchServiceConfigResponse_values = None, WatchServiceConfigResponse_version = 0\<rparr>"

definition WatchServiceConfigResponse_encode :: "wire \<Rightarrow> WatchServiceConfigResponse \<Rightarrow> byte list option" where
  "WatchServiceConfigResponse_encode W m = enc_fields
     [f_int32 W 8 (WatchServiceConfigResponse_eventType m),
      f_string W 18 (WatchServiceConfigResponse_namespace m),
      f_string W 26 (WatchServiceConfigResponse_service m),
      f_msg W 34 (obj_encode W) (WatchServiceConfigResponse_values m),
      f_int32 W 40 (WatchServiceConfigResponse_version m)]"

definition WatchServiceConfigResponse_field :: "wire \<Rightarrow> nat \<Rightarrow> WatchServiceConfigResponse handler" where
  "WatchServiceConfigResponse_field W r buf tag p m =
     (if tag = 8 then rd (r_int32 W) buf p (\<lambda>v. m\<lparr>WatchServiceConfigResponse_eventType := v\<rparr>)
      else if tag = 18 then rd (r_string W) buf p (\<lambda>v. m\<lparr>WatchServiceConfigResponse_namespace := v\<rparr>)
      else if tag = 26 then rd (r_string W) buf p (\<lambda>v. m\<lparr>WatchServiceConfigResponse_service := v\<rparr>)
      else if tag = 34 then rd_msg W (Struct_dec W r) buf p (\<lambda>v. m\<lparr>WatchServiceConfigResponse_values := Some (Struct_unwrap v)\<rparr>)
      else if tag = 40 then rd (r_int32 W) buf p (\<lambda>v. m\<lparr>WatchServiceConfigResponse_version := v\<rparr>)
      else Some NotHandled)"

definition WatchServiceConfigResponse_dec :: "wire \<Rightarrow> nat \<Rightarrow> WatchServiceConfigResponse decoder" where
  "WatchServiceConfigResponse_dec W = decode_message W (WatchServiceConfigResponse_field W) createBaseWatchServiceConfigResponse"

definition valid_WatchServiceConfigResponse :: "WatchServiceConfigResponse \<Rightarrow> bool" where
  "valid_WatchServiceConfigResponse m \<longleftrightarrow> in_int32 (WatchServiceConfigResponse_eventType m) \<and> pred_option wf_obj (WatchServiceConfigResponse_values m) \<and> in_int32 (WatchServiceConfigResponse_version m)"

definition depth_WatchServiceConfigResponse :: "WatchServiceConfigResponse \<Rightarrow> nat" where
  "depth_WatchServiceConfigResponse m = Suc (opt_depth obj_depth (WatchServiceConfigResponse_values m))"

interpretation WatchServiceConfigResponse_codec: message_codec
  WatchServiceConfigResponse_dec WatchServiceConfigResponse_field createBaseWatchServiceConfigResponse WatchServiceConfigResponse_encode
  "valid_WatchServiceConfigResponse" "depth_WatchServiceConfigResponse"
  "\<lambda>W. [int32_field W 8 WatchServiceConfigResponse_eventType (\<lambda>v m. m\<lparr>WatchServiceConfigResponse_eventType := v\<rparr>),
       string_field W 18 WatchServiceConfigResponse_namespace (\<lambda>v m. m\<lparr>WatchServiceConfigResponse_namespace := v\<rparr>),
       string_field W 26 WatchServiceConfigResponse_service (\<lambda>v m. m\<lparr>WatchServiceConfigResponse_service := v\<rparr>),
       msg_field W 34 (obj_encode W) WatchServiceConfigResponse_values (\<lambda>v m. m\<lparr>WatchServiceConfigResponse_values := v\<rparr>),
       int32_field W 40 WatchServiceConfigResponse_version (\<lambda>v m. m\<lparr>WatchServiceConfigResponse_version := v\<rparr>)]"
  "[8, 18, 26, 34, 40]"
  by unfold_locales
     (auto simp: WatchServiceConfigResponse_dec_def WatchServiceConfigResponse_field_def
       WatchServiceConfigResponse_encode_def createBaseWatchServiceConfigResponse_def
       valid_WatchServiceConfigResponse_def depth_WatchServiceConfigResponse_def
       opt_struct_total int_field_total
       intro!: simple_laws goes_on_intros law_struct WatchServiceConfigResponse.equality)

text \<open>Every codec of this theory reads back what it wrote.\<close>

lemmas SecretsMessages_sound =
      GetSecretRequest_codec.sound GetSecretResponse_codec.sound
      WatchSecretRequest_codec.sound WatchSecretResponse_codec.sound
      GetConfigRequest_codec.sound GetConfigResponse_codec.sound
      GetServiceConfigRequest_codec.sound GetServiceConfigResponse_codec.sound
      WatchServiceConfigRequest_codec.sound GetServiceBundleRequest_codec.sound
      GetServiceBundleResponse_codec.sound WatchServiceBundleRequest_codec.sound
      WatchServiceBundleResponse_codec.sound AcquireRestartLockRequest_codec.sound
      AcquireRestartLockResponse_codec.sound WatchServiceConfigResponse_codec.sound

text \<open>Every codec of this theory returns.\<close>

lemmas SecretsMessages_total =
      GetSecretRequest_codec.total GetSecretResponse_codec.total
      WatchSecretRequest_codec.total WatchSecretResponse_codec.total
      GetConfigRequest_codec.total GetConfigResponse_codec.total
      GetServiceConfigRequest_codec.total GetServiceConfigResponse_codec.total
      WatchServiceConfigRequest_codec.total GetServiceBundleRequest_codec.total
      GetServiceBundleResponse_codec.total WatchServiceBundleRequest_codec.total
      WatchServiceBundleResponse_codec.total AcquireRestartLockRequest_codec.total
      AcquireRestartLockResponse_codec.total WatchServiceConfigResponse_codec.total

text \<open>Every codec of this theory skips what it does not know.\<close>

lemmas SecretsMessages_ignores =
      GetSecretRequest_codec.ignores GetSecretResponse_codec.ignores
      WatchSecretRequest_codec.ignores WatchSecretResponse_codec.ignores
      GetConfigRequest_codec.ignores GetConfigResponse_codec.ignores
      GetServiceConfigRequest_codec.ignores GetServiceConfigResponse_codec.ignores
      WatchServiceConfigRequest_codec.ignores GetServiceBundleRequest_codec.ignores
      GetServiceBundleResponse_codec.ignores WatchServiceBundleRequest_codec.ignores
      WatchServiceBundleResponse_codec.ignores AcquireRestartLockRequest_codec.ignores
      AcquireRestartLockResponse_codec.ignores WatchServiceConfigResponse_codec.ignores

end
