(* ===== verification/Lock.thy ===== *)
theory Lock
  imports Streams SecretsMessages
begin

text \<open>
  \<open>Lock\<close>, \<open>acquireLockWithStream\<close> and \<open>acquireLock\<close> of \<open>src/restart.ts\<close>, over the lock stream of
  \<open>Streams\<close> and the messages of \<open>SecretsMessages\<close>. The running acquisition is a state machine:
  the lock object, the sending half of the stream, the receive loop, the \<open>acquired\<close> promise and
  the race of it against the abort signal. Its events are a settled \<open>recv()\<close>, a tick of the
  heartbeat timer, the reaction of the race, the abort event, and the caller's \<open>release()\<close>.
\<close>

section \<open>The class Lock\<close>

record lock =
  token :: string
  expires_at :: "date option"
  released :: bool
  lost_reported :: bool
  heartbeat_timer :: "int option"
  recv_done :: bool
  lost :: "thrown option"

definition lock_new :: lock where
  "lock_new = \<lparr>token = '''', expires_at = None, released = False, lost_reported = False,
     heartbeat_timer = None, recv_done = False, lost = None\<rparr>"

definition set_acquired :: "string \<Rightarrow> date option \<Rightarrow> lock \<Rightarrow> lock" where
  "set_acquired tok expires l = l\<lparr>token := tok, expires_at := expires\<rparr>"

definition update_expiry :: "date option \<Rightarrow> lock \<Rightarrow> lock" where
  "update_expiry expires l = (if expires \<noteq> None then l\<lparr>expires_at := expires\<rparr> else l)"

text \<open>The second component: the \<open>lost\<close> events emitted.\<close>

definition report_lost :: "thrown \<Rightarrow> lock \<Rightarrow> lock \<times> thrown list" where
  "report_lost err l =
     (if released l \<or> lost_reported l then (l, [])
      else (l\<lparr>lost_reported := True, lost := settle (lost l) err\<rparr>, [err]))"

definition finish_recv_loop :: "lock \<Rightarrow> lock" where
  "finish_recv_loop l = l\<lparr>recv_done := True\<rparr>"

definition start_heartbeat :: "int \<Rightarrow> lock \<Rightarrow> lock" where
  "start_heartbeat interval_ms l = l\<lparr>heartbeat_timer := Some (timer_delay (max 1 interval_ms))\<rparr>"

definition stop_heartbeat :: "lock \<Rightarrow> lock" where
  "stop_heartbeat l = l\<lparr>heartbeat_timer := None\<rparr>"

text \<open>What \<open>release()\<close> does to the lock itself.\<close>

definition release_lock :: "lock \<Rightarrow> lock" where
  [simp]: "release_lock l = stop_heartbeat (l\<lparr>released := True\<rparr>)"

lemmas lock_ops [ops] = set_acquired_def update_expiry_def report_lost_def finish_recv_loop_def
  start_heartbeat_def stop_heartbeat_def

section \<open>acquireLockWithStream\<close>

record lock_options =
  signal :: "bool option"
  abort_reason :: "thrown option"
  heartbeatIntervalMs :: "int option"

definition math_trunc :: "rat \<Rightarrow> int" where
  "math_trunc x = (if 0 \<le> x then \<lfloor>x\<rfloor> else \<lceil>x\<rceil>)"

definition ttl_secs :: "rat \<Rightarrow> int" where
  "ttl_secs ttlSeconds = max 1 (math_trunc ttlSeconds)"

definition heartbeat_interval :: "lock_options \<Rightarrow> int \<Rightarrow> int" where
  "heartbeat_interval opts ttl =
     (case heartbeatIntervalMs opts of Some ms \<Rightarrow> ms | None \<Rightarrow> max 1 (ttl * 1000 div 4))"

definition heartbeat_request :: AcquireRestartLockRequest where
  "heartbeat_request = \<lparr>AcquireRestartLockRequest_namespace = '''', AcquireRestartLockRequest_service = '''',
     AcquireRestartLockRequest_ttlSeconds = 0, AcquireRestartLockRequest_heartbeat = True\<rparr>"

definition initial_request :: "string \<Rightarrow> string \<Rightarrow> int \<Rightarrow> AcquireRestartLockRequest" where
  "initial_request ns svc ttl = \<lparr>AcquireRestartLockRequest_namespace = ns,
     AcquireRestartLockRequest_service = svc, AcquireRestartLockRequest_ttlSeconds = ttl,
     AcquireRestartLockRequest_heartbeat = False\<rparr>"

definition MESSAGE_TYPE_ACQUIRED :: int where "MESSAGE_TYPE_ACQUIRED = 2"
definition MESSAGE_TYPE_TTL_EXTENDED :: int where "MESSAGE_TYPE_TTL_EXTENDED = 3"

text \<open>
  \<open>waiting_releases\<close> are the calls of \<open>release()\<close> that await the end of the receive loop,
  \<open>result\<close> is what the call of \<open>acquireLockWithStream\<close> has settled with.
\<close>

record acquisition =
  the_lock :: lock
  out :: "AcquireRestartLockRequest sink"
  got_acquired :: bool
  acquired :: "(thrown + unit) option"
  the_race :: "unit race"
  result :: "(thrown + unit) option"
  waiting_releases :: "nat list"
  release_calls :: nat

datatype lock_event =
    Received AcquireRestartLockResponse
  | ReceiveFails thrown
  | HeartbeatTick
  | AcquiredReaction
  | SignalAbort
  | CallRelease

datatype lock_output = LostEvent thrown | Released nat

text \<open>What follows the race: the \<open>catch\<close> closes the stream when there is a signal to race with.\<close>

definition after_race :: "lock_options \<Rightarrow> acquisition \<Rightarrow> acquisition" where
  "after_race opts a =
     (case result a of
        Some r \<Rightarrow> a
      | None \<Rightarrow> (case race_out (the_race a) of
          None \<Rightarrow> a
        | Some (Inr u) \<Rightarrow> a\<lparr>result := Some (Inr u)\<rparr>
        | Some (Inl err) \<Rightarrow>
            (if signal opts = None then a\<lparr>result := Some (Inl err)\<rparr>
             else a\<lparr>out := sink_close_send (out a),
                    result := Some (Inl (if err = abort_marker
                      then aborted_error (abort_reason opts) ''AcquireRestartLock'' else err))\<rparr>)))"

definition stream_ended_error :: "thrown \<Rightarrow> thrown" where
  "stream_ended_error err =
     mk_error (''signet: AcquireRestartLock stream ended before the lock was acquired: '' @ error_text err)"

fun acquisition_step ::
  "lock_options \<Rightarrow> int \<Rightarrow> acquisition \<Rightarrow> lock_event \<Rightarrow> acquisition \<times> lock_output list" where
  "acquisition_step opts ttl a (Received resp) =
     (if recv_done (the_lock a) then (a, [])
      else if AcquireRestartLockResponse_messageType resp = MESSAGE_TYPE_ACQUIRED then
        (let l = set_acquired (AcquireRestartLockResponse_token resp)
                   (AcquireRestartLockResponse_expiresAt resp) (the_lock a)
         in if \<not> got_acquired a
            then (a\<lparr>the_lock := start_heartbeat (heartbeat_interval opts ttl) l, got_acquired := True,
                    acquired := settle (acquired a) (Inr ())\<rparr>, [])
            else (a\<lparr>the_lock := l\<rparr>, []))
      else if AcquireRestartLockResponse_messageType resp = MESSAGE_TYPE_TTL_EXTENDED then
        (a\<lparr>the_lock := update_expiry (AcquireRestartLockResponse_expiresAt resp) (the_lock a)\<rparr>, [])
      else (a, []))"
| "acquisition_step opts ttl a (ReceiveFails err) =
     (if recv_done (the_lock a) then (a, [])
      else
        (let wrapped = as_error err;
             (a1, events) =
               (if \<not> got_acquired a
                then (a\<lparr>acquired := settle (acquired a) (Inl (stream_ended_error wrapped))\<rparr>, [])
                else (let (l, evs) = report_lost wrapped (the_lock a) in (a\<lparr>the_lock := l\<rparr>, evs)))
         in (a1\<lparr>the_lock := finish_recv_loop (the_lock a1), waiting_releases := []\<rparr>,
             map LostEvent events @ map Released (waiting_releases a1))))"
| "acquisition_step opts ttl a HeartbeatTick =
     (case heartbeat_timer (the_lock a) of
        None \<Rightarrow> (a, [])
      | Some ms \<Rightarrow> (case sink_send heartbeat_request (out a) of
          Inr s \<Rightarrow> (a\<lparr>out := s\<rparr>, [])
        | Inl err \<Rightarrow>
            (let (l, evs) = report_lost (as_error err) (stop_heartbeat (the_lock a))
             in (a\<lparr>the_lock := l\<rparr>, map LostEvent evs))))"
| "acquisition_step opts ttl a AcquiredReaction =
     (case acquired a of
        None \<Rightarrow> (a, [])
      | Some r \<Rightarrow> (after_race opts (a\<lparr>the_race := race_step (the_race a) (Settled r)\<rparr>), []))"
| "acquisition_step opts ttl a SignalAbort =
     (after_race opts (a\<lparr>the_race := race_step (the_race a) SignalAborts\<rparr>), [])"
| "acquisition_step opts ttl a CallRelease =
     (if result a \<noteq> Some (Inr ()) then (a, [])
      else if released (the_lock a) then
        (a\<lparr>release_calls := Suc (release_calls a)\<rparr>, [Released (release_calls a)])
      else
        (let a1 = a\<lparr>the_lock := release_lock (the_lock a),
                    out := sink_close_send (out a), release_calls := Suc (release_calls a)\<rparr>
         in if recv_done (the_lock a1) then (a1, [Released (release_calls a)])
            else (a1\<lparr>waiting_releases := waiting_releases a1 @ [release_calls a]\<rparr>, [])))"

definition acquire_lock_with_stream ::
  "AcquireRestartLockRequest sink \<Rightarrow> string \<Rightarrow> string \<Rightarrow> rat \<Rightarrow> lock_options \<Rightarrow> thrown + acquisition" where
  "acquire_lock_with_stream stream ns svc ttlSeconds opts =
     (case sink_send (initial_request ns svc (ttl_secs ttlSeconds)) stream of
        Inl err \<Rightarrow>
          Inl (mk_error (''signet: send initial AcquireRestartLock request: '' @ err_message err))
      | Inr s \<Rightarrow> Inr (after_race opts
          \<lparr>the_lock = lock_new, out = s, got_acquired = False, acquired = None,
           the_race = race_start (signal opts), result = None,
           waiting_releases = [], release_calls = 0\<rparr>))"

section \<open>acquireLock\<close>

datatype js_number = Finite rat | NaN | Infinity | NegInfinity

definition positive_finite :: "js_number \<Rightarrow> rat option" where
  "positive_finite n = (case n of Finite x \<Rightarrow> if x \<le> 0 then None else Some x | _ \<Rightarrow> None)"

text \<open>
  \<open>opened\<close> is what \<open>client.acquireRestartLock()\<close> does: throw, or give a stream; \<open>num_string\<close> is the
  language's conversion of a number to a string.
\<close>

definition acquire_lock ::
  "(js_number \<Rightarrow> string) \<Rightarrow> thrown + unit \<Rightarrow> string \<Rightarrow> string \<Rightarrow> js_number \<Rightarrow> lock_options \<Rightarrow>
   thrown + acquisition" where
  "acquire_lock num_string opened ns svc ttlSeconds opts =
     (case positive_finite ttlSeconds of
        None \<Rightarrow> Inl (mk_error (''signet: ttlSeconds must be > 0, got '' @ num_string ttlSeconds))
      | Some ttl \<Rightarrow> (case opened of
          Inl err \<Rightarrow> Inl (mk_error (''signet: open AcquireRestartLock stream: '' @ err_message err))
        | Inr u \<Rightarrow> acquire_lock_with_stream sink_new ns svc ttl opts))"

section \<open>Runs\<close>

definition start_acquisition :: "string \<Rightarrow> string \<Rightarrow> int \<Rightarrow> lock_options \<Rightarrow> acquisition" where
  "start_acquisition ns svc ttl opts = after_race opts
     \<lparr>the_lock = lock_new, out = sink_new\<lparr>written := [initial_request ns svc ttl]\<rparr>,
      got_acquired = False, acquired = None, the_race = race_start (signal opts), result = None,
      waiting_releases = [], release_calls = 0\<rparr>"

lemma acquire_starts:
  "acquire_lock_with_stream sink_new ns svc ttl opts = Inr (start_acquisition ns svc (ttl_secs ttl) opts)"
  by (simp add: acquire_lock_with_stream_def start_acquisition_def sink_send_def sink_new_def)

abbreviation lock_run ::
  "string \<Rightarrow> string \<Rightarrow> int \<Rightarrow> lock_options \<Rightarrow> lock_event list \<Rightarrow> acquisition \<times> lock_output list" where
  "lock_run ns svc ttl opts es \<equiv> run (acquisition_step opts ttl) (start_acquisition ns svc ttl opts) es"

abbreviation lock_after :: "string \<Rightarrow> string \<Rightarrow> int \<Rightarrow> lock_options \<Rightarrow> lock_event list \<Rightarrow> acquisition" where
  "lock_after ns svc ttl opts es \<equiv> fst (lock_run ns svc ttl opts es)"

lemmas acquisition_cases = acquisition_step.cases [of "(opts, ttl, a, e)" for opts ttl a e]

lemma after_race_simps [simp]:
  "the_lock (after_race opts a) = the_lock a" "got_acquired (after_race opts a) = got_acquired a"
  "acquired (after_race opts a) = acquired a" "the_race (after_race opts a) = the_race a"
  "waiting_releases (after_race opts a) = waiting_releases a"
  "release_calls (after_race opts a) = release_calls a"
  "written (out (after_race opts a)) = written (out a)"
  by (auto simp: after_race_def sink_close_send_def split: option.split sum.split)

lemma start_acquisition_simps [simp]:
  "the_lock (start_acquisition ns svc ttl opts) = lock_new"
  "got_acquired (start_acquisition ns svc ttl opts) = False"
  "acquired (start_acquisition ns svc ttl opts) = None"
  "waiting_releases (start_acquisition ns svc ttl opts) = []"
  "written (out (start_acquisition ns svc ttl opts)) = [initial_request ns svc ttl]"
  by (simp_all add: start_acquisition_def)

section \<open>The invariant\<close>

text \<open>
  After a release the heartbeat is off and the sending side closed; the timer runs only after
  the acquisition; a loss is recorded exactly when it was reported, and only for an acquired
  lock; the caller waits in \<open>release()\<close> only while the receive loop runs.
\<close>

definition acq_inv :: "acquisition \<Rightarrow> bool" where
  "acq_inv a \<longleftrightarrow>
     (released (the_lock a) \<longrightarrow> heartbeat_timer (the_lock a) = None \<and> send_closed (out a) \<and>
        result a = Some (Inr ())) \<and>
     (heartbeat_timer (the_lock a) \<noteq> None \<longrightarrow> got_acquired a) \<and>
     (lost (the_lock a) \<noteq> None \<longleftrightarrow> lost_reported (the_lock a)) \<and>
     (lost_reported (the_lock a) \<longrightarrow> got_acquired a) \<and>
     (got_acquired a \<longleftrightarrow> acquired a = Some (Inr ())) \<and>
     (acquired a \<noteq> None \<longleftrightarrow> got_acquired a \<or> recv_done (the_lock a)) \<and>
     (recv_done (the_lock a) \<longrightarrow> waiting_releases a = []) \<and>
     (waiting_releases a \<noteq> [] \<longrightarrow> released (the_lock a)) \<and>
     (result a = Some (Inr ()) \<longrightarrow> got_acquired a)"

definition race_inv :: "acquisition \<Rightarrow> bool" where
  "race_inv a \<longleftrightarrow>
     (race_out (the_race a) = Some (Inr ()) \<longrightarrow> got_acquired a) \<and>
     (result a = Some (Inr ()) \<longrightarrow> race_out (the_race a) = Some (Inr ()))"

definition lock_inv :: "acquisition \<Rightarrow> bool" where
  "lock_inv a \<longleftrightarrow> acq_inv a \<and> race_inv a"

lemma after_race_out_closed: "send_closed (out a) \<Longrightarrow> send_closed (out (after_race opts a))"
  by (auto simp: after_race_def sink_close_send_def split: option.split sum.split)

lemma after_race_result:
  "result (after_race opts a) = Some (Inr ()) \<longleftrightarrow>
     result a = Some (Inr ()) \<or> result a = None \<and> race_out (the_race a) = Some (Inr ())"
  by (auto simp: after_race_def split: option.split sum.split)

lemma race_step_wins:
  "race_out (race_step r (Settled x)) = Some (Inr ()) \<Longrightarrow> race_out r = Some (Inr ()) \<or> x = Inr ()"
  "race_out (race_step r SignalAborts) = Some (Inr ()) \<Longrightarrow> race_out r = Some (Inr ())"
  by (auto simp: settle_def split: option.splits if_splits)

lemma race_step_keeps:
  "race_out r = Some x \<Longrightarrow> race_out (race_step r e) = Some x"
  by (cases e) auto

lemma acquisition_step_inv: "lock_inv a \<Longrightarrow> lock_inv (fst (acquisition_step opts ttl a e))"
proof -
  assume inv: "lock_inv a"
  show ?thesis
  proof (cases e)
    case AcquiredReaction
    show ?thesis
    proof (cases "acquired a")
      case (Some r)
      let ?b = "a\<lparr>the_race := race_step (the_race a) (Settled r)\<rparr>"
      have "released (the_lock a) \<Longrightarrow> result (after_race opts ?b) = Some (Inr ())"
        using inv by (simp add: lock_inv_def acq_inv_def after_race_result)
      moreover have "released (the_lock a) \<Longrightarrow> send_closed (out (after_race opts ?b))"
        using inv by (intro after_race_out_closed) (simp add: lock_inv_def acq_inv_def)
      moreover have "race_out (race_step (the_race a) (Settled r)) = Some (Inr ()) \<Longrightarrow> got_acquired a"
        using inv Some race_step_wins(1) [of "the_race a" r] by (auto simp: lock_inv_def race_inv_def acq_inv_def)
      ultimately show ?thesis
        using inv AcquiredReaction Some race_step_keeps [of "the_race a" "Inr ()" "Settled r"]
        unfolding lock_inv_def acq_inv_def race_inv_def
        by (simp add: after_race_result del: race_step.simps) blast
    qed (use inv AcquiredReaction in simp)
  next
    case SignalAbort
    let ?b = "a\<lparr>the_race := race_step (the_race a) SignalAborts\<rparr>"
    have "released (the_lock a) \<Longrightarrow> result (after_race opts ?b) = Some (Inr ())"
      using inv by (simp add: lock_inv_def acq_inv_def after_race_result)
    moreover have "released (the_lock a) \<Longrightarrow> send_closed (out (after_race opts ?b))"
      using inv by (intro after_race_out_closed) (simp add: lock_inv_def acq_inv_def)
    moreover have "race_out (race_step (the_race a) SignalAborts) = Some (Inr ()) \<Longrightarrow> got_acquired a"
      using inv race_step_wins(2) [of "the_race a"] by (auto simp: lock_inv_def race_inv_def)
    ultimately show ?thesis
      using inv SignalAbort race_step_keeps [of "the_race a" "Inr ()" SignalAborts]
      unfolding lock_inv_def acq_inv_def race_inv_def
      by (simp add: after_race_result del: race_step.simps) blast
  next
    case (Received resp)
    show ?thesis
    proof (cases "recv_done (the_lock a)")
      case False
      then show ?thesis
        using inv Received
        by (cases "got_acquired a"; cases "acquired a")
           (auto simp: lock_inv_def acq_inv_def race_inv_def lock_ops Let_def)
    qed (use inv Received in simp)
  next
    case (ReceiveFails err)
    show ?thesis
    proof (cases "recv_done (the_lock a)")
      case False
      then show ?thesis
        using inv ReceiveFails
        by (cases "got_acquired a"; cases "acquired a"; cases "released (the_lock a) \<or> lost_reported (the_lock a)")
           (auto simp: lock_inv_def acq_inv_def race_inv_def lock_ops Let_def)
    qed (use inv ReceiveFails in simp)
  next
    case HeartbeatTick
    show ?thesis
    proof (cases "heartbeat_timer (the_lock a)")
      case (Some ms)
      then show ?thesis
        using inv HeartbeatTick
        by (cases "send_closed (out a)"; cases "lost_reported (the_lock a)")
           (simp_all add: lock_inv_def acq_inv_def race_inv_def lock_ops sink_ops Let_def)
    qed (use inv HeartbeatTick in simp)
  next
    case CallRelease
    show ?thesis
    proof (cases "result a = Some (Inr ()) \<and> \<not> released (the_lock a)")
      case True
      then show ?thesis
        using inv CallRelease
        by (cases "recv_done (the_lock a)")
           (auto simp: lock_inv_def acq_inv_def race_inv_def lock_ops sink_ops Let_def)
    qed (use inv CallRelease in \<open>auto simp: lock_inv_def acq_inv_def race_inv_def\<close>)
  qed
qed


interpretation acq: event_machine "acquisition_step opts ttl" lock_inv for opts ttl
  by unfold_locales (rule acquisition_step_inv)

lemma start_acquisition_inv: "lock_inv (start_acquisition ns svc ttl opts)"
proof -
  have "race_out (race_start x :: unit race) \<noteq> Some (Inr ())" for x
    by (cases x rule: race_start.cases) simp_all
  then have "result (start_acquisition ns svc ttl opts) \<noteq> Some (Inr ())"
    by (simp add: start_acquisition_def after_race_result)
  with \<open>race_out (race_start (signal opts)) \<noteq> Some (Inr ())\<close> show ?thesis
    by (simp add: lock_inv_def acq_inv_def race_inv_def lock_new_def start_acquisition_def)
qed

lemma lock_after_inv: "lock_inv (lock_after ns svc ttl opts es)"
  by (rule acq.run_inv [OF start_acquisition_inv])

section \<open>Losing the lock\<close>

text \<open>\<open>lost\<close> events: none after a release, and at most one.\<close>

definition lost_price :: "lock_output \<Rightarrow> nat" where
  "lost_price ev = (case ev of LostEvent e \<Rightarrow> 1 | Released k \<Rightarrow> 0)"

definition lost_fuel :: "acquisition \<Rightarrow> nat" where
  "lost_fuel a = (if released (the_lock a) \<or> lost_reported (the_lock a) then 0 else 1)"

lemma lost_price_simps [simp]:
  "lost_price (LostEvent e) = 1" "lost_price (Released k) = 0"
  "sum_list (map (lost_price \<circ> LostEvent) errs) = length errs"
  "sum_list (map (lost_price \<circ> Released) ks) = 0"
  by (induction errs) (simp_all add: lost_price_def comp_def)

lemma acquisition_step_lost:
  "sum_list (map lost_price (snd (acquisition_step opts ttl a e))) +
     lost_fuel (fst (acquisition_step opts ttl a e)) \<le> lost_fuel a"
proof (cases e)
  case (ReceiveFails err)
  then show ?thesis
    by (cases "recv_done (the_lock a)"; cases "got_acquired a";
        cases "released (the_lock a) \<or> lost_reported (the_lock a)")
       (simp_all add: lost_fuel_def lock_ops Let_def)
next
  case HeartbeatTick
  then show ?thesis
    by (cases "heartbeat_timer (the_lock a)"; cases "send_closed (out a)";
        cases "released (the_lock a) \<or> lost_reported (the_lock a)")
       (simp_all add: lost_fuel_def lock_ops sink_ops Let_def)
next
  case (Received resp)
  then show ?thesis by (simp add: lost_fuel_def lock_ops Let_def)
next
  case AcquiredReaction
  then show ?thesis by (simp add: lost_fuel_def split: option.split)
next
  case SignalAbort
  then show ?thesis by (simp add: lost_fuel_def)
next
  case CallRelease
  then show ?thesis by (simp add: lost_fuel_def lock_ops Let_def)
qed

interpretation acq_lost: budgeted_machine
  "acquisition_step opts ttl" lock_inv lost_fuel "\<lambda>_. 0" lost_price for opts ttl
  by unfold_locales (use acquisition_step_lost in simp)

lemma lost_price_count:
  "sum_list (map lost_price outs) = length (filter (\<lambda>ev. \<exists>e. ev = LostEvent e) outs)"
proof (induction outs)
  case (Cons ev outs)
  then show ?case by (cases ev) (auto simp: lost_price_def)
qed simp

lemma lost_events_bounded:
  assumes "lock_inv a"
  shows "length (filter (\<lambda>ev. \<exists>e. ev = LostEvent e) (snd (run (acquisition_step opts ttl) a es)))
           \<le> lost_fuel a"
  using acq_lost.run_price_bound [OF assms, of opts ttl es]
  by (simp add: lost_price_count map_replicate_const sum_list_replicate)

text \<open>The events emitted and the promise agree.\<close>

lemma acquisition_step_lost_value:
  assumes "lock_inv a"
  shows "LostEvent e \<in> set (snd (acquisition_step opts ttl a ev)) \<Longrightarrow>
     lost (the_lock (fst (acquisition_step opts ttl a ev))) = Some e"
  using assms
  by (cases ev) (auto simp: lock_ops sink_ops Let_def lock_inv_def acq_inv_def
      split: if_splits option.splits)

lemma acquisition_step_lost_kept:
  assumes "lock_inv a" and "lost (the_lock a) = Some e"
  shows "lost (the_lock (fst (acquisition_step opts ttl a ev))) = Some e"
  using assms
  by (cases ev) (auto simp: lock_ops sink_ops Let_def lock_inv_def acq_inv_def
      split: if_splits option.splits)

lemma lost_promise:
  "LostEvent e \<in> set (snd (lock_run ns svc ttl opts es)) \<Longrightarrow>
   lost (the_lock (lock_after ns svc ttl opts es)) = Some e"
proof (induction es rule: rev_induct)
  case (snoc ev es)
  then show ?case
    using acquisition_step_lost_value [where a = "lock_after ns svc ttl opts es", OF lock_after_inv]
      acquisition_step_lost_kept [where a = "lock_after ns svc ttl opts es", OF lock_after_inv]
    by (auto simp: run_snoc_simps)
qed simp


section \<open>Releasing the lock\<close>

lemma released_step:
  assumes "lock_inv a" and "released (the_lock a)"
  shows "released (the_lock (fst (acquisition_step opts ttl a e)))"
    and "written (out (fst (acquisition_step opts ttl a e))) = written (out a)"
  using assms
  by (cases e; auto simp: lock_ops sink_ops Let_def lock_inv_def acq_inv_def split: option.split)+

lemma released_run:
  assumes "lock_inv a" and "released (the_lock a)"
  shows "released (the_lock (fst (run (acquisition_step opts ttl) a es))) \<and>
         written (out (fst (run (acquisition_step opts ttl) a es))) = written (out a)"
proof (induction es rule: rev_induct)
  case (snoc e es)
  then show ?case
    using released_step [OF acq.run_inv [OF assms(1)]] by (auto simp: fst_run_snoc)
qed (simp add: assms)

lemma release_releases:
  "result a = Some (Inr ()) \<Longrightarrow> released (the_lock (fst (acquisition_step opts ttl a CallRelease)))"
  by (simp add: Let_def lock_ops)

text \<open>Every call of \<open>release()\<close> resolves once, or waits for the receive loop to end.\<close>

definition releases_of :: "lock_output list \<Rightarrow> nat list" where
  "releases_of outs = concat (map (\<lambda>ev. case ev of Released k \<Rightarrow> [k] | LostEvent e \<Rightarrow> []) outs)"

lemma releases_of_simps [simp]:
  "releases_of [] = []" "releases_of (xs @ ys) = releases_of xs @ releases_of ys"
  "releases_of (Released k # xs) = k # releases_of xs"
  "releases_of (LostEvent e # xs) = releases_of xs"
  "releases_of (map Released ks) = ks" "releases_of (map LostEvent errs) = []"
proof -
  show "releases_of (map Released ks) = ks" by (induction ks) (simp_all add: releases_of_def)
  show "releases_of (map LostEvent errs) = []" by (induction errs) (simp_all add: releases_of_def)
qed (simp_all add: releases_of_def)

definition releases_answered :: "acquisition \<Rightarrow> lock_output list \<Rightarrow> bool" where
  "releases_answered a outs \<longleftrightarrow>
     distinct (releases_of outs @ waiting_releases a) \<and>
     set (releases_of outs @ waiting_releases a) = {..<release_calls a}"

lemma releases_answered_step:
  assumes "releases_answered a outs"
  shows "releases_answered (fst (acquisition_step opts ttl a e)) (outs @ snd (acquisition_step opts ttl a e))"
proof (cases e)
  case CallRelease
  then show ?thesis using assms by (auto simp: releases_answered_def lock_ops Let_def lessThan_Suc)
qed (use assms in \<open>auto simp: releases_answered_def lock_ops sink_ops Let_def split: option.split\<close>)

lemma releases_answered_run:
  "releases_answered (lock_after ns svc ttl opts es) (snd (lock_run ns svc ttl opts es))"
proof (induction es rule: rev_induct)
  case Nil
  show ?case by (simp add: releases_answered_def start_acquisition_def after_race_def split: option.split sum.split)
next
  case (snoc e es)
  then show ?case by (simp add: run_snoc_simps releases_answered_step)
qed

section \<open>What is sent\<close>

lemma acquisition_step_written:
  "written (out (fst (acquisition_step opts ttl a e))) = written (out a) \<or>
   e = HeartbeatTick \<and> got_acquired a \<and>
   written (out (fst (acquisition_step opts ttl a e))) = written (out a) @ [heartbeat_request]"
  if "lock_inv a"
  using that
  by (cases e) (auto simp: lock_ops sink_ops Let_def lock_inv_def acq_inv_def split: option.split)

lemma written_run:
  "\<exists>n. written (out (lock_after ns svc ttl opts es)) =
         initial_request ns svc ttl # replicate n heartbeat_request \<and>
       n \<le> length (filter (\<lambda>e. e = HeartbeatTick) es) \<and>
       (0 < n \<longrightarrow> got_acquired (lock_after ns svc ttl opts es))"
proof (induction es rule: rev_induct)
  case Nil
  show ?case by (rule exI [of _ 0]) simp
next
  case (snoc e es)
  let ?a = "lock_after ns svc ttl opts es"
  obtain n where n: "written (out ?a) = initial_request ns svc ttl # replicate n heartbeat_request"
    "n \<le> length (filter (\<lambda>e. e = HeartbeatTick) es)" "0 < n \<longrightarrow> got_acquired ?a" using snoc.IH by blast
  have got: "got_acquired ?a \<Longrightarrow> got_acquired (fst (acquisition_step opts ttl ?a e))"
    by (cases e) (auto simp: lock_ops sink_ops Let_def split: option.split)
  from acquisition_step_written [where a = ?a and e = e and opts = opts and ttl = ttl, OF lock_after_inv] show ?case
  proof (elim disjE conjE)
    assume "written (out (fst (acquisition_step opts ttl ?a e))) = written (out ?a)"
    then show ?thesis
      by (intro exI [of _ n]) (use n got in \<open>auto simp: fst_run_snoc\<close>)
  next
    assume "e = HeartbeatTick" "got_acquired ?a"
      "written (out (fst (acquisition_step opts ttl ?a e))) = written (out ?a) @ [heartbeat_request]"
    then show ?thesis
      by (intro exI [of _ "Suc n"])
         (use n got in \<open>auto simp: fst_run_snoc replicate_append_same\<close>)
  qed
qed

section \<open>How the acquisition settles\<close>

text \<open>The \<open>acquired\<close> promise, and the events of the race, as functions of the history.\<close>

definition is_acquired_message :: "AcquireRestartLockResponse \<Rightarrow> bool" where
  "is_acquired_message resp \<longleftrightarrow> AcquireRestartLockResponse_messageType resp = MESSAGE_TYPE_ACQUIRED"

fun acquired_by :: "lock_event list \<Rightarrow> (thrown + unit) option" where
  "acquired_by [] = None"
| "acquired_by (Received resp # es) =
     (if is_acquired_message resp then Some (Inr ()) else acquired_by es)"
| "acquired_by (ReceiveFails err # es) = Some (Inl (stream_ended_error (as_error err)))"
| "acquired_by (_ # es) = acquired_by es"

fun race_events :: "(thrown + unit) option \<Rightarrow> lock_event list \<Rightarrow> unit race_event list" where
  "race_events acq [] = []"
| "race_events acq (Received resp # es) =
     race_events (if is_acquired_message resp then settle acq (Inr ()) else acq) es"
| "race_events acq (ReceiveFails err # es) =
     race_events (settle acq (Inl (stream_ended_error (as_error err)))) es"
| "race_events acq (AcquiredReaction # es) =
     (case acq of None \<Rightarrow> race_events acq es | Some r \<Rightarrow> Settled r # race_events acq es)"
| "race_events acq (SignalAbort # es) = SignalAborts # race_events acq es"
| "race_events acq (_ # es) = race_events acq es"

text \<open>What \<open>acquireLockWithStream\<close> makes of the outcome of the race.\<close>

definition acquire_outcome :: "lock_options \<Rightarrow> (thrown + unit) option \<Rightarrow> (thrown + unit) option" where
  "acquire_outcome opts r =
     (case r of
        Some (Inl err) \<Rightarrow> Some (Inl (if signal opts \<noteq> None \<and> err = abort_marker
           then aborted_error (abort_reason opts) ''AcquireRestartLock'' else err))
      | _ \<Rightarrow> r)"

lemma acquired_by_snoc:
  "acquired_by (es @ [e]) =
     (case acquired_by es of
        Some r \<Rightarrow> Some r
      | None \<Rightarrow> acquired_by [e])"
  by (induction es rule: acquired_by.induct) auto

lemma race_events_snoc:
  "race_events acq (es @ [e]) =
     race_events acq es @
     race_events (case acq of Some r \<Rightarrow> Some r | None \<Rightarrow> acquired_by es) [e]"
  by (induction acq es rule: race_events.induct) (auto simp: settle_def split: option.split)

lemma acquired_after: "acquired (lock_after ns svc ttl opts es) = acquired_by es"
proof (induction es rule: rev_induct)
  case (snoc e es)
  let ?a = "lock_after ns svc ttl opts es"
  have inv: "acquired ?a \<noteq> None \<longleftrightarrow> got_acquired ?a \<or> recv_done (the_lock ?a)"
    "got_acquired ?a \<longleftrightarrow> acquired ?a = Some (Inr ())"
    using lock_after_inv [where ns = ns and svc = svc and ttl = ttl and opts = opts and es = es] by (simp_all add: lock_inv_def acq_inv_def)
  show ?case
    using snoc.IH inv
    by (cases e; cases "acquired_by es")
       (auto simp: fst_run_snoc acquired_by_snoc is_acquired_message_def lock_ops sink_ops Let_def
         split: option.split)
qed simp

lemma race_after:
  "the_race (lock_after ns svc ttl opts es) = race_abort (signal opts) (race_events None es)"
proof (induction es rule: rev_induct)
  case Nil
  show ?case by (simp add: race_abort_def start_acquisition_def)
next
  case (snoc e es)
  have acq: "acquired (lock_after ns svc ttl opts es) = acquired_by es" by (rule acquired_after)
  show ?case
    using snoc.IH acq
    by (cases e)
       (auto simp: fst_run_snoc race_events_snoc race_abort_def lock_ops sink_ops Let_def
         simp del: race_step.simps split: option.split)
qed

lemma result_after_race:
  "result a = None \<or> result a = acquire_outcome opts (race_out (the_race a)) \<Longrightarrow>
   race_out (the_race a) = None \<longrightarrow> result a = None \<Longrightarrow>
   result (after_race opts a) = acquire_outcome opts (race_out (the_race a))"
  by (auto simp: after_race_def acquire_outcome_def split: option.splits sum.splits)

lemma result_after:
  "result (lock_after ns svc ttl opts es) =
     acquire_outcome opts (race_out (the_race (lock_after ns svc ttl opts es)))"
proof (induction es rule: rev_induct)
  case Nil
  show ?case by (simp add: start_acquisition_def result_after_race)
next
  case (snoc e es)
  let ?a = "lock_after ns svc ttl opts es"
  have race: "result (after_race opts (?a\<lparr>the_race := race_step (the_race ?a) x\<rparr>)) =
      acquire_outcome opts (race_out (race_step (the_race ?a) x))" for x
  proof (cases "race_out (the_race ?a)")
    case None
    then have "result ?a = None" using snoc.IH by (simp add: acquire_outcome_def)
    then show ?thesis by (subst result_after_race) simp_all
  next
    case (Some r)
    with race_step_keeps [OF this, of x] show ?thesis
      using snoc.IH by (subst result_after_race) simp_all
  qed
  show ?case
    using snoc.IH race
    by (cases e)
       (auto simp: fst_run_snoc lock_ops sink_ops Let_def simp del: race_step.simps split: option.split)
qed

lemma acquire_result:
  "result (lock_after ns svc ttl opts es) =
     acquire_outcome opts (race_spec (signal opts) (race_events None es))"
  by (simp add: result_after race_after race_abort_spec)

section \<open>Token and expiry\<close>

text \<open>The responses the receive loop gets, up to the first failure.\<close>

fun responses :: "lock_event list \<Rightarrow> AcquireRestartLockResponse list" where
  "responses [] = []"
| "responses (Received resp # es) = resp # responses es"
| "responses (ReceiveFails err # es) = []"
| "responses (_ # es) = responses es"

definition expiry_after :: "AcquireRestartLockResponse \<Rightarrow> date option \<Rightarrow> date option" where
  "expiry_after resp x =
     (if is_acquired_message resp then AcquireRestartLockResponse_expiresAt resp
      else if AcquireRestartLockResponse_messageType resp = MESSAGE_TYPE_TTL_EXTENDED
        \<and> AcquireRestartLockResponse_expiresAt resp \<noteq> None
      then AcquireRestartLockResponse_expiresAt resp else x)"

definition token_after :: "AcquireRestartLockResponse \<Rightarrow> string \<Rightarrow> string" where
  "token_after resp t =
     (if is_acquired_message resp then AcquireRestartLockResponse_token resp else t)"

lemma responses_snoc:
  "responses (es @ [e]) =
     responses es @ (if \<exists>err. ReceiveFails err \<in> set es then [] else responses [e])"
  by (induction es rule: responses.induct) auto

lemma recv_done_after:
  "recv_done (the_lock (lock_after ns svc ttl opts es)) \<longleftrightarrow> (\<exists>err. ReceiveFails err \<in> set es)"
proof (induction es rule: rev_induct)
  case Nil
  show ?case by (simp add: lock_new_def)
next
  case (snoc e es)
  then show ?case
    by (cases e) (auto simp: fst_run_snoc lock_ops sink_ops Let_def split: option.split)
qed

lemma tracked_fields:
  "expires_at (the_lock (lock_after ns svc ttl opts es)) = fold expiry_after (responses es) None \<and>
   token (the_lock (lock_after ns svc ttl opts es)) = fold token_after (responses es) ''''"
proof (induction es rule: rev_induct)
  case Nil
  show ?case by (simp add: lock_new_def)
next
  case (snoc e es)
  show ?case
    using snoc.IH recv_done_after [where ns = ns and svc = svc and ttl = ttl and opts = opts and es = es]
    by (cases e)
       (auto simp: fst_run_snoc responses_snoc expiry_after_def token_after_def is_acquired_message_def
         lock_ops sink_ops Let_def split: option.split)
qed

section \<open>The events of the lock stream\<close>

text \<open>The receive loop driven by a gRPC stream.\<close>

definition recv_event :: "thrown + AcquireRestartLockResponse \<Rightarrow> lock_event" where
  "recv_event r = (case r of Inl err \<Rightarrow> ReceiveFails err | Inr resp \<Rightarrow> Received resp)"

definition events_of_stream ::
  "AcquireRestartLockResponse stream_event list \<Rightarrow> lock_event list" where
  "events_of_stream gs =
     map recv_event (recv_run (stream_outcome lock_closed_msg gs) (Suc (length (stream_values gs))) 0)"

lemma recv_event_simps [simp]:
  "recv_event (Inl err) = ReceiveFails err" "recv_event (Inr resp) = Received resp"
  by (simp_all add: recv_event_def)

lemma events_of_stream_eq:
  "events_of_stream gs =
     map Received (stream_values gs) @
     (case stream_end lock_closed_msg gs of None \<Rightarrow> [] | Some r \<Rightarrow> [recv_event r])"
  unfolding events_of_stream_def by (subst recv_run_stream) (auto split: option.split)

lemma acquired_by_received:
  "acquired_by (map Received rs @ es) =
     (if \<exists>r \<in> set rs. is_acquired_message r then Some (Inr ()) else acquired_by es)"
  by (induction rs) auto

section \<open>Heartbeats\<close>

lemma ttl_secs_ge: "1 \<le> ttl_secs x"
  by (simp add: ttl_secs_def)

text \<open>Four heartbeats fit into the time to live, as long as the timer can hold the interval.\<close>

lemma heartbeat_interval_quarter:
  assumes "heartbeatIntervalMs opts = None" and "1 \<le> ttl"
  shows "heartbeat_interval opts ttl = ttl * 250"
proof -
  have "ttl * 1000 div 4 = ttl * 250" by simp
  then show ?thesis using assms by (simp add: heartbeat_interval_def)
qed

lemma heartbeat_delay:
  assumes "heartbeatIntervalMs opts = None" and "1 \<le> ttl"
  shows "timer_delay (max 1 (heartbeat_interval opts ttl)) = (if ttl \<le> 8589934 then ttl * 250 else 1)"
  using assms(2) by (simp add: timer_delay_def heartbeat_interval_quarter [OF assms])

text \<open>After the acquisition the abort signal changes nothing.\<close>

lemma abort_after_acquired:
  assumes "result a = Some (Inr ())" and "\<not> race_listens (the_race a)"
  shows "acquisition_step opts ttl a SignalAbort = (a, [])"
  using assms by (simp add: after_race_def)

lemma race_after_settled:
  "result (lock_after ns svc ttl opts es) = Some (Inr ()) \<Longrightarrow>
   \<not> race_listens (the_race (lock_after ns svc ttl opts es))"
proof -
  assume "result (lock_after ns svc ttl opts es) = Some (Inr ())"
  then have "race_out (the_race (lock_after ns svc ttl opts es)) = Some (Inr ())"
    using lock_after_inv [where ns = ns and svc = svc and ttl = ttl and opts = opts and es = es]
    by (simp add: lock_inv_def race_inv_def)
  then show ?thesis unfolding race_after using race_settled_no_listener by fastforce
qed

text \<open>A failing stream does not stop the timer.\<close>

lemma timer_survives_loss:
  "heartbeat_timer (the_lock (fst (acquisition_step opts ttl a (ReceiveFails err)))) =
   heartbeat_timer (the_lock a)"
  by (simp add: lock_ops Let_def)

lemma recv_done_after_failure:
  "recv_done (the_lock (fst (acquisition_step opts ttl a (ReceiveFails err))))"
  by (simp add: finish_recv_loop_def Let_def split_beta)

section \<open>Heartbeats go on until the release\<close>

text \<open>Unless the acquisition has failed, the sending side and the timer end with \<open>release()\<close> only.\<close>

definition beats_inv :: "acquisition \<Rightarrow> bool" where
  "beats_inv a \<longleftrightarrow>
     (\<forall>err. result a \<noteq> Some (Inl err)) \<longrightarrow>
       (send_closed (out a) \<longleftrightarrow> released (the_lock a)) \<and>
       (got_acquired a \<longrightarrow> (heartbeat_timer (the_lock a) = None \<longleftrightarrow> released (the_lock a)))"

lemma after_race_beats: "beats_inv a \<Longrightarrow> beats_inv (after_race opts (a\<lparr>the_race := r\<rparr>))"
  by (auto simp: beats_inv_def after_race_def split: option.split sum.split)

lemma result_kept: "result a = Some r \<Longrightarrow> result (fst (acquisition_step opts ttl a e)) = Some r"
  by (cases e) (auto simp: after_race_def lock_ops sink_ops Let_def split: option.split sum.split)

lemma acquisition_step_beats:
  assumes "lock_inv a" and "beats_inv a"
  shows "beats_inv (fst (acquisition_step opts ttl a e))"
proof (cases e)
  case AcquiredReaction
  with assms(2) after_race_beats show ?thesis by (cases "acquired a") simp_all
next
  case SignalAbort
  with assms(2) after_race_beats show ?thesis by simp
qed (use assms in \<open>auto simp: beats_inv_def lock_inv_def acq_inv_def lock_ops sink_ops Let_def
       split: option.split\<close>)

lemma beats_after: "beats_inv (lock_after ns svc ttl opts es)"
proof (induction es rule: rev_induct)
  case Nil
  let ?a = "\<lparr>the_lock = lock_new, out = sink_new\<lparr>written := [initial_request ns svc ttl]\<rparr>,
      got_acquired = False, acquired = None, the_race = race_start (signal opts), result = None,
      waiting_releases = [], release_calls = 0\<rparr>"
  have "beats_inv ?a" by (simp add: beats_inv_def lock_new_def sink_new_def)
  from after_race_beats [OF this, of opts "the_race ?a"] show ?case by (simp add: start_acquisition_def)
next
  case (snoc e es)
  then show ?case by (simp add: fst_run_snoc acquisition_step_beats lock_after_inv)
qed

lemma result_kept_run:
  "result (lock_after ns svc ttl opts es) = Some r \<Longrightarrow> result (lock_after ns svc ttl opts (es @ fs)) = Some r"
  using result_kept by (induction fs rule: rev_induct) (auto simp: fst_run_snoc simp flip: append_assoc)

lemma released_iff_called:
  assumes "result (lock_after ns svc ttl opts es) = Some (Inr ())"
  shows "released (the_lock (lock_after ns svc ttl opts (es @ fs))) \<longleftrightarrow>
     released (the_lock (lock_after ns svc ttl opts es)) \<or> CallRelease \<in> set fs"
proof (induction fs rule: rev_induct)
  case (snoc f fs)
  have held: "result (lock_after ns svc ttl opts (es @ fs)) = Some (Inr ())"
    by (rule result_kept_run [OF assms])
  then show ?case
    using snoc by (cases f) (auto simp: fst_run_snoc lock_ops sink_ops Let_def simp flip: append_assoc split: option.split)
qed simp

lemma released_iff_called_fresh:
  "CallRelease \<notin> set es \<Longrightarrow> \<not> released (the_lock (lock_after ns svc ttl opts es))"
proof (induction es rule: rev_induct)
  case (snoc e es)
  then show ?case
    by (cases e) (auto simp: fst_run_snoc lock_ops sink_ops Let_def split: option.split)
qed (simp add: lock_new_def)

lemma held_got_acquired:
  "result (lock_after ns svc ttl opts es) = Some (Inr ()) \<Longrightarrow> got_acquired (lock_after ns svc ttl opts es)"
  using lock_after_inv [where ns = ns and svc = svc and ttl = ttl and opts = opts and es = es]
  unfolding lock_inv_def acq_inv_def by blast

lemma timer_value:
  "heartbeat_timer (the_lock (lock_after ns svc ttl opts es)) \<in>
     {None, Some (timer_delay (max 1 (heartbeat_interval opts ttl)))}"
proof (induction es rule: rev_induct)
  case Nil
  show ?case by (simp add: lock_new_def)
next
  case (snoc e es)
  then show ?case
    by (cases e) (auto simp: fst_run_snoc lock_ops sink_ops Let_def split: option.split)
qed

lemma held_timer:
  assumes "result (lock_after ns svc ttl opts es) = Some (Inr ())"
    and "\<not> released (the_lock (lock_after ns svc ttl opts es))"
  shows "heartbeat_timer (the_lock (lock_after ns svc ttl opts es)) =
     Some (timer_delay (max 1 (heartbeat_interval opts ttl)))"
  using timer_value [where ns = ns and svc = svc and ttl = ttl and opts = opts and es = es]
    beats_after [where ns = ns and svc = svc and ttl = ttl and opts = opts and es = es]
    held_got_acquired [OF assms(1)] assms
  by (auto simp: beats_inv_def)

section \<open>The end of the stream is reported\<close>

text \<open>The receives of a history, in order: what of it comes from the lock stream.\<close>

fun is_receive :: "lock_event \<Rightarrow> bool" where
  "is_receive (Received resp) = True"
| "is_receive (ReceiveFails err) = True"
| "is_receive _ = False"

definition stream_part :: "lock_event list \<Rightarrow> lock_event list" where
  "stream_part es = filter is_receive es"

definition lost_events :: "lock_output list \<Rightarrow> thrown list" where
  "lost_events outs = concat (map (\<lambda>ev. case ev of LostEvent e \<Rightarrow> [e] | Released k \<Rightarrow> []) outs)"

lemma lost_events_simps [simp]:
  "lost_events [] = []" "lost_events (xs @ ys) = lost_events xs @ lost_events ys"
  "lost_events (LostEvent e # xs) = e # lost_events xs" "lost_events (Released k # xs) = lost_events xs"
  "lost_events (map LostEvent errs) = errs" "lost_events (map Released ks) = []"
proof -
  show "lost_events (map LostEvent errs) = errs" by (induction errs) (simp_all add: lost_events_def)
  show "lost_events (map Released ks) = []" by (induction ks) (simp_all add: lost_events_def)
qed (simp_all add: lost_events_def)

lemma lost_events_iff: "lost_events outs = [] \<longleftrightarrow> (\<forall>e. LostEvent e \<notin> set outs)"
  by (auto simp: lost_events_def split: lock_output.split)

lemma acquired_by_stream_part: "acquired_by es = acquired_by (stream_part es)"
  by (induction es rule: acquired_by.induct) (simp_all add: stream_part_def)

lemma stream_part_running:
  assumes "stream_part es = map Received rs"
  shows "acquired_by es = (if \<exists>r \<in> set rs. is_acquired_message r then Some (Inr ()) else None)"
    and "\<not> (\<exists>err. ReceiveFails err \<in> set es)"
proof -
  show "acquired_by es = (if \<exists>r \<in> set rs. is_acquired_message r then Some (Inr ()) else None)"
    using acquired_by_received [of rs "[]"] by (simp add: acquired_by_stream_part [of es] assms)
  have "ReceiveFails err \<in> set es \<Longrightarrow> ReceiveFails err \<in> set (stream_part es)" for err
    by (simp add: stream_part_def)
  then show "\<not> (\<exists>err. ReceiveFails err \<in> set es)" unfolding assms by auto
qed

text \<open>As long as the acquisition has not failed and the stream runs, no loss is reported.\<close>

definition quiet_inv :: "acquisition \<Rightarrow> bool" where
  "quiet_inv a \<longleftrightarrow>
     (\<forall>err. result a \<noteq> Some (Inl err)) \<and> \<not> recv_done (the_lock a) \<longrightarrow> \<not> lost_reported (the_lock a)"

lemma acquisition_step_quiet:
  assumes "lock_inv a" and "beats_inv a" and "quiet_inv a"
  shows "quiet_inv (fst (acquisition_step opts ttl a e))"
proof (cases "\<exists>err. result a = Some (Inl err)")
  case True
  then show ?thesis using result_kept by (fastforce simp: quiet_inv_def)
next
  case False
  show ?thesis
  proof (cases e)
    case HeartbeatTick
    then show ?thesis
      using assms False
      by (auto simp: quiet_inv_def beats_inv_def lock_inv_def acq_inv_def sink_ops split: option.split)
  qed (use assms False in \<open>auto simp: quiet_inv_def lock_ops sink_ops Let_def split: option.split\<close>)
qed

lemma quiet_after: "quiet_inv (lock_after ns svc ttl opts es)"
proof (induction es rule: rev_induct)
  case Nil
  show ?case by (simp add: quiet_inv_def lock_new_def)
next
  case (snoc e es)
  then show ?case by (simp add: fst_run_snoc acquisition_step_quiet lock_after_inv beats_after)
qed

text \<open>What the end of the stream does to an acquired lock, and that nothing changes it afterwards.\<close>

lemma stream_end_step:
  assumes "lock_inv a" and "quiet_inv a" and "got_acquired a" and "\<forall>e. result a \<noteq> Some (Inl e)"
    and "\<not> recv_done (the_lock a)"
  shows "lost (the_lock (fst (acquisition_step opts ttl a (ReceiveFails err)))) =
       (if released (the_lock a) then None else Some (as_error err))"
    and "lost_events (snd (acquisition_step opts ttl a (ReceiveFails err))) =
       (if released (the_lock a) then [] else [as_error err])"
    and "released (the_lock (fst (acquisition_step opts ttl a (ReceiveFails err)))) = released (the_lock a)"
  using assms
  by (auto simp: quiet_inv_def lock_inv_def acq_inv_def lock_ops Let_def)

definition loss_settled :: "acquisition \<Rightarrow> bool" where
  "loss_settled a \<longleftrightarrow> released (the_lock a) \<or> lost_reported (the_lock a)"

lemma acquisition_step_settled:
  assumes "lock_inv a" and "loss_settled a"
  shows "loss_settled (fst (acquisition_step opts ttl a e)) \<and>
     lost (the_lock (fst (acquisition_step opts ttl a e))) = lost (the_lock a) \<and>
     lost_events (snd (acquisition_step opts ttl a e)) = []"
  using assms
  by (cases e) (auto simp: loss_settled_def lock_ops sink_ops Let_def split: option.split)

lemma settled_run:
  assumes "lock_inv a" and "loss_settled a"
  shows "loss_settled (fst (run (acquisition_step opts ttl) a es)) \<and>
     lost (the_lock (fst (run (acquisition_step opts ttl) a es))) = lost (the_lock a) \<and>
     lost_events (snd (run (acquisition_step opts ttl) a es)) = []"
proof (induction es rule: rev_induct)
  case (snoc e es)
  then show ?case
    using acquisition_step_settled [OF acq.run_inv [OF assms(1)]] by (simp add: run_snoc_simps)
qed (simp add: assms(2))

lemma quiet_no_loss:
  assumes "\<forall>e. result (lock_after ns svc ttl opts es) \<noteq> Some (Inl e)"
    and "\<not> recv_done (the_lock (lock_after ns svc ttl opts es))"
  shows "lost_events (snd (lock_run ns svc ttl opts es)) = []"
  using quiet_after [where ns = ns and svc = svc and ttl = ttl and opts = opts and es = es]
    lock_after_inv [where ns = ns and svc = svc and ttl = ttl and opts = opts and es = es]
    lost_promise [where ns = ns and svc = svc and ttl = ttl and opts = opts and es = es] assms
  unfolding quiet_inv_def lock_inv_def acq_inv_def lost_events_iff by fastforce

lemma acquired_stream_end:
  assumes "stream_part es = map Received rs" and "\<exists>r \<in> set rs. is_acquired_message r"
    and "\<forall>e. result (lock_after ns svc ttl opts es) \<noteq> Some (Inl e)"
  shows "lost (the_lock (lock_after ns svc ttl opts (es @ ReceiveFails err # fs))) =
       (if released (the_lock (lock_after ns svc ttl opts es)) then None else Some (as_error err)) \<and>
     lost_events (snd (lock_run ns svc ttl opts (es @ ReceiveFails err # fs))) =
       (if released (the_lock (lock_after ns svc ttl opts es)) then [] else [as_error err])"
proof -
  let ?a = "lock_after ns svc ttl opts es"
  let ?b = "fst (acquisition_step opts ttl ?a (ReceiveFails err))"
  have inv: "lock_inv ?a" and quiet: "quiet_inv ?a" by (rule lock_after_inv, rule quiet_after)
  have "acquired ?a = Some (Inr ())"
    using acquired_after stream_part_running(1) [OF assms(1)] assms(2) by simp
  then have got: "got_acquired ?a" using inv by (simp add: lock_inv_def acq_inv_def)
  have running: "\<not> recv_done (the_lock ?a)"
    using recv_done_after stream_part_running(2) [OF assms(1)] by blast
  note fails = stream_end_step [OF inv quiet got assms(3) running, of opts ttl err]
  have inv': "lock_inv ?b" by (rule acquisition_step_inv [OF inv])
  then have settled: "loss_settled ?b"
    using fails(1,3) unfolding loss_settled_def lock_inv_def acq_inv_def by (auto split: if_splits)
  have split: "lock_run ns svc ttl opts (es @ ReceiveFails err # fs) =
      (fst (run (acquisition_step opts ttl) ?b fs),
       snd (lock_run ns svc ttl opts es) @ snd (acquisition_step opts ttl ?a (ReceiveFails err)) @
         snd (run (acquisition_step opts ttl) ?b fs))"
    by (simp add: run_append split_beta del: acquisition_step.simps)
  show ?thesis
    unfolding split using settled_run [OF inv' settled, of opts ttl fs] fails(1,2)
      quiet_no_loss [OF assms(3) running] by simp
qed

text \<open>
  Without an \<open>ACQUIRED\<close> response the acquisition fails, with the abort error if the signal is
  aborted before the reaction to the rejected promise runs.
\<close>

definition aborted_by :: "lock_options \<Rightarrow> lock_event list \<Rightarrow> bool" where
  "aborted_by opts es \<longleftrightarrow>
     signal opts = Some True \<or> signal opts = Some False \<and> SignalAbort \<in> set es"

lemma race_events_unsettled:
  "acquired_by es = None \<Longrightarrow>
   race_events None (es @ fs) = filter (\<lambda>e. e = SignalAborts) (race_events None es) @ race_events None fs \<and>
   (filter (\<lambda>e. e = SignalAborts) (race_events None es) = [] \<longleftrightarrow> SignalAbort \<notin> set es)"
  by (induction es rule: acquired_by.induct) (auto split: if_splits)

lemma hd_race_events:
  "AcquiredReaction \<in> set fs \<Longrightarrow>
   race_events (Some r) fs \<noteq> [] \<and> first_settled (race_events (Some r) fs) = Some r \<and>
   hd (race_events (Some r) fs) =
     (if SignalAbort \<in> set (takeWhile (\<lambda>e. e \<noteq> AcquiredReaction) fs) then SignalAborts else Settled r)"
proof (induction fs)
  case (Cons e fs)
  then show ?case by (cases e) auto
qed simp

lemma first_settled_aborts:
  "first_settled (filter (\<lambda>e. e = SignalAborts) xs @ ys) = first_settled ys"
  by (induction xs) auto

lemma race_without_acquired:
  assumes "acquired_by es = None" and "AcquiredReaction \<in> set fs"
  shows "race_spec (signal opts) (race_events None (es @ ReceiveFails err # fs)) =
     Some (Inl (if aborted_by opts (es @ takeWhile (\<lambda>e. e \<noteq> AcquiredReaction) fs)
       then abort_marker else stream_ended_error (as_error err)))"
proof -
  let ?r = "Inl (stream_ended_error (as_error err)) :: thrown + unit"
  let ?before = "filter (\<lambda>e. e = SignalAborts) (race_events None es)"
  have events: "race_events None (es @ ReceiveFails err # fs) = ?before @ race_events (Some ?r) fs"
    and none: "?before = [] \<longleftrightarrow> SignalAbort \<notin> set es"
    using race_events_unsettled [OF assms(1), of "ReceiveFails err # fs"] by simp_all
  note after = hd_race_events [OF assms(2), of ?r]
  have head: "hd ?before = SignalAborts" if "?before \<noteq> []"
    using hd_in_set [OF that] by simp
  show ?thesis
  proof (cases "signal opts = Some False")
    case True
    with head none after show ?thesis
      unfolding events race_spec_def aborted_by_def
      by (cases "?before"; cases "race_events (Some ?r) fs") (auto split: if_splits)
  next
    case False
    with after show ?thesis
      unfolding events race_spec_def aborted_by_def by (auto simp: first_settled_aborts split: option.splits)
  qed
qed

lemma stream_ended_not_abort [simp]: "stream_ended_error e \<noteq> abort_marker"
  by (simp add: stream_ended_error_def abort_marker_def mk_error_def)

lemma stream_end_unacquired:
  assumes "stream_part es = map Received rs" and "\<not> (\<exists>r \<in> set rs. is_acquired_message r)"
  shows "acquired (lock_after ns svc ttl opts (es @ ReceiveFails err # fs)) =
       Some (Inl (stream_ended_error (as_error err)))"
    and "AcquiredReaction \<in> set fs \<Longrightarrow>
       result (lock_after ns svc ttl opts (es @ ReceiveFails err # fs)) =
         Some (Inl (if aborted_by opts (es @ takeWhile (\<lambda>e. e \<noteq> AcquiredReaction) fs)
           then aborted_error (abort_reason opts) ''AcquireRestartLock''
           else stream_ended_error (as_error err)))"
proof -
  have none: "acquired_by es = None" using stream_part_running(1) [OF assms(1)] assms(2) by simp
  have "acquired_by (es @ xs) = acquired_by xs" for xs
    using none by (induction es rule: acquired_by.induct) (auto split: if_splits)
  then show "acquired (lock_after ns svc ttl opts (es @ ReceiveFails err # fs)) =
      Some (Inl (stream_ended_error (as_error err)))" by (simp add: acquired_after)
  assume reacts: "AcquiredReaction \<in> set fs"
  show "result (lock_after ns svc ttl opts (es @ ReceiveFails err # fs)) =
      Some (Inl (if aborted_by opts (es @ takeWhile (\<lambda>e. e \<noteq> AcquiredReaction) fs)
        then aborted_error (abort_reason opts) ''AcquireRestartLock''
        else stream_ended_error (as_error err)))"
    unfolding acquire_result race_without_acquired [OF none reacts]
    by (auto simp: acquire_outcome_def aborted_by_def)
qed

end
