(* ===== verification/WaitForRestart.thy ===== *)
theory WaitForRestart
  imports Debounce Lock
begin

text \<open>
  \<open>waitForRestart\<close> of \<open>src/restart.ts\<close>, composed of the watch loop (\<open>WatchLoop\<close>), the debouncer
  (\<open>Debounce\<close>) and the acquisition of the lock (\<open>Lock\<close>) as the function composes them. An event
  stands for one task of the event loop together with the reactions it triggers.

  The abstract \<open>plan\<close> says what the composition comes to: wait for the first change, start over
  the timer at each further change, ask for the lock when the timer runs out, give up on an
  abort. It knows nothing of promises, waiters or pending flags; \<open>wait_follows_plan\<close> is the
  refinement.
\<close>

section \<open>The composed machine\<close>

text \<open>
  The arguments of the call. \<open>wait_signal\<close>: no signal, or one and whether it is aborted already;
  \<open>wait_opened\<close> is what \<open>client.acquireRestartLock()\<close> will do, \<open>wait_number_text\<close> the conversion
  of a number to a string.
\<close>

record wait_args =
  wait_ns :: string
  wait_svc :: string
  wait_ttl :: js_number
  wait_debounce :: int
  wait_signal :: "bool option"
  wait_reason :: "thrown option"
  wait_opened :: "thrown + unit"
  wait_number_text :: "js_number \<Rightarrow> string"

datatype wait_phase =
    WaitingFirst
  | Debouncing debouncer
  | Requested "thrown + acquisition"
  | Rejected thrown

record waiting =
  wait_loop :: watch_loop
  phase :: wait_phase

datatype wait_event = OnLoop loop_event | Elapses | OnLock lock_event | Aborts

definition watch_opts :: "wait_args \<Rightarrow> watch_options" where
  "watch_opts A = \<lparr>has_signal = wait_signal A \<noteq> None, backoffMinMs = None, backoffMaxMs = None\<rparr>"

definition lock_opts :: "wait_args \<Rightarrow> bool \<Rightarrow> lock_options" where
  "lock_opts A is_aborted = \<lparr>signal = map_option (\<lambda>_. is_aborted) (wait_signal A),
     abort_reason = wait_reason A, heartbeatIntervalMs = None\<rparr>"

definition wait_ttl_secs :: "wait_args \<Rightarrow> int" where
  "wait_ttl_secs A = (case positive_finite (wait_ttl A) of None \<Rightarrow> 0 | Some x \<Rightarrow> ttl_secs x)"

definition request_lock :: "wait_args \<Rightarrow> bool \<Rightarrow> thrown + acquisition" where
  "request_lock A is_aborted =
     acquire_lock (wait_number_text A) (wait_opened A) (wait_ns A) (wait_svc A) (wait_ttl A)
       (lock_opts A is_aborted)"

definition give_up :: "wait_args \<Rightarrow> thrown" where
  "give_up A = aborted_error (wait_reason A) ''waitForRestart''"


definition after_quiet :: "wait_args \<Rightarrow> waiting \<Rightarrow> waiting" where
  "after_quiet A s = s\<lparr>phase := Requested (request_lock A (aborted (wait_loop s)))\<rparr>"

text \<open>The debouncer, and what becomes of it when its promise settles.\<close>

definition settle_debounce :: "wait_args \<Rightarrow> waiting \<Rightarrow> debouncer \<Rightarrow> waiting" where
  "settle_debounce A s d =
     (let s1 = s\<lparr>wait_loop := (wait_loop s)\<lparr>watch := deb_watch d\<rparr>\<rparr>
      in case deb_result d of
           None \<Rightarrow> s1\<lparr>phase := Debouncing d\<rparr>
         | Some (Inr u) \<Rightarrow> after_quiet A s1
         | Some (Inl err) \<Rightarrow> s1\<lparr>phase := Rejected err\<rparr>)"

definition after_first :: "wait_args \<Rightarrow> waiting \<Rightarrow> waiting" where
  "after_first A s =
     (if wait_debounce A > 0
      then settle_debounce A s
             (next_turn (wait_reason A) (wait_debounce A)
                \<lparr>deb_watch = watch (wait_loop s), pending_change = 0, remaining = 0, timers = 0,
                 deb_result = None\<rparr>)
      else after_quiet A s)"

text \<open>The \<open>next()\<close> promises that settle reach the \<open>await\<close> the function is suspended at.\<close>

definition deliver :: "wait_args \<Rightarrow> waiting \<Rightarrow> (nat \<times> bool) list \<Rightarrow> waiting" where
  "deliver A s settled =
     (case phase s of
        WaitingFirst \<Rightarrow>
          (if (0, True) \<in> set settled then after_first A s
           else if (0, False) \<in> set settled then s\<lparr>phase := Rejected (give_up A)\<rparr>
           else s)
      | Debouncing d \<Rightarrow>
          settle_debounce A s
            (deb_react (wait_reason A) (wait_debounce A) (d\<lparr>deb_watch := watch (wait_loop s)\<rparr>) settled)
      | _ \<Rightarrow> s)"

definition loop_task :: "wait_args \<Rightarrow> waiting \<Rightarrow> loop_event \<Rightarrow> waiting" where
  "loop_task A s e =
     (case loop_step (watch_opts A) (wait_loop s) e of
        (l, settled) \<Rightarrow> deliver A (s\<lparr>wait_loop := l\<rparr>) settled)"

definition lock_task :: "wait_args \<Rightarrow> waiting \<Rightarrow> lock_event \<Rightarrow> waiting" where
  "lock_task A s e =
     (case phase s of
        Requested (Inr a) \<Rightarrow>
          s\<lparr>phase := Requested (Inr (fst (acquisition_step (lock_opts A False) (wait_ttl_secs A) a e)))\<rparr>
      | _ \<Rightarrow> s)"

text \<open>The watch is private to the function: nobody else calls its \<open>next()\<close>.\<close>

fun wait_step :: "wait_args \<Rightarrow> waiting \<Rightarrow> wait_event \<Rightarrow> waiting" where
  "wait_step A s (OnLoop e) = (if e = ConsumerNext \<or> e = Abort then s else loop_task A s e)"
| "wait_step A s Elapses =
     (case phase s of
        Debouncing d \<Rightarrow>
          settle_debounce A s
            (deb_step (wait_reason A) (wait_debounce A) (d\<lparr>deb_watch := watch (wait_loop s)\<rparr>) Elapse)
      | _ \<Rightarrow> s)"
| "wait_step A s (OnLock e) = (if e = SignalAbort then s else lock_task A s e)"
| "wait_step A s Aborts =
     (if wait_signal A = None then s else lock_task A (loop_task A s Abort) SignalAbort)"

definition wait_start :: "wait_args \<Rightarrow> waiting" where
  "wait_start A =
     loop_task A
       \<lparr>wait_loop = fst (watch_bundle (watch_opts A) (wait_signal A = Some True)), phase = WaitingFirst\<rparr>
       ConsumerNext"

definition wait_for_restart :: "wait_args \<Rightarrow> wait_event list \<Rightarrow> waiting" where
  "wait_for_restart A es = foldl (wait_step A) (wait_start A) es"

text \<open>What the promise of the call has settled with.\<close>

definition wait_result :: "waiting \<Rightarrow> (thrown + unit) option" where
  "wait_result s =
     (case phase s of
        Rejected err \<Rightarrow> Some (Inl err)
      | Requested (Inl err) \<Rightarrow> Some (Inl err)
      | Requested (Inr a) \<Rightarrow> result a
      | _ \<Rightarrow> None)"

section \<open>The plan\<close>

text \<open>\<open>AskLock es\<close>: the lock was asked for, and \<open>es\<close> has happened to the request since.\<close>

datatype plan = AwaitChange | AwaitQuiet nat | AskLock "lock_event list" | GiveUp

text \<open>The delay \<open>setTimeout\<close> makes of \<open>debounceMs\<close>; 0 when there is nothing to wait for.\<close>

definition wait_delay :: "wait_args \<Rightarrow> nat" where
  "wait_delay A = (if wait_debounce A > 0 then nat (timer_delay (wait_debounce A)) else 0)"

lemma wait_delay_simps [simp]:
  "0 < wait_delay A \<longleftrightarrow> 0 < wait_debounce A" "wait_debounce A \<le> 0 \<Longrightarrow> wait_delay A = 0"
  "0 < wait_debounce A \<Longrightarrow> ticks (wait_debounce A) = wait_delay A"
  by (simp_all add: wait_delay_def)

definition ask_or_wait :: "wait_args \<Rightarrow> plan" where
  "ask_or_wait A = (if wait_debounce A > 0 then AwaitQuiet (wait_delay A) else AskLock [])"

text \<open>\<open>receiving\<close>: the watch loop has a stream to receive from.\<close>

fun plan_step :: "wait_args \<Rightarrow> bool \<Rightarrow> plan \<Rightarrow> wait_event \<Rightarrow> plan" where
  "plan_step A receiving p (OnLoop e) =
     (if receiving \<and> e = Recv EVENT_TYPE_CHANGED
      then (case p of
              AwaitChange \<Rightarrow> ask_or_wait A
            | AwaitQuiet k \<Rightarrow> AwaitQuiet (wait_delay A)
            | _ \<Rightarrow> p)
      else p)"
| "plan_step A receiving p Elapses =
     (case p of AwaitQuiet k \<Rightarrow> (if k \<le> 1 then AskLock [] else AwaitQuiet (k - 1)) | _ \<Rightarrow> p)"
| "plan_step A receiving p (OnLock e) =
     (if e = SignalAbort then p else case p of AskLock es \<Rightarrow> AskLock (es @ [e]) | _ \<Rightarrow> p)"
| "plan_step A receiving p Aborts =
     (if wait_signal A = None then p
      else case p of AskLock es \<Rightarrow> AskLock (es @ [SignalAbort]) | _ \<Rightarrow> GiveUp)"

text \<open>The plan next to a watch loop that nobody consumes.\<close>

fun loop_part :: "wait_event \<Rightarrow> loop_event list" where
  "loop_part (OnLoop e) = (if e = ConsumerNext \<or> e = Abort then [] else [e])"
| "loop_part Aborts = [Abort]"
| "loop_part _ = []"

definition plan_sys_step :: "wait_args \<Rightarrow> watch_loop \<times> plan \<Rightarrow> wait_event \<Rightarrow> watch_loop \<times> plan" where
  "plan_sys_step A lp e =
     (fst (run (loop_step (watch_opts A)) (fst lp) (loop_part e)),
      plan_step A (pc (fst lp) = Receiving) (snd lp) e)"

definition plan_start :: "wait_args \<Rightarrow> watch_loop \<times> plan" where
  "plan_start A =
     (fst (watch_bundle (watch_opts A) (wait_signal A = Some True)),
      if wait_signal A = Some True then GiveUp else AwaitChange)"

definition plan_after :: "wait_args \<Rightarrow> wait_event list \<Rightarrow> plan" where
  "plan_after A es = snd (foldl (plan_sys_step A) (plan_start A) es)"

text \<open>What the call has settled with, according to the plan.\<close>

definition plan_result :: "wait_args \<Rightarrow> plan \<Rightarrow> (thrown + unit) option" where
  "plan_result A p =
     (case p of
        GiveUp \<Rightarrow> Some (Inl (give_up A))
      | AskLock es \<Rightarrow>
          (case request_lock A False of
             Inl err \<Rightarrow> Some (Inl err)
           | Inr a \<Rightarrow> result (fst (run (acquisition_step (lock_opts A False) (wait_ttl_secs A)) a es)))
      | _ \<Rightarrow> None)"

section \<open>The composition follows the plan\<close>

definition strip :: "watch_loop \<Rightarrow> watch_loop" where
  "strip l = l\<lparr>watch := bw_start\<rparr>"

lemma strip_fields [simp]:
  "pc (strip l) = pc l" "aborted (strip l) = aborted l" "strip (l\<lparr>watch := w\<rparr>) = strip l"
  "strip (strip l) = strip l"
  by (simp_all add: strip_def)

lemma strip_eqD: "strip l = strip m \<Longrightarrow> pc l = pc m \<and> aborted l = aborted m"
  by (metis strip_fields(1,2))

lemma strip_step: "strip (fst (loop_step opts s e)) = strip (fst (loop_step opts (strip s) e))"
  by (cases "(opts, s, e)" rule: loop_step.cases)
     (auto simp: strip_def loop_ops Let_def split: prod.splits)

lemma strip_step_cong: "strip l = strip m \<Longrightarrow> strip (fst (loop_step opts l e)) = strip (fst (loop_step opts m e))"
  by (metis strip_step)

lemma strip_next [simp]: "strip (fst (loop_step opts s ConsumerNext)) = strip s"
  by (simp add: Let_def split_beta)

text \<open>A running loop: only an abort ends it.\<close>

definition live :: "watch_loop \<Rightarrow> bool" where
  "live l \<longleftrightarrow> pc l \<noteq> Returned \<and> \<not> aborted l"

lemma live_step:
  "live s \<Longrightarrow> e \<noteq> Abort \<Longrightarrow> live (fst (loop_step opts s e))"
  by (cases "(opts, s, e)" rule: loop_step.cases)
     (auto simp: live_def loop_ops Let_def split: prod.splits)

lemma uneventful_step:
  "live s \<Longrightarrow> e \<noteq> Abort \<Longrightarrow> e \<noteq> ConsumerNext \<Longrightarrow> \<not> (pc s = Receiving \<and> e = Recv EVENT_TYPE_CHANGED) \<Longrightarrow>
   snd (loop_step opts s e) = [] \<and> watch (fst (loop_step opts s e)) = watch s"
  by (cases "(opts, s, e)" rule: loop_step.cases) (auto simp: live_def loop_ops)

text \<open>The watch has one waiter, and nothing to tell it.\<close>

definition one_waiter :: "nat \<Rightarrow> bw_sys \<Rightarrow> bool" where
  "one_waiter k w \<longleftrightarrow> \<not> pending (fst w) \<and> \<not> watch_closed (fst w) \<and> bw_waiters (fst w) = [k]"

definition no_waiter :: "bw_sys \<Rightarrow> bool" where
  "no_waiter w \<longleftrightarrow> \<not> pending (fst w) \<and> \<not> watch_closed (fst w) \<and> bw_waiters (fst w) = []"

lemma deb_waits_alt:
  "deb_waits d \<longleftrightarrow> deb_result d = None \<and> one_waiter (pending_change d) (deb_watch d)"
  by (auto simp: deb_waits_def one_waiter_def)

lemma change_step:
  assumes "pc s = Receiving" and "one_waiter k (watch s)"
  shows "snd (loop_step opts s (Recv EVENT_TYPE_CHANGED)) = [(k, True)]"
    and "no_waiter (watch (fst (loop_step opts s (Recv EVENT_TYPE_CHANGED))))"
  using assms
  by (cases "watch s"; auto simp: one_waiter_def no_waiter_def signal_change_def Let_def)+

lemma abort_step:
  assumes "live s" and "one_waiter k (watch s)" and "has_signal opts"
  shows "snd (loop_step opts s Abort) = [(k, False)]"
  using assms
  by (cases "watch s") (auto simp: live_def one_waiter_def loop_ops close_watch_def Let_def)

lemma next_turn_ready:
  assumes "deb_result s = None" and "no_waiter (deb_watch s)"
  shows "deb_waits (next_turn reason ms s)" and "remaining (next_turn reason ms s) = ticks ms"
  using next_turn_waits [of s reason ms] assms by (auto simp: no_waiter_def)

declare loop_step.simps [simp del]

definition follows :: "wait_args \<Rightarrow> waiting \<Rightarrow> watch_loop \<times> plan \<Rightarrow> bool" where
  "follows A s lp \<longleftrightarrow>
     strip (wait_loop s) = strip (fst lp) \<and>
     (case snd lp of
        AwaitChange \<Rightarrow> phase s = WaitingFirst \<and> live (wait_loop s) \<and> one_waiter 0 (watch (wait_loop s))
      | AwaitQuiet k \<Rightarrow> 0 < wait_debounce A \<and>
          (\<exists>d. phase s = Debouncing d \<and> live (wait_loop s) \<and> deb_waits d \<and>
             deb_watch d = watch (wait_loop s) \<and> remaining d = k)
      | AskLock es \<Rightarrow> phase s = Requested (case request_lock A False of
            Inl err \<Rightarrow> Inl err
          | Inr a \<Rightarrow> Inr (fst (run (acquisition_step (lock_opts A False) (wait_ttl_secs A)) a es)))
      | GiveUp \<Rightarrow> phase s = Rejected (give_up A))"

lemma settle_waiting:
  "deb_waits d \<Longrightarrow> settle_debounce A s d =
     s\<lparr>wait_loop := (wait_loop s)\<lparr>watch := deb_watch d\<rparr>, phase := Debouncing d\<rparr>"
  by (simp add: settle_debounce_def deb_waits_def)

lemma after_quiet_follows:
  assumes "strip (wait_loop s) = strip l" and "live (wait_loop s)"
  shows "follows A (after_quiet A s) (l, AskLock [])"
  using assms by (auto simp: follows_def after_quiet_def live_def split: sum.split)

lemma turn_follows:
  assumes "strip (wait_loop s) = strip l" and "live (wait_loop s)" and "deb_waits d"
    and "0 < wait_debounce A"
  shows "follows A (settle_debounce A s d) (l, AwaitQuiet (remaining d))"
  using assms by (simp add: follows_def settle_waiting live_def)

lemma after_first_follows:
  assumes "strip (wait_loop s) = strip l" and "live (wait_loop s)" and "no_waiter (watch (wait_loop s))"
  shows "follows A (after_first A s) (l, ask_or_wait A)"
proof (cases "wait_debounce A > 0")
  case True
  let ?d = "next_turn (wait_reason A) (wait_debounce A)
    \<lparr>deb_watch = watch (wait_loop s), pending_change = 0, remaining = 0, timers = 0, deb_result = None\<rparr>"
  have "deb_waits ?d" "remaining ?d = wait_delay A"
    using assms(3) True by (simp_all add: next_turn_ready)
  then show ?thesis using turn_follows [OF assms(1,2), of ?d A] True
    by (simp add: after_first_def ask_or_wait_def)
next
  case False
  then show ?thesis using after_quiet_follows [OF assms(1,2)] by (simp add: after_first_def ask_or_wait_def)
qed

text \<open>A task of the loop.\<close>

lemma loop_task_strip:
  "strip (wait_loop (loop_task A s e)) = strip (fst (loop_step (watch_opts A) (wait_loop s) e))"
  by (simp add: loop_task_def deliver_def after_first_def settle_debounce_def after_quiet_def Let_def
      split: prod.split wait_phase.split option.split sum.split)

lemma loop_task_follows:
  assumes f: "follows A s (l, p)" and e: "e \<noteq> ConsumerNext" "e \<noteq> Abort"
  shows "follows A (loop_task A s e)
     (fst (loop_step (watch_opts A) l e), plan_step A (pc l = Receiving) p (OnLoop e))"
proof -
  let ?r = "loop_step (watch_opts A) (wait_loop s) e"
  let ?l = "fst (loop_step (watch_opts A) l e)"
  let ?s = "s\<lparr>wait_loop := fst ?r\<rparr>"
  have same: "strip (wait_loop s) = strip l" using f by (simp add: follows_def)
  have strip: "strip (fst ?r) = strip ?l" by (rule strip_step_cong [OF same])
  have pc: "pc (wait_loop s) = pc l" using strip_eqD [OF same] by simp
  have task: "loop_task A s e = deliver A ?s (snd ?r)"
    by (simp add: loop_task_def split_beta)
  show ?thesis
  proof (cases p)
    case AwaitChange
    with f have w: "phase s = WaitingFirst" "live (wait_loop s)" "one_waiter 0 (watch (wait_loop s))"
      by (simp_all add: follows_def)
    note alive = live_step [OF w(2) e(2), of "watch_opts A"]
    show ?thesis
    proof (cases "pc l = Receiving \<and> e = Recv EVENT_TYPE_CHANGED")
      case True
      then have change: "snd ?r = [(0, True)]" "no_waiter (watch (fst ?r))"
        using change_step [OF _ w(3), of "watch_opts A"] pc by simp_all
      with True show ?thesis
        unfolding task using after_first_follows [of ?s ?l A] strip alive w(1) AwaitChange
        by (simp add: deliver_def)
    next
      case False
      then have "snd ?r = []" "watch (fst ?r) = watch (wait_loop s)"
        using uneventful_step [OF w(2) e(2,1)] pc by auto
      with False w alive strip AwaitChange show ?thesis
        by (auto simp: task deliver_def follows_def)
    qed
  next
    case (AwaitQuiet k)
    with f obtain d where d: "phase s = Debouncing d" "live (wait_loop s)" "deb_waits d"
      "deb_watch d = watch (wait_loop s)" "remaining d = k" and pos: "0 < wait_debounce A"
      by (auto simp: follows_def)
    then have one: "one_waiter (pending_change d) (watch (wait_loop s))" "deb_result d = None"
      by (auto simp: deb_waits_alt)
    note alive = live_step [OF d(2) e(2), of "watch_opts A"]
    let ?d = "d\<lparr>deb_watch := watch (fst ?r)\<rparr>"
    show ?thesis
    proof (cases "pc l = Receiving \<and> e = Recv EVENT_TYPE_CHANGED")
      case True
      then have change: "snd ?r = [(pending_change d, True)]" "no_waiter (watch (fst ?r))"
        using change_step [OF _ one(1), of "watch_opts A"] pc by simp_all
      then have turn: "deb_waits (next_turn (wait_reason A) (wait_debounce A) ?d)"
        "remaining (next_turn (wait_reason A) (wait_debounce A) ?d) = wait_delay A"
        using one(2) pos by (simp_all add: next_turn_ready)
      with True pos show ?thesis
        using turn_follows [of ?s ?l "next_turn (wait_reason A) (wait_debounce A) ?d" A] strip alive d(1)
          change(1) AwaitQuiet
        unfolding task by (simp add: deliver_def deb_react_def)
    next
      case False
      then have "snd ?r = []" "watch (fst ?r) = watch (wait_loop s)"
        using uneventful_step [OF d(2) e(2,1)] pc by auto
      moreover have same: "d\<lparr>deb_watch := watch (wait_loop s)\<rparr> = d" using d(4) by (cases d) simp
      ultimately show ?thesis
        using False strip alive d pos AwaitQuiet turn_follows [of ?s ?l d A]
        by (auto simp: task deliver_def deb_react_def same)
    qed
  next
    case (AskLock es)
    with f strip show ?thesis by (simp add: task deliver_def follows_def split: sum.split)
  next
    case GiveUp
    with f strip show ?thesis by (simp add: task deliver_def follows_def)
  qed
qed

lemma lock_task_follows:
  assumes "follows A s (l, p)"
  shows "follows A (lock_task A s e) (l, case p of AskLock es \<Rightarrow> AskLock (es @ [e]) | _ \<Rightarrow> p)"
  using assms
  by (cases p; auto simp: follows_def lock_task_def fst_run_snoc split: sum.split)

lemma abort_task_follows:
  assumes f: "follows A s (l, p)" and sig: "wait_signal A \<noteq> None"
  shows "follows A (loop_task A s Abort)
     (fst (loop_step (watch_opts A) l Abort), case p of AskLock es \<Rightarrow> p | _ \<Rightarrow> GiveUp)"
proof -
  have strip: "strip (fst (loop_step (watch_opts A) (wait_loop s) Abort)) =
      strip (fst (loop_step (watch_opts A) l Abort))"
    using f by (intro strip_step_cong) (simp add: follows_def)
  have "has_signal (watch_opts A)" using sig by (simp add: watch_opts_def)
  then have settled: "snd (loop_step (watch_opts A) (wait_loop s) Abort) = [(k, False)]"
    if "live (wait_loop s)" "one_waiter k (watch (wait_loop s))" for k
    using abort_step that by blast
  show ?thesis
  proof (cases p)
    case (AwaitQuiet k)
    with f obtain d where "phase s = Debouncing d" "live (wait_loop s)" "deb_waits d"
      "deb_watch d = watch (wait_loop s)" by (auto simp: follows_def)
    then show ?thesis
      using settled [of "pending_change d"] strip AwaitQuiet
      by (auto simp: loop_task_def split_beta deliver_def deb_react_def deb_waits_alt settle_debounce_def
          follows_def give_up_def Let_def)
  qed (use f strip settled in \<open>auto simp: loop_task_def split_beta deliver_def follows_def split: sum.split\<close>)
qed

lemma wait_step_follows:
  assumes f: "follows A s lp"
  shows "follows A (wait_step A s e) (plan_sys_step A lp e)"
proof -
  obtain l p where lp: "lp = (l, p)" by fastforce
  show ?thesis
  proof (cases e)
    case (OnLoop le)
    show ?thesis
    proof (cases "le = ConsumerNext \<or> le = Abort")
      case True
      then show ?thesis using f OnLoop lp by (auto simp: plan_sys_step_def)
    next
      case False
      then show ?thesis
        using loop_task_follows [of A s l p le] f OnLoop lp by (simp add: plan_sys_step_def split_beta)
    qed
  next
    case Elapses
    show ?thesis
    proof (cases p)
      case (AwaitQuiet k)
      with f lp obtain d where d: "phase s = Debouncing d" "live (wait_loop s)" "deb_waits d"
        "deb_watch d = watch (wait_loop s)" "remaining d = k" "strip (wait_loop s) = strip l"
        and pos: "0 < wait_debounce A"
        by (auto simp: follows_def)
      have same: "d\<lparr>deb_watch := watch (wait_loop s)\<rparr> = d" using d(4) by (cases d) simp
      show ?thesis
      proof (cases "k \<le> 1")
        case True
        then show ?thesis
          using after_quiet_follows [of s l A] d Elapses AwaitQuiet lp
          by (simp add: same plan_sys_step_def settle_debounce_def deb_waits_def)
      next
        case False
        let ?d = "d\<lparr>remaining := k - 1\<rparr>"
        have "deb_waits ?d" using d(3) by (simp add: deb_waits_def)
        then show ?thesis
          using turn_follows [of s l ?d A] d pos False Elapses AwaitQuiet lp
          by (simp add: same plan_sys_step_def deb_waits_def)
      qed
    qed (use f lp Elapses in \<open>auto simp: plan_sys_step_def follows_def split: sum.split\<close>)
  next
    case (OnLock le)
    then show ?thesis
      using lock_task_follows [of A s l p le] f lp by (cases p) (auto simp: plan_sys_step_def)
  next
    case Aborts
    show ?thesis
    proof (cases "wait_signal A = None")
      case True
      then show ?thesis using f lp Aborts
        by (simp add: plan_sys_step_def watch_opts_def split_beta loop_step.simps)
    next
      case False
      then obtain b where sig: "wait_signal A = Some b" by blast
      let ?l = "fst (loop_step (watch_opts A) l Abort)"
      have "follows A (loop_task A s Abort) (?l, case p of AskLock es \<Rightarrow> p | _ \<Rightarrow> GiveUp)"
        using abort_task_follows [OF f [unfolded lp] False] .
      from lock_task_follows [OF this, of SignalAbort] show ?thesis
        using Aborts sig lp by (cases p) (simp_all add: plan_sys_step_def split_beta)
    qed
  qed
qed

lemma wait_start_follows: "follows A (wait_start A) (plan_start A)"
proof (cases "wait_signal A = Some True")
  case True
  then show ?thesis
    by (simp add: loop_step.simps wait_start_def plan_start_def follows_def loop_task_def watch_bundle_def watch_opts_def
        loop_ops bw_start_def bundle_watch_new_def watch_next_def close_watch_def deliver_def Let_def strip_def)
next
  case False
  then show ?thesis
    by (simp add: loop_step.simps wait_start_def plan_start_def follows_def loop_task_def watch_bundle_def watch_opts_def
        loop_ops bw_start_def bundle_watch_new_def watch_next_def deliver_def Let_def strip_def live_def
        one_waiter_def)
qed

lemma wait_follows_plan:
  "follows A (wait_for_restart A es) (foldl (plan_sys_step A) (plan_start A) es)"
  unfolding wait_for_restart_def
  by (induction es rule: rev_induct) (simp_all add: wait_start_follows wait_step_follows)

lemma follows_result: "follows A s lp \<Longrightarrow> wait_result s = plan_result A (snd lp)"
  by (cases "snd lp") (auto simp: follows_def wait_result_def plan_result_def split: sum.split)

lemma wait_result_plan: "wait_result (wait_for_restart A es) = plan_result A (plan_after A es)"
  unfolding plan_after_def by (rule follows_result [OF wait_follows_plan])

section \<open>What the function leaves behind\<close>

text \<open>The watch loop ends only by an abort of the signal.\<close>

lemma plan_loop_running:
  "pc (fst (foldl (plan_sys_step A) (plan_start A) es)) = Returned \<longleftrightarrow>
     wait_signal A \<noteq> None \<and> (wait_signal A = Some True \<or> Aborts \<in> set es)"
proof -
  let ?start = "fst (plan_start A)"
  have fold: "fst (foldl (plan_sys_step A) (plan_start A) es) =
      fst (run (loop_step (watch_opts A)) ?start (concat (map loop_part es)))"
    by (induction es rule: rev_induct) (simp_all add: plan_sys_step_def fst_run_append)
  have eq: "fst (foldl (plan_sys_step A) (plan_start A) es) =
      loop_after (watch_opts A) (wait_signal A = Some True) (concat (map loop_part es))"
    unfolding fold loop_after_eq by (simp add: plan_start_def)
  have "Abort \<in> set (concat (map loop_part es)) \<longleftrightarrow> Aborts \<in> set es"
  proof -
    have "Abort \<in> set (loop_part e) \<longleftrightarrow> e = Aborts" for e by (cases e) auto
    then show ?thesis by auto
  qed
  then show ?thesis
    using loop_after_inv [of "watch_opts A" "wait_signal A = Some True" "concat (map loop_part es)"]
      loop_aborted_iff [of "watch_opts A" "wait_signal A = Some True" "concat (map loop_part es)"]
    unfolding eq loop_inv_def by (auto simp: watch_opts_def)
qed

lemma wait_loop_running:
  "pc (wait_loop (wait_for_restart A es)) = Returned \<longleftrightarrow>
     wait_signal A \<noteq> None \<and> (wait_signal A = Some True \<or> Aborts \<in> set es)"
proof -
  have "strip (wait_loop (wait_for_restart A es)) =
      strip (fst (foldl (plan_sys_step A) (plan_start A) es))"
    using wait_follows_plan [of A es] by (simp add: follows_def)
  then show ?thesis using plan_loop_running [of A es] strip_eqD by metis
qed

section \<open>When the lock is asked for\<close>

text \<open>There was a change, and the debounce time passed after it.\<close>

definition quiet_change :: "wait_args \<Rightarrow> wait_event list \<Rightarrow> nat \<Rightarrow> bool" where
  "quiet_change A es k \<longleftrightarrow>
     (\<exists>p q. es = p @ OnLoop (Recv EVENT_TYPE_CHANGED) # q \<and>
        wait_delay A \<le> length (filter (\<lambda>e. e = Elapses) q) + k)"

lemma quiet_change_snoc:
  "quiet_change A es k \<Longrightarrow> quiet_change A (es @ [e]) k"
  "quiet_change A es k \<Longrightarrow> quiet_change A (es @ [Elapses]) (k - 1)"
  "quiet_change A (es @ [OnLoop (Recv EVENT_TYPE_CHANGED)]) (wait_delay A)"
  "wait_debounce A \<le> 0 \<Longrightarrow> quiet_change A (es @ [OnLoop (Recv EVENT_TYPE_CHANGED)]) 0"
proof -
  assume "quiet_change A es k"
  then obtain p q where es: "es = p @ OnLoop (Recv EVENT_TYPE_CHANGED) # q"
    "wait_delay A \<le> length (filter (\<lambda>e. e = Elapses) q) + k" by (auto simp: quiet_change_def)
  show "quiet_change A (es @ [e]) k"
    unfolding quiet_change_def using es by (intro exI [of _ p] exI [of _ "q @ [e]"]) simp
  show "quiet_change A (es @ [Elapses]) (k - 1)"
    unfolding quiet_change_def using es by (intro exI [of _ p] exI [of _ "q @ [Elapses]"]) simp
next
  show "quiet_change A (es @ [OnLoop (Recv EVENT_TYPE_CHANGED)]) (wait_delay A)"
    and "wait_debounce A \<le> 0 \<Longrightarrow> quiet_change A (es @ [OnLoop (Recv EVENT_TYPE_CHANGED)]) 0"
    unfolding quiet_change_def by (intro exI [of _ es] exI [of _ "[]"]; simp)+
qed

definition plan_justified :: "wait_args \<Rightarrow> wait_event list \<Rightarrow> plan \<Rightarrow> bool" where
  "plan_justified A es p \<longleftrightarrow>
     (case p of AwaitQuiet k \<Rightarrow> quiet_change A es k | AskLock les \<Rightarrow> quiet_change A es 0 | _ \<Rightarrow> True)"

lemma plan_step_justified:
  assumes "plan_justified A es p"
  shows "plan_justified A (es @ [e]) (plan_step A receiving p e)"
proof (cases e)
  case Elapses
  show ?thesis
  proof (cases p)
    case (AwaitQuiet k)
    then have "quiet_change A (es @ [Elapses]) (k - 1)"
      using assms quiet_change_snoc(2) by (simp add: plan_justified_def)
    then show ?thesis using AwaitQuiet Elapses by (auto simp: plan_justified_def)
  qed (use assms Elapses quiet_change_snoc(1) in \<open>auto simp: plan_justified_def\<close>)
qed (use assms quiet_change_snoc(1,3,4) in
    \<open>cases p; auto simp: plan_justified_def ask_or_wait_def\<close>)+

lemma plan_after_justified: "plan_justified A es (plan_after A es)"
  unfolding plan_after_def
proof (induction es rule: rev_induct)
  case Nil
  show ?case by (simp add: plan_start_def plan_justified_def)
next
  case (snoc e es)
  then show ?case by (simp add: plan_sys_step_def plan_step_justified)
qed

lemma asked_after_quiet:
  "plan_after A es = AskLock les \<Longrightarrow> quiet_change A es 0"
  using plan_after_justified [of A es] by (simp add: plan_justified_def)

declare loop_step.simps [simp]

end
