(* ===== verification/Bytes.thy ===== *)
theory Bytes
  imports Prelude
begin

text \<open>
  The byte-level parts of Node's \<open>Buffer\<close> the library uses: UTF-8 (\<open>Buffer.from(s, "utf8")\<close>,
  on the code units below 256), base64 (\<open>toString("base64")\<close>) and upper-case hexadecimal
  (\<open>digest("hex").toUpperCase()\<close>), each with the decoder that reads it back.
\<close>

section \<open>Bytes and numbers\<close>

definition to_byte :: "nat \<Rightarrow> byte" where
  "to_byte n = of_nat n"

lemma unat_byte_less [simp]: "unat (a :: byte) < 256"
proof -
  have "unat a < 2 ^ LENGTH(8)" by (rule unsigned_less)
  then show ?thesis by simp
qed

lemma unat_to_byte [simp]: "n < 256 \<Longrightarrow> unat (to_byte n) = n"
  by (simp add: to_byte_def unat_of_nat)

lemma to_byte_unat [simp]: "to_byte (unat a) = a"
  by (simp add: to_byte_def)

lemma char_code_less [simp]: "(of_char c :: nat) < 256"
  using range_nat_of_char by fastforce

section \<open>UTF-8\<close>

fun utf8 :: "string \<Rightarrow> byte list" where
  "utf8 [] = []"
| "utf8 (c # cs) =
     (let n = of_char c :: nat
      in (if n < 128 then [to_byte n] else [to_byte (192 + n div 64), to_byte (128 + n mod 64)]) @ utf8 cs)"

fun utf8_decode :: "byte list \<Rightarrow> string option" where
  "utf8_decode [] = Some []"
| "utf8_decode (b # bs) =
     (if unat b < 128 then map_option (Cons (char_of (unat b))) (utf8_decode bs)
      else (case bs of
              [] \<Rightarrow> None
            | c # cs \<Rightarrow>
                (if 194 \<le> unat b \<and> unat b \<le> 195 \<and> 128 \<le> unat c \<and> unat c < 192
                 then map_option (Cons (char_of ((unat b - 192) * 64 + (unat c - 128))))
                        (utf8_decode cs)
                 else None)))"

lemma utf8_decode_utf8 [simp]: "utf8_decode (utf8 s) = Some s"
proof (induction s)
  case (Cons c s)
  let ?n = "of_char c :: nat"
  have n: "?n < 256" by simp
  show ?case
  proof (cases "?n < 128")
    case False
    then have "128 \<le> ?n" "?n \<le> 255" using n by linarith+
    then have "2 \<le> ?n div 64" "?n div 64 \<le> 3"
      using div_le_mono [of 128 ?n 64] div_le_mono [of ?n 255 64] by simp_all
    with False Cons show ?thesis by (simp add: Let_def)
  qed (use Cons in \<open>simp add: Let_def\<close>)
qed simp

lemma utf8_injective: "utf8 s = utf8 t \<Longrightarrow> s = t"
  by (metis option.inject utf8_decode_utf8)

section \<open>Base64\<close>

definition b64_alphabet :: string where
  "b64_alphabet = ''ABCDEFGHIJKLMNOPQRSTUVWXYZabcdefghijklmnopqrstuvwxyz0123456789+/''"

definition b64_char :: "nat \<Rightarrow> char" where
  "b64_char n = b64_alphabet ! n"

definition b64_val :: "char \<Rightarrow> nat option" where
  "b64_val c = index_of c b64_alphabet"

fun base64 :: "byte list \<Rightarrow> string" where
  "base64 [] = []"
| "base64 [a] = [b64_char (unat a div 4), b64_char (unat a mod 4 * 16), CHR ''='', CHR ''='']"
| "base64 [a, b] =
     [b64_char (unat a div 4), b64_char (unat a mod 4 * 16 + unat b div 16),
      b64_char (unat b mod 16 * 4), CHR ''='']"
| "base64 (a # b # c # r) =
     [b64_char (unat a div 4), b64_char (unat a mod 4 * 16 + unat b div 16),
      b64_char (unat b mod 16 * 4 + unat c div 64), b64_char (unat c mod 64)] @ base64 r"

fun base64_decode :: "string \<Rightarrow> byte list option" where
  "base64_decode [] = Some []"
| "base64_decode (w # x # y # z # r) =
     (case (b64_val w, b64_val x) of
        (Some i, Some j) \<Rightarrow>
          (if y = CHR ''='' then
             (if z = CHR ''='' \<and> r = [] then Some [to_byte (i * 4 + j div 16)] else None)
           else (case b64_val y of
                   None \<Rightarrow> None
                 | Some k \<Rightarrow>
                     (if z = CHR ''='' then
                        (if r = [] then Some [to_byte (i * 4 + j div 16), to_byte (j mod 16 * 16 + k div 4)]
                         else None)
                      else (case (b64_val z, base64_decode r) of
                              (Some l, Some bs) \<Rightarrow>
                                Some (to_byte (i * 4 + j div 16) # to_byte (j mod 16 * 16 + k div 4) #
                                      to_byte (k mod 4 * 64 + l) # bs)
                            | _ \<Rightarrow> None))))
      | _ \<Rightarrow> None)"
| "base64_decode _ = None"

lemma b64_table: "list_all (\<lambda>n. b64_val (b64_char n) = Some n \<and> b64_char n \<noteq> CHR ''='') [0..<64]"
  by code_simp

lemma b64_char_simps [simp]:
  "n < 64 \<Longrightarrow> b64_val (b64_char n) = Some n"
  "n < 64 \<Longrightarrow> b64_char n \<noteq> CHR ''=''"
  using b64_table by (auto simp: list_all_iff)

lemma sextets:
  fixes a b :: nat
  shows "a < 256 \<Longrightarrow> a div 4 < 64" "a mod 4 * 16 < 64" "b < 256 \<Longrightarrow> a mod 4 * 16 + b div 16 < 64"
    "a mod 16 * 4 < 64" "b < 256 \<Longrightarrow> a mod 16 * 4 + b div 64 < 64"
    "b < 256 \<Longrightarrow> (a mod 4 * 16 + b div 16) div 16 = a mod 4"
    "b < 256 \<Longrightarrow> (a mod 4 * 16 + b div 16) mod 16 = b div 16"
    "b < 256 \<Longrightarrow> (a mod 16 * 4 + b div 64) div 4 = a mod 16"
    "b < 256 \<Longrightarrow> (a mod 16 * 4 + b div 64) mod 4 = b div 64"
proof -
  have x: "a mod 4 \<le> 3" and y: "a mod 16 \<le> 15" by simp_all
  from x show "a mod 4 * 16 < 64" by linarith
  from y show "a mod 16 * 4 < 64" by linarith
  show "a < 256 \<Longrightarrow> a div 4 < 64" by linarith
  assume "b < 256"
  then have d: "b div 16 < 16" "b div 64 < 4" by simp_all
  from x d show "a mod 4 * 16 + b div 16 < 64" by linarith
  from y d show "a mod 16 * 4 + b div 64 < 64" by linarith
  from d show "(a mod 4 * 16 + b div 16) div 16 = a mod 4" "(a mod 4 * 16 + b div 16) mod 16 = b div 16"
    "(a mod 16 * 4 + b div 64) div 4 = a mod 16" "(a mod 16 * 4 + b div 64) mod 4 = b div 64"
    by simp_all
qed

lemma byte_tops:
  fixes b :: nat
  shows "b < 256 \<Longrightarrow> b div 16 mod 16 = b div 16" "b < 256 \<Longrightarrow> b div 16 div 16 = 0"
    "b < 256 \<Longrightarrow> b div 64 mod 4 = b div 64" "b < 256 \<Longrightarrow> b div 64 div 4 = 0"
  by simp_all

lemma base64_decode_base64 [simp]: "base64_decode (base64 bs) = Some bs"
  by (induction bs rule: base64.induct) (simp_all add: sextets byte_tops)

lemma base64_injective: "base64 a = base64 b \<Longrightarrow> a = b"
  by (metis base64_decode_base64 option.inject)

text \<open>No character of a base64 text can end a field of the formats it is put in.\<close>

lemma b64_char_in: "n < 64 \<Longrightarrow> b64_char n \<in> set b64_alphabet"
  unfolding b64_char_def by (rule nth_mem) (simp add: b64_alphabet_def)

lemma set_base64: "set (base64 bs) \<subseteq> set b64_alphabet \<union> {CHR ''=''}"
  by (induction bs rule: base64.induct) (auto simp: sextets intro!: b64_char_in)

lemma base64_clean [simp]:
  "CHR '','' \<notin> set (base64 bs)" "CHR '']'' \<notin> set (base64 bs)" "CHR ''\<newline>'' \<notin> set (base64 bs)"
  "CHR ''-'' \<notin> set (base64 bs)"
  using set_base64 [of bs] by (auto simp: b64_alphabet_def)

section \<open>Hexadecimal\<close>

definition hex_digit :: "nat \<Rightarrow> char" where
  "hex_digit n = ''0123456789ABCDEF'' ! n"

fun hex_upper :: "byte list \<Rightarrow> string" where
  "hex_upper [] = []"
| "hex_upper (b # bs) = hex_digit (unat b div 16) # hex_digit (unat b mod 16) # hex_upper bs"

lemma hex_table:
  "list_all (\<lambda>n. index_of (hex_digit n) ''0123456789ABCDEF'' = Some n) [0..<16]"
  by code_simp

lemma hex_digit_inj: "m < 16 \<Longrightarrow> n < 16 \<Longrightarrow> hex_digit m = hex_digit n \<Longrightarrow> m = n"
proof -
  assume lt: "m < 16" "n < 16" and eq: "hex_digit m = hex_digit n"
  have "index_of (hex_digit k) ''0123456789ABCDEF'' = Some k" if "k < 16" for k
    using hex_table that by (simp add: list_all_iff)
  with lt eq show "m = n" by (metis option.inject)
qed

lemma hex_upper_injective: "hex_upper a = hex_upper b \<Longrightarrow> a = b"
proof (induction a arbitrary: b)
  case Nil
  then show ?case by (cases b) auto
next
  case (Cons x a)
  then obtain y c where b: "b = y # c" by (cases b) auto
  with Cons.prems have "unat x div 16 = unat y div 16" "unat x mod 16 = unat y mod 16"
    using unat_byte_less [of x] unat_byte_less [of y]
    by (auto intro!: hex_digit_inj simp: div_less_iff_less_mult)
  then have "unat x = unat y" by (metis div_mult_mod_eq)
  then have "to_byte (unat x) = to_byte (unat y)" by simp
  then have "x = y" by (simp only: to_byte_unat)
  with Cons b show ?case by simp
qed

end
