(* ===== verification/Workload.thy ===== *)
theory Workload
  imports Errors Bytes
begin

text \<open>
  \<open>src/workload.ts\<close>: fetching a workload identity with retries, rendering its key as PEM, and
  accepting a server by the trust domain of its SPIFFE identity. The SPIFFE Workload API client,
  the certificate parser and the gRPC library are not part of the repository: what they give
  (a client or an exception, the messages of a fetch, the credentials) are arguments.
\<close>

section \<open>Retrying the fetch\<close>

definition workloadDialBackoffMs :: "int list" where
  "workloadDialBackoffMs = [1000, 2000, 4000, 8000]"

definition workloadDialMaxAttempts :: nat where
  "workloadDialMaxAttempts = length workloadDialBackoffMs + 1"

fun isNoIdentityIssuedErr :: "thrown \<Rightarrow> bool" where
  "isNoIdentityIssuedErr (Err msg code) \<longleftrightarrow> code = Some ''PERMISSION_DENIED''"
| "isNoIdentityIssuedErr (AbortRace msg) \<longleftrightarrow> False"
| "isNoIdentityIssuedErr (NonErr is_object text code) \<longleftrightarrow> is_object \<and> code = Some ''PERMISSION_DENIED''"

text \<open>\<open>5\<close> is \<open>workloadDialMaxAttempts\<close>.\<close>

definition gave_up :: "thrown \<Rightarrow> thrown" where
  "gave_up last_err = mk_error (''no identity issued after 5 attempts: '' @ err_message last_err)"

text \<open>
  The loop from \<open>attempt\<close> on: what it settles with and how long it sleeps. \<open>probe k\<close> is what the
  \<open>k\<close>-th call of \<open>probe\<close> settles with.
\<close>

function retry_from :: "(nat \<Rightarrow> thrown + 'a) \<Rightarrow> nat \<Rightarrow> thrown \<Rightarrow> (thrown + 'a) \<times> int list" where
  "retry_from probe attempt last_err =
     (if attempt < workloadDialMaxAttempts
      then (case probe attempt of
              Inr v \<Rightarrow> (Inr v, [])
            | Inl err \<Rightarrow>
                (if \<not> isNoIdentityIssuedErr err then (Inl err, [])
                 else if attempt = length workloadDialBackoffMs then (Inl (gave_up err), [])
                 else (case retry_from probe (Suc attempt) err of
                         (r, sleeps) \<Rightarrow> (r, workloadDialBackoffMs ! attempt # sleeps))))
      else (Inl (gave_up last_err), []))"
  by pat_completeness auto
termination
  by (relation "measure (\<lambda>(probe, attempt, e). workloadDialMaxAttempts - attempt)") auto

declare retry_from.simps [simp del]

definition retryUntilIdentityIssued :: "(nat \<Rightarrow> thrown + 'a) \<Rightarrow> (thrown + 'a) \<times> int list" where
  "retryUntilIdentityIssued probe = retry_from probe 0 (NonErr False ''undefined'' None)"

text \<open>\<open>retriable probe k\<close>: the first \<open>k\<close> probes all failed for lack of an identity.\<close>

definition retriable :: "(nat \<Rightarrow> thrown + 'a) \<Rightarrow> nat \<Rightarrow> bool" where
  "retriable probe k \<longleftrightarrow> (\<forall>j < k. \<exists>err. probe j = Inl err \<and> isNoIdentityIssuedErr err)"

definition decisive :: "thrown + 'a \<Rightarrow> bool" where
  "decisive r \<longleftrightarrow> (case r of Inr v \<Rightarrow> True | Inl err \<Rightarrow> \<not> isNoIdentityIssuedErr err)"

lemma retry_from_decisive:
  "k \<le> length workloadDialBackoffMs \<Longrightarrow> attempt \<le> k \<Longrightarrow> decisive (probe k) \<Longrightarrow>
   (\<And>j. attempt \<le> j \<Longrightarrow> j < k \<Longrightarrow> \<not> decisive (probe j)) \<Longrightarrow>
   retry_from probe attempt e = (probe k, drop attempt (take k workloadDialBackoffMs))"
proof (induction "k - attempt" arbitrary: attempt e)
  case 0
  then show ?case
    by (subst retry_from.simps)
       (auto simp: decisive_def workloadDialMaxAttempts_def split: sum.splits)
next
  case (Suc n)
  then have lt: "attempt < k" by simp
  from Suc.prems(4) [of attempt] lt obtain err where err: "probe attempt = Inl err" "isNoIdentityIssuedErr err"
    by (auto simp: decisive_def split: sum.splits)
  have "retry_from probe (Suc attempt) err = (probe k, drop (Suc attempt) (take k workloadDialBackoffMs))"
    using Suc.hyps(2) Suc.prems lt by (intro Suc.hyps(1)) auto
  moreover have "drop attempt (take k workloadDialBackoffMs) =
      workloadDialBackoffMs ! attempt # drop (Suc attempt) (take k workloadDialBackoffMs)"
    using lt Suc.prems(1) by (subst Cons_nth_drop_Suc [symmetric]) simp_all
  ultimately show ?case
    using lt Suc.prems(1) err by (subst retry_from.simps) (simp add: workloadDialMaxAttempts_def)
qed

lemma retry_from_exhausted:
  "attempt \<le> length workloadDialBackoffMs \<Longrightarrow>
   (\<And>j. attempt \<le> j \<Longrightarrow> j \<le> length workloadDialBackoffMs \<Longrightarrow> \<not> decisive (probe j)) \<Longrightarrow>
   \<exists>err. probe (length workloadDialBackoffMs) = Inl err \<and>
     retry_from probe attempt e = (Inl (gave_up err), drop attempt workloadDialBackoffMs)"
proof (induction "length workloadDialBackoffMs - attempt" arbitrary: attempt e)
  case 0
  then show ?case
    by (subst retry_from.simps)
       (auto simp: decisive_def workloadDialMaxAttempts_def split: sum.splits dest: spec)
next
  case (Suc n)
  then have lt: "attempt < length workloadDialBackoffMs" by simp
  from Suc.prems(2) [of attempt] lt obtain err where err: "probe attempt = Inl err" "isNoIdentityIssuedErr err"
    by (auto simp: decisive_def split: sum.splits)
  have "\<exists>e'. probe (length workloadDialBackoffMs) = Inl e' \<and>
      retry_from probe (Suc attempt) err = (Inl (gave_up e'), drop (Suc attempt) workloadDialBackoffMs)"
    using Suc.hyps(2) Suc.prems lt by (intro Suc.hyps(1)) auto
  then show ?case
    using lt err by (subst retry_from.simps) (auto simp: workloadDialMaxAttempts_def Cons_nth_drop_Suc)
qed

lemma backoff_length: "length workloadDialBackoffMs = 4"
  by (simp add: workloadDialBackoffMs_def)

lemma not_decisive_iff: "\<not> decisive r \<longleftrightarrow> (\<exists>err. r = Inl err \<and> isNoIdentityIssuedErr err)"
  by (cases r) (auto simp: decisive_def)

lemma retriable_iff: "retriable probe k \<longleftrightarrow> (\<forall>j < k. \<not> decisive (probe j))"
  by (simp add: retriable_def not_decisive_iff)

lemma retry_decisive:
  "k \<le> 4 \<Longrightarrow> decisive (probe k) \<Longrightarrow> retriable probe k \<Longrightarrow>
   retryUntilIdentityIssued probe = (probe k, take k workloadDialBackoffMs)"
  using retry_from_decisive [of k 0 probe, unfolded backoff_length]
  by (simp add: retryUntilIdentityIssued_def retriable_iff)

lemma retry_exhausted:
  assumes "retriable probe 5"
  shows "\<exists>err. probe 4 = Inl err \<and>
    retryUntilIdentityIssued probe = (Inl (gave_up err), workloadDialBackoffMs)"
  using retry_from_exhausted [of 0 probe, unfolded backoff_length] assms
  by (simp add: retryUntilIdentityIssued_def retriable_iff)

lemma retry_total_wait: "sum_list (take k workloadDialBackoffMs) \<le> 15000"
proof -
  have "k = 0 \<or> k = 1 \<or> k = 2 \<or> k = 3 \<or> 4 \<le> k" by linarith
  then show ?thesis by (auto simp: workloadDialBackoffMs_def)
qed

section \<open>Fetching the identity\<close>

text \<open>The first message of the response stream, if there is one; the stream may also fail.\<close>

record X509SVID =
  x509Svid :: "byte list"
  x509SvidKey :: "byte list"
  svid_bundle :: "byte list"

definition fetchFirstX509SVID :: "(thrown + X509SVID list) option \<Rightarrow> thrown + X509SVID" where
  "fetchFirstX509SVID response =
     (case response of
        None \<Rightarrow> Inl (mk_error ''workload API closed the stream without returning an SVID'')
      | Some (Inl err) \<Rightarrow> Inl err
      | Some (Inr svids) \<Rightarrow>
          (if length svids = 0 then Inl (mk_error ''workload API response contained no SVIDs'')
           else Inr (svids ! 0)))"

section \<open>PEM\<close>

function base64_lines :: "string \<Rightarrow> string list" where
  "base64_lines s = (if s = [] then [] else take 64 s # base64_lines (drop 64 s))"
  by pat_completeness auto
termination by (relation "measure length") auto

declare base64_lines.simps [simp del]

fun join_lines :: "string list \<Rightarrow> string" where
  "join_lines [] = []"
| "join_lines [l] = l"
| "join_lines (l # ls) = l @ CHR 0x0A # join_lines ls"

definition derToPem :: "byte list \<Rightarrow> string \<Rightarrow> string" where
  "derToPem der label =
     ''-----BEGIN '' @ label @ ''-----'' @ [CHR 0x0A] @ join_lines (base64_lines (base64 der)) @
     [CHR 0x0A] @ ''-----END '' @ label @ ''-----'' @ [CHR 0x0A]"

lemma base64_lines_concat: "concat (base64_lines s) = s"
proof (induction s rule: base64_lines.induct)
  case (1 s)
  then show ?case by (subst base64_lines.simps) simp
qed

lemma base64_lines_length:
  "base64_lines s = ls @ [l] \<Longrightarrow> list_all (\<lambda>x. length x = 64) ls \<and> 1 \<le> length l \<and> length l \<le> 64"
proof (induction s arbitrary: ls l rule: base64_lines.induct)
  case (1 s)
  from "1.prems" have ne: "s \<noteq> []" by (subst (asm) base64_lines.simps) (auto split: if_splits)
  with "1.prems" have split: "take 64 s # base64_lines (drop 64 s) = ls @ [l]"
    by (subst (asm) base64_lines.simps) simp
  show ?case
  proof (cases "drop 64 s = []")
    case True
    with split have "ls = []" "l = take 64 s" by (subst (asm) base64_lines.simps, simp)+
    with True ne show ?thesis by (cases s) auto
  next
    case False
    then have "base64_lines (drop 64 s) \<noteq> []" by (subst base64_lines.simps) simp
    then obtain ls' l' where ls': "base64_lines (drop 64 s) = ls' @ [l']" by (metis rev_exhaust)
    with split have "ls = take 64 s # ls'" "l = l'" by auto
    with "1.IH" [OF ne ls'] False show ?thesis by auto
  qed
qed

text \<open>A PEM reader: the text between the first and the last line, without its line breaks.\<close>

definition pem_body :: "string \<Rightarrow> string \<Rightarrow> string option" where
  "pem_body label pem =
     (let pre = ''-----BEGIN '' @ label @ ''-----'' @ [CHR 0x0A];
          post = CHR 0x0A # ''-----END '' @ label @ ''-----'' @ [CHR 0x0A]
      in if starts_with pre pem \<and> starts_with (rev post) (rev (drop (length pre) pem))
         then Some (filter (\<lambda>c. c \<noteq> CHR 0x0A)
                (take (length pem - length pre - length post) (drop (length pre) pem)))
         else None)"

lemma join_lines_filter:
  "\<forall>l \<in> set ls. CHR 0x0A \<notin> set l \<Longrightarrow> filter (\<lambda>c. c \<noteq> CHR 0x0A) (join_lines ls) = concat ls"
proof -
  have id: "filter (\<lambda>c. c \<noteq> CHR 0x0A) l = l" if "CHR 0x0A \<notin> set l" for l
    using that by (induction l) auto
  show "\<forall>l \<in> set ls. CHR 0x0A \<notin> set l \<Longrightarrow> filter (\<lambda>c. c \<noteq> CHR 0x0A) (join_lines ls) = concat ls"
    by (induction ls rule: join_lines.induct) (simp_all add: id)
qed

lemma pem_body_derToPem: "pem_body label (derToPem der label) = Some (base64 der)"
proof -
  let ?pre = "''-----BEGIN '' @ label @ ''-----'' @ [CHR 0x0A]"
  let ?post = "CHR 0x0A # ''-----END '' @ label @ ''-----'' @ [CHR 0x0A]"
  let ?body = "join_lines (base64_lines (base64 der))"
  have pem: "derToPem der label = ?pre @ ?body @ ?post" by (simp add: derToPem_def)
  have "CHR 0x0A \<notin> set (base64 der)" by simp
  then have "CHR 0x0A \<notin> set (concat (base64_lines (base64 der)))"
    unfolding base64_lines_concat .
  then have "\<forall>l \<in> set (base64_lines (base64 der)). CHR 0x0A \<notin> set l" by auto
  from join_lines_filter [OF this] have clean: "filter (\<lambda>c. c \<noteq> CHR 0x0A) ?body = base64 der"
    by (simp only: base64_lines_concat)
  have "pem_body label (?pre @ ?body @ ?post) = Some (filter (\<lambda>c. c \<noteq> CHR 0x0A) ?body)"
    unfolding pem_body_def Let_def by (simp add: starts_with_def)
  then show ?thesis unfolding pem clean .
qed

section \<open>Trust domains\<close>

definition spiffe_scheme :: string where "spiffe_scheme = ''spiffe://''"

definition normalizeTrustDomain :: "string \<Rightarrow> thrown + string" where
  "normalizeTrustDomain trustDomain =
     (let trimmed = js_trim trustDomain
      in if trimmed = '''' then Inl (mk_error ''signet: trust domain must not be empty'')
         else (let withoutScheme = (if starts_with spiffe_scheme trimmed
                                    then drop (length spiffe_scheme) trimmed else trimmed)
               in if CHR ''/'' \<in> set withoutScheme
                  then Inl (mk_error (''signet: invalid trust domain '' @ [CHR 0x22] @ trustDomain @
                              [CHR 0x22] @ '': must not contain a path''))
                  else Inr withoutScheme))"

definition trustDomainOf :: "string \<Rightarrow> string" where
  "trustDomainOf spiffeId =
     (let withoutScheme = drop (length spiffe_scheme) spiffeId
      in case index_of (CHR ''/'') withoutScheme of
           None \<Rightarrow> withoutScheme | Some i \<Rightarrow> take i withoutScheme)"

text \<open>\<open>split(/,\s*/)\<close>.\<close>

function split_commas :: "string \<Rightarrow> string list" where
  "split_commas s =
     (case dropWhile (\<lambda>c. c \<noteq> CHR '','') s of
        [] \<Rightarrow> [s]
      | c # rest \<Rightarrow> takeWhile (\<lambda>c. c \<noteq> CHR '','') s # split_commas (dropWhile js_space rest))"
  by pat_completeness auto
termination
proof (relation "measure length", goal_cases)
  case (2 s c rest)
  then have "length (c # rest) \<le> length s" by (metis length_dropWhile_le)
  moreover have "length (dropWhile js_space rest) \<le> length rest" by (rule length_dropWhile_le)
  ultimately show ?case by simp
qed simp

declare split_commas.simps [simp del]

definition uri_prefix :: string where "uri_prefix = ''URI:spiffe://''"

text \<open>The argument is \<open>cert.subjectaltname\<close>.\<close>

definition extractSpiffeId :: "string option \<Rightarrow> string option" where
  "extractSpiffeId san =
     (case san of
        None \<Rightarrow> None
      | Some s \<Rightarrow> (if s = '''' then None
                  else map_option (drop (length ''URI:'')) (find (starts_with uri_prefix) (split_commas s))))"

text \<open>The returned callback; \<open>None\<close> is \<open>undefined\<close>: the certificate is accepted.\<close>

definition checkServerIdentity :: "string \<Rightarrow> string option \<Rightarrow> thrown option" where
  "checkServerIdentity expected san =
     (case extractSpiffeId san of
        None \<Rightarrow> Some (mk_error
          (''signet: server did not present a SPIFFE ID (no '' @ [CHR 0x22] @ ''URI:spiffe://'' @ [CHR 0x22] @ '' subject alternative name found); expected trust domain '' @ [CHR 0x22]
           @ expected @ [CHR 0x22]))
      | Some spiffeId \<Rightarrow>
          (let presented = trustDomainOf spiffeId
           in if presented \<noteq> expected
              then Some (mk_error (''signet: server SPIFFE ID '' @ [CHR 0x22] @ spiffeId @ [CHR 0x22] @ '' belongs to trust domain '' @ [CHR 0x22]
                 @ presented @ [CHR 0x22] @ '', not the expected trust domain '' @ [CHR 0x22] @ expected @ [CHR 0x22]))
              else None))"

definition authorizeTrustDomainMember :: "string \<Rightarrow> thrown + (string option \<Rightarrow> thrown option)" where
  "authorizeTrustDomainMember trustDomain =
     (case normalizeTrustDomain trustDomain of
        Inl err \<Rightarrow> Inl err
      | Inr expected \<Rightarrow> Inr (checkServerIdentity expected))"

lemma normalize_no_slash: "normalizeTrustDomain t = Inr d \<Longrightarrow> CHR ''/'' \<notin> set d"
  by (auto simp: normalizeTrustDomain_def Let_def split: if_splits)

lemma trustDomainOf_takeWhile:
  "trustDomainOf i = takeWhile (\<lambda>c. c \<noteq> CHR ''/'') (drop (length spiffe_scheme) i)"
proof (cases "index_of (CHR ''/'') (drop (length spiffe_scheme) i)")
  case None
  then have "takeWhile (\<lambda>c. c \<noteq> CHR ''/'') (drop (length spiffe_scheme) i) = drop (length spiffe_scheme) i"
    unfolding takeWhile_eq_all_conv index_of_None by blast
  with None show ?thesis by (simp only: trustDomainOf_def Let_def option.case)
next
  case (Some n)
  from take_index_of [OF this] Some show ?thesis
    by (simp only: trustDomainOf_def Let_def option.case)
qed

lemma trustDomainOf_id:
  assumes "CHR ''/'' \<notin> set d" and "r = [] \<or> hd r = CHR ''/''"
  shows "trustDomainOf (spiffe_scheme @ d @ r) = d"
proof -
  have "takeWhile (\<lambda>c. c \<noteq> CHR ''/'') (d @ r) = d"
    using assms by (induction d) (cases r; auto)+
  then show ?thesis by (simp add: trustDomainOf_takeWhile)
qed

lemma split_commas_Nil [simp]: "split_commas [] = [[]]"
  by (subst split_commas.simps) simp

lemma split_commas_single: "CHR '','' \<notin> set s \<Longrightarrow> split_commas s = [s]"
proof -
  assume "CHR '','' \<notin> set s"
  then have d: "dropWhile (\<lambda>c. c \<noteq> CHR '','') s = []" by (auto simp: dropWhile_eq_Nil_conv)
  show ?thesis by (subst split_commas.simps) (simp only: d list.case)
qed

lemma split_commas_Cons:
  assumes "CHR '','' \<notin> set e"
  shows "split_commas (e @ CHR '','' # rest) = e # split_commas (dropWhile js_space rest)"
proof -
  have "dropWhile (\<lambda>c. c \<noteq> CHR '','') (e @ CHR '','' # rest) = CHR '','' # rest"
    "takeWhile (\<lambda>c. c \<noteq> CHR '','') (e @ CHR '','' # rest) = e"
    using assms by (induction e) auto
  then show ?thesis by (subst split_commas.simps) simp
qed

text \<open>Node joins the subject alternative names with a comma and a space.\<close>

fun join_names :: "string list \<Rightarrow> string" where
  "join_names [] = []"
| "join_names [e] = e"
| "join_names (e # es) = e @ '', '' @ join_names es"

definition plain_name :: "string \<Rightarrow> bool" where
  "plain_name e \<longleftrightarrow> e \<noteq> [] \<and> CHR '','' \<notin> set e \<and> \<not> js_space (hd e)"

lemma join_names_hd: "list_all plain_name es \<Longrightarrow> es \<noteq> [] \<Longrightarrow>
    join_names es \<noteq> [] \<and> \<not> js_space (hd (join_names es))"
  by (induction es rule: join_names.induct) (auto simp: plain_name_def)

lemma split_join_names: "list_all plain_name es \<Longrightarrow> es \<noteq> [] \<Longrightarrow> split_commas (join_names es) = es"
proof (induction es rule: join_names.induct)
  case (2 e)
  then show ?case by (simp add: split_commas_single plain_name_def)
next
  case (3 e e1 es)
  have "js_space (CHR '' '')" by (simp add: js_space_def)
  moreover have "dropWhile js_space (join_names (e1 # es)) = join_names (e1 # es)"
    using join_names_hd [of "e1 # es"] 3 by (cases "join_names (e1 # es)") auto
  ultimately show ?case
    using 3 split_commas_Cons [of e "CHR '' '' # join_names (e1 # es)"]
    by (simp add: plain_name_def)
qed simp

lemma extract_join_names:
  assumes "list_all plain_name es"
  shows "extractSpiffeId (Some (join_names es)) =
     map_option (drop (length ''URI:'')) (find (starts_with uri_prefix) es)"
proof (cases "es = []")
  case False
  with join_names_hd [OF assms] have "join_names es \<noteq> []" by simp
  then show ?thesis using split_join_names [OF assms False] by (simp add: extractSpiffeId_def)
qed (simp add: extractSpiffeId_def)

lemma check_accepts_iff:
  "checkServerIdentity expected san = None \<longleftrightarrow>
     (\<exists>spiffeId. extractSpiffeId san = Some spiffeId \<and> trustDomainOf spiffeId = expected)"
  by (auto simp: checkServerIdentity_def Let_def split: option.split)

text \<open>What an accepted identity looks like.\<close>

lemma extract_scheme: "extractSpiffeId san = Some i \<Longrightarrow> \<exists>r. i = spiffe_scheme @ r"
  by (auto simp: extractSpiffeId_def find_Some_iff uri_prefix_def spiffe_scheme_def starts_with_iff
      split: option.splits if_splits)

lemma accepted_identity:
  assumes "checkServerIdentity expected san = None"
  shows "\<exists>r. extractSpiffeId san = Some (spiffe_scheme @ expected @ r) \<and> (r = [] \<or> hd r = CHR ''/'')"
proof -
  obtain i where i: "extractSpiffeId san = Some i" "trustDomainOf i = expected"
    using assms check_accepts_iff by blast
  from extract_scheme [OF i(1)] obtain r where r: "i = spiffe_scheme @ r" by blast
  let ?rest = "dropWhile (\<lambda>c. c \<noteq> CHR ''/'') r"
  have e: "expected = takeWhile (\<lambda>c. c \<noteq> CHR ''/'') r"
    using i(2) r by (simp add: trustDomainOf_takeWhile)
  have "?rest = [] \<or> hd ?rest = CHR ''/''" using hd_dropWhile [of "\<lambda>c. c \<noteq> CHR ''/''" r] by auto
  moreover have "i = spiffe_scheme @ expected @ ?rest" unfolding r e by simp
  ultimately show ?thesis using i(1) by blast
qed

lemma normalize_not_empty:
  "normalizeTrustDomain t = Inr d \<Longrightarrow> js_trim t \<noteq> ''spiffe://'' \<Longrightarrow> d \<noteq> ''''"
proof
  assume n: "normalizeTrustDomain t = Inr d" "js_trim t \<noteq> ''spiffe://''" "d = ''''"
  then have "js_trim t \<noteq> ''''" "starts_with spiffe_scheme (js_trim t)" "drop (length spiffe_scheme) (js_trim t) = ''''"
    by (auto simp: normalizeTrustDomain_def Let_def split: if_splits)
  then have "js_trim t = spiffe_scheme" by (auto simp: starts_with_iff)
  with n(2) show False by (simp add: spiffe_scheme_def)
qed

text \<open>The name that makes the check accept is one of the certificate's, if none has a comma.\<close>

lemma accepted_name:
  assumes "list_all plain_name names" and "checkServerIdentity expected (Some (join_names names)) = None"
  shows "\<exists>r. ''URI:spiffe://'' @ expected @ r \<in> set names \<and> (r = '''' \<or> hd r = CHR ''/'')"
proof -
  obtain r where r: "extractSpiffeId (Some (join_names names)) = Some (spiffe_scheme @ expected @ r)"
    "r = '''' \<or> hd r = CHR ''/''" using accepted_identity [OF assms(2)] by blast
  then obtain name where found: "find (starts_with uri_prefix) names = Some name"
    "drop (length ''URI:'') name = spiffe_scheme @ expected @ r"
    unfolding extract_join_names [OF assms(1)] by blast
  then have name: "name \<in> set names" "starts_with uri_prefix name"
    "drop (length ''URI:'') name = spiffe_scheme @ expected @ r"
    unfolding find_Some_iff by auto
  from name(2) obtain x where x: "name = ''URI:'' @ x" by (auto simp: starts_with_iff uri_prefix_def)
  with name(3) have "name = ''URI:spiffe://'' @ expected @ r" by (simp add: spiffe_scheme_def)
  with name(1) r(2) show ?thesis by blast
qed

section \<open>Credentials\<close>

text \<open>
  What the two libraries provide, for a type of credentials \<open>'creds\<close>. \<open>createClient\<close>: the
  constructor of the Workload API client, given the socket; \<open>fetchX509SVID k\<close>: the response of
  the \<open>k\<close>-th fetch; \<open>pem_chain\<close>: \<open>parseCertificateBundle(der).toString("pem-chain")\<close>;
  \<open>createSsl\<close>: the gRPC credentials from trust bundle, key, certificate chain and check.
\<close>

record 'creds workload_libs =
  createClient :: "string option \<Rightarrow> thrown + unit"
  fetchX509SVID :: "nat \<Rightarrow> (thrown + X509SVID list) option"
  pem_chain :: "byte list \<Rightarrow> thrown + string"
  createSsl :: "byte list \<Rightarrow> byte list \<Rightarrow> byte list \<Rightarrow> (string option \<Rightarrow> thrown option) \<Rightarrow> thrown + 'creds"

record 'opts dial_workload_options =
  workload_address :: string
  workloadSocket :: "string option"
  trustDomain :: string
  channelOptions :: "'opts option"

definition credentialsFromSVID ::
  "'creds workload_libs \<Rightarrow> X509SVID \<Rightarrow> (string option \<Rightarrow> thrown option) \<Rightarrow> thrown + 'creds" where
  "credentialsFromSVID L svid verify =
     bindE (pem_chain L (x509Svid svid)) (\<lambda>certChainPem.
     bindE (pem_chain L (svid_bundle svid)) (\<lambda>trustBundlePem.
       createSsl L (utf8 trustBundlePem) (utf8 (derToPem (x509SvidKey svid) ''PRIVATE KEY''))
         (utf8 certChainPem) verify))"

datatype timer_event = SetKeepAlive | ClearKeepAlive

text \<open>
  The second component is what happens to the timer that keeps the event loop alive: it is
  cleared as soon as the fetch has settled, whichever way.
\<close>

definition workloadChannelCredentials ::
  "'creds workload_libs \<Rightarrow> 'opts dial_workload_options \<Rightarrow> (thrown + 'creds) \<times> timer_event list" where
  "workloadChannelCredentials L opts =
     (case authorizeTrustDomainMember (trustDomain opts) of
        Inl err \<Rightarrow> (Inl err, [])
      | Inr verify \<Rightarrow> (case createClient L (workloadSocket opts) of
          Inl err \<Rightarrow> (Inl (mk_error (''signet: connect to SPIFFE workload API: '' @ err_message err)), [])
        | Inr u \<Rightarrow>
            (case fst (retryUntilIdentityIssued (\<lambda>k. fetchFirstX509SVID (fetchX509SVID L k))) of
               Inl err \<Rightarrow> (Inl (mk_error (''signet: fetch X.509 SVID from workload API: '' @ err_message err)),
                          [SetKeepAlive, ClearKeepAlive])
             | Inr svid \<Rightarrow> (credentialsFromSVID L svid verify, [SetKeepAlive, ClearKeepAlive]))))"

section \<open>dialWorkload and dialWorkloadGitOps\<close>

text \<open>
  The two functions differ in the constructor of the client: \<open>SecretsServiceClient\<close> for the one,
  \<open>GitOpsServiceClient\<close> for the other. A constructor takes the address, the credentials and the
  channel options. The connection's \<open>close\<close> is the client's.
\<close>

record 'client workload_connection =
  connection_client :: 'client

definition dialWorkload ::
  "'creds workload_libs \<Rightarrow> (string \<Rightarrow> 'creds \<Rightarrow> 'opts option \<Rightarrow> thrown + 'client) \<Rightarrow>
   'opts dial_workload_options \<Rightarrow> thrown + 'client workload_connection" where
  "dialWorkload L newSecretsServiceClient opts =
     bindE (fst (workloadChannelCredentials L opts)) (\<lambda>creds.
     bindE (newSecretsServiceClient (workload_address opts) creds (channelOptions opts)) (\<lambda>client.
       Inr \<lparr>connection_client = client\<rparr>))"

definition dialWorkloadGitOps ::
  "'creds workload_libs \<Rightarrow> (string \<Rightarrow> 'creds \<Rightarrow> 'opts option \<Rightarrow> thrown + 'client) \<Rightarrow>
   'opts dial_workload_options \<Rightarrow> thrown + 'client workload_connection" where
  "dialWorkloadGitOps L newGitOpsServiceClient opts =
     bindE (fst (workloadChannelCredentials L opts)) (\<lambda>creds.
     bindE (newGitOpsServiceClient (workload_address opts) creds (channelOptions opts)) (\<lambda>client.
       Inr \<lparr>connection_client = client\<rparr>))"

lemma workload_keep_alive:
  "snd (workloadChannelCredentials L opts) = [] \<or>
   snd (workloadChannelCredentials L opts) = [SetKeepAlive, ClearKeepAlive]"
  by (simp add: workloadChannelCredentials_def split: sum.split)

lemma retry_settles_by_probe:
  assumes "fst (retryUntilIdentityIssued probe) = Inr v"
  shows "\<exists>k \<le> 4. probe k = Inr v"
proof (cases "retriable probe 5")
  case True
  from retry_exhausted [OF this] assms show ?thesis by auto
next
  case False
  then have ex: "\<exists>j. j < 5 \<and> decisive (probe j)" by (auto simp: retriable_iff)
  define k where "k = (LEAST j. j < 5 \<and> decisive (probe j))"
  have k: "k < 5 \<and> decisive (probe k)" unfolding k_def using ex by (rule LeastI_ex)
  have "\<not> (j < 5 \<and> decisive (probe j))" if "j < k" for j
    using that unfolding k_def by (rule not_less_Least)
  then have "retriable probe k" using k by (auto simp: retriable_iff)
  with k retry_decisive [of k probe] assms show ?thesis by (intro exI [of _ k]) auto
qed

lemma fetchFirst_Inr:
  "fetchFirstX509SVID response = Inr svid \<longleftrightarrow> (\<exists>svids. response = Some (Inr (svid # svids)))"
  by (auto simp: fetchFirstX509SVID_def nth_Cons split: option.split sum.split list.splits)
     (metis list.exhaust_sel nth_Cons_0 list.sel(1))

text \<open>What credentials are made of.\<close>

definition built_from ::
  "'creds workload_libs \<Rightarrow> string \<Rightarrow> X509SVID \<Rightarrow> 'creds \<Rightarrow> bool" where
  "built_from L expected svid creds \<longleftrightarrow>
     (\<exists>roots chain key.
        pem_chain L (svid_bundle svid) = Inr roots \<and> pem_chain L (x509Svid svid) = Inr chain \<and>
        pem_body ''PRIVATE KEY'' key = Some (base64 (x509SvidKey svid)) \<and>
        createSsl L (utf8 roots) (utf8 key) (utf8 chain) (checkServerIdentity expected) = Inr creds)"

lemma credentialsFromSVID_ok:
  "credentialsFromSVID L svid (checkServerIdentity expected) = Inr creds \<Longrightarrow> built_from L expected svid creds"
  unfolding credentialsFromSVID_def built_from_def bindE_Inr_iff
  by (metis pem_body_derToPem)

lemma workload_ok:
  assumes "fst (workloadChannelCredentials L opts) = Inr creds"
  shows "\<exists>expected svid svids k. normalizeTrustDomain (trustDomain opts) = Inr expected \<and>
     createClient L (workloadSocket opts) = Inr () \<and> k \<le> 4 \<and>
     fetchX509SVID L k = Some (Inr (svid # svids)) \<and> built_from L expected svid creds"
proof -
  obtain expected svid where e: "normalizeTrustDomain (trustDomain opts) = Inr expected"
    "createClient L (workloadSocket opts) = Inr ()"
    "fst (retryUntilIdentityIssued (\<lambda>k. fetchFirstX509SVID (fetchX509SVID L k))) = Inr svid"
    "credentialsFromSVID L svid (checkServerIdentity expected) = Inr creds"
    using assms by (auto simp: workloadChannelCredentials_def authorizeTrustDomainMember_def split: sum.splits)
  with retry_settles_by_probe [OF e(3)] credentialsFromSVID_ok [OF e(4)] show ?thesis
    by (auto simp: fetchFirst_Inr)
qed

lemma dial_ok:
  "dialWorkload L new opts = Inr c \<longleftrightarrow>
     (\<exists>creds. fst (workloadChannelCredentials L opts) = Inr creds \<and>
        new (workload_address opts) creds (channelOptions opts) = Inr (connection_client c))"
  "dialWorkloadGitOps L new' opts = Inr c' \<longleftrightarrow>
     (\<exists>creds. fst (workloadChannelCredentials L opts) = Inr creds \<and>
        new' (workload_address opts) creds (channelOptions opts) = Inr (connection_client c'))"
  by (auto simp: dialWorkload_def dialWorkloadGitOps_def bindE_Inr_iff)

end
