(* ===== verification/AdminClient.thy ===== *)
theory AdminClient
  imports Errors Bytes
begin

text \<open>
  \<open>src/client.ts\<close>: how the operator-facing clients are dialled. The decision between plaintext
  and TLS, the parsing of the address it rests on, the check of the CA bundle and the
  interceptor that adds the bearer token. Parsing a certificate (\<open>node:crypto\<close>) and decoding the
  bytes of a buffer (\<open>Buffer.toString\<close>) are arguments.
\<close>

section \<open>Addresses\<close>

text \<open>\<open>address.match(/^\[(.+)\]:\d+$/)\<close>: the group. The dot matches no line terminator.\<close>

definition bracketed :: "string \<Rightarrow> string option" where
  "bracketed address =
     (case address of
        [] \<Rightarrow> None
      | c # t \<Rightarrow>
          (if c \<noteq> CHR ''['' \<or> takeWhile is_digit (rev t) = [] then None
           else (case dropWhile is_digit (rev t) of
                   colon # bracket # body \<Rightarrow>
                     (if colon = CHR '':'' \<and> bracket = CHR '']'' \<and> body \<noteq> [] \<and>
                         CHR 0x0A \<notin> set body \<and> CHR 0x0D \<notin> set body
                      then Some (rev body) else None)
                 | _ \<Rightarrow> None)))"

definition hostOf :: "string \<Rightarrow> string" where
  "hostOf address =
     (case bracketed address of
        Some host \<Rightarrow> host
      | None \<Rightarrow>
          (case last_index_of (CHR '':'') address of
             None \<Rightarrow> address
           | Some lastColon \<Rightarrow>
               (let candidate = take lastColon address
                in if CHR '':'' \<in> set candidate then address else candidate)))"

text \<open>\<open>net.isIPv4\<close>: four decimal numbers below 256, without leading zeros.\<close>

fun split_dots :: "string \<Rightarrow> string list" where
  "split_dots [] = [[]]"
| "split_dots (c # s) =
     (if c = CHR ''.'' then [] # split_dots s
      else (case split_dots s of [] \<Rightarrow> [[c]] | l # ls \<Rightarrow> (c # l) # ls))"

definition ipv4_part :: "string \<Rightarrow> bool" where
  "ipv4_part s \<longleftrightarrow> s \<noteq> [] \<and> length s \<le> 3 \<and> list_all is_digit s \<and> (hd s = CHR ''0'' \<longrightarrow> length s = 1) \<and>
     decimal 0 s \<le> 255"

definition isIPv4 :: "string \<Rightarrow> bool" where
  "isIPv4 host \<longleftrightarrow> length (split_dots host) = 4 \<and> list_all ipv4_part (split_dots host)"

definition isLoopbackHost :: "string \<Rightarrow> bool" where
  "isLoopbackHost host =
     (if host = ''localhost'' then True
      else if isIPv4 host then starts_with ''127.'' host
      else if host = ''::1'' then True
      else False)"

section \<open>Transport\<close>

datatype ca_pem = PemText string | PemBuffer "byte list"

definition has_ca_pem :: "ca_pem option \<Rightarrow> bool" where
  "has_ca_pem caPem \<longleftrightarrow> caPem \<noteq> None \<and> caPem \<noteq> Some (PemText '''')"

text \<open>The result is \<open>useTLS\<close>.\<close>

definition adminTransportMode :: "string \<Rightarrow> ca_pem option \<Rightarrow> bool \<Rightarrow> bool \<Rightarrow> thrown + bool" where
  "adminTransportMode address caPem forceTLS plaintext =
     (if plaintext \<and> forceTLS then
        Inl (mk_error ''signet: forceTLS and plaintext are mutually exclusive'')
      else if plaintext \<and> has_ca_pem caPem then
        Inl (mk_error ''signet: plaintext and caPem are mutually exclusive'')
      else if plaintext then Inr False
      else Inr (forceTLS \<or> has_ca_pem caPem \<or> \<not> isLoopbackHost (hostOf address)))"

section \<open>CA bundles\<close>

definition pem_begin :: string where "pem_begin = ''-----BEGIN CERTIFICATE-----''"
definition pem_end :: string where "pem_end = ''-----END CERTIFICATE-----''"

text \<open>\<open>s.indexOf(p)\<close>.\<close>

fun find_sub :: "string \<Rightarrow> string \<Rightarrow> nat option" where
  "find_sub p [] = (if p = [] then Some 0 else None)"
| "find_sub p (c # s) = (if starts_with p (c # s) then Some 0 else map_option Suc (find_sub p s))"

text \<open>
  The matches of \<open>/-----BEGIN CERTIFICATE-----[\s\S]+?-----END CERTIFICATE-----/g\<close>: from the first
  begin line to the first end line that is at least one character away, and on from there.
\<close>

function pem_blocks :: "string \<Rightarrow> string list" where
  "pem_blocks s =
     (case find_sub pem_begin s of
        None \<Rightarrow> []
      | Some i \<Rightarrow>
          (let t = drop (i + length pem_begin) s
           in case find_sub pem_end (drop 1 t) of
                None \<Rightarrow> []
              | Some j \<Rightarrow>
                  (pem_begin @ take (Suc j) t @ pem_end) # pem_blocks (drop (Suc j + length pem_end) t)))"
  by pat_completeness auto
termination
proof (relation "measure length", goal_cases)
  case (2 s i t j)
  have "length pem_begin = 27" "s \<noteq> []" using 2 by (auto simp: pem_begin_def)
  then show ?case using 2 by simp
qed simp

declare pem_blocks.simps [simp del]

primrec first_invalid :: "(string \<Rightarrow> thrown option) \<Rightarrow> string list \<Rightarrow> thrown option" where
  "first_invalid parse [] = None"
| "first_invalid parse (block # bs) =
     (case parse block of Some err \<Rightarrow> Some err | None \<Rightarrow> first_invalid parse bs)"

text \<open>\<open>parse block\<close> is the exception \<open>new X509Certificate(block)\<close> throws, if any.\<close>

definition normalizeCAPem ::
  "(byte list \<Rightarrow> string) \<Rightarrow> (string \<Rightarrow> thrown option) \<Rightarrow> ca_pem option \<Rightarrow> thrown + byte list option" where
  "normalizeCAPem to_text parse caPem =
     (if \<not> has_ca_pem caPem then Inr None
      else
        (let buf = (case caPem of Some (PemBuffer b) \<Rightarrow> b | Some (PemText s) \<Rightarrow> utf8 s | None \<Rightarrow> []);
             blocks = pem_blocks (to_text buf)
         in if blocks = [] then
              Inl (mk_error ''signet: invalid CA PEM: no PEM certificates found in provided CA bundle'')
            else (case first_invalid parse blocks of
                    Some err \<Rightarrow> Inl (mk_error (''signet: invalid CA PEM: '' @ err_message err))
                  | None \<Rightarrow> Inr (Some buf))))"

section \<open>Dialling\<close>

type_synonym metadata = "string \<Rightarrow> string option"

type_synonym interceptor = "metadata \<Rightarrow> metadata"

record dial_admin_options =
  admin_address :: string
  admin_token :: string
  admin_caPem :: "ca_pem option"
  admin_forceTLS :: "bool option"
  admin_plaintext :: "bool option"
  channel_interceptors :: "interceptor list option"

datatype channel_credentials = Insecure | Ssl "byte list option"

definition or_false :: "bool option \<Rightarrow> bool" where
  "or_false x = (case x of None \<Rightarrow> False | Some y \<Rightarrow> y)"

definition adminChannelCredentials ::
  "(byte list \<Rightarrow> string) \<Rightarrow> (string \<Rightarrow> thrown option) \<Rightarrow> dial_admin_options \<Rightarrow>
   thrown + channel_credentials" where
  "adminChannelCredentials to_text parse opts =
     (if js_trim (admin_token opts) = '''' then Inl (mk_error ''signet: token must not be empty'')
      else bindE
        (adminTransportMode (admin_address opts) (admin_caPem opts)
           (or_false (admin_forceTLS opts)) (or_false (admin_plaintext opts)))
        (\<lambda>useTLS. if \<not> useTLS then Inr Insecure
           else bindE (normalizeCAPem to_text parse (admin_caPem opts)) (\<lambda>ca. Inr (Ssl ca))))"

text \<open>What an interceptor does to the metadata of a call as it starts.\<close>

definition authInterceptor :: "string \<Rightarrow> interceptor" where
  "authInterceptor token md = md(''authorization'' \<mapsto> ''Bearer '' @ token)"

definition mergeAuthInterceptor :: "dial_admin_options \<Rightarrow> interceptor list" where
  "mergeAuthInterceptor opts =
     authInterceptor (js_trim (admin_token opts)) #
       (case channel_interceptors opts of None \<Rightarrow> [] | Some is \<Rightarrow> is)"

text \<open>The metadata that leaves: the interceptors run in order.\<close>

definition outgoing :: "interceptor list \<Rightarrow> metadata \<Rightarrow> metadata" where
  "outgoing is md = fold (\<lambda>i. i) is md"

definition dialAdmin ::
  "(byte list \<Rightarrow> string) \<Rightarrow> (string \<Rightarrow> thrown option) \<Rightarrow> dial_admin_options \<Rightarrow>
   thrown + (string \<times> channel_credentials \<times> interceptor list)" where
  "dialAdmin to_text parse opts =
     bindE (adminChannelCredentials to_text parse opts)
       (\<lambda>creds. Inr (admin_address opts, creds, mergeAuthInterceptor opts))"

definition gitOpsClient ::
  "(byte list \<Rightarrow> string) \<Rightarrow> (string \<Rightarrow> thrown option) \<Rightarrow> dial_admin_options \<Rightarrow>
   thrown + (string \<times> channel_credentials \<times> interceptor list)" where
  "gitOpsClient to_text parse opts =
     bindE (adminChannelCredentials to_text parse opts)
       (\<lambda>creds. Inr (admin_address opts, creds, mergeAuthInterceptor opts))"

section \<open>Host and port\<close>

lemma is_digit_facts [simp]: "\<not> is_digit (CHR '':'')" "\<not> is_digit (CHR '']'')" "\<not> is_digit (CHR ''.'')"
  by (simp_all add: is_digit_def)

lemma hostOf_plain:
  assumes "CHR '':'' \<notin> set host" and "CHR '':'' \<notin> set port" and "host = [] \<or> hd host \<noteq> CHR ''[''"
  shows "hostOf (host @ CHR '':'' # port) = host"
proof -
  have "bracketed (host @ CHR '':'' # port) = None"
    using assms(3) by (cases host) (simp_all add: bracketed_def)
  moreover have "last_index_of (CHR '':'') (host @ CHR '':'' # port) = Some (length host)"
    by (rule last_index_of_append [OF assms(2)])
  ultimately show ?thesis using assms(1) by (simp add: hostOf_def Let_def)
qed

lemma hostOf_bracketed:
  assumes "host \<noteq> []" "CHR 0x0A \<notin> set host" "CHR 0x0D \<notin> set host"
    and "port \<noteq> []" "list_all is_digit port"
  shows "hostOf (CHR ''['' # host @ '']:'' @ port) = host"
proof -
  have p: "takeWhile is_digit (rev port @ r) = rev port @ takeWhile is_digit r"
    "dropWhile is_digit (rev port @ r) = dropWhile is_digit r" for r
    using assms(5) by (induction port arbitrary: r) (simp_all add: list_all_iff)
  show ?thesis using assms by (simp add: hostOf_def bracketed_def p)
qed

lemma hostOf_no_port: "CHR '':'' \<notin> set address \<Longrightarrow> hostOf address = address"
proof -
  assume no: "CHR '':'' \<notin> set address"
  have "bracketed address = None"
  proof (cases address)
    case (Cons c t)
    have "set (dropWhile is_digit (rev t)) \<subseteq> set address"
      using Cons by (auto dest: set_dropWhileD)
    with no Cons show ?thesis by (auto simp: bracketed_def split: list.split)
  qed (simp add: bracketed_def)
  moreover have "last_index_of (CHR '':'') address = None" using no by (simp add: last_index_of_None)
  ultimately show ?thesis by (simp add: hostOf_def)
qed

section \<open>Loopback\<close>

text \<open>The dotted decimal of four numbers.\<close>

definition digit_char :: "nat \<Rightarrow> char" where
  "digit_char n = char_of (48 + n)"

definition show_byte :: "nat \<Rightarrow> string" where
  "show_byte n =
     (if n < 10 then [digit_char n]
      else if n < 100 then [digit_char (n div 10), digit_char (n mod 10)]
      else [digit_char (n div 100), digit_char (n div 10 mod 10), digit_char (n mod 10)])"

definition dotted :: "nat \<Rightarrow> nat \<Rightarrow> nat \<Rightarrow> nat \<Rightarrow> string" where
  "dotted a b c d = show_byte a @ ''.'' @ show_byte b @ ''.'' @ show_byte c @ ''.'' @ show_byte d"

lemma split_dots_append:
  "CHR ''.'' \<notin> set s \<Longrightarrow> split_dots (s @ CHR ''.'' # r) = s # split_dots r"
  "CHR ''.'' \<notin> set s \<Longrightarrow> split_dots s = [s]"
  by (induction s) auto

lemma digit_table:
  "list_all (\<lambda>n. is_digit (digit_char n) \<and> of_char (digit_char n) - 48 = n \<and> digit_char n \<noteq> CHR ''.'' \<and>
     (digit_char n = CHR ''0'' \<longrightarrow> n = 0)) [0..<10]"
  by code_simp

lemma digit_char_facts:
  "n < 10 \<Longrightarrow> is_digit (digit_char n)" "n < 10 \<Longrightarrow> of_char (digit_char n) - 48 = n"
  "n < 10 \<Longrightarrow> digit_char n \<noteq> CHR ''.''" "n < 10 \<Longrightarrow> digit_char n = CHR ''0'' \<Longrightarrow> n = 0"
  using digit_table by (simp_all add: list_all_iff)

lemma ipv4_part_digits:
  "a < 10 \<Longrightarrow> ipv4_part [digit_char a]"
  "0 < a \<Longrightarrow> a < 10 \<Longrightarrow> b < 10 \<Longrightarrow> ipv4_part [digit_char a, digit_char b]"
  "0 < a \<Longrightarrow> a < 10 \<Longrightarrow> b < 10 \<Longrightarrow> c < 10 \<Longrightarrow> (a * 10 + b) * 10 + c \<le> 255 \<Longrightarrow>
     ipv4_part [digit_char a, digit_char b, digit_char c]"
  using digit_char_facts(4) [of a] by (auto simp: ipv4_part_def digit_char_facts(1,2))

lemma show_byte_ok:
  assumes "n < 256"
  shows "ipv4_part (show_byte n)" and "CHR ''.'' \<notin> set (show_byte n)"
proof -
  have d: "n div 100 < 10" "n div 10 mod 10 < 10" "n mod 10 < 10" using assms by linarith+
  have "n div 100 = n div 10 div 10" by (simp add: div_mult2_eq [symmetric])
  then have sum3: "(n div 100 * 10 + n div 10 mod 10) * 10 + n mod 10 = n"
    by (simp only: div_mult_mod_eq)
  consider "n < 10" | "10 \<le> n" "n < 100" | "100 \<le> n" by linarith
  then have "ipv4_part (show_byte n) \<and> CHR ''.'' \<notin> set (show_byte n)"
  proof cases
    case 1
    then show ?thesis
      using ipv4_part_digits(1) [of n] digit_char_facts(3) [of n] by (simp add: show_byte_def)
  next
    case 2
    then have "n div 10 < 10" "0 < n div 10" by linarith+
    moreover have "show_byte n = [digit_char (n div 10), digit_char (n mod 10)]"
      using 2 by (simp add: show_byte_def)
    ultimately show ?thesis
      using ipv4_part_digits(2) [of "n div 10" "n mod 10"] d
        digit_char_facts(3) [of "n div 10"] digit_char_facts(3) [of "n mod 10"] by auto
  next
    case 3
    then have "0 < n div 100" by linarith
    moreover have "show_byte n =
        [digit_char (n div 100), digit_char (n div 10 mod 10), digit_char (n mod 10)]"
      using 3 by (simp add: show_byte_def)
    ultimately show ?thesis
      using ipv4_part_digits(3) [of "n div 100" "n div 10 mod 10" "n mod 10"] d assms sum3
        digit_char_facts(3) [of "n div 100"] digit_char_facts(3) [of "n div 10 mod 10"]
        digit_char_facts(3) [of "n mod 10"] by auto
  qed
  then show "ipv4_part (show_byte n)" and "CHR ''.'' \<notin> set (show_byte n)" by blast+
qed

lemma show_byte_digits: "n < 256 \<Longrightarrow> list_all is_digit (show_byte n)"
  using show_byte_ok(1) by (simp add: ipv4_part_def)

lemma dotted_is_ipv4:
  assumes "a < 256" "b < 256" "c < 256" "d < 256"
  shows "isIPv4 (dotted a b c d)"
  using assms by (simp add: isIPv4_def dotted_def split_dots_append show_byte_ok)

lemma show_127: "show_byte 127 = ''127''"
  by code_simp

lemma loopback_iff:
  "isLoopbackHost host \<longleftrightarrow> host = ''localhost'' \<or> host = ''::1'' \<or> isIPv4 host \<and> starts_with ''127.'' host"
proof -
  have "\<not> isIPv4 ''localhost''" "\<not> isIPv4 ''::1''" by code_simp+
  then show ?thesis by (auto simp: isLoopbackHost_def)
qed

lemma show_byte_is_127:
  assumes "n < 256" and "show_byte n = ''127''"
  shows "n = 127"
proof -
  have "n \<ge> 100" using assms(2) by (simp add: show_byte_def split: if_splits)
  then have digits: "digit_char (n div 100) = CHR ''1''" "digit_char (n div 10 mod 10) = CHR ''2''"
    "digit_char (n mod 10) = CHR ''7''" using assms(2) by (simp_all add: show_byte_def)
  have "n div 100 < 10" "n div 10 mod 10 < 10" "n mod 10 < 10" using assms(1) by linarith+
  note val = this [THEN digit_char_facts(2), symmetric]
  have ones: "n mod 10 = 7" using val(3) unfolding digits by simp
  have tens: "n div 10 mod 10 = 2" using val(2) unfolding digits by simp
  have "n div 100 = 1" using val(1) unfolding digits by simp
  then have "n div 10 div 10 = 1" by (simp add: div_mult2_eq [symmetric])
  with tens div_mult_mod_eq [of "n div 10" 10] have "n div 10 = 12" by simp
  with ones div_mult_mod_eq [of n 10] show ?thesis by simp
qed

lemma dotted_starts_127:
  assumes "a < 256"
  shows "starts_with ''127.'' (dotted a b c d) \<longleftrightarrow> a = 127"
proof
  assume "starts_with ''127.'' (dotted a b c d)"
  then obtain r where r: "dotted a b c d = ''127'' @ CHR ''.'' # r" by (auto simp: starts_with_iff)
  have until_dot: "takeWhile (\<lambda>x. x \<noteq> CHR ''.'') (s @ CHR ''.'' # t) = s" if "CHR ''.'' \<notin> set s" for s t
    using that by (induction s) auto
  have "show_byte a = takeWhile (\<lambda>x. x \<noteq> CHR ''.'') (dotted a b c d)"
    using until_dot [OF show_byte_ok(2) [OF assms]] by (simp add: dotted_def)
  also have "\<dots> = ''127''" unfolding r by (rule until_dot) simp
  finally show "a = 127" by (rule show_byte_is_127 [OF assms])
next
  assume "a = 127"
  then show "starts_with ''127.'' (dotted a b c d)" by (simp add: dotted_def show_127 starts_with_def)
qed

lemma dotted_loopback:
  assumes "a < 256" "b < 256" "c < 256" "d < 256"
  shows "isLoopbackHost (dotted a b c d) \<longleftrightarrow> a = 127"
proof -
  have "CHR ''.'' \<in> set (dotted a b c d)" by (simp add: dotted_def)
  then have "dotted a b c d \<noteq> ''localhost''" "dotted a b c d \<noteq> ''::1''" by auto
  then show ?thesis
    using dotted_is_ipv4 [OF assms] dotted_starts_127 [OF assms(1)] unfolding loopback_iff by blast
qed

section \<open>The transport decision\<close>

lemma transport_plaintext_only:
  "adminTransportMode address caPem forceTLS plaintext = Inr False \<longleftrightarrow>
     \<not> forceTLS \<and> \<not> has_ca_pem caPem \<and> (plaintext \<or> isLoopbackHost (hostOf address))"
  by (auto simp: adminTransportMode_def)

lemma transport_error:
  "(\<exists>e. adminTransportMode address caPem forceTLS plaintext = Inl e) \<longleftrightarrow>
     plaintext \<and> (forceTLS \<or> has_ca_pem caPem)"
  by (auto simp: adminTransportMode_def)

lemma insecure_only:
  "adminChannelCredentials to_text parse opts = Inr Insecure \<Longrightarrow>
     js_trim (admin_token opts) \<noteq> '''' \<and> \<not> or_false (admin_forceTLS opts) \<and>
     \<not> has_ca_pem (admin_caPem opts) \<and>
     (or_false (admin_plaintext opts) \<or> isLoopbackHost (hostOf (admin_address opts)))"
  by (auto simp: adminChannelCredentials_def bindE_Inr_iff transport_plaintext_only split: if_splits)

lemma first_invalid_None: "first_invalid parse bs = None \<longleftrightarrow> (\<forall>b \<in> set bs. parse b = None)"
  by (induction bs) (auto split: option.split)

lemma first_invalid_ok [simp]: "first_invalid (\<lambda>b. None) bs = None"
  by (simp add: first_invalid_None)

lemma normalize_ca_ok:
  "normalizeCAPem to_text parse caPem = Inr (Some buf) \<Longrightarrow>
     has_ca_pem caPem \<and> pem_blocks (to_text buf) \<noteq> [] \<and>
     (\<forall>b \<in> set (pem_blocks (to_text buf)). parse b = None)"
  by (auto simp: normalizeCAPem_def Let_def first_invalid_None split: if_splits option.splits)

text \<open>The bytes of the CA the caller gives: a buffer as it is, a text in UTF-8, the empty text none.\<close>

fun ca_bytes :: "ca_pem option \<Rightarrow> byte list option" where
  "ca_bytes None = None"
| "ca_bytes (Some (PemText s)) = (if s = '''' then None else Some (utf8 s))"
| "ca_bytes (Some (PemBuffer b)) = Some b"

lemma normalize_ca_bytes: "normalizeCAPem to_text parse caPem = Inr ca \<Longrightarrow> ca = ca_bytes caPem"
  by (cases caPem rule: ca_bytes.cases)
     (auto simp: normalizeCAPem_def has_ca_pem_def Let_def split: if_splits option.splits)

lemma has_ca_bytes: "has_ca_pem caPem \<longleftrightarrow> ca_bytes caPem \<noteq> None"
  by (cases caPem rule: ca_bytes.cases) (auto simp: has_ca_pem_def)

lemma ssl_ca:
  "adminChannelCredentials to_text parse opts = Inr (Ssl ca) \<Longrightarrow>
     ca = ca_bytes (admin_caPem opts) \<and>
     (\<forall>buf. ca = Some buf \<longrightarrow> pem_blocks (to_text buf) \<noteq> [] \<and>
        (\<forall>b \<in> set (pem_blocks (to_text buf)). parse b = None))"
  using normalize_ca_bytes [of to_text parse "admin_caPem opts" ca]
    normalize_ca_ok [of to_text parse "admin_caPem opts"]
  by (auto simp: adminChannelCredentials_def bindE_Inr_iff split: if_splits)

lemma bearer_present:
  assumes "\<forall>i \<in> set is. \<forall>md. i md ''authorization'' = md ''authorization''"
  shows "outgoing (authInterceptor t # is) md ''authorization'' = Some (''Bearer '' @ t)"
proof -
  have "fold (\<lambda>i. i) is md' ''authorization'' = md' ''authorization''" for md'
    using assms by (induction "is" arbitrary: md') auto
  then show ?thesis by (simp add: outgoing_def authInterceptor_def)
qed

end
