(* ===== verification/AdminConfigMessages.thy ===== *)
theory AdminConfigMessages
  imports MessageCodec
begin

text \<open>
  The messages of \<open>src/gen/admin/v1/admin.ts\<close> on service configuration and JSON patches:
  for each, its fields, \<open>createBase\<dots>\<close>, \<open>encode\<close>, the \<open>switch\<close> of \<open>decode\<close> (\<open>\<dots>_field\<close>) and
  \<open>decode\<close> (\<open>\<dots>_dec\<close>), and the proof that it is a codec. A message without fields is \<open>unit\<close>.
\<close>

subsection \<open>JsonPatchOperation\<close>

record JsonPatchOperation =
  JsonPatchOperation_op :: string
  JsonPatchOperation_path :: string
  JsonPatchOperation_from :: string
  JsonPatchOperation_value :: js

definition createBaseJsonPatchOperation :: JsonPatchOperation where
  "createBaseJsonPatchOperation =
     \<lparr>JsonPatchOperation_op = '''', JsonPatchOperation_path = '''',
      JsonPatchOperation_from = '''', JsonPatchOperation_value = JUndefined\<rparr>"

definition JsonPatchOperation_encode :: "wire \<Rightarrow> JsonPatchOperation \<Rightarrow> byte list option" where
  "JsonPatchOperation_encode W m = enc_fields
     [f_string W 10 (JsonPatchOperation_op m),
      f_string W 18 (JsonPatchOperation_path m),
      f_string W 26 (JsonPatchOperation_from m),
      f_any W 34 (any_encode W) (JsonPatchOperation_value m)]"

definition JsonPatchOperation_field :: "wire \<Rightarrow> nat \<Rightarrow> JsonPatchOperation handler" where
  "JsonPatchOperation_field W r buf tag p m =
     (if tag = 10 then rd (r_string W) buf p (\<lambda>v. m\<lparr>JsonPatchOperation_op := v\<rparr>)
      else if tag = 18 then rd (r_string W) buf p (\<lambda>v. m\<lparr>JsonPatchOperation_path := v\<rparr>)
      else if tag = 26 then rd (r_string W) buf p (\<lambda>v. m\<lparr>JsonPatchOperation_from := v\<rparr>)
      else if tag = 34 then rd_msg W (Value_dec W r) buf p (\<lambda>v. m\<lparr>JsonPatchOperation_value := Value_unwrap v\<rparr>)
      else Some NotHandled)"

definition JsonPatchOperation_dec :: "wire \<Rightarrow> nat \<Rightarrow> JsonPatchOperation decoder" where
  "JsonPatchOperation_dec W = decode_message W (JsonPatchOperation_field W) createBaseJsonPatchOperation"

definition valid_JsonPatchOperation :: "JsonPatchOperation \<Rightarrow> bool" where
  "valid_JsonPatchOperation m \<longleftrightarrow> wf_js (JsonPatchOperation_value m)"

definition depth_JsonPatchOperation :: "JsonPatchOperation \<Rightarrow> nat" where
  "depth_JsonPatchOperation m = Suc (js_depth (JsonPatchOperation_value m))"

interpretation JsonPatchOperation_codec: message_codec
  JsonPatchOperation_dec JsonPatchOperation_field createBaseJsonPatchOperation JsonPatchOperation_encode
  "valid_JsonPatchOperation" "depth_JsonPatchOperation"
  "\<lambda>W. [string_field W 10 JsonPatchOperation_op (\<lambda>v m. m\<lparr>JsonPatchOperation_op := v\<rparr>),
       string_field W 18 JsonPatchOperation_path (\<lambda>v m. m\<lparr>JsonPatchOperation_path := v\<rparr>),
       string_field W 26 JsonPatchOperation_from (\<lambda>v m. m\<lparr>JsonPatchOperation_from := v\<rparr>),
       any_field W 34 JsonPatchOperation_value (\<lambda>v m. m\<lparr>JsonPatchOperation_value := v\<rparr>)]"
  "[10, 18, 26, 34]"
  by unfold_locales
     (auto simp: JsonPatchOperation_dec_def JsonPatchOperation_field_def
       JsonPatchOperation_encode_def createBaseJsonPatchOperation_def
       valid_JsonPatchOperation_def depth_JsonPatchOperation_def any_total
       intro!: simple_laws goes_on_intros law_any JsonPatchOperation.equality)

subsection \<open>PatchServiceConfigRequest\<close>

record PatchServiceConfigRequest =
  PatchServiceConfigRequest_namespace :: string
  PatchServiceConfigRequest_service :: string
  PatchServiceConfigRequest_operations :: "JsonPatchOperation list"

definition createBasePatchServiceConfigRequest :: PatchServiceConfigRequest where
  "createBasePatchServiceConfigRequest =
     \<lparr>PatchServiceConfigRequest_namespace = '''', PatchServiceConfigRequest_service = '''',
      PatchServiceConfigRequest_operations = []\<rparr>"

definition PatchServiceConfigRequest_encode :: "wire \<Rightarrow> PatchServiceConfigRequest \<Rightarrow> byte list option" where
  "PatchServiceConfigRequest_encode W m = enc_fields
     [f_string W 10 (PatchServiceConfigRequest_namespace m),
      f_string W 18 (PatchServiceConfigRequest_service m),
      f_rep_msg W 26 (JsonPatchOperation_encode W) (PatchServiceConfigRequest_operations m)]"

definition PatchServiceConfigRequest_field :: "wire \<Rightarrow> nat \<Rightarrow> PatchServiceConfigRequest handler" where
  "PatchServiceConfigRequest_field W r buf tag p m =
     (if tag = 10 then rd (r_string W) buf p (\<lambda>v. m\<lparr>PatchServiceConfigRequest_namespace := v\<rparr>)
      else if tag = 18 then rd (r_string W) buf p (\<lambda>v. m\<lparr>PatchServiceConfigRequest_service := v\<rparr>)
      else if tag = 26 then rd_msg W (JsonPatchOperation_dec W r) buf p (\<lambda>v. m\<lparr>PatchServiceConfigRequest_operations := PatchServiceConfigRequest_operations m @ [v]\<rparr>)
      else Some NotHandled)"

definition PatchServiceConfigRequest_dec :: "wire \<Rightarrow> nat \<Rightarrow> PatchServiceConfigRequest decoder" where
  "PatchServiceConfigRequest_dec W = decode_message W (PatchServiceConfigRequest_field W) createBasePatchServiceConfigRequest"

definition valid_PatchServiceConfigRequest :: "PatchServiceConfigRequest \<Rightarrow> bool" where
  "valid_PatchServiceConfigRequest m \<longleftrightarrow> list_all valid_JsonPatchOperation (PatchServiceConfigRequest_operations m)"

definition depth_PatchServiceConfigRequest :: "PatchServiceConfigRequest \<Rightarrow> nat" where
  "depth_PatchServiceConfigRequest m = Suc (list_depth (depth_JsonPatchOperation) (PatchServiceConfigRequest_operations m))"

interpretation PatchServiceConfigRequest_codec: message_codec
  PatchServiceConfigRequest_dec PatchServiceConfigRequest_field createBasePatchServiceConfigRequest PatchServiceConfigRequest_encode
  "valid_PatchServiceConfigRequest" "depth_PatchServiceConfigRequest"
  "\<lambda>W. [string_field W 10 PatchServiceConfigRequest_namespace (\<lambda>v m. m\<lparr>PatchServiceConfigRequest_namespace := v\<rparr>),
       string_field W 18 PatchServiceConfigRequest_service (\<lambda>v m. m\<lparr>PatchServiceConfigRequest_service := v\<rparr>),
       rep_msg_field W 26 (JsonPatchOperation_encode W) PatchServiceConfigRequest_operations (\<lambda>v m. m\<lparr>PatchServiceConfigRequest_operations := v\<rparr>)]"
  "[10, 18, 26]"
  by unfold_locales
     (auto simp: PatchServiceConfigRequest_dec_def PatchServiceConfigRequest_field_def
       PatchServiceConfigRequest_encode_def createBasePatchServiceConfigRequest_def
       valid_PatchServiceConfigRequest_def depth_PatchServiceConfigRequest_def
       JsonPatchOperation_codec.list_total
       intro!: simple_laws goes_on_intros JsonPatchOperation_codec.law_list JsonPatchOperation_codec.goes_on_nested PatchServiceConfigRequest.equality)

subsection \<open>PatchServiceConfigResponse\<close>

record PatchServiceConfigResponse =
  PatchServiceConfigResponse_version :: int

definition createBasePatchServiceConfigResponse :: PatchServiceConfigResponse where
  "createBasePatchServiceConfigResponse =
     \<lparr>PatchServiceConfigResponse_version = 0\<rparr>"

definition PatchServiceConfigResponse_encode :: "wire \<Rightarrow> PatchServiceConfigResponse \<Rightarrow> byte list option" where
  "PatchServiceConfigResponse_encode W m = enc_fields
     [f_int32 W 8 (PatchServiceConfigResponse_version m)]"

definition PatchServiceConfigResponse_field :: "wire \<Rightarrow> nat \<Rightarrow> PatchServiceConfigResponse handler" where
  "PatchServiceConfigResponse_field W r buf tag p m =
     (if tag = 8 then rd (r_int32 W) buf p (\<lambda>v. m\<lparr>PatchServiceConfigResponse_version := v\<rparr>)
      else Some NotHandled)"

definition PatchServiceConfigResponse_dec :: "wire \<Rightarrow> nat \<Rightarrow> PatchServiceConfigResponse decoder" where
  "PatchServiceConfigResponse_dec W = decode_message W (PatchServiceConfigResponse_field W) createBasePatchServiceConfigResponse"

definition valid_PatchServiceConfigResponse :: "PatchServiceConfigResponse \<Rightarrow> bool" where
  "valid_PatchServiceConfigResponse m \<longleftrightarrow> in_int32 (PatchServiceConfigResponse_version m)"

interpretation PatchServiceConfigResponse_codec: message_codec
  PatchServiceConfigResponse_dec PatchServiceConfigResponse_field createBasePatchServiceConfigResponse PatchServiceConfigResponse_encode
  "valid_PatchServiceConfigResponse" "\<lambda>_. 1"
  "\<lambda>W. [int32_field W 8 PatchServiceConfigResponse_version (\<lambda>v m. m\<lparr>PatchServiceConfigResponse_version := v\<rparr>)]"
  "[8]"
  by unfold_locales
     (auto simp: PatchServiceConfigResponse_dec_def PatchServiceConfigResponse_field_def
       PatchServiceConfigResponse_encode_def createBasePatchServiceConfigResponse_def
       valid_PatchServiceConfigResponse_def int_field_total
       intro!: simple_laws goes_on_intros PatchServiceConfigResponse.equality)

subsection \<open>AdminGetServiceConfigRequest\<close>

record AdminGetServiceConfigRequest =
  AdminGetServiceConfigRequest_namespace :: string
  AdminGetServiceConfigRequest_service :: string

definition createBaseAdminGetServiceConfigRequest :: AdminGetServiceConfigRequest where
  "createBaseAdminGetServiceConfigRequest =
     \<lparr>AdminGetServiceConfigRequest_namespace = '''',
      AdminGetServiceConfigRequest_service = ''''\<rparr>"

definition AdminGetServiceConfigRequest_encode :: "wire \<Rightarrow> AdminGetServiceConfigRequest \<Rightarrow> byte list option" where
  "AdminGetServiceConfigRequest_encode W m = enc_fields
     [f_string W 10 (AdminGetServiceConfigRequest_namespace m),
      f_string W 18 (AdminGetServiceConfigRequest_service m)]"

definition AdminGetServiceConfigRequest_field :: "wire \<Rightarrow> nat \<Rightarrow> AdminGetServiceConfigRequest handler" where
  "AdminGetServiceConfigRequest_field W r buf tag p m =
     (if tag = 10 then rd (r_string W) buf p (\<lambda>v. m\<lparr>AdminGetServiceConfigRequest_namespace := v\<rparr>)
      else if tag = 18 then rd (r_string W) buf p (\<lambda>v. m\<lparr>AdminGetServiceConfigRequest_service := v\<rparr>)
      else Some NotHandled)"

definition AdminGetServiceConfigRequest_dec :: "wire \<Rightarrow> nat \<Rightarrow> AdminGetServiceConfigRequest decoder" where
  "AdminGetServiceConfigRequest_dec W = decode_message W (AdminGetServiceConfigRequest_field W) createBaseAdminGetServiceConfigRequest"

interpretation AdminGetServiceConfigRequest_codec: message_codec
  AdminGetServiceConfigRequest_dec AdminGetServiceConfigRequest_field createBaseAdminGetServiceConfigRequest AdminGetServiceConfigRequest_encode
  "\<lambda>_. True" "\<lambda>_. 1"
  "\<lambda>W. [string_field W 10 AdminGetServiceConfigRequest_namespace (\<lambda>v m. m\<lparr>AdminGetServiceConfigRequest_namespace := v\<rparr>),
       string_field W 18 AdminGetServiceConfigRequest_service (\<lambda>v m. m\<lparr>AdminGetServiceConfigRequest_service := v\<rparr>)]"
  "[10, 18]"
  by unfold_locales
     (auto simp: AdminGetServiceConfigRequest_dec_def AdminGetServiceConfigRequest_field_def
       AdminGetServiceConfigRequest_encode_def createBaseAdminGetServiceConfigRequest_def
       intro!: simple_laws goes_on_intros AdminGetServiceConfigRequest.equality)

subsection \<open>AdminGetServiceConfigResponse\<close>

record AdminGetServiceConfigResponse =
  AdminGetServiceConfigResponse_content :: js
  AdminGetServiceConfigResponse_version :: int

definition createBaseAdminGetServiceConfigResponse :: AdminGetServiceConfigResponse where
  "createBaseAdminGetServiceConfigResponse =
     \<lparr>AdminGetServiceConfigResponse_content = JUndefined,
      AdminGetServiceConfigResponse_version = 0\<rparr>"

definition AdminGetServiceConfigResponse_encode :: "wire \<Rightarrow> AdminGetServiceConfigResponse \<Rightarrow> byte list option" where
  "AdminGetServiceConfigResponse_encode W m = enc_fields
     [f_any W 10 (any_encode W) (AdminGetServiceConfigResponse_content m),
      f_int32 W 16 (AdminGetServiceConfigResponse_version m)]"

definition AdminGetServiceConfigResponse_field :: "wire \<Rightarrow> nat \<Rightarrow> AdminGetServiceConfigResponse handler" where
  "AdminGetServiceConfigResponse_field W r buf tag p m =
     (if tag = 10 then rd_msg W (Value_dec W r) buf p (\<lambda>v. m\<lparr>AdminGetServiceConfigResponse_content := Value_unwrap v\<rparr>)
      else if tag = 16 then rd (r_int32 W) buf p (\<lambda>v. m\<lparr>AdminGetServiceConfigResponse_version := v\<rparr>)
      else Some NotHandled)"

definition AdminGetServiceConfigResponse_dec :: "wire \<Rightarrow> nat \<Rightarrow> AdminGetServiceConfigResponse decoder" where
  "AdminGetServiceConfigResponse_dec W = decode_message W (AdminGetServiceConfigResponse_field W) createBaseAdminGetServiceConfigResponse"

definition valid_AdminGetServiceConfigResponse :: "AdminGetServiceConfigResponse \<Rightarrow> bool" where
  "valid_AdminGetServiceConfigResponse m \<longleftrightarrow> wf_js (AdminGetServiceConfigResponse_content m) \<and> in_int32 (AdminGetServiceConfigResponse_version m)"

definition depth_AdminGetServiceConfigResponse :: "AdminGetServiceConfigResponse \<Rightarrow> nat" where
  "depth_AdminGetServiceConfigResponse m = Suc (js_depth (AdminGetServiceConfigResponse_content m))"

interpretation AdminGetServiceConfigResponse_codec: message_codec
  AdminGetServiceConfigResponse_dec AdminGetServiceConfigResponse_field createBaseAdminGetServiceConfigResponse AdminGetServiceConfigResponse_encode
  "valid_AdminGetServiceConfigResponse" "depth_AdminGetServiceConfigResponse"
  "\<lambda>W. [any_field W 10 AdminGetServiceConfigResponse_content (\<lambda>v m. m\<lparr>AdminGetServiceConfigResponse_content := v\<rparr>),
       int32_field W 16 AdminGetServiceConfigResponse_version (\<lambda>v m. m\<lparr>AdminGetServiceConfigResponse_version := v\<rparr>)]"
  "[10, 16]"
  by unfold_locales
     (auto simp: AdminGetServiceConfigResponse_dec_def AdminGetServiceConfigResponse_field_def
       AdminGetServiceConfigResponse_encode_def createBaseAdminGetServiceConfigResponse_def
       valid_AdminGetServiceConfigResponse_def depth_AdminGetServiceConfigResponse_def
       any_total int_field_total
       intro!: simple_laws goes_on_intros law_any AdminGetServiceConfigResponse.equality)

subsection \<open>PutServiceConfigRequest\<close>

record PutServiceConfigRequest =
  PutServiceConfigRequest_namespace :: string
  PutServiceConfigRequest_service :: string
  PutServiceConfigRequest_content :: js
  PutServiceConfigRequest_expectedVersion :: int

definition createBasePutServiceConfigRequest :: PutServiceConfigRequest where
  "createBasePutServiceConfigRequest =
     \<lparr>PutServiceConfigRequest_namespace = '''', PutServiceConfigRequest_service = '''',
      PutServiceConfigRequest_content = JUndefined,
      PutServiceConfigRequest_expectedVersion = 0\<rparr>"

definition PutServiceConfigRequest_encode :: "wire \<Rightarrow> PutServiceConfigRequest \<Rightarrow> byte list option" where
  "PutServiceConfigRequest_encode W m = enc_fields
     [f_string W 10 (PutServiceConfigRequest_namespace m),
      f_string W 18 (PutServiceConfigRequest_service m),
      f_any W 26 (any_encode W) (PutServiceConfigRequest_content m),
      f_int32 W 32 (PutServiceConfigRequest_expectedVersion m)]"

definition PutServiceConfigRequest_field :: "wire \<Rightarrow> nat \<Rightarrow> PutServiceConfigRequest handler" where
  "PutServiceConfigRequest_field W r buf tag p m =
     (if tag = 10 then rd (r_string W) buf p (\<lambda>v. m\<lparr>PutServiceConfigRequest_namespace := v\<rparr>)
      else if tag = 18 then rd (r_string W) buf p (\<lambda>v. m\<lparr>PutServiceConfigRequest_service := v\<rparr>)
      else if tag = 26 then rd_msg W (Value_dec W r) buf p (\<lambda>v. m\<lparr>PutServiceConfigRequest_content := Value_unwrap v\<rparr>)
      else if tag = 32 then rd (r_int32 W) buf p (\<lambda>v. m\<lparr>PutServiceConfigRequest_expectedVersion := v\<rparr>)
      else Some NotHandled)"

definition PutServiceConfigRequest_dec :: "wire \<Rightarrow> nat \<Rightarrow> PutServiceConfigRequest decoder" where
  "PutServiceConfigRequest_dec W = decode_message W (PutServiceConfigRequest_field W) createBasePutServiceConfigRequest"

definition valid_PutServiceConfigRequest :: "PutServiceConfigRequest \<Rightarrow> bool" where
  "valid_PutServiceConfigRequest m \<longleftrightarrow> wf_js (PutServiceConfigRequest_content m) \<and> in_int32 (PutServiceConfigRequest_expectedVersion m)"

definition depth_PutServiceConfigRequest :: "PutServiceConfigRequest \<Rightarrow> nat" where
  "depth_PutServiceConfigRequest m = Suc (js_depth (PutServiceConfigRequest_content m))"

interpretation PutServiceConfigRequest_codec: message_codec
  PutServiceConfigRequest_dec PutServiceConfigRequest_field createBasePutServiceConfigRequest PutServiceConfigRequest_encode
  "valid_PutServiceConfigRequest" "depth_PutServiceConfigRequest"
  "\<lambda>W. [string_field W 10 PutServiceConfigRequest_namespace (\<lambda>v m. m\<lparr>PutServiceConfigRequest_namespace := v\<rparr>),
       string_field W 18 PutServiceConfigRequest_service (\<lambda>v m. m\<lparr>PutServiceConfigRequest_service := v\<rparr>),
       any_field W 26 PutServiceConfigRequest_content (\<lambda>v m. m\<lparr>PutServiceConfigRequest_content := v\<rparr>),
       int32_field W 32 PutServiceConfigRequest_expectedVersion (\<lambda>v m. m\<lparr>PutServiceConfigRequest_expectedVersion := v\<rparr>)]"
  "[10, 18, 26, 32]"
  by unfold_locales
     (auto simp: PutServiceConfigRequest_dec_def PutServiceConfigRequest_field_def
       PutServiceConfigRequest_encode_def createBasePutServiceConfigRequest_def
       valid_PutServiceConfigRequest_def depth_PutServiceConfigRequest_def any_total
       int_field_total
       intro!: simple_laws goes_on_intros law_any PutServiceConfigRequest.equality)

subsection \<open>PutServiceConfigResponse\<close>

record PutServiceConfigResponse =
  PutServiceConfigResponse_version :: int

definition createBasePutServiceConfigResponse :: PutServiceConfigResponse where
  "createBasePutServiceConfigResponse =
     \<lparr>PutServiceConfigResponse_version = 0\<rparr>"

definition PutServiceConfigResponse_encode :: "wire \<Rightarrow> PutServiceConfigResponse \<Rightarrow> byte list option" where
  "PutServiceConfigResponse_encode W m = enc_fields
     [f_int32 W 8 (PutServiceConfigResponse_version m)]"

definition PutServiceConfigResponse_field :: "wire \<Rightarrow> nat \<Rightarrow> PutServiceConfigResponse handler" where
  "PutServiceConfigResponse_field W r buf tag p m =
     (if tag = 8 then rd (r_int32 W) buf p (\<lambda>v. m\<lparr>PutServiceConfigResponse_version := v\<rparr>)
      else Some NotHandled)"

definition PutServiceConfigResponse_dec :: "wire \<Rightarrow> nat \<Rightarrow> PutServiceConfigResponse decoder" where
  "PutServiceConfigResponse_dec W = decode_message W (PutServiceConfigResponse_field W) createBasePutServiceConfigResponse"

definition valid_PutServiceConfigResponse :: "PutServiceConfigResponse \<Rightarrow> bool" where
  "valid_PutServiceConfigResponse m \<longleftrightarrow> in_int32 (PutServiceConfigResponse_version m)"

interpretation PutServiceConfigResponse_codec: message_codec
  PutServiceConfigResponse_dec PutServiceConfigResponse_field createBasePutServiceConfigResponse PutServiceConfigResponse_encode
  "valid_PutServiceConfigResponse" "\<lambda>_. 1"
  "\<lambda>W. [int32_field W 8 PutServiceConfigResponse_version (\<lambda>v m. m\<lparr>PutServiceConfigResponse_version := v\<rparr>)]"
  "[8]"
  by unfold_locales
     (auto simp: PutServiceConfigResponse_dec_def PutServiceConfigResponse_field_def
       PutServiceConfigResponse_encode_def createBasePutServiceConfigResponse_def
       valid_PutServiceConfigResponse_def int_field_total
       intro!: simple_laws goes_on_intros PutServiceConfigResponse.equality)

text \<open>Every codec of this theory reads back what it wrote.\<close>

lemmas AdminConfigMessages_sound =
      JsonPatchOperation_codec.sound PatchServiceConfigRequest_codec.sound
      PatchServiceConfigResponse_codec.sound AdminGetServiceConfigRequest_codec.sound
      AdminGetServiceConfigResponse_codec.sound PutServiceConfigRequest_codec.sound
      PutServiceConfigResponse_codec.sound

text \<open>Every codec of this theory returns.\<close>

lemmas AdminConfigMessages_total =
      JsonPatchOperation_codec.total PatchServiceConfigRequest_codec.total
      PatchServiceConfigResponse_codec.total AdminGetServiceConfigRequest_codec.total
      AdminGetServiceConfigResponse_codec.total PutServiceConfigRequest_codec.total
      PutServiceConfigResponse_codec.total

text \<open>Every codec of this theory skips what it does not know.\<close>

lemmas AdminConfigMessages_ignores =
      JsonPatchOperation_codec.ignores PatchServiceConfigRequest_codec.ignores
      PatchServiceConfigResponse_codec.ignores AdminGetServiceConfigRequest_codec.ignores
      AdminGetServiceConfigResponse_codec.ignores PutServiceConfigRequest_codec.ignores
      PutServiceConfigResponse_codec.ignores

end
