(* ===== verification/JsonPatch.thy ===== *)
theory JsonPatch
  imports AdminConfigMessages
begin

text \<open>
  \<open>src/jsonpatch.ts\<close>: the constructors of JSON patch operations, over the message
  \<open>JsonPatchOperation\<close> of \<open>AdminConfigMessages\<close>. Whatever they build from values with a JSON form
  is a valid message, so a request that carries such operations is read back unchanged.
\<close>

definition jsonPatchAppend :: "string \<Rightarrow> js \<Rightarrow> JsonPatchOperation" where
  "jsonPatchAppend path value = \<lparr>JsonPatchOperation_op = ''add'', JsonPatchOperation_path = path @ ''/-'',
     JsonPatchOperation_from = '''', JsonPatchOperation_value = value\<rparr>"

definition jsonPatchAdd :: "string \<Rightarrow> js \<Rightarrow> JsonPatchOperation" where
  "jsonPatchAdd path value = \<lparr>JsonPatchOperation_op = ''add'', JsonPatchOperation_path = path,
     JsonPatchOperation_from = '''', JsonPatchOperation_value = value\<rparr>"

definition jsonPatchReplace :: "string \<Rightarrow> js \<Rightarrow> JsonPatchOperation" where
  "jsonPatchReplace path value = \<lparr>JsonPatchOperation_op = ''replace'', JsonPatchOperation_path = path,
     JsonPatchOperation_from = '''', JsonPatchOperation_value = value\<rparr>"

definition jsonPatchRemove :: "string \<Rightarrow> JsonPatchOperation" where
  "jsonPatchRemove path = \<lparr>JsonPatchOperation_op = ''remove'', JsonPatchOperation_path = path,
     JsonPatchOperation_from = '''', JsonPatchOperation_value = JUndefined\<rparr>"

definition jsonPatchTest :: "string \<Rightarrow> js \<Rightarrow> JsonPatchOperation" where
  "jsonPatchTest path value = \<lparr>JsonPatchOperation_op = ''test'', JsonPatchOperation_path = path,
     JsonPatchOperation_from = '''', JsonPatchOperation_value = value\<rparr>"

lemmas json_patch_defs = jsonPatchAppend_def jsonPatchAdd_def jsonPatchReplace_def
  jsonPatchRemove_def jsonPatchTest_def

text \<open>The operations a caller can build, as data.\<close>

datatype patch_call =
    Append string js | Add string js | Replace string js | Remove string | Test string js

fun build_patch :: "patch_call \<Rightarrow> JsonPatchOperation" where
  "build_patch (Append path v) = jsonPatchAppend path v"
| "build_patch (Add path v) = jsonPatchAdd path v"
| "build_patch (Replace path v) = jsonPatchReplace path v"
| "build_patch (Remove path) = jsonPatchRemove path"
| "build_patch (Test path v) = jsonPatchTest path v"

fun patch_value :: "patch_call \<Rightarrow> js" where
  "patch_value (Remove path) = JUndefined"
| "patch_value (Append path v) = v"
| "patch_value (Add path v) = v"
| "patch_value (Replace path v) = v"
| "patch_value (Test path v) = v"

lemma build_patch_value: "JsonPatchOperation_value (build_patch c) = patch_value c"
  by (cases c) (simp_all add: json_patch_defs)

lemma build_patch_valid: "wf_js (patch_value c) \<Longrightarrow> valid_JsonPatchOperation (build_patch c)"
  by (simp add: valid_JsonPatchOperation_def build_patch_value)

lemma build_patch_depth:
  "js_depth (patch_value c) \<le> 98 \<Longrightarrow> Suc (depth_JsonPatchOperation (build_patch c)) \<le> decode_limit"
  by (simp add: depth_JsonPatchOperation_def build_patch_value decode_limit_def)

definition patch_request :: "string \<Rightarrow> string \<Rightarrow> patch_call list \<Rightarrow> PatchServiceConfigRequest" where
  "patch_request ns svc cs = \<lparr>PatchServiceConfigRequest_namespace = ns,
     PatchServiceConfigRequest_service = svc,
     PatchServiceConfigRequest_operations = map build_patch cs\<rparr>"

lemma patch_request_roundtrip:
  assumes "wire_ok W" and "\<forall>c \<in> set cs. wf_js (patch_value c) \<and> js_depth (patch_value c) \<le> 98"
    and "PatchServiceConfigRequest_encode W (patch_request ns svc cs) = Some b" "small b"
  shows "decode_top (PatchServiceConfigRequest_dec W) b = Some (Inr (patch_request ns svc cs))"
proof (rule PatchServiceConfigRequest_codec.decode_top_enc [OF assms(1) _ assms(3,4)])
  show "valid_PatchServiceConfigRequest (patch_request ns svc cs)"
    using assms(2)
    by (auto simp: valid_PatchServiceConfigRequest_def patch_request_def list_all_iff build_patch_valid)
  have "list_depth depth_JsonPatchOperation (map build_patch cs) \<le> 99"
    unfolding list_depth_le list_all_iff using assms(2) build_patch_depth
    by (fastforce simp: decode_limit_def)
  then show "depth_PatchServiceConfigRequest (patch_request ns svc cs) \<le> decode_limit"
    by (simp add: depth_PatchServiceConfigRequest_def patch_request_def decode_limit_def)
qed

end
