(* ===== verification/Sops.thy ===== *)
theory Sops
  imports Errors Bytes
begin

text \<open>
  \<open>src/sopsEncrypt.ts\<close>: one secret as a SOPS document. The cryptography (\<open>node:crypto\<close>, the age
  library), the random source, the clock and the YAML writer are not part of the repository:
  they are the fields of a record. What is modelled is how they are put together: the leaf
  syntax, the additional data each ciphertext is bound to, the MAC over the plaintext, the
  timestamp without fractional seconds.
\<close>

section \<open>What is external\<close>

text \<open>
  \<open>random32 k\<close> is the \<open>k\<close>-th result of \<open>randomBytes(32)\<close>; \<open>seal key nonce aad plaintext\<close> is
  AES-256-GCM, the ciphertext and the tag; \<open>iso_now\<close> is \<open>new Date().toISOString()\<close>.
\<close>

record crypto =
  random32 :: "nat \<Rightarrow> byte list"
  sha512 :: "byte list \<Rightarrow> byte list"
  seal :: "byte list \<Rightarrow> byte list \<Rightarrow> byte list \<Rightarrow> byte list \<Rightarrow> byte list \<times> byte list"
  unseal :: "byte list \<Rightarrow> byte list \<Rightarrow> byte list \<Rightarrow> byte list \<Rightarrow> byte list \<Rightarrow> byte list option"
  iso_now :: string
  add_recipient :: "string \<Rightarrow> thrown option"
  age_encrypt :: "string \<Rightarrow> byte list \<Rightarrow> thrown + byte list"
  armor_encode :: "byte list \<Rightarrow> string"

text \<open>Authenticated decryption undoes encryption.\<close>

definition gcm_ok :: "crypto \<Rightarrow> bool" where
  "gcm_ok C \<longleftrightarrow> (\<forall>k n a p. unseal C k n a (fst (seal C k n a p)) (snd (seal C k n a p)) = Some p)"

section \<open>The ENC leaf\<close>

definition enc_leaf :: "byte list \<Rightarrow> byte list \<Rightarrow> byte list \<Rightarrow> string" where
  "enc_leaf ciphertext nonce tag =
     ''ENC[AES256_GCM,data:'' @ base64 ciphertext @ '',iv:'' @ base64 nonce @ '',tag:'' @ base64 tag @
     '',type:str]''"

text \<open>The nonce is the \<open>k\<close>-th random value.\<close>

definition gcmSealSopsEnc :: "crypto \<Rightarrow> nat \<Rightarrow> byte list \<Rightarrow> byte list \<Rightarrow> string \<Rightarrow> string" where
  "gcmSealSopsEnc C k dataKey plaintext aad =
     (let nonce = random32 C k; (ciphertext, tag) = seal C dataKey nonce (utf8 aad) plaintext
      in enc_leaf ciphertext nonce tag)"

section \<open>encryptForSecret\<close>

datatype secret_value = SecretText string | SecretBytes "byte list"

fun secret_bytes :: "secret_value \<Rightarrow> byte list" where
  "secret_bytes (SecretText s) = utf8 s"
| "secret_bytes (SecretBytes b) = b"

text \<open>\<open>s.replace(/\.\d+Z$/, "Z")\<close>.\<close>

definition strip_fraction :: "string \<Rightarrow> string" where
  "strip_fraction s =
     (case rev s of
        [] \<Rightarrow> s
      | z # t \<Rightarrow>
          (if z = CHR ''Z'' \<and> takeWhile is_digit t \<noteq> []
           then (case dropWhile is_digit t of
                   [] \<Rightarrow> s
                 | dot # r \<Rightarrow> (if dot = CHR ''.'' then rev r @ ''Z'' else s))
           else s))"

definition SOPS_VERSION :: string where "SOPS_VERSION = ''3.13.1''"

text \<open>The document; \<open>quoted_lastmodified\<close> is the forced double-quoted style of that scalar.\<close>

record sops_document =
  doc_value :: string
  doc_recipient :: string
  doc_enc :: string
  doc_lastmodified :: string
  doc_mac :: string
  doc_version :: string
  quoted_lastmodified :: bool

definition encryptForSecret ::
  "crypto \<Rightarrow> (sops_document \<Rightarrow> string) \<Rightarrow> string \<Rightarrow> secret_value \<Rightarrow> thrown + byte list" where
  "encryptForSecret C yaml publicKey value =
     (let recipient = js_trim publicKey
      in if recipient = '''' then
           Inl (mk_error ''signet: encryptForSecret: publicKey must not be empty'')
         else
           (let plaintext = secret_bytes value;
                dataKey = random32 C 0;
                mac = hex_upper (sha512 C plaintext);
                encryptedValue = gcmSealSopsEnc C 1 dataKey plaintext ''value:'';
                lastmodified = strip_fraction (iso_now C);
                encryptedMac = gcmSealSopsEnc C 2 dataKey (utf8 mac) lastmodified
            in case add_recipient C recipient of
                 Some err \<Rightarrow> Inl (mk_error
                   (''signet: encryptForSecret: invalid age recipient: '' @ err_message err))
               | None \<Rightarrow> bindE (age_encrypt C recipient dataKey)
                   (\<lambda>wrapped. Inr (utf8 (yaml
                      \<lparr>doc_value = encryptedValue, doc_recipient = recipient,
                       doc_enc = armor_encode C wrapped, doc_lastmodified = lastmodified,
                       doc_mac = encryptedMac, doc_version = SOPS_VERSION,
                       quoted_lastmodified = True\<rparr>)))))"

section \<open>Reading a leaf back\<close>

text \<open>The three fields of a leaf, as a reader finds them.\<close>

definition field_after :: "string \<Rightarrow> string \<Rightarrow> (string \<times> string) option" where
  "field_after label s =
     (if starts_with label s
      then (let t = drop (length label) s in Some (takeWhile (\<lambda>c. c \<noteq> CHR '','') t, dropWhile (\<lambda>c. c \<noteq> CHR '','') t))
      else None)"

definition parse_leaf :: "string \<Rightarrow> (byte list \<times> byte list \<times> byte list) option" where
  "parse_leaf s =
     Option.bind (field_after ''ENC[AES256_GCM,data:'' s) (\<lambda>(data, s1).
     Option.bind (field_after '',iv:'' s1) (\<lambda>(iv, s2).
     Option.bind (field_after '',tag:'' s2) (\<lambda>(tag, s3).
       if s3 = '',type:str]'' then
         Option.bind (base64_decode data) (\<lambda>d.
         Option.bind (base64_decode iv) (\<lambda>i.
         map_option (\<lambda>t. (d, i, t)) (base64_decode tag)))
       else None)))"

lemma field_after_base64:
  "field_after label (label @ base64 b @ CHR '','' # r) = Some (base64 b, CHR '','' # r)"
proof -
  have "takeWhile (\<lambda>c. c \<noteq> CHR '','') (base64 b @ CHR '','' # r) = base64 b"
    "dropWhile (\<lambda>c. c \<noteq> CHR '','') (base64 b @ CHR '','' # r) = CHR '','' # r"
    using base64_clean(1) [of b] by (auto intro!: takeWhile_until dropWhile_until)
  then show ?thesis by (simp add: field_after_def)
qed

lemma parse_leaf_enc_leaf: "parse_leaf (enc_leaf c n t) = Some (c, n, t)"
proof -
  have "field_after ''ENC[AES256_GCM,data:'' (enc_leaf c n t) =
      Some (base64 c, '',iv:'' @ base64 n @ '',tag:'' @ base64 t @ '',type:str]'')"
    using field_after_base64 [of "''ENC[AES256_GCM,data:''" c] by (simp add: enc_leaf_def)
  moreover have "field_after '',iv:'' ('',iv:'' @ base64 n @ '',tag:'' @ base64 t @ '',type:str]'') =
      Some (base64 n, '',tag:'' @ base64 t @ '',type:str]'')"
    using field_after_base64 [of "'',iv:''" n] by simp
  moreover have "field_after '',tag:'' ('',tag:'' @ base64 t @ '',type:str]'') =
      Some (base64 t, '',type:str]'')"
    using field_after_base64 [of "'',tag:''" t] by simp
  ultimately show ?thesis unfolding parse_leaf_def by simp
qed

definition open_leaf :: "crypto \<Rightarrow> byte list \<Rightarrow> string \<Rightarrow> string \<Rightarrow> byte list option" where
  "open_leaf C dataKey aad leaf =
     Option.bind (parse_leaf leaf) (\<lambda>(d, i, t). unseal C dataKey i (utf8 aad) d t)"

lemma open_sealed: "gcm_ok C \<Longrightarrow> open_leaf C key aad (gcmSealSopsEnc C k key plaintext aad) = Some plaintext"
  by (simp add: open_leaf_def gcmSealSopsEnc_def Let_def parse_leaf_enc_leaf gcm_ok_def split: prod.split)
     (metis fst_conv snd_conv)

text \<open>What a holder of the data key gets from a document: the value, if the MAC agrees.\<close>

definition sops_open :: "crypto \<Rightarrow> byte list \<Rightarrow> sops_document \<Rightarrow> byte list option" where
  "sops_open C dataKey doc =
     Option.bind (open_leaf C dataKey ''value:'' (doc_value doc)) (\<lambda>plaintext.
     Option.bind (open_leaf C dataKey (doc_lastmodified doc) (doc_mac doc)) (\<lambda>mac.
       if mac = utf8 (hex_upper (sha512 C plaintext)) then Some plaintext else None))"

lemma encrypt_shape:
  assumes "encryptForSecret C yaml publicKey value = Inr bytes"
  shows "\<exists>doc wrapped. bytes = utf8 (yaml doc) \<and> quoted_lastmodified doc \<and>
     doc_recipient doc = js_trim publicKey \<and> doc_recipient doc \<noteq> '''' \<and>
     age_encrypt C (doc_recipient doc) (random32 C 0) = Inr wrapped \<and>
     doc_enc doc = armor_encode C wrapped \<and>
     doc_lastmodified doc = strip_fraction (iso_now C) \<and>
     (gcm_ok C \<longrightarrow> sops_open C (random32 C 0) doc = Some (secret_bytes value))"
proof -
  let ?r = "js_trim publicKey"
  from assms obtain wrapped where ne: "?r \<noteq> ''''" and w: "age_encrypt C ?r (random32 C 0) = Inr wrapped"
    and b: "bytes = utf8 (yaml \<lparr>doc_value = gcmSealSopsEnc C 1 (random32 C 0) (secret_bytes value) ''value:'',
        doc_recipient = ?r, doc_enc = armor_encode C wrapped,
        doc_lastmodified = strip_fraction (iso_now C),
        doc_mac = gcmSealSopsEnc C 2 (random32 C 0)
          (utf8 (hex_upper (sha512 C (secret_bytes value)))) (strip_fraction (iso_now C)),
        doc_version = SOPS_VERSION, quoted_lastmodified = True\<rparr>)"
    by (auto simp: encryptForSecret_def Let_def bindE_Inr_iff split: if_splits option.splits)
  show ?thesis
    by (rule exI, rule exI [of _ wrapped], rule conjI, rule b)
       (use ne w in \<open>auto simp: sops_open_def open_sealed\<close>)
qed

section \<open>The timestamp\<close>

text \<open>Whole seconds: the fraction of an ISO timestamp is dropped, nothing else.\<close>

lemma strip_fraction_iso:
  assumes "list_all is_digit ds" and "ds \<noteq> []"
  shows "strip_fraction (t @ CHR ''.'' # ds @ ''Z'') = t @ ''Z''"
proof -
  have digits: "\<forall>c \<in> set (rev ds). is_digit c" "\<not> is_digit (CHR ''.'')"
    using assms(1) by (simp_all add: list_all_iff is_digit_def)
  from takeWhile_until [OF this, of "rev t"] dropWhile_until [OF this, of "rev t"]
  have "takeWhile is_digit (rev ds @ CHR ''.'' # rev t) = rev ds"
    "dropWhile is_digit (rev ds @ CHR ''.'' # rev t) = CHR ''.'' # rev t" .
  then show ?thesis using assms(2) by (simp add: strip_fraction_def)
qed

lemma strip_fraction_none:
  assumes "CHR ''.'' \<notin> set s"
  shows "strip_fraction s = s"
proof (cases "rev s")
  case (Cons z t)
  then have t: "set t \<subseteq> set s" by (metis set_rev set_subset_Cons)
  show ?thesis
  proof (cases "dropWhile is_digit t")
    case Nil
    then show ?thesis using Cons by (simp add: strip_fraction_def del: dropWhile_eq_Nil_conv)
  next
    case (Cons dot r)
    then have "dot \<in> set t" by (metis list.set_intros(1) set_dropWhileD)
    then have "dot \<noteq> CHR ''.''" using t assms by blast
    then show ?thesis using Cons \<open>rev s = z # t\<close> by (simp add: strip_fraction_def)
  qed
qed (simp add: strip_fraction_def)

end
