(* ===== verification/PbWire.thy ===== *)
theory PbWire
  imports Bytes Codec
begin

text \<open>
  A concrete reader and writer: the protobuf wire format (varints, little-endian doubles,
  length-delimited strings and bytes), with the proofs that it satisfies \<open>wire_ok\<close> and
  \<open>wire_progress\<close>. It is the instance at which the witnesses evaluate the codecs; the codecs'
  theorems hold for every reader and writer with those laws.
\<close>

section \<open>Varints\<close>

fun varint :: "nat \<Rightarrow> byte list" where
  "varint n = (if n < 128 then [to_byte n] else to_byte (128 + n mod 128) # varint (n div 128))"

declare varint.simps [simp del]

text \<open>A value and the number of bytes it takes.\<close>

fun read_varint :: "byte list \<Rightarrow> (nat \<times> nat) option" where
  "read_varint [] = None"
| "read_varint (b # bs) =
     (if unat b < 128 then Some (unat b, 1)
      else map_option (\<lambda>(v, k). (unat b - 128 + 128 * v, Suc k)) (read_varint bs))"

lemma read_varint_varint: "read_varint (varint n @ post) = Some (n, length (varint n))"
proof (induction n rule: varint.induct)
  case (1 n)
  show ?case
  proof (cases "n < 128")
    case False
    with "1.IH" show ?thesis by (simp add: varint.simps [of n])
  qed (simp add: varint.simps [of n])
qed

lemma varint_not_Nil [simp]: "varint n \<noteq> []"
  by (simp add: varint.simps [of n])

lemma read_varint_bounds: "read_varint bs = Some (v, k) \<Longrightarrow> 0 < k \<and> k \<le> length bs"
  by (induction bs arbitrary: v k) (fastforce split: if_splits)+

definition at :: "(byte list \<Rightarrow> ('v \<times> nat) option) \<Rightarrow> byte list \<Rightarrow> nat \<Rightarrow> ('v \<times> nat) option" where
  "at r buf p = map_option (\<lambda>(v, k). (v, p + k)) (r (drop p buf))"

lemma reads_at: "(\<And>post. r (b @ post) = Some (v, length b)) \<Longrightarrow> reads (at r) b v"
  by (simp add: reads_def at_def)

lemma forward_at: "(\<And>bs v k. r bs = Some (v, k) \<Longrightarrow> k \<le> length bs) \<Longrightarrow> r [] = None \<Longrightarrow> forward (at r)"
  unfolding forward_def at_def
proof (intro allI impI)
  fix buf p v q
  assume k: "\<And>bs v k. r bs = Some (v, k) \<Longrightarrow> k \<le> length bs" and "r [] = None"
    and "map_option (\<lambda>(v, k). (v, p + k)) (r (drop p buf)) = Some (v, q)"
  then obtain k where rk: "r (drop p buf) = Some (v, k)" "q = p + k" by auto
  then have "p < length buf" using \<open>r [] = None\<close> by (cases "p < length buf") auto
  then show "p \<le> q \<and> q \<le> length buf" using k [OF rk(1)] rk(2) by simp
qed

text \<open>A varint read modulo \<open>2 ^ w\<close>, and as a signed number.\<close>

definition as_signed :: "nat \<Rightarrow> nat \<Rightarrow> int" where
  "as_signed w n = (let m = n mod 2 ^ w in if m < 2 ^ (w - 1) then int m else int m - 2 ^ w)"

definition pb_uint32 :: "byte list \<Rightarrow> (nat \<times> nat) option" where
  "pb_uint32 bs = map_option (\<lambda>(v, k). (v mod 2 ^ 32, k)) (read_varint bs)"

definition pb_signed :: "nat \<Rightarrow> byte list \<Rightarrow> (int \<times> nat) option" where
  "pb_signed w bs = map_option (\<lambda>(v, k). (as_signed w v, k)) (read_varint bs)"

definition pb_bool :: "byte list \<Rightarrow> (bool \<times> nat) option" where
  "pb_bool bs = map_option (\<lambda>(v, k). (v \<noteq> 0, k)) (read_varint bs)"

definition w_signed :: "int \<Rightarrow> byte list" where
  "w_signed i = varint (nat (i mod 2 ^ 64))"

lemma as_signed_wrap:
  assumes w: "0 < w" "w \<le> 64" and i: "- (2 ^ (w - 1)) \<le> i" "i < 2 ^ (w - 1)"
  shows "as_signed w (nat (i mod 2 ^ 64)) = i"
proof -
  have p: "(2 :: int) ^ w = 2 * 2 ^ (w - 1)" using w(1) by (cases w) auto
  have "(2 :: int) ^ w dvd 2 ^ 64" by (rule le_imp_power_dvd [OF w(2)])
  then have m: "int (nat (i mod 2 ^ 64) mod 2 ^ w) = i mod 2 ^ w"
    by (simp add: zmod_int mod_mod_cancel)
  show ?thesis
  proof (cases "0 \<le> i")
    case True
    then have "i mod 2 ^ w = i" using i p by (intro mod_pos_pos_trivial) auto
    moreover have "nat (i mod 2 ^ 64) mod 2 ^ w < 2 ^ (w - 1)"
      using m i(2) calculation by (metis of_nat_less_iff of_nat_numeral of_nat_power)
    ultimately show ?thesis using m by (simp add: as_signed_def Let_def)
  next
    case False
    have "i mod 2 ^ w = (i + 2 ^ w) mod 2 ^ w" by simp
    also have "\<dots> = i + 2 ^ w" using i p False by (intro mod_pos_pos_trivial) auto
    finally have e: "int (nat (i mod 2 ^ 64) mod 2 ^ w) = i + 2 ^ w" using m by simp
    then have "int (2 ^ (w - 1)) \<le> int (nat (i mod 2 ^ 64) mod 2 ^ w)" using i(1) p by simp
    then have "2 ^ (w - 1) \<le> nat (i mod 2 ^ 64) mod 2 ^ w" by (simp only: of_nat_le_iff)
    with e show ?thesis by (simp add: as_signed_def Let_def)
  qed
qed

lemma as_signed_32: "in_int32 i \<Longrightarrow> as_signed 32 (nat (i mod 2 ^ 64)) = i"
  unfolding in_int32_def by (intro as_signed_wrap) auto

lemma as_signed_64: "in_int64 i \<Longrightarrow> as_signed 64 (nat (i mod 2 ^ 64)) = i"
  unfolding in_int64_def by (intro as_signed_wrap) auto

section \<open>Doubles\<close>

primrec le_bytes :: "nat \<Rightarrow> nat \<Rightarrow> byte list" where
  "le_bytes 0 n = []"
| "le_bytes (Suc k) n = to_byte (n mod 256) # le_bytes k (n div 256)"

fun le_nat :: "byte list \<Rightarrow> nat" where
  "le_nat [] = 0"
| "le_nat (b # bs) = unat b + 256 * le_nat bs"

lemma length_le_bytes [simp]: "length (le_bytes k n) = k"
  by (induction k arbitrary: n) auto

lemma le_nat_le_bytes: "le_nat (le_bytes k n) = n mod 256 ^ k"
  by (induction k arbitrary: n) (simp_all add: mod_mult2_eq)

definition pb_double :: "byte list \<Rightarrow> (64 word \<times> nat) option" where
  "pb_double bs = (if length bs < 8 then None else Some (of_nat (le_nat (take 8 bs)), 8))"

section \<open>Length-delimited values\<close>

definition pb_bytes :: "byte list \<Rightarrow> (byte list \<times> nat) option" where
  "pb_bytes bs =
     (case pb_uint32 bs of
        None \<Rightarrow> None
      | Some (n, k) \<Rightarrow> (if k + n \<le> length bs then Some (take n (drop k bs), k + n) else None))"

definition pb_string :: "byte list \<Rightarrow> (string \<times> nat) option" where
  "pb_string bs =
     (case pb_bytes bs of None \<Rightarrow> None | Some (v, k) \<Rightarrow> map_option (\<lambda>s. (s, k)) (utf8_decode v))"

definition w_delimited :: "byte list \<Rightarrow> byte list" where
  "w_delimited b = varint (length b) @ b"

text \<open>Skipping a field by its wire type; groups (3) are not supported.\<close>

definition pb_skip :: "byte list \<Rightarrow> nat \<Rightarrow> nat \<Rightarrow> nat option" where
  "pb_skip buf p t =
     (if t = 0 then map_option snd (at read_varint buf p)
      else if t = 1 then (if p + 8 \<le> length buf then Some (p + 8) else None)
      else if t = 2 then map_option snd (at pb_bytes buf p)
      else if t = 5 then (if p + 4 \<le> length buf then Some (p + 4) else None)
      else None)"

definition pb_wire :: wire where
  "pb_wire = \<lparr>
     w_uint32 = varint,
     w_int32 = (\<lambda>i. if in_int32 i then Some (w_signed i) else None),
     w_int64 = (\<lambda>i. if in_int64 i then Some (w_signed i) else None),
     w_bool = (\<lambda>x. varint (if x then 1 else 0)),
     w_double = (\<lambda>x. le_bytes 8 (unat x)),
     w_string = (\<lambda>s. w_delimited (utf8 s)),
     w_bytes = w_delimited,
     w_join = w_delimited,
     r_uint32 = at pb_uint32,
     r_int32 = at (pb_signed 32),
     r_int64 = at (pb_signed 64),
     r_bool = at pb_bool,
     r_double = at pb_double,
     r_string = at pb_string,
     r_bytes = at pb_bytes,
     r_skip = pb_skip\<rparr>"

lemmas pb_defs = pb_uint32_def pb_signed_def pb_bool_def w_signed_def read_varint_varint

lemma pb_bytes_delimited:
  "small (w_delimited b) \<Longrightarrow> pb_bytes (w_delimited b @ post) = Some (b, length (w_delimited b))"
  by (simp add: pb_bytes_def w_delimited_def pb_defs small_def)

lemma pb_double_bytes: "pb_double (le_bytes 8 (unat x) @ post) = Some (x, 8)"
proof -
  have "unat x < 2 ^ LENGTH(64)" by (rule unsigned_less)
  then have "unat x mod 256 ^ 8 = unat x" by simp
  then show ?thesis by (simp add: pb_double_def le_nat_le_bytes)
qed

lemma pb_wire_ok: "wire_ok pb_wire"
  unfolding wire_ok_def pb_wire_def
proof (simp only: wire.simps, intro conjI allI impI)
  show "reads (at pb_uint32) (varint n) n" "varint n \<noteq> []" if "n < 2 ^ 32" for n
    using that by (auto intro!: reads_at simp: pb_defs)
  show "if in_int32 i then \<exists>b. (if in_int32 i then Some (w_signed i) else None) = Some b \<and>
      reads (at (pb_signed 32)) b i else (if in_int32 i then Some (w_signed i) else None) = None" for i
    by (auto intro!: reads_at simp: pb_defs as_signed_32 [simplified])
  show "if in_int64 i then \<exists>b. (if in_int64 i then Some (w_signed i) else None) = Some b \<and>
      reads (at (pb_signed 64)) b i else (if in_int64 i then Some (w_signed i) else None) = None" for i
    by (auto intro!: reads_at simp: pb_defs as_signed_64 [simplified])
  show "reads (at pb_bool) (varint (if x then 1 else 0)) x" for x
    by (auto intro!: reads_at simp: pb_defs)
  show "reads (at pb_double) (le_bytes 8 (unat x)) x" for x
    by (rule reads_at) (simp add: pb_double_bytes)
  show "reads (at pb_string) (w_delimited (utf8 s)) s" if "small (w_delimited (utf8 s))" for s
    using that by (intro reads_at) (simp add: pb_string_def pb_bytes_delimited)
  show "reads (at pb_bytes) (w_delimited b) b" if "small (w_delimited b)" for b
    using that by (intro reads_at) (simp add: pb_bytes_delimited)
  show "w_delimited b = varint (length b) @ b" for b
    by (simp add: w_delimited_def)
qed

lemma at_bounds:
  assumes "at r buf p = Some (v, q)" and "\<And>bs v k. r bs = Some (v, k) \<Longrightarrow> 0 < k \<and> k \<le> length bs"
  shows "p < q \<and> q \<le> length buf"
proof -
  from assms(1) obtain k where k: "r (drop p buf) = Some (v, k)" "q = p + k"
    by (auto simp: at_def)
  with assms(2) [OF k(1)] show ?thesis by auto
qed

lemma pb_bounds:
  "pb_uint32 bs = Some (n, k) \<Longrightarrow> 0 < k \<and> k \<le> length bs"
  "pb_signed w bs = Some (i, k) \<Longrightarrow> 0 < k \<and> k \<le> length bs"
  "pb_bool bs = Some (x, k) \<Longrightarrow> 0 < k \<and> k \<le> length bs"
  "pb_double bs = Some (d, k) \<Longrightarrow> 0 < k \<and> k \<le> length bs"
  "pb_bytes bs = Some (b, k) \<Longrightarrow> 0 < k \<and> k \<le> length bs"
  "pb_string bs = Some (s, k) \<Longrightarrow> 0 < k \<and> k \<le> length bs"
  by (auto simp: pb_uint32_def pb_signed_def pb_bool_def pb_double_def pb_bytes_def pb_string_def
      dest!: read_varint_bounds split: option.splits if_splits)

lemma forward_at_bounds:
  "(\<And>bs v k. r bs = Some (v, k) \<Longrightarrow> 0 < k \<and> k \<le> length bs) \<Longrightarrow> forward (at r)"
  unfolding forward_def using at_bounds [of r] less_imp_le by blast

lemma pb_skip_bounds: "pb_skip buf p t = Some q \<Longrightarrow> p \<le> q \<and> q \<le> length buf"
  using at_bounds [of read_varint buf p, OF _ read_varint_bounds]
    at_bounds [of pb_bytes buf p, OF _ pb_bounds(5)]
  by (fastforce simp: pb_skip_def split: if_splits)

lemma pb_wire_progress: "wire_progress pb_wire"
  unfolding wire_progress_def pb_wire_def
proof (simp only: wire.simps, intro conjI allI impI)
  show "p < q" "q \<le> length buf" if "at pb_uint32 buf p = Some (v, q)" for buf p v q
    using at_bounds [OF that] pb_bounds(1) by blast+
  show "p \<le> q" "q \<le> length buf" if "pb_skip buf p t = Some q" for buf p t q
    using pb_skip_bounds [OF that] by blast+
qed (rule forward_at_bounds, erule pb_bounds)+

text \<open>Fields this reader can skip.\<close>

lemma pb_skipped:
  "tag < 2 ^ 32 \<Longrightarrow> tag mod 8 = 0 \<Longrightarrow> skipped pb_wire tag (varint n)"
  "tag < 2 ^ 32 \<Longrightarrow> tag mod 8 = 2 \<Longrightarrow> small (w_delimited b) \<Longrightarrow> skipped pb_wire tag (w_delimited b)"
proof -
  have "reads (at read_varint) (varint n) n" by (rule reads_at) (simp add: read_varint_varint)
  then show "tag < 2 ^ 32 \<Longrightarrow> tag mod 8 = 0 \<Longrightarrow> skipped pb_wire tag (varint n)"
    by (simp add: skipped_def pb_wire_def pb_skip_def reads_def)
  show "tag < 2 ^ 32 \<Longrightarrow> tag mod 8 = 2 \<Longrightarrow> small (w_delimited b) \<Longrightarrow> skipped pb_wire tag (w_delimited b)"
    using reads_at [of pb_bytes "w_delimited b" b] pb_bytes_delimited [of b]
    by (simp add: skipped_def pb_wire_def pb_skip_def reads_def)
qed

end
