(* ===== verification/Rpc.thy ===== *)
theory Rpc
  imports Codec
begin

text \<open>
  What the service tables of \<open>src/gen\<close> are made of. An entry of such a table describes one method
  for the gRPC library: its path, which of its two directions are streams, and how a message of
  either direction is turned into bytes and back. The contract \<open>rpc_contract\<close> says that an entry's
  functions are the codecs of the two message types; it is proved for every method of the three
  services in \<open>SecretsService\<close>, \<open>AdminService\<close> and \<open>GitOpsService\<close>.
\<close>

section \<open>Methods\<close>

text \<open>\<open>None\<close> is an encoder that throws, or a decoder that does not return.\<close>

record ('req, 'res) rpc_method =
  rpc_path :: string
  requestStream :: bool
  responseStream :: bool
  requestSerialize :: "'req \<Rightarrow> byte list option"
  requestDeserialize :: "byte list \<Rightarrow> (decode_error + 'req) option"
  responseSerialize :: "'res \<Rightarrow> byte list option"
  responseDeserialize :: "byte list \<Rightarrow> (decode_error + 'res) option"

text \<open>The four handler types of a server, and the four return types of a client's method.\<close>

datatype call_kind = Unary | ServerStreaming | ClientStreaming | BidiStreaming

definition kind_of :: "('req, 'res) rpc_method \<Rightarrow> call_kind" where
  "kind_of M =
     (if requestStream M then (if responseStream M then BidiStreaming else ClientStreaming)
      else (if responseStream M then ServerStreaming else Unary))"

section \<open>What a method promises\<close>

text \<open>
  \<open>carried\<close>: what one side serializes, the other side deserializes to the same value, if it is
  a message its fields allow, not longer than a length prefix can say, and not nested deeper than
  the decoder follows.
\<close>

definition carried ::
  "('m \<Rightarrow> byte list option) \<Rightarrow> (byte list \<Rightarrow> (decode_error + 'm) option) \<Rightarrow> ('m \<Rightarrow> bool) \<Rightarrow> ('m \<Rightarrow> nat) \<Rightarrow> bool" where
  "carried ser deser valid depth \<longleftrightarrow>
     (\<forall>m. valid m \<longrightarrow>
        (\<exists>b. ser m = Some b \<and> (small b \<and> depth m \<le> decode_limit \<longrightarrow> deser b = Some (Inr m))))"

definition carries_calls ::
  "('req, 'res) rpc_method \<Rightarrow> ('req \<Rightarrow> bool) \<Rightarrow> ('req \<Rightarrow> nat) \<Rightarrow> ('res \<Rightarrow> bool) \<Rightarrow> ('res \<Rightarrow> nat) \<Rightarrow> bool" where
  "carries_calls M req_valid req_depth res_valid res_depth \<longleftrightarrow>
     carried (requestSerialize M) (requestDeserialize M) req_valid req_depth \<and>
     carried (responseSerialize M) (responseDeserialize M) res_valid res_depth"

lemma carriedD:
  "carried ser deser valid depth \<Longrightarrow> valid m \<Longrightarrow> ser m = Some b \<Longrightarrow> small b \<Longrightarrow> depth m \<le> decode_limit \<Longrightarrow>
   deser b = Some (Inr m)"
  by (auto simp: carried_def)

lemma carried_total: "carried ser deser valid depth \<Longrightarrow> valid m \<Longrightarrow> \<exists>b. ser m = Some b"
  by (auto simp: carried_def)

text \<open>A stream of messages arrives in order.\<close>

lemma carried_stream:
  assumes "carried ser deser valid depth"
    and "\<forall>m \<in> set ms. valid m \<and> depth m \<le> decode_limit" and "\<forall>m \<in> set ms. \<forall>b. ser m = Some b \<longrightarrow> small b"
  shows "\<exists>bs. map ser ms = map Some bs \<and> map deser bs = map (Some \<circ> Inr) ms"
  using assms(2,3)
proof (induction ms)
  case (Cons m ms)
  then obtain bs where bs: "map ser ms = map Some bs" "map deser bs = map (Some \<circ> Inr) ms" by auto
  have "valid m" using Cons.prems by simp
  then obtain b where b: "ser m = Some b" using carried_total [OF assms(1)] by blast
  with Cons.prems have "deser b = Some (Inr m)" by (intro carriedD [OF assms(1)]) auto
  with bs b show ?case by (intro exI [of _ "b # bs"]) simp
qed simp

section \<open>The contract\<close>

locale rpc_contract =
  req: codec req_dec req_enc req_valid req_depth + res: codec res_dec res_enc res_valid res_depth
  for req_dec :: "wire \<Rightarrow> nat \<Rightarrow> 'req decoder" and req_enc req_valid req_depth
    and res_dec :: "wire \<Rightarrow> nat \<Rightarrow> 'res decoder" and res_enc res_valid res_depth +
  fixes descr :: "wire \<Rightarrow> ('req, 'res) rpc_method"
  assumes request_functions:
      "requestSerialize (descr W) = req_enc W" "requestDeserialize (descr W) = decode_top (req_dec W)"
    and response_functions:
      "responseSerialize (descr W) = res_enc W" "responseDeserialize (descr W) = decode_top (res_dec W)"
begin

lemma calls: "wire_ok W \<Longrightarrow> carries_calls (descr W) req_valid req_depth res_valid res_depth"
  using req.sound [of W] res.sound [of W]
  by (simp add: carries_calls_def carried_def sound_codec_def request_functions response_functions)

lemma answers_any_bytes:
  "wire_progress W \<Longrightarrow> \<exists>r. requestDeserialize (descr W) bs = Some r"
  "wire_progress W \<Longrightarrow> \<exists>r. responseDeserialize (descr W) bs = Some r"
  using req.total [of W] res.total [of W]
  by (simp_all add: total_decoder_def request_functions response_functions)

end

section \<open>Tables\<close>

text \<open>A path names the service and the method.\<close>

definition path_of :: "string \<Rightarrow> string \<Rightarrow> bool" where
  "path_of service path \<longleftrightarrow>
     (\<exists>name. path = CHR ''/'' # service @ CHR ''/'' # name \<and> name \<noteq> [] \<and> CHR ''/'' \<notin> set name)"

lemma path_of_split:
  "path_of service path \<longleftrightarrow>
     take (length service + 2) path = CHR ''/'' # service @ ''/'' \<and>
     drop (length service + 2) path \<noteq> [] \<and> CHR ''/'' \<notin> set (drop (length service + 2) path)"
proof
  assume "take (length service + 2) path = CHR ''/'' # service @ ''/'' \<and>
     drop (length service + 2) path \<noteq> [] \<and> CHR ''/'' \<notin> set (drop (length service + 2) path)"
  then show "path_of service path"
    unfolding path_of_def
    by (intro exI [of _ "drop (length service + 2) path"])
       (metis append_Cons append_Nil append_assoc append_take_drop_id)
qed (auto simp: path_of_def)

end
