(* ===== verification/SecretsService.thy ===== *)
theory SecretsService
  imports SecretsMessages Rpc
begin

text \<open>
  \<open>SecretsServiceService\<close> of \<open>src/gen/signet/v1/secrets.ts\<close>: the methods of the workload API, the
  handlers and calls its two interfaces declare, and that they agree.
\<close>

section \<open>The methods\<close>

definition SecretsService_getSecret :: "wire \<Rightarrow> (GetSecretRequest, GetSecretResponse) rpc_method" where
  "SecretsService_getSecret W =
     \<lparr>rpc_path = ''/signet.v1.SecretsService/GetSecret'', requestStream = False, responseStream = False,
      requestSerialize = GetSecretRequest_encode W, requestDeserialize = decode_top (GetSecretRequest_dec W),
      responseSerialize = GetSecretResponse_encode W, responseDeserialize = decode_top (GetSecretResponse_dec W)\<rparr>"

interpretation SecretsService_getSecret_rpc: rpc_contract GetSecretRequest_dec GetSecretRequest_encode "\<lambda>_. True" "\<lambda>_. 1"
  GetSecretResponse_dec GetSecretResponse_encode "valid_GetSecretResponse" "\<lambda>_. 1" SecretsService_getSecret
  by unfold_locales (simp_all add: SecretsService_getSecret_def)

definition SecretsService_watchSecret :: "wire \<Rightarrow> (WatchSecretRequest, WatchSecretResponse) rpc_method" where
  "SecretsService_watchSecret W =
     \<lparr>rpc_path = ''/signet.v1.SecretsService/WatchSecret'', requestStream = False, responseStream = True,
      requestSerialize = WatchSecretRequest_encode W, requestDeserialize = decode_top (WatchSecretRequest_dec W),
      responseSerialize = WatchSecretResponse_encode W, responseDeserialize = decode_top (WatchSecretResponse_dec W)\<rparr>"

interpretation SecretsService_watchSecret_rpc: rpc_contract WatchSecretRequest_dec WatchSecretRequest_encode "\<lambda>_. True" "\<lambda>_. 1"
  WatchSecretResponse_dec WatchSecretResponse_encode "valid_WatchSecretResponse" "\<lambda>_. 1" SecretsService_watchSecret
  by unfold_locales (simp_all add: SecretsService_watchSecret_def)

definition SecretsService_getConfig :: "wire \<Rightarrow> (GetConfigRequest, GetConfigResponse) rpc_method" where
  "SecretsService_getConfig W =
     \<lparr>rpc_path = ''/signet.v1.SecretsService/GetConfig'', requestStream = False, responseStream = False,
      requestSerialize = GetConfigRequest_encode W, requestDeserialize = decode_top (GetConfigRequest_dec W),
      responseSerialize = GetConfigResponse_encode W, responseDeserialize = decode_top (GetConfigResponse_dec W)\<rparr>"

interpretation SecretsService_getConfig_rpc: rpc_contract GetConfigRequest_dec GetConfigRequest_encode "\<lambda>_. True" "\<lambda>_. 1"
  GetConfigResponse_dec GetConfigResponse_encode "valid_GetConfigResponse" "depth_GetConfigResponse" SecretsService_getConfig
  by unfold_locales (simp_all add: SecretsService_getConfig_def)

definition SecretsService_getServiceConfig :: "wire \<Rightarrow> (GetServiceConfigRequest, GetServiceConfigResponse) rpc_method" where
  "SecretsService_getServiceConfig W =
     \<lparr>rpc_path = ''/signet.v1.SecretsService/GetServiceConfig'', requestStream = False, responseStream = False,
      requestSerialize = GetServiceConfigRequest_encode W, requestDeserialize = decode_top (GetServiceConfigRequest_dec W),
      responseSerialize = GetServiceConfigResponse_encode W, responseDeserialize = decode_top (GetServiceConfigResponse_dec W)\<rparr>"

interpretation SecretsService_getServiceConfig_rpc: rpc_contract GetServiceConfigRequest_dec GetServiceConfigRequest_encode "\<lambda>_. True" "\<lambda>_. 1"
  GetServiceConfigResponse_dec GetServiceConfigResponse_encode "valid_GetServiceConfigResponse" "depth_GetServiceConfigResponse" SecretsService_getServiceConfig
  by unfold_locales (simp_all add: SecretsService_getServiceConfig_def)

definition SecretsService_watchServiceConfig :: "wire \<Rightarrow> (WatchServiceConfigRequest, WatchServiceConfigResponse) rpc_method" where
  "SecretsService_watchServiceConfig W =
     \<lparr>rpc_path = ''/signet.v1.SecretsService/WatchServiceConfig'', requestStream = False, responseStream = True,
      requestSerialize = WatchServiceConfigRequest_encode W, requestDeserialize = decode_top (WatchServiceConfigRequest_dec W),
      responseSerialize = WatchServiceConfigResponse_encode W, responseDeserialize = decode_top (WatchServiceConfigResponse_dec W)\<rparr>"

interpretation SecretsService_watchServiceConfig_rpc: rpc_contract WatchServiceConfigRequest_dec WatchServiceConfigRequest_encode "\<lambda>_. True" "\<lambda>_. 1"
  WatchServiceConfigResponse_dec WatchServiceConfigResponse_encode "valid_WatchServiceConfigResponse" "depth_WatchServiceConfigResponse" SecretsService_watchServiceConfig
  by unfold_locales (simp_all add: SecretsService_watchServiceConfig_def)

definition SecretsService_getServiceBundle :: "wire \<Rightarrow> (GetServiceBundleRequest, GetServiceBundleResponse) rpc_method" where
  "SecretsService_getServiceBundle W =
     \<lparr>rpc_path = ''/signet.v1.SecretsService/GetServiceBundle'', requestStream = False, responseStream = False,
      requestSerialize = GetServiceBundleRequest_encode W, requestDeserialize = decode_top (GetServiceBundleRequest_dec W),
      responseSerialize = GetServiceBundleResponse_encode W, responseDeserialize = decode_top (GetServiceBundleResponse_dec W)\<rparr>"

interpretation SecretsService_getServiceBundle_rpc: rpc_contract GetServiceBundleRequest_dec GetServiceBundleRequest_encode "\<lambda>_. True" "\<lambda>_. 1"
  GetServiceBundleResponse_dec GetServiceBundleResponse_encode "valid_GetServiceBundleResponse" "depth_GetServiceBundleResponse" SecretsService_getServiceBundle
  by unfold_locales (simp_all add: SecretsService_getServiceBundle_def)

definition SecretsService_watchServiceBundle :: "wire \<Rightarrow> (WatchServiceBundleRequest, WatchServiceBundleResponse) rpc_method" where
  "SecretsService_watchServiceBundle W =
     \<lparr>rpc_path = ''/signet.v1.SecretsService/WatchServiceBundle'', requestStream = False, responseStream = True,
      requestSerialize = WatchServiceBundleRequest_encode W, requestDeserialize = decode_top (WatchServiceBundleRequest_dec W),
      responseSerialize = WatchServiceBundleResponse_encode W, responseDeserialize = decode_top (WatchServiceBundleResponse_dec W)\<rparr>"

interpretation SecretsService_watchServiceBundle_rpc: rpc_contract WatchServiceBundleRequest_dec WatchServiceBundleRequest_encode "\<lambda>_. True" "\<lambda>_. 1"
  WatchServiceBundleResponse_dec WatchServiceBundleResponse_encode "valid_WatchServiceBundleResponse" "\<lambda>_. 1" SecretsService_watchServiceBundle
  by unfold_locales (simp_all add: SecretsService_watchServiceBundle_def)

definition SecretsService_acquireRestartLock :: "wire \<Rightarrow> (AcquireRestartLockRequest, AcquireRestartLockResponse) rpc_method" where
  "SecretsService_acquireRestartLock W =
     \<lparr>rpc_path = ''/signet.v1.SecretsService/AcquireRestartLock'', requestStream = True, responseStream = True,
      requestSerialize = AcquireRestartLockRequest_encode W, requestDeserialize = decode_top (AcquireRestartLockRequest_dec W),
      responseSerialize = AcquireRestartLockResponse_encode W, responseDeserialize = decode_top (AcquireRestartLockResponse_dec W)\<rparr>"

interpretation SecretsService_acquireRestartLock_rpc: rpc_contract AcquireRestartLockRequest_dec AcquireRestartLockRequest_encode "valid_AcquireRestartLockRequest" "\<lambda>_. 1"
  AcquireRestartLockResponse_dec AcquireRestartLockResponse_encode "valid_AcquireRestartLockResponse" "depth_AcquireRestartLockResponse" SecretsService_acquireRestartLock
  by unfold_locales (simp_all add: SecretsService_acquireRestartLock_def)

section \<open>The table\<close>

text \<open>Name, path and kind of every method, in the order of the table.\<close>

definition SecretsServiceService :: "wire \<Rightarrow> (string \<times> string \<times> call_kind) list" where
  "SecretsServiceService W =
     [(''getSecret'', rpc_path (SecretsService_getSecret W), kind_of (SecretsService_getSecret W)),
      (''watchSecret'', rpc_path (SecretsService_watchSecret W), kind_of (SecretsService_watchSecret W)),
      (''getConfig'', rpc_path (SecretsService_getConfig W), kind_of (SecretsService_getConfig W)),
      (''getServiceConfig'', rpc_path (SecretsService_getServiceConfig W), kind_of (SecretsService_getServiceConfig W)),
      (''watchServiceConfig'', rpc_path (SecretsService_watchServiceConfig W), kind_of (SecretsService_watchServiceConfig W)),
      (''getServiceBundle'', rpc_path (SecretsService_getServiceBundle W), kind_of (SecretsService_getServiceBundle W)),
      (''watchServiceBundle'', rpc_path (SecretsService_watchServiceBundle W), kind_of (SecretsService_watchServiceBundle W)),
      (''acquireRestartLock'', rpc_path (SecretsService_acquireRestartLock W), kind_of (SecretsService_acquireRestartLock W))]"

text \<open>The handlers a server declares, and the calls a client declares.\<close>

definition SecretsServiceServer :: "(string \<times> call_kind) list" where
  "SecretsServiceServer =
     [(''getSecret'', Unary),
      (''watchSecret'', ServerStreaming),
      (''getConfig'', Unary),
      (''getServiceConfig'', Unary),
      (''watchServiceConfig'', ServerStreaming),
      (''getServiceBundle'', Unary),
      (''watchServiceBundle'', ServerStreaming),
      (''acquireRestartLock'', BidiStreaming)]"

definition SecretsServiceClient :: "(string \<times> call_kind) list" where
  "SecretsServiceClient =
     [(''getSecret'', Unary),
      (''watchSecret'', ServerStreaming),
      (''getConfig'', Unary),
      (''getServiceConfig'', Unary),
      (''watchServiceConfig'', ServerStreaming),
      (''getServiceBundle'', Unary),
      (''watchServiceBundle'', ServerStreaming),
      (''acquireRestartLock'', BidiStreaming)]"

definition SecretsServiceClient_serviceName :: string where
  "SecretsServiceClient_serviceName = ''signet.v1.SecretsService''"

lemmas SecretsService_defs =
      SecretsService_getSecret_def SecretsService_watchSecret_def SecretsService_getConfig_def
      SecretsService_getServiceConfig_def SecretsService_watchServiceConfig_def
      SecretsService_getServiceBundle_def SecretsService_watchServiceBundle_def
      SecretsService_acquireRestartLock_def

lemmas SecretsService_calls =
      SecretsService_getSecret_rpc.calls SecretsService_watchSecret_rpc.calls
      SecretsService_getConfig_rpc.calls SecretsService_getServiceConfig_rpc.calls
      SecretsService_watchServiceConfig_rpc.calls SecretsService_getServiceBundle_rpc.calls
      SecretsService_watchServiceBundle_rpc.calls SecretsService_acquireRestartLock_rpc.calls

lemma SecretsService_entries:
  "SecretsServiceService W =
     [(''getSecret'', ''/signet.v1.SecretsService/GetSecret'', Unary),
      (''watchSecret'', ''/signet.v1.SecretsService/WatchSecret'', ServerStreaming),
      (''getConfig'', ''/signet.v1.SecretsService/GetConfig'', Unary),
      (''getServiceConfig'', ''/signet.v1.SecretsService/GetServiceConfig'', Unary),
      (''watchServiceConfig'', ''/signet.v1.SecretsService/WatchServiceConfig'', ServerStreaming),
      (''getServiceBundle'', ''/signet.v1.SecretsService/GetServiceBundle'', Unary),
      (''watchServiceBundle'', ''/signet.v1.SecretsService/WatchServiceBundle'', ServerStreaming),
      (''acquireRestartLock'', ''/signet.v1.SecretsService/AcquireRestartLock'', BidiStreaming)]"
  by (simp add: SecretsServiceService_def SecretsService_defs kind_of_def)

lemma SecretsService_declared:
  "map (\<lambda>(n, p, k). (n, k)) (SecretsServiceService W) = SecretsServiceServer" "SecretsServiceClient = SecretsServiceServer"
  by (simp_all add: SecretsService_entries SecretsServiceServer_def SecretsServiceClient_def)

lemma SecretsService_paths:
  "\<forall>(n, p, k) \<in> set (SecretsServiceService W). path_of SecretsServiceClient_serviceName p"
  by (simp add: SecretsService_entries SecretsServiceClient_serviceName_def path_of_split)

end
