(* ===== verification/JsNumber.thy ===== *)
theory JsNumber
  imports JsValue
begin

text \<open>
  The numbers of the language as the 64 bits of a double, as far as the JSON functions of
  \<open>src/gen\<close> need them: which integer a double is, the double of a safe integer, and when a
  number counts as true.
\<close>

section \<open>Sign, exponent, fraction\<close>

definition exponent_bits :: "64 word \<Rightarrow> nat" where
  "exponent_bits w = unat w div 2 ^ 52 mod 2048"

definition fraction_bits :: "64 word \<Rightarrow> nat" where
  "fraction_bits w = unat w mod 2 ^ 52"

definition negative_bit :: "64 word \<Rightarrow> bool" where
  "negative_bit w \<longleftrightarrow> 2 ^ 63 \<le> unat w"

definition significand :: "64 word \<Rightarrow> nat" where
  "significand w = (if exponent_bits w = 0 then fraction_bits w else 2 ^ 52 + fraction_bits w)"

definition is_nan :: "64 word \<Rightarrow> bool" where
  "is_nan w \<longleftrightarrow> exponent_bits w = 2047 \<and> fraction_bits w \<noteq> 0"

text \<open>The magnitude of an integral double; \<open>None\<close> for a fraction, an infinity or \<open>NaN\<close>.\<close>

definition integral_magnitude :: "64 word \<Rightarrow> nat option" where
  "integral_magnitude w =
     (let e = exponent_bits w; m = significand w
      in if e = 2047 then None
         else if 1075 \<le> e then Some (m * 2 ^ (e - 1075))
         else if 2 ^ (1075 - max 1 e) dvd m then Some (m div 2 ^ (1075 - max 1 e))
         else None)"

definition int_of_double :: "64 word \<Rightarrow> int option" where
  "int_of_double w =
     map_option (\<lambda>k. if negative_bit w then - int k else int k) (integral_magnitude w)"

section \<open>The double of a safe integer\<close>

fun binary_log :: "nat \<Rightarrow> nat" where
  "binary_log k = (if k \<le> 1 then 0 else Suc (binary_log (k div 2)))"

declare binary_log.simps [simp del]

definition double_of_int :: "int \<Rightarrow> 64 word" where
  "double_of_int i =
     (if i = 0 then 0
      else (let k = nat \<bar>i\<bar>; b = binary_log k
            in of_nat ((if i < 0 then 2 ^ 63 else 0) + (b + 1023) * 2 ^ 52 + (k * 2 ^ (52 - b) - 2 ^ 52))))"

definition safe_int :: "int \<Rightarrow> bool" where
  "safe_int i \<longleftrightarrow> \<bar>i\<bar> < 2 ^ 53"

lemma binary_log_bounds: "k \<noteq> 0 \<Longrightarrow> 2 ^ binary_log k \<le> k \<and> k < 2 ^ Suc (binary_log k)"
proof (induction k rule: binary_log.induct)
  case (1 k)
  show ?case
  proof (cases "k \<le> 1")
    case True
    then show ?thesis using 1 by (simp add: binary_log.simps)
  next
    case False
    then have ih: "2 ^ binary_log (k div 2) \<le> k div 2" "k div 2 < 2 ^ Suc (binary_log (k div 2))"
      using 1 by auto
    moreover have "binary_log k = Suc (binary_log (k div 2))" using False by (subst binary_log.simps) simp
    moreover have "k div 2 * 2 \<le> k" "k < k div 2 * 2 + 2" by linarith+
    moreover have "2 ^ binary_log k = 2 * (2 :: nat) ^ binary_log (k div 2)"
      using calculation(3) by simp
    ultimately show ?thesis by simp
  qed
qed

lemma binary_log_less: "k \<noteq> 0 \<Longrightarrow> k < 2 ^ n \<Longrightarrow> binary_log k < n"
proof (rule ccontr)
  assume k: "k \<noteq> 0" "k < 2 ^ n" and "\<not> binary_log k < n"
  then have "(2 :: nat) ^ n \<le> 2 ^ binary_log k" by (intro power_increasing) auto
  with binary_log_bounds [OF k(1)] k(2) show False by linarith
qed

lemma scaled_bounds:
  assumes "k \<noteq> 0" and "k < (2 :: nat) ^ 53"
  shows "2 ^ 52 \<le> k * 2 ^ (52 - binary_log k)" and "k * 2 ^ (52 - binary_log k) < 2 ^ 53"
proof -
  let ?b = "binary_log k"
  have b: "?b \<le> 52" using binary_log_less [OF assms] by simp
  have "(2 :: nat) ^ ?b * 2 ^ (52 - ?b) = 2 ^ 52" "(2 :: nat) ^ Suc ?b * 2 ^ (52 - ?b) = 2 ^ 53"
    using b by (simp_all flip: power_add)
  moreover have "2 ^ ?b * 2 ^ (52 - ?b) \<le> k * 2 ^ (52 - ?b)"
    using binary_log_bounds [OF assms(1)] by (intro mult_right_mono) auto
  moreover have "k * 2 ^ (52 - ?b) < 2 ^ Suc ?b * 2 ^ (52 - ?b)"
    using binary_log_bounds [OF assms(1)] by (intro mult_strict_right_mono) auto
  ultimately show "2 ^ 52 \<le> k * 2 ^ (52 - ?b)" "k * 2 ^ (52 - ?b) < 2 ^ 53" by linarith+
qed

lemma double_fields:
  assumes "s \<le> 1" and "e < 2048" and "f < 2 ^ 52"
  defines "n \<equiv> s * 2 ^ 63 + e * 2 ^ 52 + f"
  shows "unat (of_nat n :: 64 word) = n" and "n div 2 ^ 52 mod 2048 = e" and "n mod 2 ^ 52 = f"
    and "2 ^ 63 \<le> n \<longleftrightarrow> s = 1"
proof -
  have e: "e * 2 ^ 52 \<le> 2047 * 2 ^ 52" using assms(2) by simp
  have lt: "e * 2 ^ 52 + f < 2 ^ 63" using e assms(3) by simp
  then have "n < 2 ^ 64" using assms(1) by (simp add: n_def)
  then show "unat (of_nat n :: 64 word) = n" by (simp add: unat_of_nat)
  have n: "n = f + 2 ^ 52 * (2048 * s + e)" by (simp add: n_def)
  show "n mod 2 ^ 52 = f" unfolding n using assms(3) by (simp only: mod_mult_self2 mod_less)
  have "n div 2 ^ 52 = 2048 * s + e" unfolding n using assms(3) by (simp add: div_mult_self2)
  then show "n div 2 ^ 52 mod 2048 = e" using assms(2) by simp
  show "2 ^ 63 \<le> n \<longleftrightarrow> s = 1" using lt assms(1) by (cases "s = 0") (auto simp: n_def)
qed

lemma int_of_double_of_int:
  assumes "safe_int i"
  shows "int_of_double (double_of_int i) = Some i"
proof (cases "i = 0")
  case True
  then show ?thesis
    by (simp add: double_of_int_def int_of_double_def integral_magnitude_def exponent_bits_def
        significand_def fraction_bits_def)
next
  case False
  define k where "k = nat \<bar>i\<bar>"
  define b where "b = binary_log k"
  define m where "m = k * 2 ^ (52 - b)"
  have k: "k \<noteq> 0" "k < 2 ^ 53" using assms False by (auto simp: k_def safe_int_def nat_less_iff)
  have b: "b \<le> 52" using binary_log_less [OF k] by (simp add: b_def)
  have m: "2 ^ 52 \<le> m" "m < 2 ^ 53" using scaled_bounds [OF k] by (simp_all add: m_def b_def)
  define s :: nat where "s = (if i < 0 then 1 else 0)"
  have d: "double_of_int i = of_nat (s * 2 ^ 63 + (b + 1023) * 2 ^ 52 + (m - 2 ^ 52))"
    using False by (simp add: double_of_int_def k_def [symmetric] b_def [symmetric] m_def [symmetric]
        s_def Let_def del: of_nat_add of_nat_mult)
  have f: "s \<le> 1" "b + 1023 < 2048" "m - 2 ^ 52 < 2 ^ 52" using b m by (simp_all add: s_def)
  note fields = double_fields [OF f]
  have e: "exponent_bits (double_of_int i) = b + 1023" and fr: "fraction_bits (double_of_int i) = m - 2 ^ 52"
    and neg: "negative_bit (double_of_int i) \<longleftrightarrow> i < 0"
    using fields by (simp_all only: d exponent_bits_def fraction_bits_def negative_bit_def)
       (simp add: s_def)
  have sig: "significand (double_of_int i) = m" using m by (simp add: significand_def e fr)
  have "1075 - max 1 (b + 1023) = 52 - b" by simp
  moreover have "2 ^ (52 - b) dvd m" "m div 2 ^ (52 - b) = k" by (simp_all add: m_def)
  moreover have "b = 52 \<Longrightarrow> m = k" by (simp add: m_def)
  ultimately have "integral_magnitude (double_of_int i) = Some k"
    using b by (auto simp: integral_magnitude_def e sig Let_def)
  then show ?thesis using False by (auto simp: int_of_double_def neg k_def)
qed

lemma double_of_int_inj: "safe_int i \<Longrightarrow> safe_int j \<Longrightarrow> double_of_int i = double_of_int j \<longleftrightarrow> i = j"
  using int_of_double_of_int by (metis option.inject)

end
