(* ===== verification/JsonCodec.thy ===== *)
theory JsonCodec
  imports JsNumber TimestampCodec Bytes
begin

text \<open>
  What \<open>fromJSON\<close>, \<open>toJSON\<close>, \<open>fromPartial\<close> and \<open>create\<close> of every message in \<open>src/gen\<close> are made
  of: reading a property under one of its two names, the conversions of the language, the object
  that holds only what differs from the default, and the contract of a message's two JSON
  functions.
\<close>

section \<open>The language's conversions\<close>

text \<open>
  \<open>TypeError\<close> and \<open>RangeError\<close> are thrown. \<open>Unrepresentable\<close> is no exception of the code: the
  code stores a value the field's type does not allow (a number that is not an integer, an array
  where an object is expected), which the model's records cannot hold.

  The conversions are those of the language where they are one line; the rest of them are fields
  of \<open>json_lang\<close>: \<open>string_of\<close> and \<open>number_of\<close> are \<open>String(v)\<close> and \<open>Number(v)\<close> for the other values,
  \<open>boolean_of\<close> is \<open>Boolean(v)\<close> of a value that is neither primitive nor an object, \<open>member_of\<close> a
  property a value that is not a plain object inherits, \<open>buffer_of\<close> is \<open>Buffer.from(v, "base64")\<close>,
  \<open>parse_date\<close> is \<open>new Date(s)\<close> of a string, \<open>iso_string\<close> is \<open>toISOString()\<close> of a valid date.
\<close>

datatype json_error = TypeError | RangeError | Unrepresentable

record json_lang =
  string_of :: "js \<Rightarrow> json_error + string"
  number_of :: "js \<Rightarrow> json_error + 64 word"
  boolean_of :: "string \<Rightarrow> bool"
  member_of :: "js \<Rightarrow> string \<Rightarrow> js"
  buffer_of :: "js \<Rightarrow> json_error + byte list"
  parse_date :: "string \<Rightarrow> date"
  iso_string :: "int \<Rightarrow> string"

text \<open>Base64 and ISO strings are read back as what they were written from.\<close>

definition lang_ok :: "json_lang \<Rightarrow> bool" where
  "lang_ok L \<longleftrightarrow>
     (\<forall>b. buffer_of L (JString (base64 b)) = Inr b) \<and>
     (\<forall>ms. valid_date (Date ms) \<longrightarrow> parse_date L (iso_string L ms) = Date ms)"

definition js_string :: "json_lang \<Rightarrow> js \<Rightarrow> json_error + string" where
  "js_string L v =
     (case v of
        JString s \<Rightarrow> Inr s
      | JBool x \<Rightarrow> Inr (if x then ''true'' else ''false'')
      | JNull \<Rightarrow> Inr ''null''
      | JUndefined \<Rightarrow> Inr ''undefined''
      | _ \<Rightarrow> string_of L v)"

definition js_number :: "json_lang \<Rightarrow> js \<Rightarrow> json_error + 64 word" where
  "js_number L v =
     (case v of
        JNumber w \<Rightarrow> Inr w
      | JBool x \<Rightarrow> Inr (double_of_int (if x then 1 else 0))
      | JNull \<Rightarrow> Inr 0
      | _ \<Rightarrow> number_of L v)"

text \<open>\<open>Number(v)\<close> for a field of an integer type.\<close>

definition js_int :: "json_lang \<Rightarrow> js \<Rightarrow> json_error + int" where
  "js_int L v = bindE (js_number L v)
     (\<lambda>w. case int_of_double w of None \<Rightarrow> Inl Unrepresentable | Some i \<Rightarrow> Inr i)"

definition js_boolean :: "json_lang \<Rightarrow> js \<Rightarrow> bool" where
  "js_boolean L v =
     (case v of
        JUndefined \<Rightarrow> False
      | JNull \<Rightarrow> False
      | JBool x \<Rightarrow> x
      | JNumber w \<Rightarrow> \<not> (int_of_double w = Some 0 \<or> is_nan w)
      | JString s \<Rightarrow> s \<noteq> ''''
      | JArray xs \<Rightarrow> True
      | JObject ob \<Rightarrow> True
      | JOther t \<Rightarrow> boolean_of L t)"

definition bytesFromBase64 :: "json_lang \<Rightarrow> js \<Rightarrow> json_error + byte list" where
  "bytesFromBase64 L v = buffer_of L v"

definition base64FromBytes :: "byte list \<Rightarrow> string" where
  "base64FromBytes b = base64 b"

definition isSet :: "js \<Rightarrow> bool" where
  "isSet v \<longleftrightarrow> v \<noteq> JNull \<and> v \<noteq> JUndefined"

definition isObject :: "js \<Rightarrow> bool" where
  "isObject v \<longleftrightarrow>
     (case v of JObject ob \<Rightarrow> True | JArray xs \<Rightarrow> True | _ \<Rightarrow> False)"

text \<open>The labels \<open>case i: case "s":\<close> of a \<open>switch\<close>.\<close>

definition case_label :: "int \<Rightarrow> string \<Rightarrow> js \<Rightarrow> bool" where
  "case_label i s v \<longleftrightarrow>
     (case v of JNumber w \<Rightarrow> int_of_double w = Some i | JString t \<Rightarrow> t = s | _ \<Rightarrow> False)"

section \<open>Properties\<close>

text \<open>\<open>v.name\<close>, and \<open>v?.name\<close>, which does not throw.\<close>

definition lookup :: "string \<Rightarrow> obj \<Rightarrow> js" where
  "lookup name ob = (case map_of ob name of None \<Rightarrow> JUndefined | Some v \<Rightarrow> v)"

definition member :: "json_lang \<Rightarrow> string \<Rightarrow> js \<Rightarrow> json_error + js" where
  "member L name v =
     (case v of
        JObject ob \<Rightarrow> Inr (lookup name ob)
      | JNull \<Rightarrow> Inl TypeError
      | JUndefined \<Rightarrow> Inl TypeError
      | _ \<Rightarrow> Inr (member_of L v name))"

definition optional_member :: "json_lang \<Rightarrow> string \<Rightarrow> js \<Rightarrow> json_error + js" where
  "optional_member L name v = (if isSet v then member L name v else Inr JUndefined)"

text \<open>\<open>c(v) ? conv(v) : rest\<close>.\<close>

definition pick_if :: "(js \<Rightarrow> bool) \<Rightarrow> (js \<Rightarrow> json_error + 'v) \<Rightarrow> js \<Rightarrow> json_error + 'v \<Rightarrow> json_error + 'v" where
  "pick_if c conv v rest = (if c v then conv v else rest)"

text \<open>A field read under its names, the first that is set.\<close>

fun set_field ::
  "json_lang \<Rightarrow> (js \<Rightarrow> json_error + 'v) \<Rightarrow> 'v \<Rightarrow> string list \<Rightarrow> js \<Rightarrow> json_error + 'v" where
  "set_field L conv dflt [] ob = Inr dflt"
| "set_field L conv dflt (n # ns) ob =
     bindE (member L n ob) (\<lambda>v. pick_if isSet conv v (set_field L conv dflt ns ob))"

definition some_of :: "(js \<Rightarrow> json_error + 'v) \<Rightarrow> js \<Rightarrow> json_error + 'v option" where
  "some_of conv v = bindE (conv v) (\<lambda>x. Inr (Some x))"

text \<open>A field of a structure type: kept if it is an object.\<close>

definition as_obj :: "js \<Rightarrow> json_error + obj option" where
  "as_obj v = (case v of JObject ob \<Rightarrow> Inr (Some ob) | _ \<Rightarrow> Inl Unrepresentable)"

fun object_field :: "json_lang \<Rightarrow> string list \<Rightarrow> js \<Rightarrow> json_error + obj option" where
  "object_field L [] ob = Inr None"
| "object_field L (n # ns) ob =
     bindE (member L n ob) (\<lambda>v. pick_if isObject as_obj v (object_field L ns ob))"

text \<open>A field of any type.\<close>

definition any_field_of :: "json_lang \<Rightarrow> string \<Rightarrow> js \<Rightarrow> json_error + js" where
  "any_field_of L n ob = bindE (optional_member L n ob) (\<lambda>v. pick_if isSet Inr v (Inr JUndefined))"

text \<open>\<open>mapE\<close> is \<open>map\<close> with a function that may throw.\<close>

fun mapE :: "('a \<Rightarrow> 'e + 'b) \<Rightarrow> 'a list \<Rightarrow> 'e + 'b list" where
  "mapE f [] = Inr []"
| "mapE f (x # xs) = bindE (f x) (\<lambda>y. bindE (mapE f xs) (\<lambda>ys. Inr (y # ys)))"

definition is_array :: "js \<Rightarrow> bool" where
  "is_array v \<longleftrightarrow> (case v of JArray xs \<Rightarrow> True | _ \<Rightarrow> False)"

definition map_array :: "(js \<Rightarrow> json_error + 'v) \<Rightarrow> js \<Rightarrow> json_error + 'v list" where
  "map_array conv v = (case v of JArray xs \<Rightarrow> mapE conv xs | _ \<Rightarrow> Inr [])"

fun array_field ::
  "json_lang \<Rightarrow> (js \<Rightarrow> json_error + 'v) \<Rightarrow> string list \<Rightarrow> js \<Rightarrow> json_error + 'v list" where
  "array_field L conv [] ob = Inr []"
| "array_field L conv (n # ns) ob =
     bindE (optional_member L n ob) (\<lambda>v. pick_if is_array (map_array conv) v (array_field L conv ns ob))"

text \<open>\<open>fromJsonTimestamp\<close>, on a value that is not already a \<open>Date\<close>.\<close>

definition Timestamp_fromJSON :: "json_lang \<Rightarrow> js \<Rightarrow> json_error + Timestamp" where
  "Timestamp_fromJSON L object =
     bindE (set_field L (js_int L) 0 [''seconds''] object) (\<lambda>seconds.
     bindE (set_field L (js_int L) 0 [''nanos''] object) (\<lambda>nanos.
       Inr \<lparr>Timestamp_seconds = seconds, Timestamp_nanos = nanos\<rparr>))"

definition fromJsonTimestamp :: "json_lang \<Rightarrow> js \<Rightarrow> json_error + date" where
  "fromJsonTimestamp L v =
     (case v of
        JString s \<Rightarrow> Inr (parse_date L s)
      | _ \<Rightarrow> bindE (Timestamp_fromJSON L v) (\<lambda>t. Inr (fromTimestamp t)))"

section \<open>toJSON\<close>

text \<open>
  The value of a field's property; \<open>JUndefined\<close> stands for no property at all, since no field that
  is written holds \<open>undefined\<close>. Only dates may throw.
\<close>

definition string_json :: "string \<Rightarrow> js" where
  "string_json s = (if s \<noteq> '''' then JString s else JUndefined)"

text \<open>\<open>Math.round\<close> leaves an integer as it is.\<close>

definition int_json :: "int \<Rightarrow> js" where
  "int_json i = (if i \<noteq> 0 then JNumber (double_of_int i) else JUndefined)"

definition enum_json :: "(int \<Rightarrow> string) \<Rightarrow> int \<Rightarrow> js" where
  "enum_json name i = (if i \<noteq> 0 then JString (name i) else JUndefined)"

definition bool_json :: "bool \<Rightarrow> js" where
  "bool_json x = (if x \<noteq> False then JBool x else JUndefined)"

definition bytes_json :: "byte list \<Rightarrow> js" where
  "bytes_json b = (if length b \<noteq> 0 then JString (base64FromBytes b) else JUndefined)"

definition opt_bytes_json :: "byte list option \<Rightarrow> js" where
  "opt_bytes_json x = (case x of None \<Rightarrow> JUndefined | Some b \<Rightarrow> JString (base64FromBytes b))"

definition opt_obj_json :: "obj option \<Rightarrow> js" where
  "opt_obj_json x = (case x of None \<Rightarrow> JUndefined | Some ob \<Rightarrow> JObject ob)"

definition strings_json :: "string list \<Rightarrow> js" where
  "strings_json xs = (if length xs \<noteq> 0 then JArray (map JString xs) else JUndefined)"

definition opt_json :: "('v \<Rightarrow> json_error + js) \<Rightarrow> 'v option \<Rightarrow> json_error + js" where
  "opt_json conv x = (case x of None \<Rightarrow> Inr JUndefined | Some v \<Rightarrow> conv v)"

definition list_json :: "('v \<Rightarrow> json_error + js) \<Rightarrow> 'v list \<Rightarrow> json_error + js" where
  "list_json conv xs = (if length xs \<noteq> 0 then bindE (mapE conv xs) (\<lambda>ys. Inr (JArray ys)) else Inr JUndefined)"

text \<open>\<open>date.toISOString()\<close>.\<close>

definition date_json :: "json_lang \<Rightarrow> date \<Rightarrow> json_error + js" where
  "date_json L d = (case d of InvalidDate \<Rightarrow> Inl RangeError | Date ms \<Rightarrow> Inr (JString (iso_string L ms)))"

fun collect :: "(string \<times> (json_error + js)) list \<Rightarrow> json_error + obj" where
  "collect [] = Inr []"
| "collect ((k, r) # rs) = bindE r (\<lambda>v. bindE (collect rs) (\<lambda>ob. Inr ((k, v) # ob)))"

definition present :: "obj \<Rightarrow> obj" where
  "present ob = filter (\<lambda>(k, v). v \<noteq> JUndefined) ob"

definition json_object :: "(string \<times> (json_error + js)) list \<Rightarrow> json_error + js" where
  "json_object rs = bindE (collect rs) (\<lambda>ob. Inr (JObject (present ob)))"

section \<open>fromPartial\<close>

text \<open>
  A partial message gives an option for each of its fields, \<open>None\<close> for a property that is absent,
  \<open>undefined\<close> or \<open>null\<close>; this is \<open>x ?? dflt\<close>.
\<close>

definition or_default :: "'v \<Rightarrow> 'v option \<Rightarrow> 'v" where
  "or_default dflt x = (case x of None \<Rightarrow> dflt | Some v \<Rightarrow> v)"

text \<open>
  \<open>create\<close> without an argument gives the default message, with one it is \<open>fromPartial\<close>; and
  \<open>fromPartial\<close> of a complete message is that message.
\<close>

definition partial_faithful ::
  "('p option \<Rightarrow> 'm) \<Rightarrow> ('p \<Rightarrow> 'm) \<Rightarrow> ('m \<Rightarrow> 'p) \<Rightarrow> 'm \<Rightarrow> ('m \<Rightarrow> bool) \<Rightarrow> bool" where
  "partial_faithful create from_partial as_partial base ok \<longleftrightarrow>
     create None = base \<and> (\<forall>p. create (Some p) = from_partial p) \<and>
     (\<forall>m. ok m \<longrightarrow> from_partial (as_partial m) = m)"

text \<open>\<open>x ?? undefined\<close> for a field of any type.\<close>

definition any_or_undefined :: "js \<Rightarrow> js" where
  "any_or_undefined v = (if isSet v then v else JUndefined)"

lemma any_or_undefined_id: "v \<noteq> JNull \<Longrightarrow> any_or_undefined v = v"
  by (simp add: any_or_undefined_def isSet_def)

lemma or_default_simps: "or_default d (Some v) = v" "or_default d None = d"
  by (simp_all add: or_default_def)

lemma any_or_undefined_undefined: "any_or_undefined JUndefined = JUndefined"
  by (simp add: any_or_undefined_def)

lemma null_dropped: "any_or_undefined JNull = JUndefined" "pick_if isSet Inr JNull rest = rest"
  by (simp_all add: any_or_undefined_def pick_if_def isSet_def)

lemmas partial_simps = any_or_undefined_id any_or_undefined_undefined or_default_simps option.map_ident_strong
  list.map_ident_strong list_all_iff

section \<open>What was written is read back\<close>

lemma pick_if_undefined [simp]:
  "pick_if isSet conv JUndefined rest = rest" "pick_if isObject as_obj JUndefined rest' = rest'"
  "pick_if is_array conv' JUndefined rest'' = rest''"
  by (simp_all add: pick_if_def isSet_def isObject_def is_array_def)

lemma member_present:
  "member L n (JObject (present [])) = Inr JUndefined"
  "member L n (JObject (present kvs)) = Inr JUndefined \<Longrightarrow>
     member L n (JObject (present ((n, v) # kvs))) = Inr v"
  "n \<noteq> k \<Longrightarrow> member L n (JObject (present ((k, v) # kvs))) = member L n (JObject (present kvs))"
  by (auto simp: member_def present_def lookup_def)

lemma optional_member_object: "optional_member L n (JObject ob) = member L n (JObject ob)"
  by (simp add: optional_member_def isSet_def)

lemma scalars_back:
  "pick_if isSet (js_string L) (string_json s) (Inr '''') = Inr s"
  "safe_int i \<Longrightarrow> pick_if isSet (js_int L) (int_json i) (Inr 0) = Inr i"
  "pick_if isSet (\<lambda>v. Inr (js_boolean L v)) (bool_json x) (Inr False) = Inr x"
  "v \<noteq> JNull \<Longrightarrow> pick_if isSet Inr v (Inr JUndefined) = Inr v"
  "pick_if isObject as_obj (opt_obj_json x') (Inr None) = Inr x'"
  by (auto simp: pick_if_def isSet_def isObject_def string_json_def int_json_def bool_json_def
      opt_obj_json_def as_obj_def js_string_def js_int_def js_number_def js_boolean_def
      int_of_double_of_int split: option.split)

lemma enum_back:
  "parse (JString (name i)) = i \<Longrightarrow> pick_if isSet (\<lambda>v. Inr (parse v)) (enum_json name i) (Inr 0) = Inr i"
  by (simp add: pick_if_def isSet_def enum_json_def)

lemma bytes_back:
  assumes "lang_ok L"
  shows "pick_if isSet (bytesFromBase64 L) (bytes_json b) (Inr []) = Inr b"
    and "pick_if isSet (some_of (bytesFromBase64 L)) (opt_bytes_json x) (Inr None) = Inr x"
  using assms
  by (auto simp: lang_ok_def pick_if_def isSet_def bytes_json_def opt_bytes_json_def bytesFromBase64_def
      base64FromBytes_def some_of_def split: option.split)

lemma mapE_js_string: "mapE (js_string L) (map JString xs) = Inr xs"
  by (induction xs) (simp_all add: js_string_def)

lemma strings_back: "pick_if is_array (map_array (js_string L)) (strings_json xs) (Inr []) = Inr xs"
  by (auto simp: pick_if_def strings_json_def is_array_def map_array_def mapE_js_string)

lemma date_back:
  assumes "lang_ok L" and "pred_option valid_date x"
  obtains v where "opt_json (date_json L) x = Inr v"
    and "pick_if isSet (some_of (fromJsonTimestamp L)) v (Inr None) = Inr x"
proof (cases x)
  case None
  then show thesis using that [of JUndefined] by (simp add: opt_json_def)
next
  case (Some d)
  then obtain ms where d: "d = Date ms" using assms(2) by (cases d) (auto simp: valid_date_def)
  then have "parse_date L (iso_string L ms) = d" using assms Some by (simp add: lang_ok_def)
  then show thesis
    using that [of "JString (iso_string L ms)"] Some d
    by (simp add: opt_json_def date_json_def pick_if_def isSet_def some_of_def fromJsonTimestamp_def)
qed

lemmas json_back = member_present optional_member_object scalars_back strings_back
  json_object_def any_field_of_def

section \<open>The contract of a message\<close>

definition json_faithful ::
  "json_lang \<Rightarrow> (json_lang \<Rightarrow> 'm \<Rightarrow> json_error + js) \<Rightarrow> (json_lang \<Rightarrow> js \<Rightarrow> json_error + 'm) \<Rightarrow>
   ('m \<Rightarrow> bool) \<Rightarrow> bool" where
  "json_faithful L to_json from_json ok \<longleftrightarrow>
     (\<forall>m. ok m \<longrightarrow> (\<exists>ob. to_json L m = Inr (JObject ob) \<and> from_json L (JObject ob) = Inr m))"

locale json_message =
  fixes to_json :: "json_lang \<Rightarrow> 'm \<Rightarrow> json_error + js"
    and from_json :: "json_lang \<Rightarrow> js \<Rightarrow> json_error + 'm"
    and ok :: "'m \<Rightarrow> bool"
  assumes reads_back:
    "lang_ok L \<Longrightarrow> ok m \<Longrightarrow> \<exists>ob. to_json L m = Inr (JObject ob) \<and> from_json L (JObject ob) = Inr m"
begin

lemma faithful: "lang_ok L \<Longrightarrow> json_faithful L to_json from_json ok"
  unfolding json_faithful_def using reads_back by blast

lemma injective:
  assumes "lang_ok L" and "ok m" and "ok m'" and "to_json L m = to_json L m'"
  shows "m = m'"
  using reads_back [OF assms(1,2)] reads_back [OF assms(1,3)] assms(4) by auto

lemma mapE_back:
  "lang_ok L \<Longrightarrow> list_all ok ms \<Longrightarrow> \<exists>vs. mapE (to_json L) ms = Inr vs \<and> mapE (from_json L) vs = Inr ms"
proof (induction ms)
  case (Cons m ms)
  then obtain vs where "mapE (to_json L) ms = Inr vs" "mapE (from_json L) vs = Inr ms" by auto
  moreover obtain ob where "to_json L m = Inr (JObject ob)" "from_json L (JObject ob) = Inr m"
    using reads_back [of L m] Cons.prems by auto
  ultimately show ?case by simp
qed simp

lemma list_back:
  assumes "lang_ok L" and "list_all ok ms"
  obtains v where "list_json (to_json L) ms = Inr v"
    and "pick_if is_array (map_array (from_json L)) v (Inr []) = Inr ms"
proof (cases "ms = []")
  case True
  then show thesis using that [of JUndefined] by (simp add: list_json_def)
next
  case False
  obtain vs where "mapE (to_json L) ms = Inr vs" "mapE (from_json L) vs = Inr ms"
    using mapE_back [OF assms] by blast
  then show thesis
    using that [of "JArray vs"] False by (simp add: list_json_def pick_if_def is_array_def map_array_def)
qed

lemma opt_back:
  assumes "lang_ok L" and "pred_option ok x"
  obtains v where "opt_json (to_json L) x = Inr v"
    and "pick_if isSet (some_of (from_json L)) v (Inr None) = Inr x"
proof (cases x)
  case None
  then show thesis using that [of JUndefined] by (simp add: opt_json_def)
next
  case (Some m)
  then obtain ob where "to_json L m = Inr (JObject ob)" "from_json L (JObject ob) = Inr m"
    using reads_back [of L m] assms by auto
  then show thesis
    using that [of "JObject ob"] Some by (simp add: opt_json_def pick_if_def isSet_def some_of_def)
qed

end

end
