(* ===== verification/StructJson.thy ===== *)
theory StructJson
  imports StructCodec JsonCodec
begin

text \<open>
  \<open>fromJSON\<close>, \<open>toJSON\<close>, \<open>fromPartial\<close> and \<open>create\<close> of \<open>Value\<close>, \<open>Struct\<close>, its map entries and
  \<open>ListValue\<close> (\<open>src/gen/google/protobuf/struct.ts\<close>) and of \<open>Timestamp\<close>
  (\<open>src/gen/google/protobuf/timestamp.ts\<close>), over the combinators of \<open>JsonCodec\<close>.
\<close>

section \<open>NullValue\<close>

definition NullValue_values :: "int list" where
  "NullValue_values = [0, -1]"

definition nullValueFromJSON :: "js \<Rightarrow> int" where
  "nullValueFromJSON v = (if case_label 0 ''NULL_VALUE'' v then 0 else -1)"

definition nullValueToJSON :: "int \<Rightarrow> string" where
  "nullValueToJSON i = (if i = 0 then ''NULL_VALUE'' else ''UNRECOGNIZED'')"

lemma nullValue_back: "i \<in> set NullValue_values \<Longrightarrow> nullValueFromJSON (JString (nullValueToJSON i)) = i"
  by (auto simp: NullValue_values_def nullValueFromJSON_def nullValueToJSON_def case_label_def)

section \<open>Value\<close>

definition as_list :: "js \<Rightarrow> json_error + js list option" where
  "as_list v = (case v of JArray xs \<Rightarrow> Inr (Some xs) | _ \<Rightarrow> Inr None)"

text \<open>\<open>Array.isArray(o.n) ? [...o.n] : \<dots>\<close>.\<close>

fun plain_array_field :: "json_lang \<Rightarrow> string list \<Rightarrow> js \<Rightarrow> json_error + js list option" where
  "plain_array_field L [] ob = Inr None"
| "plain_array_field L (n # ns) ob =
     bindE (member L n ob) (\<lambda>v. pick_if is_array as_list v (plain_array_field L ns ob))"

definition Value_fromJSON :: "json_lang \<Rightarrow> js \<Rightarrow> json_error + Value" where
  "Value_fromJSON L object =
     bindE (set_field L (\<lambda>v. Inr (Some (nullValueFromJSON v))) None [''nullValue'', ''null_value''] object) (\<lambda>v1.
     bindE (set_field L (some_of (js_number L)) None [''numberValue'', ''number_value''] object) (\<lambda>v2.
     bindE (set_field L (some_of (js_string L)) None [''stringValue'', ''string_value''] object) (\<lambda>v3.
     bindE (set_field L (\<lambda>v. Inr (Some (js_boolean L v))) None [''boolValue'', ''bool_value''] object) (\<lambda>v4.
     bindE (object_field L [''structValue'', ''struct_value''] object) (\<lambda>v5.
     bindE (plain_array_field L [''listValue'', ''list_value''] object) (\<lambda>v6.
       Inr \<lparr>nullValue = v1, numberValue = v2, stringValue = v3, boolValue = v4,
            structValue = v5, listValue = v6\<rparr>))))))"

text \<open>A property that is written unless it is \<open>undefined\<close>.\<close>

definition opt_value_json :: "('v \<Rightarrow> js) \<Rightarrow> 'v option \<Rightarrow> js" where
  "opt_value_json conv x = (case x of None \<Rightarrow> JUndefined | Some v \<Rightarrow> conv v)"

definition Value_toJSON :: "json_lang \<Rightarrow> Value \<Rightarrow> json_error + js" where
  "Value_toJSON L m = json_object
     [(''nullValue'', Inr (opt_value_json (\<lambda>i. JString (nullValueToJSON i)) (nullValue m))),
      (''numberValue'', Inr (opt_value_json JNumber (numberValue m))),
      (''stringValue'', Inr (opt_value_json JString (stringValue m))),
      (''boolValue'', Inr (opt_value_json JBool (boolValue m))),
      (''structValue'', Inr (opt_obj_json (structValue m))),
      (''listValue'', Inr (opt_value_json JArray (listValue m)))]"

type_synonym Value_partial =
  "int option \<times> 64 word option \<times> string option \<times> bool option \<times> obj option \<times> js list option"

definition Value_fromPartial :: "Value_partial \<Rightarrow> Value" where
  "Value_fromPartial object =
     (case object of (p1, p2, p3, p4, p5, p6) \<Rightarrow>
       \<lparr>nullValue = p1, numberValue = p2, stringValue = p3, boolValue = p4, structValue = p5,
        listValue = p6\<rparr>)"

definition Value_create :: "Value_partial option \<Rightarrow> Value" where
  "Value_create base = Value_fromPartial (or_default (None, None, None, None, None, None) base)"

definition json_ok_Value :: "Value \<Rightarrow> bool" where
  "json_ok_Value m \<longleftrightarrow> pred_option (\<lambda>i. i \<in> set NullValue_values) (nullValue m)"

lemma opt_values_back:
  "pick_if isSet (some_of (js_number L)) (opt_value_json JNumber x1) (Inr None) = Inr x1"
  "pick_if isSet (some_of (js_string L)) (opt_value_json JString x2) (Inr None) = Inr x2"
  "pick_if isSet (\<lambda>v. Inr (Some (js_boolean L v))) (opt_value_json JBool x3) (Inr None) = Inr x3"
  "pick_if is_array as_list (opt_value_json JArray x4) (Inr None) = Inr x4"
  "pred_option (\<lambda>i. i \<in> set NullValue_values) x5 \<Longrightarrow>
     pick_if isSet (\<lambda>v. Inr (Some (nullValueFromJSON v)))
       (opt_value_json (\<lambda>i. JString (nullValueToJSON i)) x5) (Inr None) = Inr x5"
  by (auto simp: opt_value_json_def pick_if_def isSet_def is_array_def as_list_def some_of_def
      js_number_def js_string_def js_boolean_def nullValue_back split: option.split)

lemma as_list_undefined [simp]: "pick_if is_array as_list JUndefined rest = rest"
  by (simp add: pick_if_def is_array_def)

interpretation Value_json: json_message Value_toJSON Value_fromJSON json_ok_Value
  by unfold_locales
     (simp add: Value_toJSON_def Value_fromJSON_def json_back opt_values_back json_ok_Value_def)

lemma Value_create_empty: "Value_create None = createBaseValue"
  by (simp add: Value_create_def Value_fromPartial_def createBaseValue_def partial_simps)

section \<open>Struct\<close>

text \<open>\<open>Object.entries(v)\<close> for an object or an array; \<open>digits\<close> names an array index.\<close>

fun digits :: "nat \<Rightarrow> string" where
  "digits n = (if n < 10 then [char_of (48 + n)] else digits (n div 10) @ [char_of (48 + n mod 10)])"

declare digits.simps [simp del]

definition entries :: "js \<Rightarrow> obj" where
  "entries v =
     (case v of
        JObject ob \<Rightarrow> ob
      | JArray xs \<Rightarrow> map (\<lambda>(i, x). (digits i, x)) (List.enumerate 0 xs)
      | _ \<Rightarrow> [])"

text \<open>\<open>Object.defineProperty\<close>: as an assignment, but for every key.\<close>

definition obj_define :: "string \<Rightarrow> 'v \<Rightarrow> (string \<times> 'v) list \<Rightarrow> (string \<times> 'v) list" where
  "obj_define k v ob =
     (if k \<in> fst ` set ob then map (\<lambda>(l, w). if l = k then (l, v) else (l, w)) ob
      else obj_insert k v ob)"

definition Struct_fromJSON :: "json_lang \<Rightarrow> js \<Rightarrow> json_error + Struct" where
  "Struct_fromJSON L object =
     bindE (member L ''fields'' object) (\<lambda>v.
       Inr \<lparr>struct_fields =
              (if isObject v then fold (\<lambda>(k, w). obj_define k w) (entries v) [] else [])\<rparr>)"

definition Struct_toJSON :: "json_lang \<Rightarrow> Struct \<Rightarrow> json_error + js" where
  "Struct_toJSON L m =
     Inr (JObject (if length (struct_fields m) > 0
                   then [(''fields'', JObject (obj_copy (struct_fields m)))] else []))"

type_synonym Struct_partial = "obj option"

definition Struct_fromPartial :: "Struct_partial \<Rightarrow> Struct" where
  "Struct_fromPartial object =
     \<lparr>struct_fields = obj_copy (filter (\<lambda>(k, v). v \<noteq> JUndefined) (or_default [] object))\<rparr>"

definition Struct_create :: "Struct_partial option \<Rightarrow> Struct" where
  "Struct_create base = Struct_fromPartial (or_default None base)"

definition json_ok_Struct :: "Struct \<Rightarrow> bool" where
  "json_ok_Struct m \<longleftrightarrow> canonical (map fst (struct_fields m))"

lemma obj_define_set: "k \<noteq> proto_key \<Longrightarrow> obj_define k v ob = obj_set k v ob"
  by (simp add: obj_define_def obj_set_def)

lemma fold_obj_define:
  "proto_key \<notin> fst ` set new \<Longrightarrow>
     fold (\<lambda>(k, v). obj_define k v) new ob = fold (\<lambda>(k, v). obj_set k v) new ob"
  by (induction new arbitrary: ob) (auto simp: obj_define_set)

lemma canonical_no_proto: "canonical ks \<Longrightarrow> proto_key \<notin> set ks"
  by (induction ks) auto

interpretation Struct_json: json_message Struct_toJSON Struct_fromJSON json_ok_Struct
proof
  fix L :: json_lang and m :: Struct
  assume "json_ok_Struct m"
  then have c: "canonical (map fst (struct_fields m))" by (simp add: json_ok_Struct_def)
  then have "proto_key \<notin> fst ` set (struct_fields m)" using canonical_no_proto [OF c] by simp
  then have "fold (\<lambda>(k, v). obj_define k v) (struct_fields m) [] = struct_fields m"
    using obj_copy_canonical [OF c] by (simp add: fold_obj_define obj_copy_def)
  then show "\<exists>ob. Struct_toJSON L m = Inr (JObject ob) \<and> Struct_fromJSON L (JObject ob) = Inr m"
    using c by (cases m) (auto simp: Struct_toJSON_def Struct_fromJSON_def member_def lookup_def isObject_def
        entries_def obj_copy_canonical)
qed

text \<open>A property \<open>__proto__\<close> arrives in the message by \<open>fromJSON\<close> but not by \<open>decode\<close> or \<open>wrap\<close>.\<close>

lemma proto_from_json:
  "Struct_fromJSON L (JObject [(''fields'', JObject [(proto_key, JNull)])]) =
     Inr \<lparr>struct_fields = [(proto_key, JNull)]\<rparr>"
  by (simp add: Struct_fromJSON_def member_def lookup_def isObject_def entries_def obj_define_def)

section \<open>Map entries and lists\<close>

definition Struct_FieldsEntry_fromJSON :: "json_lang \<Rightarrow> js \<Rightarrow> json_error + Struct_FieldsEntry" where
  "Struct_FieldsEntry_fromJSON L object =
     bindE (set_field L (js_string L) '''' [''key''] object) (\<lambda>v1.
     bindE (any_field_of L ''value'' object) (\<lambda>v2.
       Inr \<lparr>key = v1, entry_value = v2\<rparr>))"

definition Struct_FieldsEntry_toJSON :: "json_lang \<Rightarrow> Struct_FieldsEntry \<Rightarrow> json_error + js" where
  "Struct_FieldsEntry_toJSON L m = json_object
     [(''key'', Inr (string_json (key m))),
      (''value'', Inr (entry_value m))]"

definition Struct_FieldsEntry_fromPartial :: "string option \<times> js \<Rightarrow> Struct_FieldsEntry" where
  "Struct_FieldsEntry_fromPartial object =
     (case object of (p1, p2) \<Rightarrow> \<lparr>key = or_default '''' p1, entry_value = any_or_undefined p2\<rparr>)"

definition Struct_FieldsEntry_create :: "(string option \<times> js) option \<Rightarrow> Struct_FieldsEntry" where
  "Struct_FieldsEntry_create base = Struct_FieldsEntry_fromPartial (or_default (None, JUndefined) base)"

definition json_ok_Struct_FieldsEntry :: "Struct_FieldsEntry \<Rightarrow> bool" where
  "json_ok_Struct_FieldsEntry m \<longleftrightarrow> entry_value m \<noteq> JNull"

interpretation Struct_FieldsEntry_json:
  json_message Struct_FieldsEntry_toJSON Struct_FieldsEntry_fromJSON json_ok_Struct_FieldsEntry
  by unfold_locales
     (simp add: Struct_FieldsEntry_toJSON_def Struct_FieldsEntry_fromJSON_def json_back
       json_ok_Struct_FieldsEntry_def)

definition ListValue_fromJSON :: "json_lang \<Rightarrow> js \<Rightarrow> json_error + ListValue" where
  "ListValue_fromJSON L object =
     bindE (optional_member L ''values'' object) (\<lambda>v.
       Inr \<lparr>list_values = (case v of JArray xs \<Rightarrow> xs | _ \<Rightarrow> [])\<rparr>)"

definition ListValue_toJSON :: "json_lang \<Rightarrow> ListValue \<Rightarrow> json_error + js" where
  "ListValue_toJSON L m = json_object
     [(''values'', Inr (if length (list_values m) \<noteq> 0 then JArray (list_values m) else JUndefined))]"

definition ListValue_fromPartial :: "js list option \<Rightarrow> ListValue" where
  "ListValue_fromPartial object = \<lparr>list_values = or_default [] object\<rparr>"

definition ListValue_create :: "js list option option \<Rightarrow> ListValue" where
  "ListValue_create base = ListValue_fromPartial (or_default None base)"

interpretation ListValue_json: json_message ListValue_toJSON ListValue_fromJSON "\<lambda>_. True"
  by unfold_locales
     (simp add: ListValue_toJSON_def ListValue_fromJSON_def json_object_def member_present
       optional_member_object)

section \<open>Timestamp\<close>

definition Timestamp_toJSON :: "json_lang \<Rightarrow> Timestamp \<Rightarrow> json_error + js" where
  "Timestamp_toJSON L m = json_object
     [(''seconds'', Inr (int_json (Timestamp_seconds m))),
      (''nanos'', Inr (int_json (Timestamp_nanos m)))]"

definition Timestamp_fromPartial :: "int option \<times> int option \<Rightarrow> Timestamp" where
  "Timestamp_fromPartial object =
     (case object of (p1, p2) \<Rightarrow> \<lparr>Timestamp_seconds = or_default 0 p1, Timestamp_nanos = or_default 0 p2\<rparr>)"

definition Timestamp_create :: "(int option \<times> int option) option \<Rightarrow> Timestamp" where
  "Timestamp_create base = Timestamp_fromPartial (or_default (None, None) base)"

definition json_ok_Timestamp :: "Timestamp \<Rightarrow> bool" where
  "json_ok_Timestamp m \<longleftrightarrow> safe_int (Timestamp_seconds m) \<and> safe_int (Timestamp_nanos m)"

interpretation Timestamp_json: json_message Timestamp_toJSON Timestamp_fromJSON json_ok_Timestamp
  by unfold_locales
     (simp add: Timestamp_toJSON_def Timestamp_fromJSON_def json_back json_ok_Timestamp_def)

lemma timestamp_json_date:
  assumes "lang_ok L" and "valid_date d" and "toTimestamp d = Some t" and "json_ok_Timestamp t"
  shows "\<exists>v. Timestamp_toJSON L t = Inr v \<and> fromJsonTimestamp L v = Inr d"
proof -
  obtain ob where "Timestamp_toJSON L t = Inr (JObject ob)" "Timestamp_fromJSON L (JObject ob) = Inr t"
    using Timestamp_json.reads_back [OF assms(1,4)] by blast
  moreover have "fromTimestamp t = d" by (rule fromTimestamp_toTimestamp [OF assms(2,3)])
  ultimately show ?thesis by (simp add: fromJsonTimestamp_def)
qed

section \<open>Empty partial messages\<close>

lemma create_empty:
  "Struct_create None = createBaseStruct"
  "Struct_FieldsEntry_create None = createBaseStruct_FieldsEntry"
  "ListValue_create None = createBaseListValue"
  "Timestamp_create None = createBaseTimestamp"
  by (simp_all add: Struct_create_def Struct_fromPartial_def createBaseStruct_def partial_simps obj_copy_def
      Struct_FieldsEntry_create_def Struct_FieldsEntry_fromPartial_def createBaseStruct_FieldsEntry_def
      ListValue_create_def ListValue_fromPartial_def createBaseListValue_def
      Timestamp_create_def Timestamp_fromPartial_def createBaseTimestamp_def)

end
