(* ===== verification/EchoBundle.thy ===== *)
theory EchoBundle
  imports StructJson Lock
begin

text \<open>
  The pure part of \<open>examples/echo/index.ts\<close>: the configuration read from the environment, and
  \<open>decodeBundle\<close>, which turns a service bundle into the document the program prints. The
  environment is a map; what the language gives for text of any kind (\<open>String(v)\<close>, the decoding of
  base64 and of UTF-8) are the conversions of \<open>json_lang\<close> and an argument.
\<close>

section \<open>Configuration\<close>

type_synonym environment = "string \<Rightarrow> string option"

definition requireEnv :: "environment \<Rightarrow> string \<Rightarrow> thrown + string" where
  "requireEnv env name =
     (case env name of
        None \<Rightarrow> Inl (mk_error (''signet-echo: missing required environment variable '' @ name))
      | Some v \<Rightarrow>
          (if js_trim v = '''' then Inl (mk_error (''signet-echo: missing required environment variable '' @ name))
           else Inr v))"

text \<open>The number of an integer: rounded to a double, or infinite.\<close>

definition number_of_integer :: "int \<Rightarrow> js_number" where
  "number_of_integer i =
     (let x = fl (of_int i)
      in if x \<ge> 2 ^ 1024 then Infinity else if x \<le> - (2 ^ 1024) then NegInfinity else Finite x)"

text \<open>\<open>Number.parseInt(s, 10)\<close>: white space, a sign, and the digits that follow.\<close>

definition parseInt :: "string \<Rightarrow> js_number" where
  "parseInt s =
     (let t = dropWhile js_space s;
          negative = (t \<noteq> [] \<and> hd t = CHR ''-'');
          u = (if t \<noteq> [] \<and> (hd t = CHR ''-'' \<or> hd t = CHR ''+'') then tl t else t);
          ds = takeWhile is_digit u
      in if ds = [] then NaN
         else number_of_integer (if negative then - int (decimal 0 ds) else int (decimal 0 ds)))"

definition optionalPositiveInt :: "environment \<Rightarrow> string \<Rightarrow> js_number \<Rightarrow> js_number" where
  "optionalPositiveInt env name fallback =
     (case env name of
        None \<Rightarrow> fallback
      | Some raw \<Rightarrow>
          (if js_trim raw = '''' then fallback
           else (case parseInt raw of
                   Finite x \<Rightarrow> (if x \<le> 0 then fallback else Finite x)
                 | _ \<Rightarrow> fallback)))"

record echo_config =
  echo_address :: string
  echo_trustDomain :: string
  echo_workloadSocket :: string
  echo_namespace :: string
  echo_service :: string
  echo_sharedNamespace :: "string option"
  echo_sharedService :: "string option"
  echo_lockTtlSeconds :: js_number
  echo_debounceSeconds :: js_number

definition loadConfig :: "environment \<Rightarrow> thrown + echo_config" where
  "loadConfig env =
     bindE (requireEnv env ''SIGNET_ADDR'') (\<lambda>address.
     bindE (requireEnv env ''SIGNET_TRUST_DOMAIN'') (\<lambda>domain.
     bindE (requireEnv env ''SPIFFE_WORKLOAD_SOCKET'') (\<lambda>socket.
     bindE (requireEnv env ''SIGNET_NAMESPACE'') (\<lambda>ns.
     bindE (requireEnv env ''SIGNET_SERVICE'') (\<lambda>svc.
       Inr \<lparr>echo_address = address, echo_trustDomain = domain, echo_workloadSocket = socket,
            echo_namespace = ns, echo_service = svc,
            echo_sharedNamespace = env ''SIGNET_SHARED_NAMESPACE'',
            echo_sharedService = env ''SIGNET_SHARED_SERVICE'',
            echo_lockTtlSeconds = optionalPositiveInt env ''RESTART_LOCK_TTL_SECONDS'' (Finite 30),
            echo_debounceSeconds = optionalPositiveInt env ''RESTART_DEBOUNCE_SECONDS'' (Finite 5)\<rparr>)))))"

text \<open>Whatever the environment holds, the two numbers are finite and positive.\<close>

lemma optionalPositiveInt_pos:
  "0 < fallback \<Longrightarrow> \<exists>x. optionalPositiveInt env name (Finite fallback) = Finite x \<and> 0 < x"
  by (auto simp: optionalPositiveInt_def split: option.split js_number.split)

lemma loadConfig_numbers:
  assumes "loadConfig env = Inr c"
  shows "\<exists>ttl quiet. echo_lockTtlSeconds c = Finite ttl \<and> 0 < ttl \<and>
     echo_debounceSeconds c = Finite quiet \<and> 0 < quiet"
  using assms optionalPositiveInt_pos [of 30 env "''RESTART_LOCK_TTL_SECONDS''"]
    optionalPositiveInt_pos [of 5 env "''RESTART_DEBOUNCE_SECONDS''"]
  by (auto simp: loadConfig_def bindE_Inr_iff)

lemma requireEnv_ok: "requireEnv env name = Inr v \<longleftrightarrow> env name = Some v \<and> js_trim v \<noteq> ''''"
  by (auto simp: requireEnv_def split: option.splits if_splits)

lemma loadConfig_ok:
  assumes "loadConfig env = Inr c"
  shows "env ''SIGNET_ADDR'' = Some (echo_address c)" "env ''SIGNET_TRUST_DOMAIN'' = Some (echo_trustDomain c)"
    "env ''SPIFFE_WORKLOAD_SOCKET'' = Some (echo_workloadSocket c)"
    "env ''SIGNET_NAMESPACE'' = Some (echo_namespace c)" "env ''SIGNET_SERVICE'' = Some (echo_service c)"
  using assms by (auto simp: loadConfig_def bindE_Inr_iff requireEnv_ok)

section \<open>decodeBundle\<close>

text \<open>\<open>Buffer.from(String(value), "base64").toString("utf8")\<close>.\<close>

definition decode_secret :: "json_lang \<Rightarrow> (byte list \<Rightarrow> string) \<Rightarrow> js \<Rightarrow> json_error + string" where
  "decode_secret L text v =
     bindE (js_string L v) (\<lambda>s. bindE (buffer_of L (JString s)) (\<lambda>b. Inr (text b)))"

definition decode_secrets :: "json_lang \<Rightarrow> (byte list \<Rightarrow> string) \<Rightarrow> obj \<Rightarrow> json_error + obj" where
  "decode_secrets L text named =
     foldl (\<lambda>acc (name, v). bindE acc (\<lambda>ob. bindE (decode_secret L text v) (\<lambda>s. Inr (obj_set name (JString s) ob))))
       (Inr []) named"

text \<open>\<open>secrets && typeof secrets === "object"\<close>: no other value has entries.\<close>

definition decodeBundle :: "json_lang \<Rightarrow> (byte list \<Rightarrow> string) \<Rightarrow> obj option \<Rightarrow> json_error + obj" where
  "decodeBundle L text bundle =
     (let ob = (case bundle of None \<Rightarrow> [] | Some ob \<Rightarrow> ob);
          config = filter (\<lambda>(k, v). k \<noteq> ''secrets'') ob
      in bindE (decode_secrets L text (entries (lookup ''secrets'' ob)))
           (\<lambda>secrets. Inr (config @ [(''secrets'', JObject secrets)])))"

text \<open>A \<open>Buffer\<close> of UTF-8 text is read back.\<close>

definition text_ok :: "(byte list \<Rightarrow> string) \<Rightarrow> bool" where
  "text_ok text \<longleftrightarrow> (\<forall>s. text (utf8 s) = s)"

text \<open>The \<open>secrets\<close> of a bundle as the server writes them, and as the program prints them.\<close>

definition sealed_entries :: "(string \<times> string) list \<Rightarrow> obj" where
  "sealed_entries plain = map (\<lambda>(n, p). (n, JString (base64 (utf8 p)))) plain"

definition plain_entries :: "(string \<times> string) list \<Rightarrow> obj" where
  "plain_entries plain = map (\<lambda>(n, p). (n, JString p)) plain"

lemma entries_keys [simp]:
  "map fst (sealed_entries plain) = map fst plain" "map fst (plain_entries plain) = map fst plain"
  by (induction plain) (auto simp: sealed_entries_def plain_entries_def)

lemma decode_secret_sealed:
  "lang_ok L \<Longrightarrow> text_ok text \<Longrightarrow> decode_secret L text (JString (base64 (utf8 p))) = Inr p"
  by (simp add: decode_secret_def js_string_def lang_ok_def text_ok_def)

lemma decode_secrets_snoc:
  "decode_secrets L text (es @ [(n, v)]) =
     bindE (decode_secrets L text es) (\<lambda>ob. bindE (decode_secret L text v) (\<lambda>s. Inr (obj_set n (JString s) ob)))"
  by (simp add: decode_secrets_def)

lemma decode_secrets_sealed:
  assumes "lang_ok L" and "text_ok text" and "canonical (map fst plain)"
  shows "decode_secrets L text (sealed_entries plain) = Inr (plain_entries plain)"
  using assms(3)
proof (induction plain rule: rev_induct)
  case Nil
  show ?case by (simp add: decode_secrets_def sealed_entries_def plain_entries_def)
next
  case (snoc np plain)
  obtain n p where np: "np = (n, p)" by fastforce
  have "canonical (map fst (plain_entries plain @ [(n, JString p)]))"
    using snoc.prems by (simp add: np)
  from obj_set_append [OF this] snoc decode_secret_sealed [OF assms(1,2), of p] show ?case
    by (simp add: np canonical_append sealed_entries_def plain_entries_def decode_secrets_snoc)
qed

lemma decodeBundle_sealed:
  assumes "lang_ok L" and "text_ok text" and "canonical (map fst plain)"
    and "lookup ''secrets'' ob = JObject (sealed_entries plain)"
  shows "decodeBundle L text (Some ob) =
     Inr (filter (\<lambda>(k, v). k \<noteq> ''secrets'') ob @ [(''secrets'', JObject (plain_entries plain))])"
  using decode_secrets_sealed [OF assms(1-3)] by (simp add: decodeBundle_def Let_def assms(4) entries_def)

end
