(* ===== verification/EchoMain.thy ===== *)
theory EchoMain
  imports EchoBundle WaitForRestart
begin

text \<open>
  \<open>main\<close> of \<open>examples/echo/index.ts\<close>: dial, fetch and print the bundle, block in
  \<open>waitForRestart\<close>, release the lock and exit, with SIGTERM and SIGINT handled on the way. The
  program is a state machine over the \<open>await\<close> it is suspended at; the blocked phase holds the
  state of \<open>waitForRestart\<close> itself. An output is a line on the console (a document stands for its
  JSON text), a call of \<open>release()\<close>, the closing of the connection, the abort of the controller, or
  the exit.

  Which of the two signals arrives first is an argument: the handlers ignore all later ones.
\<close>

section \<open>State and outputs\<close>

datatype echo_output =
    LogBanner
  | LogLine string
  | LogBundle obj
  | LogSharedBundle obj
  | LogRestart string
  | ErrorLine string
  | AbortController
  | CallsRelease
  | CloseConnection
  | Exit nat

datatype echo_phase =
    Dialing
  | Fetching
  | FetchingShared
  | Blocked wait_args waiting
  | Releasing wait_args waiting
  | Ended nat

record echo =
  shutdown_requested :: bool
  echo_phase :: echo_phase

text \<open>
  \<open>Terminate\<close> is one of the two process signals; \<open>OnWait\<close> is what happens to \<open>waitForRestart\<close> or
  to the lock it gave.
\<close>

datatype echo_event =
    Dialed "thrown + unit"
  | Fetched "thrown + obj option"
  | OnWait wait_event
  | Terminate

text \<open>
  What the program uses of the language and of the client: the conversions, the text of a
  buffer, the error thrown for a \<open>json_error\<close>, what \<open>client.acquireRestartLock()\<close> will do, and the
  name of the first process signal.
\<close>

record echo_libs =
  echo_lang :: json_lang
  echo_text :: "byte list \<Rightarrow> string"
  echo_error :: "json_error \<Rightarrow> thrown"
  echo_opened :: "thrown + unit"
  echo_number_text :: "js_number \<Rightarrow> string"
  echo_signal :: string

section \<open>Leaving\<close>

text \<open>\<open>main().catch(...)\<close>: the process ends with code 1.\<close>

definition fatal :: "echo \<Rightarrow> thrown \<Rightarrow> echo \<times> echo_output list" where
  "fatal s err =
     (s\<lparr>echo_phase := Ended 1\<rparr>, [ErrorLine (''signet-echo: fatal: '' @ err_message err), Exit 1])"

text \<open>The \<open>catch\<close> of \<open>main\<close>: close, then leave quietly after a signal, or pass the error on.\<close>

definition catch_error :: "echo_libs \<Rightarrow> echo \<Rightarrow> thrown \<Rightarrow> echo \<times> echo_output list" where
  "catch_error L s err =
     (if shutdown_requested s
      then (s\<lparr>echo_phase := Ended 0\<rparr>,
            [CloseConnection, LogLine (''signet-echo: exiting after '' @ echo_signal L), Exit 0])
      else (case fatal s err of (s1, outs) \<Rightarrow> (s1, CloseConnection # outs)))"

section \<open>Blocking and releasing\<close>

text \<open>\<open>config.debounceSeconds * 1000\<close>.\<close>

definition debounce_ms :: "echo_config \<Rightarrow> int" where
  "debounce_ms c = (case echo_debounceSeconds c of Finite x \<Rightarrow> \<lfloor>fl (x * 1000)\<rfloor> | _ \<Rightarrow> 0)"

definition echo_wait_args :: "echo_libs \<Rightarrow> echo_config \<Rightarrow> bool \<Rightarrow> wait_args" where
  "echo_wait_args L c is_aborted =
     \<lparr>wait_ns = echo_namespace c, wait_svc = echo_service c, wait_ttl = echo_lockTtlSeconds c,
      wait_debounce = debounce_ms c, wait_signal = Some is_aborted,
      wait_reason = Some (mk_error (''received '' @ echo_signal L)),
      wait_opened = echo_opened L, wait_number_text = echo_number_text L\<rparr>"

definition held_acquisition :: "waiting \<Rightarrow> acquisition option" where
  "held_acquisition w = (case phase w of Requested (Inr a) \<Rightarrow> Some a | _ \<Rightarrow> None)"

text \<open>\<open>release()\<close> has resolved when no call of it waits for the end of the stream.\<close>

definition release_resolved :: "waiting \<Rightarrow> bool" where
  "release_resolved w = (case held_acquisition w of Some a \<Rightarrow> waiting_releases a = [] | None \<Rightarrow> True)"

text \<open>\<open>lock.expiresAt?.toISOString() ?? "unknown"\<close>.\<close>

definition expiry_text :: "json_lang \<Rightarrow> date option \<Rightarrow> json_error + string" where
  "expiry_text J expires =
     (case expires of
        None \<Rightarrow> Inr ''unknown''
      | Some InvalidDate \<Rightarrow> Inl RangeError
      | Some (Date ms) \<Rightarrow> Inr (iso_string J ms))"

definition restart_line :: "json_lang \<Rightarrow> lock \<Rightarrow> json_error + string" where
  "restart_line J l = bindE (expiry_text J (expires_at l)) (\<lambda>expires.
     Inr (''ECHO_RESTART: acquired restart lock token='' @ token l @ '' expiresAt='' @ expires))"

definition await_release :: "echo \<Rightarrow> wait_args \<Rightarrow> waiting \<Rightarrow> echo \<times> echo_output list" where
  "await_release s A w =
     (if release_resolved w then (s\<lparr>echo_phase := Ended 0\<rparr>, [CloseConnection, Exit 0])
      else (s\<lparr>echo_phase := Releasing A w\<rparr>, []))"

definition announce_and_release :: "echo_libs \<Rightarrow> echo \<Rightarrow> wait_args \<Rightarrow> waiting \<Rightarrow> echo \<times> echo_output list" where
  "announce_and_release L s A w =
     (case restart_line (echo_lang L) (case held_acquisition w of Some a \<Rightarrow> the_lock a | None \<Rightarrow> lock_new) of
        Inl e \<Rightarrow> catch_error L s (echo_error L e)
      | Inr line \<Rightarrow>
          (case await_release s A (wait_step A w (OnLock CallRelease)) of
             (s1, outs) \<Rightarrow> (s1, LogRestart line # CallsRelease # outs)))"

text \<open>Suspended at \<open>await waitForRestart(...)\<close>, unless it has settled.\<close>

definition await_wait :: "echo_libs \<Rightarrow> echo \<Rightarrow> wait_args \<Rightarrow> waiting \<Rightarrow> echo \<times> echo_output list" where
  "await_wait L s A w =
     (case wait_result w of
        None \<Rightarrow> (s\<lparr>echo_phase := Blocked A w\<rparr>, [])
      | Some (Inl err) \<Rightarrow> catch_error L s err
      | Some (Inr u) \<Rightarrow> announce_and_release L s A w)"

definition start_waiting :: "echo_libs \<Rightarrow> echo_config \<Rightarrow> echo \<Rightarrow> echo \<times> echo_output list" where
  "start_waiting L c s =
     (let A = echo_wait_args L c (shutdown_requested s) in await_wait L s A (wait_start A))"

section \<open>The program\<close>

text \<open>\<open>config.sharedNamespace && config.sharedService\<close>.\<close>

definition wants_shared :: "echo_config \<Rightarrow> bool" where
  "wants_shared c \<longleftrightarrow>
     (case (echo_sharedNamespace c, echo_sharedService c) of
        (Some ns, Some svc) \<Rightarrow> ns \<noteq> '''' \<and> svc \<noteq> ''''
      | _ \<Rightarrow> False)"

definition print_bundle ::
  "echo_libs \<Rightarrow> echo \<Rightarrow> (obj \<Rightarrow> echo_output) \<Rightarrow> obj option \<Rightarrow> (echo \<Rightarrow> echo \<times> echo_output list) \<Rightarrow>
   echo \<times> echo_output list" where
  "print_bundle L s line bundle rest =
     (case decodeBundle (echo_lang L) (echo_text L) bundle of
        Inl e \<Rightarrow> catch_error L s (echo_error L e)
      | Inr decoded \<Rightarrow> (case rest s of (s1, outs) \<Rightarrow> (s1, line decoded # outs)))"

definition after_bundle :: "echo_libs \<Rightarrow> echo_config \<Rightarrow> echo \<Rightarrow> echo \<times> echo_output list" where
  "after_bundle L c s =
     (if wants_shared c then (s\<lparr>echo_phase := FetchingShared\<rparr>, []) else start_waiting L c s)"

text \<open>Only \<open>main\<close> itself aborts the controller and releases the lock.\<close>

definition main_only :: "wait_event \<Rightarrow> bool" where
  "main_only e \<longleftrightarrow> e = Aborts \<or> e = OnLock CallRelease"

fun echo_step :: "echo_libs \<Rightarrow> echo_config \<Rightarrow> echo \<Rightarrow> echo_event \<Rightarrow> echo \<times> echo_output list" where
  "echo_step L c s (Dialed r) =
     (case echo_phase s of
        Dialing \<Rightarrow> (case r of Inl err \<Rightarrow> fatal s err | Inr u \<Rightarrow> (s\<lparr>echo_phase := Fetching\<rparr>, []))
      | _ \<Rightarrow> (s, []))"
| "echo_step L c s (Fetched r) =
     (case echo_phase s of
        Fetching \<Rightarrow> (case r of
            Inl err \<Rightarrow> catch_error L s err
          | Inr bundle \<Rightarrow> print_bundle L s LogBundle bundle (after_bundle L c))
      | FetchingShared \<Rightarrow> (case r of
            Inl err \<Rightarrow> catch_error L s err
          | Inr bundle \<Rightarrow> print_bundle L s LogSharedBundle bundle (start_waiting L c))
      | _ \<Rightarrow> (s, []))"
| "echo_step L c s (OnWait e) =
     (if main_only e then (s, [])
      else (case echo_phase s of
              Blocked A w \<Rightarrow> await_wait L s A (wait_step A w e)
            | Releasing A w \<Rightarrow> await_release s A (wait_step A w e)
            | _ \<Rightarrow> (s, [])))"
| "echo_step L c s Terminate =
     (if shutdown_requested s \<or> (\<exists>code. echo_phase s = Ended code) then (s, [])
      else
        (let s1 = s\<lparr>shutdown_requested := True\<rparr>;
             (s2, outs) = (case echo_phase s of
                 Blocked A w \<Rightarrow> await_wait L s1 A (wait_step A w Aborts)
               | Releasing A w \<Rightarrow> await_release s1 A (wait_step A w Aborts)
               | _ \<Rightarrow> (s1, []))
         in (s2, LogLine (''signet-echo: received '' @ echo_signal L @ '', shutting down'') #
                 AbortController # outs)))"

abbreviation echo_start :: echo where
  "echo_start \<equiv> \<lparr>shutdown_requested = False, echo_phase = Dialing\<rparr>"

definition echo_main :: "echo_libs \<Rightarrow> environment \<Rightarrow> echo_event list \<Rightarrow> echo \<times> echo_output list" where
  "echo_main L env es =
     (case (case loadConfig env of
              Inl err \<Rightarrow> fatal echo_start err
            | Inr c \<Rightarrow> run (echo_step L c) echo_start es) of
        (s, outs) \<Rightarrow> (s, LogBanner # outs))"

section \<open>A signal settles waitForRestart\<close>

definition plan_aborted :: "plan \<Rightarrow> bool" where
  "plan_aborted p \<longleftrightarrow> (case p of GiveUp \<Rightarrow> True | AskLock es \<Rightarrow> SignalAbort \<in> set es | _ \<Rightarrow> False)"

lemma plan_step_aborted:
  "plan_aborted p \<Longrightarrow> plan_aborted (plan_step A receiving p e)"
  "wait_signal A \<noteq> None \<Longrightarrow> plan_aborted (plan_step A receiving p Aborts)"
  by (cases e; cases p; auto simp: plan_aborted_def) (cases p; auto simp: plan_aborted_def)

lemma plan_after_snoc:
  "plan_after A (es @ [e]) =
     plan_step A (pc (fst (foldl (plan_sys_step A) (plan_start A) es)) = Receiving) (plan_after A es) e"
  by (simp add: plan_after_def plan_sys_step_def)

lemma plan_after_aborted:
  assumes "wait_signal A \<noteq> None" and "wait_signal A = Some True \<or> Aborts \<in> set es"
  shows "plan_aborted (plan_after A es)"
  using assms(2)
proof (induction es rule: rev_induct)
  case Nil
  then show ?case by (simp add: plan_after_def plan_start_def plan_aborted_def)
next
  case (snoc e es)
  then show ?case
    using plan_step_aborted assms(1) by (cases "e = Aborts") (auto simp: plan_after_snoc)
qed

lemma request_lock_cases:
  obtains err where "request_lock A False = Inl err"
  | "request_lock A False = Inr (start_acquisition (wait_ns A) (wait_svc A) (wait_ttl_secs A) (lock_opts A False))"
  by (cases "positive_finite (wait_ttl A)"; cases "wait_opened A")
     (auto simp: request_lock_def acquire_lock_def wait_ttl_secs_def acquire_starts)

lemma race_events_abort: "SignalAbort \<in> set es \<Longrightarrow> race_events acq es \<noteq> []"
  by (induction acq es rule: race_events.induct) (auto split: option.split)

text \<open>What the request for the lock has come to, given the events since.\<close>

definition ask_result :: "wait_args \<Rightarrow> lock_event list \<Rightarrow> (thrown + unit) option" where
  "ask_result A les = plan_result A (AskLock les)"

lemma ask_result_cases:
  assumes "wait_signal A \<noteq> None"
  obtains err where "\<forall>les. ask_result A les = Some (Inl err)"
  | "\<forall>les. ask_result A les = acquire_outcome (lock_opts A False) (race_spec (Some False) (race_events None les))"
proof -
  have "signal (lock_opts A False) = Some False" using assms by (auto simp: lock_opts_def)
  then show thesis
    using that by (cases rule: request_lock_cases [of A])
      (auto simp: ask_result_def plan_result_def acquire_result)
qed

lemma race_spec_first: "race_spec (Some False) (e # es) = race_spec (Some False) [e]"
  by (cases e) (simp_all add: race_spec_def)

lemma ask_result_aborted:
  assumes "wait_signal A \<noteq> None" and "SignalAbort \<in> set les"
  shows "ask_result A les \<noteq> None"
proof (cases rule: ask_result_cases [OF assms(1)])
  case 2
  obtain e es where "race_events None les = e # es"
    using race_events_abort [OF assms(2)] by (cases "race_events None les") auto
  then show ?thesis
    using 2 by (cases e) (auto simp: acquire_outcome_def race_spec_def split: sum.split)
qed simp

lemma ask_result_abort_now:
  assumes "wait_signal A \<noteq> None" and "ask_result A les = None"
  shows "\<exists>err. ask_result A (les @ [SignalAbort]) = Some (Inl err)"
proof (cases rule: ask_result_cases [OF assms(1)])
  case 2
  have "race_events None les = []"
    using assms(2) 2 by (cases "race_events None les"; cases "hd (race_events None les)")
      (auto simp: acquire_outcome_def race_spec_def split: sum.splits)
  then show ?thesis using 2 by (simp add: race_events_snoc acquire_outcome_def race_spec_def)
qed (use assms in simp)

lemma wait_settled_by_abort:
  assumes "wait_signal A \<noteq> None" and "wait_signal A = Some True \<or> Aborts \<in> set es"
  shows "wait_result (wait_for_restart A es) \<noteq> None"
  using plan_after_aborted [OF assms] ask_result_aborted [OF assms(1)]
  unfolding wait_result_plan plan_aborted_def ask_result_def
  by (cases "plan_after A es") (auto simp: plan_result_def [of A GiveUp])

lemma wait_for_restart_snoc: "wait_for_restart A (es @ [e]) = wait_step A (wait_for_restart A es) e"
  by (simp add: wait_for_restart_def)

lemma wait_aborted_now:
  assumes "wait_signal A \<noteq> None" and "wait_result (wait_for_restart A es) = None"
  shows "\<exists>err. wait_result (wait_step A (wait_for_restart A es) Aborts) = Some (Inl err)"
proof -
  have "\<exists>err. plan_result A (plan_after A (es @ [Aborts])) = Some (Inl err)"
    using assms ask_result_abort_now [OF assms(1)]
    by (cases "plan_after A es")
       (auto simp: plan_after_snoc wait_result_plan ask_result_def plan_result_def [of A GiveUp]
         simp del: foldl_append)
  then show ?thesis by (simp only: wait_result_plan flip: wait_for_restart_snoc)
qed

section \<open>The program is never blocked after a signal\<close>

definition echo_inv :: "echo_libs \<Rightarrow> echo_config \<Rightarrow> echo \<Rightarrow> bool" where
  "echo_inv L c s \<longleftrightarrow>
     (case echo_phase s of
        Blocked A w \<Rightarrow> \<not> shutdown_requested s \<and> wait_result w = None \<and>
          (\<exists>b es. A = echo_wait_args L c b \<and> w = wait_for_restart A es)
      | _ \<Rightarrow> True)"

lemma echo_wait_signal [simp]: "wait_signal (echo_wait_args L c b) = Some b"
  by (simp add: echo_wait_args_def)

lemma fst_case_prod_keep [simp]: "fst (case p of (s, outs) \<Rightarrow> (s, f outs)) = fst p"
  by (simp add: split_beta)

lemma ends_inv [simp]:
  "echo_inv L c (fst (fatal s err))" "echo_inv L c (fst (catch_error L s err))"
  "echo_inv L c (fst (await_release s A w))" "echo_inv L c (fst (announce_and_release L s A w))"
proof -
  show catch: "echo_inv L c (fst (catch_error L s err))" for err
    by (simp add: catch_error_def fatal_def echo_inv_def)
  show release: "echo_inv L c (fst (await_release s A w))" for w
    by (simp add: await_release_def echo_inv_def)
  show "echo_inv L c (fst (announce_and_release L s A w))"
    using catch release by (auto simp: announce_and_release_def split: sum.split)
qed (simp add: fatal_def echo_inv_def)

lemma await_wait_inv:
  assumes "A = echo_wait_args L c b" and "w = wait_for_restart A es"
    and "shutdown_requested s \<Longrightarrow> b \<or> Aborts \<in> set es"
  shows "echo_inv L c (fst (await_wait L s A w))"
proof (cases "wait_result w")
  case None
  have "\<not> shutdown_requested s"
    using wait_settled_by_abort [of A es] assms None by auto
  then show ?thesis using None assms(1,2) by (auto simp: await_wait_def echo_inv_def)
next
  case (Some r)
  then show ?thesis by (cases r) (simp_all add: await_wait_def)
qed

lemma start_waiting_inv: "echo_inv L c (fst (start_waiting L c s))"
  unfolding start_waiting_def Let_def
  by (rule await_wait_inv [where es = "[]" and b = "shutdown_requested s"]) (simp_all add: wait_for_restart_def)

lemma echo_step_inv: "echo_inv L c s \<Longrightarrow> echo_inv L c (fst (echo_step L c s e))"
proof (induction L c s e rule: echo_step.induct)
  case (1 L c s r)
  then show ?case by (auto simp: echo_inv_def fatal_def split: echo_phase.split sum.split)
next
  case (2 L c s r)
  have "echo_inv L c (fst (after_bundle L c s))"
    using start_waiting_inv by (simp add: after_bundle_def echo_inv_def)
  then show ?case
    using 2 start_waiting_inv by (auto simp: print_bundle_def split: echo_phase.split sum.split)
next
  case (3 L c s e)
  show ?case
  proof (cases "echo_phase s")
    case (Blocked A w)
    with 3 obtain b es where w: "\<not> shutdown_requested s" "A = echo_wait_args L c b" "w = wait_for_restart A es"
      by (auto simp: echo_inv_def)
    then have "wait_step A w e = wait_for_restart A (es @ [e])" by (simp add: wait_for_restart_snoc)
    with await_wait_inv [OF w(2) this, of s] w(1) 3 show ?thesis by (simp add: Blocked)
  qed (use 3 in simp_all)
next
  case (4 L c s)
  let ?s1 = "s\<lparr>shutdown_requested := True\<rparr>"
  show ?case
  proof (cases "echo_phase s")
    case (Blocked A w)
    with 4 obtain b es where w: "A = echo_wait_args L c b" "w = wait_for_restart A es"
      by (auto simp: echo_inv_def)
    then have "wait_step A w Aborts = wait_for_restart A (es @ [Aborts])" by (simp add: wait_for_restart_snoc)
    with await_wait_inv [OF w(1) this, of ?s1] 4 show ?thesis by (simp add: Blocked Let_def split_beta)
  qed (use 4 in \<open>simp_all add: echo_inv_def Let_def split_beta\<close>, simp_all add: await_release_def)
qed

interpretation echo: event_machine "echo_step L c" "echo_inv L c" for L c
  by unfold_locales (rule echo_step_inv)

lemma echo_run_inv: "echo_inv L c (fst (run (echo_step L c) echo_start es))"
  by (rule echo.run_inv) (simp add: echo_inv_def)

lemma echo_blocked_terminates:
  assumes "echo_inv L c s" and "echo_phase s = Blocked A w"
  shows "echo_step L c s Terminate =
     (s\<lparr>shutdown_requested := True, echo_phase := Ended 0\<rparr>,
      [LogLine (''signet-echo: received '' @ echo_signal L @ '', shutting down''), AbortController,
       CloseConnection, LogLine (''signet-echo: exiting after '' @ echo_signal L), Exit 0])"
proof -
  obtain b es where w: "\<not> shutdown_requested s" "wait_result w = None" "A = echo_wait_args L c b"
    "w = wait_for_restart A es" using assms by (auto simp: echo_inv_def)
  then obtain err where "wait_result (wait_step A w Aborts) = Some (Inl err)"
    using wait_aborted_now [of A es] by auto
  then show ?thesis using assms(2) w(1) by (simp add: await_wait_def catch_error_def)
qed

section \<open>How the program ends\<close>

text \<open>Before the end nothing is closed; the lock is announced right before it is released.\<close>

definition still_open :: "echo_output list \<Rightarrow> bool" where
  "still_open outs \<longleftrightarrow> CloseConnection \<notin> set outs \<and> (\<forall>code. Exit code \<notin> set outs)"

definition announced :: "echo_output list \<Rightarrow> bool" where
  "announced outs \<longleftrightarrow> (\<exists>p line q. outs = p @ [LogRestart line, CallsRelease] @ q)"

definition ended_well :: "bool \<Rightarrow> nat \<Rightarrow> echo_output list \<Rightarrow> bool" where
  "ended_well shutdown code outs \<longleftrightarrow>
     (\<exists>pre. outs = pre @ [Exit code] \<and> (\<forall>k. Exit k \<notin> set pre) \<and>
        length (filter (\<lambda>ev. ev = CloseConnection) pre) \<le> 1 \<and>
        (code = 0 \<and> CloseConnection \<in> set pre \<and> (shutdown \<or> announced pre) \<or>
         code = 1 \<and> (\<exists>line. ErrorLine line \<in> set pre)))"

definition echo_trace_ok :: "echo \<Rightarrow> echo_output list \<Rightarrow> bool" where
  "echo_trace_ok s outs \<longleftrightarrow>
     (case echo_phase s of
        Ended code \<Rightarrow> ended_well (shutdown_requested s) code outs
      | Releasing A w \<Rightarrow> still_open outs \<and> announced outs
      | _ \<Rightarrow> still_open outs)"

lemma announced_append [simp]: "announced outs \<Longrightarrow> announced (outs @ rest)"
  unfolding announced_def by (metis append_assoc)

lemma announced_here: "announced (outs @ LogRestart line # CallsRelease # rest)"
  unfolding announced_def by (intro exI [of _ outs] exI [of _ line] exI [of _ rest]) simp

lemma still_open_append:
  "still_open (xs @ ys) \<longleftrightarrow> still_open xs \<and> still_open ys"
  "still_open [] \<longleftrightarrow> True" "still_open (ev # xs) \<longleftrightarrow> ev \<noteq> CloseConnection \<and> (\<forall>code. ev \<noteq> Exit code) \<and> still_open xs"
  by (auto simp: still_open_def)

lemma still_open_filter: "still_open outs \<Longrightarrow> filter (\<lambda>ev. ev = CloseConnection) outs = []"
  by (auto simp: still_open_def filter_empty_conv)

lemma fatal_trace: "still_open outs \<Longrightarrow> echo_trace_ok (fst (fatal s err)) (outs @ snd (fatal s err))"
  by (auto simp: fatal_def echo_trace_ok_def ended_well_def still_open_filter still_open_def)

lemma catch_trace:
  "still_open outs \<Longrightarrow> echo_trace_ok (fst (catch_error L s err)) (outs @ snd (catch_error L s err))"
  by (auto simp: catch_error_def fatal_def echo_trace_ok_def ended_well_def still_open_filter
      still_open_def split_beta intro: exI [of _ "outs @ [CloseConnection, x]" for x])

lemma release_trace:
  "still_open outs \<Longrightarrow> announced outs \<Longrightarrow>
   echo_trace_ok (fst (await_release s A w)) (outs @ snd (await_release s A w))"
  by (auto simp: await_release_def echo_trace_ok_def ended_well_def still_open_filter still_open_def)

lemma announce_trace:
  assumes "still_open outs"
  shows "echo_trace_ok (fst (announce_and_release L s A w)) (outs @ snd (announce_and_release L s A w))"
proof -
  have "still_open (outs @ [LogRestart line, CallsRelease])" for line
    using assms by (simp add: still_open_append)
  from release_trace [OF this announced_here] catch_trace [OF assms] show ?thesis
    by (auto simp: announce_and_release_def split_beta split: sum.split)
qed

lemma await_wait_trace:
  "still_open outs \<Longrightarrow> echo_trace_ok (fst (await_wait L s A w)) (outs @ snd (await_wait L s A w))"
  using announce_trace catch_trace
  by (auto simp: await_wait_def echo_trace_ok_def split: option.split sum.split)

lemma start_waiting_trace:
  "still_open outs \<Longrightarrow> echo_trace_ok (fst (start_waiting L c s)) (outs @ snd (start_waiting L c s))"
  unfolding start_waiting_def Let_def by (rule await_wait_trace)

lemma after_bundle_trace:
  "still_open outs \<Longrightarrow> echo_trace_ok (fst (after_bundle L c s)) (outs @ snd (after_bundle L c s))"
  using start_waiting_trace by (simp add: after_bundle_def echo_trace_ok_def)

lemma print_trace:
  assumes "still_open outs" and "\<forall>ob. still_open [line ob]"
    and "\<And>outs s. still_open outs \<Longrightarrow> echo_trace_ok (fst (rest s)) (outs @ snd (rest s))"
  shows "echo_trace_ok (fst (print_bundle L s line bundle rest)) (outs @ snd (print_bundle L s line bundle rest))"
proof (cases "decodeBundle (echo_lang L) (echo_text L) bundle")
  case (Inl e)
  then show ?thesis using catch_trace [OF assms(1)] by (simp add: print_bundle_def)
next
  case (Inr ob)
  have "still_open (outs @ [line ob])" using assms(1,2) by (simp add: still_open_append)
  from assms(3) [OF this, of s] show ?thesis by (simp add: print_bundle_def Inr split_beta)
qed

lemma echo_ended_stays: "echo_phase s = Ended code \<Longrightarrow> echo_step L c s e = (s, [])"
  by (cases e) auto

lemma echo_step_trace:
  assumes "echo_trace_ok s outs"
  shows "echo_trace_ok (fst (echo_step L c s e)) (outs @ snd (echo_step L c s e))"
proof (cases "\<exists>code. echo_phase s = Ended code")
  case True
  with assms show ?thesis by (auto simp: echo_ended_stays)
next
  case False
  then have o: "still_open outs" using assms by (auto simp: echo_trace_ok_def split: echo_phase.splits)
  have releasing: "announced outs" if "echo_phase s = Releasing A w" for A w
    using assms that by (simp add: echo_trace_ok_def)
  show ?thesis
  proof (cases e)
    case (Dialed r)
    have "echo_trace_ok (s\<lparr>echo_phase := Fetching\<rparr>) outs" using o by (simp add: echo_trace_ok_def)
    then show ?thesis
      using assms fatal_trace [OF o] by (auto simp: Dialed split: echo_phase.split sum.split)
  next
    case (Fetched r)
    have lines: "\<forall>ob. still_open [LogBundle ob]" "\<forall>ob. still_open [LogSharedBundle ob]"
      by (simp_all add: still_open_append)
    show ?thesis
      using assms catch_trace [OF o] print_trace [OF o lines(1) after_bundle_trace]
        print_trace [OF o lines(2) start_waiting_trace]
      by (auto simp: Fetched split: echo_phase.split sum.split)
  next
    case (OnWait we)
    then show ?thesis
      using assms await_wait_trace [OF o] release_trace [OF o] releasing
      by (auto split: echo_phase.split)
  next
    case Terminate
    have o2: "still_open (outs @ [LogLine l, AbortController])" for l
      using o by (simp add: still_open_append)
    from releasing have rel: "announced (outs @ [LogLine l, AbortController])"
      if "echo_phase s = Releasing A w" for l A w using that by simp
    have early: "echo_trace_ok (s\<lparr>shutdown_requested := True\<rparr>) (outs @ [LogLine l, AbortController])"
      if "echo_phase s \<in> {Dialing, Fetching, FetchingShared}" for l
      using that o2 by (auto simp: echo_trace_ok_def)
    show ?thesis
      using assms False early await_wait_trace [OF o2] release_trace [OF o2 rel]
      by (cases "echo_phase s") (auto simp: Terminate Let_def split_beta)
  qed
qed

lemma echo_run_trace:
  "echo_trace_ok (fst (run (echo_step L c) echo_start es)) (snd (run (echo_step L c) echo_start es))"
proof (induction es rule: rev_induct)
  case Nil
  show ?case by (simp add: echo_trace_ok_def still_open_append)
next
  case (snoc e es)
  then show ?case by (simp add: run_snoc_simps echo_step_trace)
qed

lemma ended_well_banner: "ended_well sh code outs \<Longrightarrow> ended_well sh code (LogBanner # outs)"
proof -
  assume "ended_well sh code outs"
  then obtain pre where pre: "outs = pre @ [Exit code]" "\<forall>k. Exit k \<notin> set pre"
    "length (filter (\<lambda>ev. ev = CloseConnection) pre) \<le> 1"
    "code = 0 \<and> CloseConnection \<in> set pre \<and> (sh \<or> announced pre) \<or> code = 1 \<and> (\<exists>line. ErrorLine line \<in> set pre)"
    by (auto simp: ended_well_def)
  have "announced pre \<Longrightarrow> announced (LogBanner # pre)"
    unfolding announced_def by (metis append_Cons)
  with pre show ?thesis unfolding ended_well_def by (intro exI [of _ "LogBanner # pre"]) auto
qed

lemma echo_main_ends:
  assumes "echo_phase (fst (echo_main L env es)) = Ended code"
  shows "ended_well (shutdown_requested (fst (echo_main L env es))) code (snd (echo_main L env es))"
proof (cases "loadConfig env")
  case (Inl err)
  have "still_open []" by (simp add: still_open_append)
  from fatal_trace [OF this, of echo_start err] assms Inl show ?thesis
    by (auto simp: echo_main_def split_beta echo_trace_ok_def intro: ended_well_banner)
next
  case (Inr c)
  with echo_run_trace [of L c es] assms show ?thesis
    by (auto simp: echo_main_def split_beta echo_trace_ok_def intro: ended_well_banner)
qed

lemma echo_main_blocked:
  assumes "echo_phase (fst (echo_main L env es)) = Blocked A w"
  shows "echo_phase (fst (echo_main L env (es @ [Terminate]))) = Ended 0 \<and>
     snd (echo_main L env (es @ [Terminate])) = snd (echo_main L env es) @
       [LogLine (''signet-echo: received '' @ echo_signal L @ '', shutting down''), AbortController,
        CloseConnection, LogLine (''signet-echo: exiting after '' @ echo_signal L), Exit 0]"
proof (cases "loadConfig env")
  case (Inl err)
  with assms show ?thesis by (simp add: echo_main_def fatal_def)
next
  case (Inr c)
  with assms have "echo_phase (fst (run (echo_step L c) echo_start es)) = Blocked A w"
    by (simp add: echo_main_def split_beta)
  from echo_blocked_terminates [OF echo_run_inv this] show ?thesis
    by (simp add: echo_main_def Inr split_beta run_snoc_simps del: echo_step.simps)
qed

end
