(* ===== verification/Samples.thy ===== *)
theory Samples
  imports SecretsService PbWire EchoMain
begin

text \<open>
  Messages the witnesses of \<open>Spec2Isabelle\<close> use, with the length of their encoding by \<open>pb_wire\<close>,
  and a proof that a time to live that is not an \<open>int32\<close> has no encoding.
\<close>

definition sample_bundle :: obj where
  "sample_bundle = [(''port'', JString ''80''), (''secrets'', JObject (sealed_entries [(''k'', ''v'')]))]"

definition sample_response :: GetServiceBundleResponse where
  "sample_response = \<lparr>GetServiceBundleResponse_bundle = Some sample_bundle,
     GetServiceBundleResponse_configVersion = 3\<rparr>"

lemma varint_small: "n < 128 \<Longrightarrow> varint n = [to_byte n]"
  by (simp add: varint.simps)

lemmas sample_encode = Struct_encode.simps Struct_FieldsEntry_encode.simps Value_encode.simps
  createBaseValue_def f_opt_def f_any_def f_msg_def f_string_def f_int32_def pb_wire_def w_delimited_def
  varint_small w_signed_def Struct_wrap_def obj_copy_def obj_set_def before_def index_key_def
  digit_val_def proto_key_def

lemma lock_request_lengths:
  "map_option length (requestSerialize (SecretsService_acquireRestartLock pb_wire)
     (initial_request ''ns'' ''svc'' 30)) = Some 11"
  "map_option length (requestSerialize (SecretsService_acquireRestartLock pb_wire) heartbeat_request) = Some 2"
  by (simp_all add: SecretsService_acquireRestartLock_def AcquireRestartLockRequest_encode_def
      initial_request_def heartbeat_request_def sample_encode f_bool_def in_int32_def Let_def)

lemma lock_requests_small:
  "requestSerialize (SecretsService_acquireRestartLock pb_wire) (initial_request ''ns'' ''svc'' 30) = Some b \<Longrightarrow> small b"
  "requestSerialize (SecretsService_acquireRestartLock pb_wire) heartbeat_request = Some b \<Longrightarrow> small b"
  using lock_request_lengths by (simp_all add: small_def)

lemma sample_sealed: "sealed_entries [(''k'', ''v'')] = [(''k'', JString ''dg=='')]"
  by code_simp

lemma bundle_response_length:
  "case responseSerialize (SecretsService_getServiceBundle pb_wire) sample_response of
     None \<Rightarrow> False | Some b \<Rightarrow> length b < 200"
  by (simp add: SecretsService_getServiceBundle_def GetServiceBundleResponse_encode_def sample_response_def
      sample_bundle_def sample_sealed obj_encode_def sample_encode in_int32_def Let_def)

lemma bundle_response_small:
  obtains b where "responseSerialize (SecretsService_getServiceBundle pb_wire) sample_response = Some b" "small b"
  using bundle_response_length by (auto simp: small_def split: option.splits)

lemma unserializable:
  assumes "wire_ok W" and "\<not> in_int32 ttl"
  shows "requestSerialize (SecretsService_acquireRestartLock W) (initial_request ns svc ttl) = None"
  using assms wire_ok_int32(3) [OF assms(1), of ttl]
  by (auto simp: SecretsService_acquireRestartLock_def AcquireRestartLockRequest_encode_def initial_request_def
      f_int32_def in_int32_def f_string_def f_bool_def)

end
