(* ===== verification/AdminSopsMessages.thy ===== *)
theory AdminSopsMessages
  imports MessageCodec
begin

text \<open>
  The messages of \<open>src/gen/admin/v1/admin.ts\<close> on SOPS keys:
  for each, its fields, \<open>createBase\<dots>\<close>, \<open>encode\<close>, the \<open>switch\<close> of \<open>decode\<close> (\<open>\<dots>_field\<close>) and
  \<open>decode\<close> (\<open>\<dots>_dec\<close>), and the proof that it is a codec. A message without fields is \<open>unit\<close>.
\<close>

subsection \<open>GetSOPSPublicKeyRequest\<close>

type_synonym GetSOPSPublicKeyRequest = unit

definition createBaseGetSOPSPublicKeyRequest :: GetSOPSPublicKeyRequest where
  "createBaseGetSOPSPublicKeyRequest =
     ()"

definition GetSOPSPublicKeyRequest_encode :: "wire \<Rightarrow> GetSOPSPublicKeyRequest \<Rightarrow> byte list option" where
  "GetSOPSPublicKeyRequest_encode W m = enc_fields
     []"

definition GetSOPSPublicKeyRequest_field :: "wire \<Rightarrow> nat \<Rightarrow> GetSOPSPublicKeyRequest handler" where
  "GetSOPSPublicKeyRequest_field W r buf tag p m =
     (Some NotHandled)"

definition GetSOPSPublicKeyRequest_dec :: "wire \<Rightarrow> nat \<Rightarrow> GetSOPSPublicKeyRequest decoder" where
  "GetSOPSPublicKeyRequest_dec W = decode_message W (GetSOPSPublicKeyRequest_field W) createBaseGetSOPSPublicKeyRequest"

interpretation GetSOPSPublicKeyRequest_codec: message_codec
  GetSOPSPublicKeyRequest_dec GetSOPSPublicKeyRequest_field createBaseGetSOPSPublicKeyRequest GetSOPSPublicKeyRequest_encode
  "\<lambda>_. True" "\<lambda>_. 1"
  "\<lambda>W. []"
  "[]"
  by unfold_locales
     (auto simp: GetSOPSPublicKeyRequest_dec_def GetSOPSPublicKeyRequest_field_def
       GetSOPSPublicKeyRequest_encode_def createBaseGetSOPSPublicKeyRequest_def
       intro!: simple_laws goes_on_intros)

subsection \<open>GetSOPSPublicKeyResponse\<close>

record GetSOPSPublicKeyResponse =
  GetSOPSPublicKeyResponse_publicKey :: string
  GetSOPSPublicKeyResponse_fingerprint :: string
  GetSOPSPublicKeyResponse_createdAt :: string
  GetSOPSPublicKeyResponse_environment :: string

definition createBaseGetSOPSPublicKeyResponse :: GetSOPSPublicKeyResponse where
  "createBaseGetSOPSPublicKeyResponse =
     \<lparr>GetSOPSPublicKeyResponse_publicKey = '''', GetSOPSPublicKeyResponse_fingerprint = '''',
      GetSOPSPublicKeyResponse_createdAt = '''',
      GetSOPSPublicKeyResponse_environment = ''''\<rparr>"

definition GetSOPSPublicKeyResponse_encode :: "wire \<Rightarrow> GetSOPSPublicKeyResponse \<Rightarrow> byte list option" where
  "GetSOPSPublicKeyResponse_encode W m = enc_fields
     [f_string W 10 (GetSOPSPublicKeyResponse_publicKey m),
      f_string W 18 (GetSOPSPublicKeyResponse_fingerprint m),
      f_string W 26 (GetSOPSPublicKeyResponse_createdAt m),
      f_string W 34 (GetSOPSPublicKeyResponse_environment m)]"

definition GetSOPSPublicKeyResponse_field :: "wire \<Rightarrow> nat \<Rightarrow> GetSOPSPublicKeyResponse handler" where
  "GetSOPSPublicKeyResponse_field W r buf tag p m =
     (if tag = 10 then rd (r_string W) buf p (\<lambda>v. m\<lparr>GetSOPSPublicKeyResponse_publicKey := v\<rparr>)
      else if tag = 18 then rd (r_string W) buf p (\<lambda>v. m\<lparr>GetSOPSPublicKeyResponse_fingerprint := v\<rparr>)
      else if tag = 26 then rd (r_string W) buf p (\<lambda>v. m\<lparr>GetSOPSPublicKeyResponse_createdAt := v\<rparr>)
      else if tag = 34 then rd (r_string W) buf p (\<lambda>v. m\<lparr>GetSOPSPublicKeyResponse_environment := v\<rparr>)
      else Some NotHandled)"

definition GetSOPSPublicKeyResponse_dec :: "wire \<Rightarrow> nat \<Rightarrow> GetSOPSPublicKeyResponse decoder" where
  "GetSOPSPublicKeyResponse_dec W = decode_message W (GetSOPSPublicKeyResponse_field W) createBaseGetSOPSPublicKeyResponse"

interpretation GetSOPSPublicKeyResponse_codec: message_codec
  GetSOPSPublicKeyResponse_dec GetSOPSPublicKeyResponse_field createBaseGetSOPSPublicKeyResponse GetSOPSPublicKeyResponse_encode
  "\<lambda>_. True" "\<lambda>_. 1"
  "\<lambda>W. [string_field W 10 GetSOPSPublicKeyResponse_publicKey (\<lambda>v m. m\<lparr>GetSOPSPublicKeyResponse_publicKey := v\<rparr>),
       string_field W 18 GetSOPSPublicKeyResponse_fingerprint (\<lambda>v m. m\<lparr>GetSOPSPublicKeyResponse_fingerprint := v\<rparr>),
       string_field W 26 GetSOPSPublicKeyResponse_createdAt (\<lambda>v m. m\<lparr>GetSOPSPublicKeyResponse_createdAt := v\<rparr>),
       string_field W 34 GetSOPSPublicKeyResponse_environment (\<lambda>v m. m\<lparr>GetSOPSPublicKeyResponse_environment := v\<rparr>)]"
  "[10, 18, 26, 34]"
  by unfold_locales
     (auto simp: GetSOPSPublicKeyResponse_dec_def GetSOPSPublicKeyResponse_field_def
       GetSOPSPublicKeyResponse_encode_def createBaseGetSOPSPublicKeyResponse_def
       intro!: simple_laws goes_on_intros GetSOPSPublicKeyResponse.equality)

subsection \<open>RotateSOPSKeyRequest\<close>

type_synonym RotateSOPSKeyRequest = unit

definition createBaseRotateSOPSKeyRequest :: RotateSOPSKeyRequest where
  "createBaseRotateSOPSKeyRequest =
     ()"

definition RotateSOPSKeyRequest_encode :: "wire \<Rightarrow> RotateSOPSKeyRequest \<Rightarrow> byte list option" where
  "RotateSOPSKeyRequest_encode W m = enc_fields
     []"

definition RotateSOPSKeyRequest_field :: "wire \<Rightarrow> nat \<Rightarrow> RotateSOPSKeyRequest handler" where
  "RotateSOPSKeyRequest_field W r buf tag p m =
     (Some NotHandled)"

definition RotateSOPSKeyRequest_dec :: "wire \<Rightarrow> nat \<Rightarrow> RotateSOPSKeyRequest decoder" where
  "RotateSOPSKeyRequest_dec W = decode_message W (RotateSOPSKeyRequest_field W) createBaseRotateSOPSKeyRequest"

interpretation RotateSOPSKeyRequest_codec: message_codec
  RotateSOPSKeyRequest_dec RotateSOPSKeyRequest_field createBaseRotateSOPSKeyRequest RotateSOPSKeyRequest_encode
  "\<lambda>_. True" "\<lambda>_. 1"
  "\<lambda>W. []"
  "[]"
  by unfold_locales
     (auto simp: RotateSOPSKeyRequest_dec_def RotateSOPSKeyRequest_field_def
       RotateSOPSKeyRequest_encode_def createBaseRotateSOPSKeyRequest_def
       intro!: simple_laws goes_on_intros)

subsection \<open>RotateSOPSKeyResponse\<close>

record RotateSOPSKeyResponse =
  RotateSOPSKeyResponse_newPublicKey :: string
  RotateSOPSKeyResponse_newFingerprint :: string
  RotateSOPSKeyResponse_oldPublicKey :: string
  RotateSOPSKeyResponse_newEnvironment :: string

definition createBaseRotateSOPSKeyResponse :: RotateSOPSKeyResponse where
  "createBaseRotateSOPSKeyResponse =
     \<lparr>RotateSOPSKeyResponse_newPublicKey = '''', RotateSOPSKeyResponse_newFingerprint = '''',
      RotateSOPSKeyResponse_oldPublicKey = '''',
      RotateSOPSKeyResponse_newEnvironment = ''''\<rparr>"

definition RotateSOPSKeyResponse_encode :: "wire \<Rightarrow> RotateSOPSKeyResponse \<Rightarrow> byte list option" where
  "RotateSOPSKeyResponse_encode W m = enc_fields
     [f_string W 10 (RotateSOPSKeyResponse_newPublicKey m),
      f_string W 18 (RotateSOPSKeyResponse_newFingerprint m),
      f_string W 26 (RotateSOPSKeyResponse_oldPublicKey m),
      f_string W 34 (RotateSOPSKeyResponse_newEnvironment m)]"

definition RotateSOPSKeyResponse_field :: "wire \<Rightarrow> nat \<Rightarrow> RotateSOPSKeyResponse handler" where
  "RotateSOPSKeyResponse_field W r buf tag p m =
     (if tag = 10 then rd (r_string W) buf p (\<lambda>v. m\<lparr>RotateSOPSKeyResponse_newPublicKey := v\<rparr>)
      else if tag = 18 then rd (r_string W) buf p (\<lambda>v. m\<lparr>RotateSOPSKeyResponse_newFingerprint := v\<rparr>)
      else if tag = 26 then rd (r_string W) buf p (\<lambda>v. m\<lparr>RotateSOPSKeyResponse_oldPublicKey := v\<rparr>)
      else if tag = 34 then rd (r_string W) buf p (\<lambda>v. m\<lparr>RotateSOPSKeyResponse_newEnvironment := v\<rparr>)
      else Some NotHandled)"

definition RotateSOPSKeyResponse_dec :: "wire \<Rightarrow> nat \<Rightarrow> RotateSOPSKeyResponse decoder" where
  "RotateSOPSKeyResponse_dec W = decode_message W (RotateSOPSKeyResponse_field W) createBaseRotateSOPSKeyResponse"

interpretation RotateSOPSKeyResponse_codec: message_codec
  RotateSOPSKeyResponse_dec RotateSOPSKeyResponse_field createBaseRotateSOPSKeyResponse RotateSOPSKeyResponse_encode
  "\<lambda>_. True" "\<lambda>_. 1"
  "\<lambda>W. [string_field W 10 RotateSOPSKeyResponse_newPublicKey (\<lambda>v m. m\<lparr>RotateSOPSKeyResponse_newPublicKey := v\<rparr>),
       string_field W 18 RotateSOPSKeyResponse_newFingerprint (\<lambda>v m. m\<lparr>RotateSOPSKeyResponse_newFingerprint := v\<rparr>),
       string_field W 26 RotateSOPSKeyResponse_oldPublicKey (\<lambda>v m. m\<lparr>RotateSOPSKeyResponse_oldPublicKey := v\<rparr>),
       string_field W 34 RotateSOPSKeyResponse_newEnvironment (\<lambda>v m. m\<lparr>RotateSOPSKeyResponse_newEnvironment := v\<rparr>)]"
  "[10, 18, 26, 34]"
  by unfold_locales
     (auto simp: RotateSOPSKeyResponse_dec_def RotateSOPSKeyResponse_field_def
       RotateSOPSKeyResponse_encode_def createBaseRotateSOPSKeyResponse_def
       intro!: simple_laws goes_on_intros RotateSOPSKeyResponse.equality)

subsection \<open>ListSOPSKeysRequest\<close>

type_synonym ListSOPSKeysRequest = unit

definition createBaseListSOPSKeysRequest :: ListSOPSKeysRequest where
  "createBaseListSOPSKeysRequest =
     ()"

definition ListSOPSKeysRequest_encode :: "wire \<Rightarrow> ListSOPSKeysRequest \<Rightarrow> byte list option" where
  "ListSOPSKeysRequest_encode W m = enc_fields
     []"

definition ListSOPSKeysRequest_field :: "wire \<Rightarrow> nat \<Rightarrow> ListSOPSKeysRequest handler" where
  "ListSOPSKeysRequest_field W r buf tag p m =
     (Some NotHandled)"

definition ListSOPSKeysRequest_dec :: "wire \<Rightarrow> nat \<Rightarrow> ListSOPSKeysRequest decoder" where
  "ListSOPSKeysRequest_dec W = decode_message W (ListSOPSKeysRequest_field W) createBaseListSOPSKeysRequest"

interpretation ListSOPSKeysRequest_codec: message_codec
  ListSOPSKeysRequest_dec ListSOPSKeysRequest_field createBaseListSOPSKeysRequest ListSOPSKeysRequest_encode
  "\<lambda>_. True" "\<lambda>_. 1"
  "\<lambda>W. []"
  "[]"
  by unfold_locales
     (auto simp: ListSOPSKeysRequest_dec_def ListSOPSKeysRequest_field_def
       ListSOPSKeysRequest_encode_def createBaseListSOPSKeysRequest_def
       intro!: simple_laws goes_on_intros)

subsection \<open>SOPSKeyInfo\<close>

record SOPSKeyInfo =
  SOPSKeyInfo_publicKey :: string
  SOPSKeyInfo_fingerprint :: string
  SOPSKeyInfo_isActive :: bool
  SOPSKeyInfo_createdAt :: string
  SOPSKeyInfo_deactivatedAt :: string
  SOPSKeyInfo_environment :: string

definition createBaseSOPSKeyInfo :: SOPSKeyInfo where
  "createBaseSOPSKeyInfo =
     \<lparr>SOPSKeyInfo_publicKey = '''', SOPSKeyInfo_fingerprint = '''',
      SOPSKeyInfo_isActive = False, SOPSKeyInfo_createdAt = '''',
      SOPSKeyInfo_deactivatedAt = '''', SOPSKeyInfo_environment = ''''\<rparr>"

definition SOPSKeyInfo_encode :: "wire \<Rightarrow> SOPSKeyInfo \<Rightarrow> byte list option" where
  "SOPSKeyInfo_encode W m = enc_fields
     [f_string W 10 (SOPSKeyInfo_publicKey m),
      f_string W 18 (SOPSKeyInfo_fingerprint m),
      f_bool W 24 (SOPSKeyInfo_isActive m),
      f_string W 34 (SOPSKeyInfo_createdAt m),
      f_string W 42 (SOPSKeyInfo_deactivatedAt m),
      f_string W 50 (SOPSKeyInfo_environment m)]"

definition SOPSKeyInfo_field :: "wire \<Rightarrow> nat \<Rightarrow> SOPSKeyInfo handler" where
  "SOPSKeyInfo_field W r buf tag p m =
     (if tag = 10 then rd (r_string W) buf p (\<lambda>v. m\<lparr>SOPSKeyInfo_publicKey := v\<rparr>)
      else if tag = 18 then rd (r_string W) buf p (\<lambda>v. m\<lparr>SOPSKeyInfo_fingerprint := v\<rparr>)
      else if tag = 24 then rd (r_bool W) buf p (\<lambda>v. m\<lparr>SOPSKeyInfo_isActive := v\<rparr>)
      else if tag = 34 then rd (r_string W) buf p (\<lambda>v. m\<lparr>SOPSKeyInfo_createdAt := v\<rparr>)
      else if tag = 42 then rd (r_string W) buf p (\<lambda>v. m\<lparr>SOPSKeyInfo_deactivatedAt := v\<rparr>)
      else if tag = 50 then rd (r_string W) buf p (\<lambda>v. m\<lparr>SOPSKeyInfo_environment := v\<rparr>)
      else Some NotHandled)"

definition SOPSKeyInfo_dec :: "wire \<Rightarrow> nat \<Rightarrow> SOPSKeyInfo decoder" where
  "SOPSKeyInfo_dec W = decode_message W (SOPSKeyInfo_field W) createBaseSOPSKeyInfo"

interpretation SOPSKeyInfo_codec: message_codec
  SOPSKeyInfo_dec SOPSKeyInfo_field createBaseSOPSKeyInfo SOPSKeyInfo_encode
  "\<lambda>_. True" "\<lambda>_. 1"
  "\<lambda>W. [string_field W 10 SOPSKeyInfo_publicKey (\<lambda>v m. m\<lparr>SOPSKeyInfo_publicKey := v\<rparr>),
       string_field W 18 SOPSKeyInfo_fingerprint (\<lambda>v m. m\<lparr>SOPSKeyInfo_fingerprint := v\<rparr>),
       bool_field W 24 SOPSKeyInfo_isActive (\<lambda>v m. m\<lparr>SOPSKeyInfo_isActive := v\<rparr>),
       string_field W 34 SOPSKeyInfo_createdAt (\<lambda>v m. m\<lparr>SOPSKeyInfo_createdAt := v\<rparr>),
       string_field W 42 SOPSKeyInfo_deactivatedAt (\<lambda>v m. m\<lparr>SOPSKeyInfo_deactivatedAt := v\<rparr>),
       string_field W 50 SOPSKeyInfo_environment (\<lambda>v m. m\<lparr>SOPSKeyInfo_environment := v\<rparr>)]"
  "[10, 18, 24, 34, 42, 50]"
  by unfold_locales
     (auto simp: SOPSKeyInfo_dec_def SOPSKeyInfo_field_def SOPSKeyInfo_encode_def
       createBaseSOPSKeyInfo_def
       intro!: simple_laws goes_on_intros SOPSKeyInfo.equality)

subsection \<open>ListSOPSKeysResponse\<close>

record ListSOPSKeysResponse =
  ListSOPSKeysResponse_keys :: "SOPSKeyInfo list"

definition createBaseListSOPSKeysResponse :: ListSOPSKeysResponse where
  "createBaseListSOPSKeysResponse =
     \<lparr>ListSOPSKeysResponse_keys = []\<rparr>"

definition ListSOPSKeysResponse_encode :: "wire \<Rightarrow> ListSOPSKeysResponse \<Rightarrow> byte list option" where
  "ListSOPSKeysResponse_encode W m = enc_fields
     [f_rep_msg W 10 (SOPSKeyInfo_encode W) (ListSOPSKeysResponse_keys m)]"

definition ListSOPSKeysResponse_field :: "wire \<Rightarrow> nat \<Rightarrow> ListSOPSKeysResponse handler" where
  "ListSOPSKeysResponse_field W r buf tag p m =
     (if tag = 10 then rd_msg W (SOPSKeyInfo_dec W r) buf p (\<lambda>v. m\<lparr>ListSOPSKeysResponse_keys := ListSOPSKeysResponse_keys m @ [v]\<rparr>)
      else Some NotHandled)"

definition ListSOPSKeysResponse_dec :: "wire \<Rightarrow> nat \<Rightarrow> ListSOPSKeysResponse decoder" where
  "ListSOPSKeysResponse_dec W = decode_message W (ListSOPSKeysResponse_field W) createBaseListSOPSKeysResponse"

definition depth_ListSOPSKeysResponse :: "ListSOPSKeysResponse \<Rightarrow> nat" where
  "depth_ListSOPSKeysResponse m = Suc (list_depth (\<lambda>_. 1) (ListSOPSKeysResponse_keys m))"

interpretation ListSOPSKeysResponse_codec: message_codec
  ListSOPSKeysResponse_dec ListSOPSKeysResponse_field createBaseListSOPSKeysResponse ListSOPSKeysResponse_encode
  "\<lambda>_. True" "depth_ListSOPSKeysResponse"
  "\<lambda>W. [rep_msg_field W 10 (SOPSKeyInfo_encode W) ListSOPSKeysResponse_keys (\<lambda>v m. m\<lparr>ListSOPSKeysResponse_keys := v\<rparr>)]"
  "[10]"
  by unfold_locales
     (auto simp: ListSOPSKeysResponse_dec_def ListSOPSKeysResponse_field_def
       ListSOPSKeysResponse_encode_def createBaseListSOPSKeysResponse_def
       depth_ListSOPSKeysResponse_def SOPSKeyInfo_codec.list_total
       intro!: simple_laws goes_on_intros SOPSKeyInfo_codec.law_list SOPSKeyInfo_codec.goes_on_nested ListSOPSKeysResponse.equality)

subsection \<open>PruneSOPSKeyRequest\<close>

record PruneSOPSKeyRequest =
  PruneSOPSKeyRequest_publicKey :: string

definition createBasePruneSOPSKeyRequest :: PruneSOPSKeyRequest where
  "createBasePruneSOPSKeyRequest =
     \<lparr>PruneSOPSKeyRequest_publicKey = ''''\<rparr>"

definition PruneSOPSKeyRequest_encode :: "wire \<Rightarrow> PruneSOPSKeyRequest \<Rightarrow> byte list option" where
  "PruneSOPSKeyRequest_encode W m = enc_fields
     [f_string W 10 (PruneSOPSKeyRequest_publicKey m)]"

definition PruneSOPSKeyRequest_field :: "wire \<Rightarrow> nat \<Rightarrow> PruneSOPSKeyRequest handler" where
  "PruneSOPSKeyRequest_field W r buf tag p m =
     (if tag = 10 then rd (r_string W) buf p (\<lambda>v. m\<lparr>PruneSOPSKeyRequest_publicKey := v\<rparr>)
      else Some NotHandled)"

definition PruneSOPSKeyRequest_dec :: "wire \<Rightarrow> nat \<Rightarrow> PruneSOPSKeyRequest decoder" where
  "PruneSOPSKeyRequest_dec W = decode_message W (PruneSOPSKeyRequest_field W) createBasePruneSOPSKeyRequest"

interpretation PruneSOPSKeyRequest_codec: message_codec
  PruneSOPSKeyRequest_dec PruneSOPSKeyRequest_field createBasePruneSOPSKeyRequest PruneSOPSKeyRequest_encode
  "\<lambda>_. True" "\<lambda>_. 1"
  "\<lambda>W. [string_field W 10 PruneSOPSKeyRequest_publicKey (\<lambda>v m. m\<lparr>PruneSOPSKeyRequest_publicKey := v\<rparr>)]"
  "[10]"
  by unfold_locales
     (auto simp: PruneSOPSKeyRequest_dec_def PruneSOPSKeyRequest_field_def
       PruneSOPSKeyRequest_encode_def createBasePruneSOPSKeyRequest_def
       intro!: simple_laws goes_on_intros PruneSOPSKeyRequest.equality)

subsection \<open>PruneSOPSKeyResponse\<close>

record PruneSOPSKeyResponse =
  PruneSOPSKeyResponse_message :: string

definition createBasePruneSOPSKeyResponse :: PruneSOPSKeyResponse where
  "createBasePruneSOPSKeyResponse =
     \<lparr>PruneSOPSKeyResponse_message = ''''\<rparr>"

definition PruneSOPSKeyResponse_encode :: "wire \<Rightarrow> PruneSOPSKeyResponse \<Rightarrow> byte list option" where
  "PruneSOPSKeyResponse_encode W m = enc_fields
     [f_string W 10 (PruneSOPSKeyResponse_message m)]"

definition PruneSOPSKeyResponse_field :: "wire \<Rightarrow> nat \<Rightarrow> PruneSOPSKeyResponse handler" where
  "PruneSOPSKeyResponse_field W r buf tag p m =
     (if tag = 10 then rd (r_string W) buf p (\<lambda>v. m\<lparr>PruneSOPSKeyResponse_message := v\<rparr>)
      else Some NotHandled)"

definition PruneSOPSKeyResponse_dec :: "wire \<Rightarrow> nat \<Rightarrow> PruneSOPSKeyResponse decoder" where
  "PruneSOPSKeyResponse_dec W = decode_message W (PruneSOPSKeyResponse_field W) createBasePruneSOPSKeyResponse"

interpretation PruneSOPSKeyResponse_codec: message_codec
  PruneSOPSKeyResponse_dec PruneSOPSKeyResponse_field createBasePruneSOPSKeyResponse PruneSOPSKeyResponse_encode
  "\<lambda>_. True" "\<lambda>_. 1"
  "\<lambda>W. [string_field W 10 PruneSOPSKeyResponse_message (\<lambda>v m. m\<lparr>PruneSOPSKeyResponse_message := v\<rparr>)]"
  "[10]"
  by unfold_locales
     (auto simp: PruneSOPSKeyResponse_dec_def PruneSOPSKeyResponse_field_def
       PruneSOPSKeyResponse_encode_def createBasePruneSOPSKeyResponse_def
       intro!: simple_laws goes_on_intros PruneSOPSKeyResponse.equality)

text \<open>Every codec of this theory reads back what it wrote.\<close>

lemmas AdminSopsMessages_sound =
      GetSOPSPublicKeyRequest_codec.sound GetSOPSPublicKeyResponse_codec.sound
      RotateSOPSKeyRequest_codec.sound RotateSOPSKeyResponse_codec.sound
      ListSOPSKeysRequest_codec.sound SOPSKeyInfo_codec.sound ListSOPSKeysResponse_codec.sound
      PruneSOPSKeyRequest_codec.sound PruneSOPSKeyResponse_codec.sound

text \<open>Every codec of this theory returns.\<close>

lemmas AdminSopsMessages_total =
      GetSOPSPublicKeyRequest_codec.total GetSOPSPublicKeyResponse_codec.total
      RotateSOPSKeyRequest_codec.total RotateSOPSKeyResponse_codec.total
      ListSOPSKeysRequest_codec.total SOPSKeyInfo_codec.total ListSOPSKeysResponse_codec.total
      PruneSOPSKeyRequest_codec.total PruneSOPSKeyResponse_codec.total

text \<open>Every codec of this theory skips what it does not know.\<close>

lemmas AdminSopsMessages_ignores =
      GetSOPSPublicKeyRequest_codec.ignores GetSOPSPublicKeyResponse_codec.ignores
      RotateSOPSKeyRequest_codec.ignores RotateSOPSKeyResponse_codec.ignores
      ListSOPSKeysRequest_codec.ignores SOPSKeyInfo_codec.ignores
      ListSOPSKeysResponse_codec.ignores PruneSOPSKeyRequest_codec.ignores
      PruneSOPSKeyResponse_codec.ignores

end
