(* ===== verification/GitOpsExample.thy ===== *)
theory GitOpsExample
  imports Workload AdminSopsMessages
begin

text \<open>
  \<open>examples/gitops-workload/main.ts\<close>: one call of \<open>GetSOPSPublicKey\<close> with the identity of the
  workload. The options given on the command line (\<open>parseArgs\<close> of \<open>node:util\<close>) are a map, what the
  dial and the call settle with are arguments.
\<close>

section \<open>Command line\<close>

text \<open>
  The options as \<open>parseArgs\<close> finds them on the command line: the strings by name, and whether
  \<open>--help\<close> is there.
\<close>

record given_options =
  given :: "string \<Rightarrow> string option"
  given_help :: bool

record flags =
  flag_addr :: string
  flag_socket :: string
  flag_trustDomain :: string

definition usage :: string where
  "usage = join_lines
     [''Usage: node dist/main.js [options]'',
      '''',
      ''Options:'',
      ''  --addr <address>          signet workload gRPC address (default: '' @ [CHR 0x22] @ ''localhost:8443'' @ [CHR 0x22] @ '')'',
      ''  --socket <uri>             SPIFFE Workload API socket (default: '' @ [CHR 0x22] @ ''unix:///run/spire/sockets/agent.sock'' @ [CHR 0x22] @ '')'',
      ''  --trust-domain <domain>    expected SPIFFE trust domain (default: '' @ [CHR 0x22] @ ''example.org'' @ [CHR 0x22] @ '')'']"

definition or_given :: "string option \<Rightarrow> string \<Rightarrow> string" where
  "or_given x dflt = (case x of None \<Rightarrow> dflt | Some s \<Rightarrow> s)"

text \<open>\<open>None\<close>: the usage is printed and the process ends.\<close>

definition parseFlags :: "given_options \<Rightarrow> flags option" where
  "parseFlags g =
     (if given_help g then None
      else Some \<lparr>flag_addr = or_given (given g ''addr'') ''localhost:8443'',
                 flag_socket = or_given (given g ''socket'') ''unix:///run/spire/sockets/agent.sock'',
                 flag_trustDomain = or_given (given g ''trust-domain'') ''example.org''\<rparr>)"

section \<open>main\<close>

text \<open>The line printed for a key ends in the JSON text of its \<open>environment\<close>.\<close>

datatype example_output =
    PrintUsage string
  | PrintKey string string string
  | PrintFatal string
  | CloseClient
  | ExitWith nat

definition fatal_exit :: "thrown \<Rightarrow> example_output list" where
  "fatal_exit err = [PrintFatal (''gitops-workload: fatal: '' @ err_message err), ExitWith 1]"

definition workload_dial_of :: "flags \<Rightarrow> unit dial_workload_options" where
  "workload_dial_of f = \<lparr>workload_address = flag_addr f, workloadSocket = Some (flag_socket f),
     trustDomain = flag_trustDomain f, channelOptions = None\<rparr>"

text \<open>
  \<open>dial\<close> is what \<open>dialWorkloadGitOps\<close> settles with for its options, \<open>call\<close> what \<open>getSopsPublicKey\<close>
  does. The \<open>finally\<close> closes the connection whether the call succeeds or not.
\<close>

definition example_main ::
  "given_options \<Rightarrow> (unit dial_workload_options \<Rightarrow> thrown + 'client workload_connection) \<Rightarrow>
   ('client \<Rightarrow> thrown + GetSOPSPublicKeyResponse) \<Rightarrow> example_output list" where
  "example_main g dial call =
     (case parseFlags g of
        None \<Rightarrow> [PrintUsage usage, ExitWith 0]
      | Some f \<Rightarrow> (case dial (workload_dial_of f) of
          Inl err \<Rightarrow> fatal_exit err
        | Inr c \<Rightarrow> (case call (connection_client c) of
            Inl err \<Rightarrow> CloseClient # fatal_exit err
          | Inr resp \<Rightarrow>
              [PrintKey (GetSOPSPublicKeyResponse_publicKey resp)
                 (GetSOPSPublicKeyResponse_fingerprint resp)
                 (GetSOPSPublicKeyResponse_environment resp), CloseClient])))"

lemma example_closes_iff_dialled:
  "length (filter (\<lambda>ev. ev = CloseClient) (example_main g dial call)) =
     (case parseFlags g of
        None \<Rightarrow> 0 | Some f \<Rightarrow> (case dial (workload_dial_of f) of Inl err \<Rightarrow> 0 | Inr c \<Rightarrow> 1))"
  by (simp add: example_main_def fatal_exit_def split: option.split sum.split)

end
