(* ===== verification/AdminSealMessages.thy ===== *)
theory AdminSealMessages
  imports MessageCodec
begin

text \<open>
  The messages of \<open>src/gen/admin/v1/admin.ts\<close> on sealing, master key and key encryption keys:
  for each, its fields, \<open>createBase\<dots>\<close>, \<open>encode\<close>, the \<open>switch\<close> of \<open>decode\<close> (\<open>\<dots>_field\<close>) and
  \<open>decode\<close> (\<open>\<dots>_dec\<close>), and the proof that it is a codec. A message without fields is \<open>unit\<close>.
\<close>

subsection \<open>UnsealKeyRequest\<close>

record UnsealKeyRequest =
  UnsealKeyRequest_key :: "byte list"

definition createBaseUnsealKeyRequest :: UnsealKeyRequest where
  "createBaseUnsealKeyRequest =
     \<lparr>UnsealKeyRequest_key = []\<rparr>"

definition UnsealKeyRequest_encode :: "wire \<Rightarrow> UnsealKeyRequest \<Rightarrow> byte list option" where
  "UnsealKeyRequest_encode W m = enc_fields
     [f_bytes W 10 (UnsealKeyRequest_key m)]"

definition UnsealKeyRequest_field :: "wire \<Rightarrow> nat \<Rightarrow> UnsealKeyRequest handler" where
  "UnsealKeyRequest_field W r buf tag p m =
     (if tag = 10 then rd (r_bytes W) buf p (\<lambda>v. m\<lparr>UnsealKeyRequest_key := v\<rparr>)
      else Some NotHandled)"

definition UnsealKeyRequest_dec :: "wire \<Rightarrow> nat \<Rightarrow> UnsealKeyRequest decoder" where
  "UnsealKeyRequest_dec W = decode_message W (UnsealKeyRequest_field W) createBaseUnsealKeyRequest"

interpretation UnsealKeyRequest_codec: message_codec
  UnsealKeyRequest_dec UnsealKeyRequest_field createBaseUnsealKeyRequest UnsealKeyRequest_encode
  "\<lambda>_. True" "\<lambda>_. 1"
  "\<lambda>W. [bytes_field W 10 UnsealKeyRequest_key (\<lambda>v m. m\<lparr>UnsealKeyRequest_key := v\<rparr>)]"
  "[10]"
  by unfold_locales
     (auto simp: UnsealKeyRequest_dec_def UnsealKeyRequest_field_def
       UnsealKeyRequest_encode_def createBaseUnsealKeyRequest_def
       intro!: simple_laws goes_on_intros UnsealKeyRequest.equality)

subsection \<open>UnsealKeyResponse\<close>

record UnsealKeyResponse =
  UnsealKeyResponse_unsealed :: bool
  UnsealKeyResponse_sharesReceived :: int
  UnsealKeyResponse_sharesRequired :: int
  UnsealKeyResponse_message :: string

definition createBaseUnsealKeyResponse :: UnsealKeyResponse where
  "createBaseUnsealKeyResponse =
     \<lparr>UnsealKeyResponse_unsealed = False, UnsealKeyResponse_sharesReceived = 0,
      UnsealKeyResponse_sharesRequired = 0, UnsealKeyResponse_message = ''''\<rparr>"

definition UnsealKeyResponse_encode :: "wire \<Rightarrow> UnsealKeyResponse \<Rightarrow> byte list option" where
  "UnsealKeyResponse_encode W m = enc_fields
     [f_bool W 8 (UnsealKeyResponse_unsealed m),
      f_int32 W 16 (UnsealKeyResponse_sharesReceived m),
      f_int32 W 24 (UnsealKeyResponse_sharesRequired m),
      f_string W 34 (UnsealKeyResponse_message m)]"

definition UnsealKeyResponse_field :: "wire \<Rightarrow> nat \<Rightarrow> UnsealKeyResponse handler" where
  "UnsealKeyResponse_field W r buf tag p m =
     (if tag = 8 then rd (r_bool W) buf p (\<lambda>v. m\<lparr>UnsealKeyResponse_unsealed := v\<rparr>)
      else if tag = 16 then rd (r_int32 W) buf p (\<lambda>v. m\<lparr>UnsealKeyResponse_sharesReceived := v\<rparr>)
      else if tag = 24 then rd (r_int32 W) buf p (\<lambda>v. m\<lparr>UnsealKeyResponse_sharesRequired := v\<rparr>)
      else if tag = 34 then rd (r_string W) buf p (\<lambda>v. m\<lparr>UnsealKeyResponse_message := v\<rparr>)
      else Some NotHandled)"

definition UnsealKeyResponse_dec :: "wire \<Rightarrow> nat \<Rightarrow> UnsealKeyResponse decoder" where
  "UnsealKeyResponse_dec W = decode_message W (UnsealKeyResponse_field W) createBaseUnsealKeyResponse"

definition valid_UnsealKeyResponse :: "UnsealKeyResponse \<Rightarrow> bool" where
  "valid_UnsealKeyResponse m \<longleftrightarrow> in_int32 (UnsealKeyResponse_sharesReceived m) \<and> in_int32 (UnsealKeyResponse_sharesRequired m)"

interpretation UnsealKeyResponse_codec: message_codec
  UnsealKeyResponse_dec UnsealKeyResponse_field createBaseUnsealKeyResponse UnsealKeyResponse_encode
  "valid_UnsealKeyResponse" "\<lambda>_. 1"
  "\<lambda>W. [bool_field W 8 UnsealKeyResponse_unsealed (\<lambda>v m. m\<lparr>UnsealKeyResponse_unsealed := v\<rparr>),
       int32_field W 16 UnsealKeyResponse_sharesReceived (\<lambda>v m. m\<lparr>UnsealKeyResponse_sharesReceived := v\<rparr>),
       int32_field W 24 UnsealKeyResponse_sharesRequired (\<lambda>v m. m\<lparr>UnsealKeyResponse_sharesRequired := v\<rparr>),
       string_field W 34 UnsealKeyResponse_message (\<lambda>v m. m\<lparr>UnsealKeyResponse_message := v\<rparr>)]"
  "[8, 16, 24, 34]"
  by unfold_locales
     (auto simp: UnsealKeyResponse_dec_def UnsealKeyResponse_field_def
       UnsealKeyResponse_encode_def createBaseUnsealKeyResponse_def
       valid_UnsealKeyResponse_def int_field_total
       intro!: simple_laws goes_on_intros UnsealKeyResponse.equality)

subsection \<open>UnsealShareRequest\<close>

record UnsealShareRequest =
  UnsealShareRequest_share :: "byte list"

definition createBaseUnsealShareRequest :: UnsealShareRequest where
  "createBaseUnsealShareRequest =
     \<lparr>UnsealShareRequest_share = []\<rparr>"

definition UnsealShareRequest_encode :: "wire \<Rightarrow> UnsealShareRequest \<Rightarrow> byte list option" where
  "UnsealShareRequest_encode W m = enc_fields
     [f_bytes W 10 (UnsealShareRequest_share m)]"

definition UnsealShareRequest_field :: "wire \<Rightarrow> nat \<Rightarrow> UnsealShareRequest handler" where
  "UnsealShareRequest_field W r buf tag p m =
     (if tag = 10 then rd (r_bytes W) buf p (\<lambda>v. m\<lparr>UnsealShareRequest_share := v\<rparr>)
      else Some NotHandled)"

definition UnsealShareRequest_dec :: "wire \<Rightarrow> nat \<Rightarrow> UnsealShareRequest decoder" where
  "UnsealShareRequest_dec W = decode_message W (UnsealShareRequest_field W) createBaseUnsealShareRequest"

interpretation UnsealShareRequest_codec: message_codec
  UnsealShareRequest_dec UnsealShareRequest_field createBaseUnsealShareRequest UnsealShareRequest_encode
  "\<lambda>_. True" "\<lambda>_. 1"
  "\<lambda>W. [bytes_field W 10 UnsealShareRequest_share (\<lambda>v m. m\<lparr>UnsealShareRequest_share := v\<rparr>)]"
  "[10]"
  by unfold_locales
     (auto simp: UnsealShareRequest_dec_def UnsealShareRequest_field_def
       UnsealShareRequest_encode_def createBaseUnsealShareRequest_def
       intro!: simple_laws goes_on_intros UnsealShareRequest.equality)

subsection \<open>UnsealShareResponse\<close>

record UnsealShareResponse =
  UnsealShareResponse_unsealed :: bool
  UnsealShareResponse_sharesReceived :: int
  UnsealShareResponse_sharesRequired :: int
  UnsealShareResponse_message :: string

definition createBaseUnsealShareResponse :: UnsealShareResponse where
  "createBaseUnsealShareResponse =
     \<lparr>UnsealShareResponse_unsealed = False, UnsealShareResponse_sharesReceived = 0,
      UnsealShareResponse_sharesRequired = 0, UnsealShareResponse_message = ''''\<rparr>"

definition UnsealShareResponse_encode :: "wire \<Rightarrow> UnsealShareResponse \<Rightarrow> byte list option" where
  "UnsealShareResponse_encode W m = enc_fields
     [f_bool W 8 (UnsealShareResponse_unsealed m),
      f_int32 W 16 (UnsealShareResponse_sharesReceived m),
      f_int32 W 24 (UnsealShareResponse_sharesRequired m),
      f_string W 34 (UnsealShareResponse_message m)]"

definition UnsealShareResponse_field :: "wire \<Rightarrow> nat \<Rightarrow> UnsealShareResponse handler" where
  "UnsealShareResponse_field W r buf tag p m =
     (if tag = 8 then rd (r_bool W) buf p (\<lambda>v. m\<lparr>UnsealShareResponse_unsealed := v\<rparr>)
      else if tag = 16 then rd (r_int32 W) buf p (\<lambda>v. m\<lparr>UnsealShareResponse_sharesReceived := v\<rparr>)
      else if tag = 24 then rd (r_int32 W) buf p (\<lambda>v. m\<lparr>UnsealShareResponse_sharesRequired := v\<rparr>)
      else if tag = 34 then rd (r_string W) buf p (\<lambda>v. m\<lparr>UnsealShareResponse_message := v\<rparr>)
      else Some NotHandled)"

definition UnsealShareResponse_dec :: "wire \<Rightarrow> nat \<Rightarrow> UnsealShareResponse decoder" where
  "UnsealShareResponse_dec W = decode_message W (UnsealShareResponse_field W) createBaseUnsealShareResponse"

definition valid_UnsealShareResponse :: "UnsealShareResponse \<Rightarrow> bool" where
  "valid_UnsealShareResponse m \<longleftrightarrow> in_int32 (UnsealShareResponse_sharesReceived m) \<and> in_int32 (UnsealShareResponse_sharesRequired m)"

interpretation UnsealShareResponse_codec: message_codec
  UnsealShareResponse_dec UnsealShareResponse_field createBaseUnsealShareResponse UnsealShareResponse_encode
  "valid_UnsealShareResponse" "\<lambda>_. 1"
  "\<lambda>W. [bool_field W 8 UnsealShareResponse_unsealed (\<lambda>v m. m\<lparr>UnsealShareResponse_unsealed := v\<rparr>),
       int32_field W 16 UnsealShareResponse_sharesReceived (\<lambda>v m. m\<lparr>UnsealShareResponse_sharesReceived := v\<rparr>),
       int32_field W 24 UnsealShareResponse_sharesRequired (\<lambda>v m. m\<lparr>UnsealShareResponse_sharesRequired := v\<rparr>),
       string_field W 34 UnsealShareResponse_message (\<lambda>v m. m\<lparr>UnsealShareResponse_message := v\<rparr>)]"
  "[8, 16, 24, 34]"
  by unfold_locales
     (auto simp: UnsealShareResponse_dec_def UnsealShareResponse_field_def
       UnsealShareResponse_encode_def createBaseUnsealShareResponse_def
       valid_UnsealShareResponse_def int_field_total
       intro!: simple_laws goes_on_intros UnsealShareResponse.equality)

subsection \<open>SealRequest\<close>

type_synonym SealRequest = unit

definition createBaseSealRequest :: SealRequest where
  "createBaseSealRequest =
     ()"

definition SealRequest_encode :: "wire \<Rightarrow> SealRequest \<Rightarrow> byte list option" where
  "SealRequest_encode W m = enc_fields
     []"

definition SealRequest_field :: "wire \<Rightarrow> nat \<Rightarrow> SealRequest handler" where
  "SealRequest_field W r buf tag p m =
     (Some NotHandled)"

definition SealRequest_dec :: "wire \<Rightarrow> nat \<Rightarrow> SealRequest decoder" where
  "SealRequest_dec W = decode_message W (SealRequest_field W) createBaseSealRequest"

interpretation SealRequest_codec: message_codec
  SealRequest_dec SealRequest_field createBaseSealRequest SealRequest_encode
  "\<lambda>_. True" "\<lambda>_. 1"
  "\<lambda>W. []"
  "[]"
  by unfold_locales
     (auto simp: SealRequest_dec_def SealRequest_field_def SealRequest_encode_def
       createBaseSealRequest_def
       intro!: simple_laws goes_on_intros)

subsection \<open>SealResponse\<close>

record SealResponse =
  SealResponse_message :: string

definition createBaseSealResponse :: SealResponse where
  "createBaseSealResponse =
     \<lparr>SealResponse_message = ''''\<rparr>"

definition SealResponse_encode :: "wire \<Rightarrow> SealResponse \<Rightarrow> byte list option" where
  "SealResponse_encode W m = enc_fields
     [f_string W 10 (SealResponse_message m)]"

definition SealResponse_field :: "wire \<Rightarrow> nat \<Rightarrow> SealResponse handler" where
  "SealResponse_field W r buf tag p m =
     (if tag = 10 then rd (r_string W) buf p (\<lambda>v. m\<lparr>SealResponse_message := v\<rparr>)
      else Some NotHandled)"

definition SealResponse_dec :: "wire \<Rightarrow> nat \<Rightarrow> SealResponse decoder" where
  "SealResponse_dec W = decode_message W (SealResponse_field W) createBaseSealResponse"

interpretation SealResponse_codec: message_codec
  SealResponse_dec SealResponse_field createBaseSealResponse SealResponse_encode
  "\<lambda>_. True" "\<lambda>_. 1"
  "\<lambda>W. [string_field W 10 SealResponse_message (\<lambda>v m. m\<lparr>SealResponse_message := v\<rparr>)]"
  "[10]"
  by unfold_locales
     (auto simp: SealResponse_dec_def SealResponse_field_def SealResponse_encode_def
       createBaseSealResponse_def
       intro!: simple_laws goes_on_intros SealResponse.equality)

subsection \<open>StatusRequest\<close>

type_synonym StatusRequest = unit

definition createBaseStatusRequest :: StatusRequest where
  "createBaseStatusRequest =
     ()"

definition StatusRequest_encode :: "wire \<Rightarrow> StatusRequest \<Rightarrow> byte list option" where
  "StatusRequest_encode W m = enc_fields
     []"

definition StatusRequest_field :: "wire \<Rightarrow> nat \<Rightarrow> StatusRequest handler" where
  "StatusRequest_field W r buf tag p m =
     (Some NotHandled)"

definition StatusRequest_dec :: "wire \<Rightarrow> nat \<Rightarrow> StatusRequest decoder" where
  "StatusRequest_dec W = decode_message W (StatusRequest_field W) createBaseStatusRequest"

interpretation StatusRequest_codec: message_codec
  StatusRequest_dec StatusRequest_field createBaseStatusRequest StatusRequest_encode
  "\<lambda>_. True" "\<lambda>_. 1"
  "\<lambda>W. []"
  "[]"
  by unfold_locales
     (auto simp: StatusRequest_dec_def StatusRequest_field_def StatusRequest_encode_def
       createBaseStatusRequest_def
       intro!: simple_laws goes_on_intros)

subsection \<open>StatusResponse\<close>

record StatusResponse =
  StatusResponse_state :: int
  StatusResponse_sharesReceived :: int
  StatusResponse_sharesRequired :: int
  StatusResponse_version :: string

definition createBaseStatusResponse :: StatusResponse where
  "createBaseStatusResponse =
     \<lparr>StatusResponse_state = 0, StatusResponse_sharesReceived = 0,
      StatusResponse_sharesRequired = 0, StatusResponse_version = ''''\<rparr>"

definition StatusResponse_encode :: "wire \<Rightarrow> StatusResponse \<Rightarrow> byte list option" where
  "StatusResponse_encode W m = enc_fields
     [f_int32 W 8 (StatusResponse_state m),
      f_int32 W 16 (StatusResponse_sharesReceived m),
      f_int32 W 24 (StatusResponse_sharesRequired m),
      f_string W 34 (StatusResponse_version m)]"

definition StatusResponse_field :: "wire \<Rightarrow> nat \<Rightarrow> StatusResponse handler" where
  "StatusResponse_field W r buf tag p m =
     (if tag = 8 then rd (r_int32 W) buf p (\<lambda>v. m\<lparr>StatusResponse_state := v\<rparr>)
      else if tag = 16 then rd (r_int32 W) buf p (\<lambda>v. m\<lparr>StatusResponse_sharesReceived := v\<rparr>)
      else if tag = 24 then rd (r_int32 W) buf p (\<lambda>v. m\<lparr>StatusResponse_sharesRequired := v\<rparr>)
      else if tag = 34 then rd (r_string W) buf p (\<lambda>v. m\<lparr>StatusResponse_version := v\<rparr>)
      else Some NotHandled)"

definition StatusResponse_dec :: "wire \<Rightarrow> nat \<Rightarrow> StatusResponse decoder" where
  "StatusResponse_dec W = decode_message W (StatusResponse_field W) createBaseStatusResponse"

definition valid_StatusResponse :: "StatusResponse \<Rightarrow> bool" where
  "valid_StatusResponse m \<longleftrightarrow> in_int32 (StatusResponse_state m) \<and> in_int32 (StatusResponse_sharesReceived m) \<and> in_int32 (StatusResponse_sharesRequired m)"

interpretation StatusResponse_codec: message_codec
  StatusResponse_dec StatusResponse_field createBaseStatusResponse StatusResponse_encode
  "valid_StatusResponse" "\<lambda>_. 1"
  "\<lambda>W. [int32_field W 8 StatusResponse_state (\<lambda>v m. m\<lparr>StatusResponse_state := v\<rparr>),
       int32_field W 16 StatusResponse_sharesReceived (\<lambda>v m. m\<lparr>StatusResponse_sharesReceived := v\<rparr>),
       int32_field W 24 StatusResponse_sharesRequired (\<lambda>v m. m\<lparr>StatusResponse_sharesRequired := v\<rparr>),
       string_field W 34 StatusResponse_version (\<lambda>v m. m\<lparr>StatusResponse_version := v\<rparr>)]"
  "[8, 16, 24, 34]"
  by unfold_locales
     (auto simp: StatusResponse_dec_def StatusResponse_field_def StatusResponse_encode_def
       createBaseStatusResponse_def valid_StatusResponse_def int_field_total
       intro!: simple_laws goes_on_intros StatusResponse.equality)

subsection \<open>RotateKEKRequest\<close>

type_synonym RotateKEKRequest = unit

definition createBaseRotateKEKRequest :: RotateKEKRequest where
  "createBaseRotateKEKRequest =
     ()"

definition RotateKEKRequest_encode :: "wire \<Rightarrow> RotateKEKRequest \<Rightarrow> byte list option" where
  "RotateKEKRequest_encode W m = enc_fields
     []"

definition RotateKEKRequest_field :: "wire \<Rightarrow> nat \<Rightarrow> RotateKEKRequest handler" where
  "RotateKEKRequest_field W r buf tag p m =
     (Some NotHandled)"

definition RotateKEKRequest_dec :: "wire \<Rightarrow> nat \<Rightarrow> RotateKEKRequest decoder" where
  "RotateKEKRequest_dec W = decode_message W (RotateKEKRequest_field W) createBaseRotateKEKRequest"

interpretation RotateKEKRequest_codec: message_codec
  RotateKEKRequest_dec RotateKEKRequest_field createBaseRotateKEKRequest RotateKEKRequest_encode
  "\<lambda>_. True" "\<lambda>_. 1"
  "\<lambda>W. []"
  "[]"
  by unfold_locales
     (auto simp: RotateKEKRequest_dec_def RotateKEKRequest_field_def
       RotateKEKRequest_encode_def createBaseRotateKEKRequest_def
       intro!: simple_laws goes_on_intros)

subsection \<open>RotateKEKResponse\<close>

record RotateKEKResponse =
  RotateKEKResponse_newKekId :: string
  RotateKEKResponse_oldKekId :: string
  RotateKEKResponse_secretsRewrapped :: int

definition createBaseRotateKEKResponse :: RotateKEKResponse where
  "createBaseRotateKEKResponse =
     \<lparr>RotateKEKResponse_newKekId = '''', RotateKEKResponse_oldKekId = '''',
      RotateKEKResponse_secretsRewrapped = 0\<rparr>"

definition RotateKEKResponse_encode :: "wire \<Rightarrow> RotateKEKResponse \<Rightarrow> byte list option" where
  "RotateKEKResponse_encode W m = enc_fields
     [f_string W 10 (RotateKEKResponse_newKekId m),
      f_string W 18 (RotateKEKResponse_oldKekId m),
      f_int32 W 24 (RotateKEKResponse_secretsRewrapped m)]"

definition RotateKEKResponse_field :: "wire \<Rightarrow> nat \<Rightarrow> RotateKEKResponse handler" where
  "RotateKEKResponse_field W r buf tag p m =
     (if tag = 10 then rd (r_string W) buf p (\<lambda>v. m\<lparr>RotateKEKResponse_newKekId := v\<rparr>)
      else if tag = 18 then rd (r_string W) buf p (\<lambda>v. m\<lparr>RotateKEKResponse_oldKekId := v\<rparr>)
      else if tag = 24 then rd (r_int32 W) buf p (\<lambda>v. m\<lparr>RotateKEKResponse_secretsRewrapped := v\<rparr>)
      else Some NotHandled)"

definition RotateKEKResponse_dec :: "wire \<Rightarrow> nat \<Rightarrow> RotateKEKResponse decoder" where
  "RotateKEKResponse_dec W = decode_message W (RotateKEKResponse_field W) createBaseRotateKEKResponse"

definition valid_RotateKEKResponse :: "RotateKEKResponse \<Rightarrow> bool" where
  "valid_RotateKEKResponse m \<longleftrightarrow> in_int32 (RotateKEKResponse_secretsRewrapped m)"

interpretation RotateKEKResponse_codec: message_codec
  RotateKEKResponse_dec RotateKEKResponse_field createBaseRotateKEKResponse RotateKEKResponse_encode
  "valid_RotateKEKResponse" "\<lambda>_. 1"
  "\<lambda>W. [string_field W 10 RotateKEKResponse_newKekId (\<lambda>v m. m\<lparr>RotateKEKResponse_newKekId := v\<rparr>),
       string_field W 18 RotateKEKResponse_oldKekId (\<lambda>v m. m\<lparr>RotateKEKResponse_oldKekId := v\<rparr>),
       int32_field W 24 RotateKEKResponse_secretsRewrapped (\<lambda>v m. m\<lparr>RotateKEKResponse_secretsRewrapped := v\<rparr>)]"
  "[10, 18, 24]"
  by unfold_locales
     (auto simp: RotateKEKResponse_dec_def RotateKEKResponse_field_def
       RotateKEKResponse_encode_def createBaseRotateKEKResponse_def
       valid_RotateKEKResponse_def int_field_total
       intro!: simple_laws goes_on_intros RotateKEKResponse.equality)

subsection \<open>ListKEKsRequest\<close>

type_synonym ListKEKsRequest = unit

definition createBaseListKEKsRequest :: ListKEKsRequest where
  "createBaseListKEKsRequest =
     ()"

definition ListKEKsRequest_encode :: "wire \<Rightarrow> ListKEKsRequest \<Rightarrow> byte list option" where
  "ListKEKsRequest_encode W m = enc_fields
     []"

definition ListKEKsRequest_field :: "wire \<Rightarrow> nat \<Rightarrow> ListKEKsRequest handler" where
  "ListKEKsRequest_field W r buf tag p m =
     (Some NotHandled)"

definition ListKEKsRequest_dec :: "wire \<Rightarrow> nat \<Rightarrow> ListKEKsRequest decoder" where
  "ListKEKsRequest_dec W = decode_message W (ListKEKsRequest_field W) createBaseListKEKsRequest"

interpretation ListKEKsRequest_codec: message_codec
  ListKEKsRequest_dec ListKEKsRequest_field createBaseListKEKsRequest ListKEKsRequest_encode
  "\<lambda>_. True" "\<lambda>_. 1"
  "\<lambda>W. []"
  "[]"
  by unfold_locales
     (auto simp: ListKEKsRequest_dec_def ListKEKsRequest_field_def ListKEKsRequest_encode_def
       createBaseListKEKsRequest_def
       intro!: simple_laws goes_on_intros)

subsection \<open>KEKInfo\<close>

record KEKInfo =
  KEKInfo_id :: string
  KEKInfo_isActive :: bool
  KEKInfo_createdAt :: string
  KEKInfo_deactivatedAt :: string

definition createBaseKEKInfo :: KEKInfo where
  "createBaseKEKInfo =
     \<lparr>KEKInfo_id = '''', KEKInfo_isActive = False, KEKInfo_createdAt = '''',
      KEKInfo_deactivatedAt = ''''\<rparr>"

definition KEKInfo_encode :: "wire \<Rightarrow> KEKInfo \<Rightarrow> byte list option" where
  "KEKInfo_encode W m = enc_fields
     [f_string W 10 (KEKInfo_id m),
      f_bool W 16 (KEKInfo_isActive m),
      f_string W 26 (KEKInfo_createdAt m),
      f_string W 34 (KEKInfo_deactivatedAt m)]"

definition KEKInfo_field :: "wire \<Rightarrow> nat \<Rightarrow> KEKInfo handler" where
  "KEKInfo_field W r buf tag p m =
     (if tag = 10 then rd (r_string W) buf p (\<lambda>v. m\<lparr>KEKInfo_id := v\<rparr>)
      else if tag = 16 then rd (r_bool W) buf p (\<lambda>v. m\<lparr>KEKInfo_isActive := v\<rparr>)
      else if tag = 26 then rd (r_string W) buf p (\<lambda>v. m\<lparr>KEKInfo_createdAt := v\<rparr>)
      else if tag = 34 then rd (r_string W) buf p (\<lambda>v. m\<lparr>KEKInfo_deactivatedAt := v\<rparr>)
      else Some NotHandled)"

definition KEKInfo_dec :: "wire \<Rightarrow> nat \<Rightarrow> KEKInfo decoder" where
  "KEKInfo_dec W = decode_message W (KEKInfo_field W) createBaseKEKInfo"

interpretation KEKInfo_codec: message_codec
  KEKInfo_dec KEKInfo_field createBaseKEKInfo KEKInfo_encode
  "\<lambda>_. True" "\<lambda>_. 1"
  "\<lambda>W. [string_field W 10 KEKInfo_id (\<lambda>v m. m\<lparr>KEKInfo_id := v\<rparr>),
       bool_field W 16 KEKInfo_isActive (\<lambda>v m. m\<lparr>KEKInfo_isActive := v\<rparr>),
       string_field W 26 KEKInfo_createdAt (\<lambda>v m. m\<lparr>KEKInfo_createdAt := v\<rparr>),
       string_field W 34 KEKInfo_deactivatedAt (\<lambda>v m. m\<lparr>KEKInfo_deactivatedAt := v\<rparr>)]"
  "[10, 16, 26, 34]"
  by unfold_locales
     (auto simp: KEKInfo_dec_def KEKInfo_field_def KEKInfo_encode_def createBaseKEKInfo_def
       intro!: simple_laws goes_on_intros KEKInfo.equality)

subsection \<open>ListKEKsResponse\<close>

record ListKEKsResponse =
  ListKEKsResponse_keks :: "KEKInfo list"

definition createBaseListKEKsResponse :: ListKEKsResponse where
  "createBaseListKEKsResponse =
     \<lparr>ListKEKsResponse_keks = []\<rparr>"

definition ListKEKsResponse_encode :: "wire \<Rightarrow> ListKEKsResponse \<Rightarrow> byte list option" where
  "ListKEKsResponse_encode W m = enc_fields
     [f_rep_msg W 10 (KEKInfo_encode W) (ListKEKsResponse_keks m)]"

definition ListKEKsResponse_field :: "wire \<Rightarrow> nat \<Rightarrow> ListKEKsResponse handler" where
  "ListKEKsResponse_field W r buf tag p m =
     (if tag = 10 then rd_msg W (KEKInfo_dec W r) buf p (\<lambda>v. m\<lparr>ListKEKsResponse_keks := ListKEKsResponse_keks m @ [v]\<rparr>)
      else Some NotHandled)"

definition ListKEKsResponse_dec :: "wire \<Rightarrow> nat \<Rightarrow> ListKEKsResponse decoder" where
  "ListKEKsResponse_dec W = decode_message W (ListKEKsResponse_field W) createBaseListKEKsResponse"

definition depth_ListKEKsResponse :: "ListKEKsResponse \<Rightarrow> nat" where
  "depth_ListKEKsResponse m = Suc (list_depth (\<lambda>_. 1) (ListKEKsResponse_keks m))"

interpretation ListKEKsResponse_codec: message_codec
  ListKEKsResponse_dec ListKEKsResponse_field createBaseListKEKsResponse ListKEKsResponse_encode
  "\<lambda>_. True" "depth_ListKEKsResponse"
  "\<lambda>W. [rep_msg_field W 10 (KEKInfo_encode W) ListKEKsResponse_keks (\<lambda>v m. m\<lparr>ListKEKsResponse_keks := v\<rparr>)]"
  "[10]"
  by unfold_locales
     (auto simp: ListKEKsResponse_dec_def ListKEKsResponse_field_def
       ListKEKsResponse_encode_def createBaseListKEKsResponse_def depth_ListKEKsResponse_def
       KEKInfo_codec.list_total
       intro!: simple_laws goes_on_intros KEKInfo_codec.law_list KEKInfo_codec.goes_on_nested ListKEKsResponse.equality)

subsection \<open>PruneKEKRequest\<close>

record PruneKEKRequest =
  PruneKEKRequest_id :: string

definition createBasePruneKEKRequest :: PruneKEKRequest where
  "createBasePruneKEKRequest =
     \<lparr>PruneKEKRequest_id = ''''\<rparr>"

definition PruneKEKRequest_encode :: "wire \<Rightarrow> PruneKEKRequest \<Rightarrow> byte list option" where
  "PruneKEKRequest_encode W m = enc_fields
     [f_string W 10 (PruneKEKRequest_id m)]"

definition PruneKEKRequest_field :: "wire \<Rightarrow> nat \<Rightarrow> PruneKEKRequest handler" where
  "PruneKEKRequest_field W r buf tag p m =
     (if tag = 10 then rd (r_string W) buf p (\<lambda>v. m\<lparr>PruneKEKRequest_id := v\<rparr>)
      else Some NotHandled)"

definition PruneKEKRequest_dec :: "wire \<Rightarrow> nat \<Rightarrow> PruneKEKRequest decoder" where
  "PruneKEKRequest_dec W = decode_message W (PruneKEKRequest_field W) createBasePruneKEKRequest"

interpretation PruneKEKRequest_codec: message_codec
  PruneKEKRequest_dec PruneKEKRequest_field createBasePruneKEKRequest PruneKEKRequest_encode
  "\<lambda>_. True" "\<lambda>_. 1"
  "\<lambda>W. [string_field W 10 PruneKEKRequest_id (\<lambda>v m. m\<lparr>PruneKEKRequest_id := v\<rparr>)]"
  "[10]"
  by unfold_locales
     (auto simp: PruneKEKRequest_dec_def PruneKEKRequest_field_def PruneKEKRequest_encode_def
       createBasePruneKEKRequest_def
       intro!: simple_laws goes_on_intros PruneKEKRequest.equality)

subsection \<open>PruneKEKResponse\<close>

record PruneKEKResponse =
  PruneKEKResponse_message :: string

definition createBasePruneKEKResponse :: PruneKEKResponse where
  "createBasePruneKEKResponse =
     \<lparr>PruneKEKResponse_message = ''''\<rparr>"

definition PruneKEKResponse_encode :: "wire \<Rightarrow> PruneKEKResponse \<Rightarrow> byte list option" where
  "PruneKEKResponse_encode W m = enc_fields
     [f_string W 10 (PruneKEKResponse_message m)]"

definition PruneKEKResponse_field :: "wire \<Rightarrow> nat \<Rightarrow> PruneKEKResponse handler" where
  "PruneKEKResponse_field W r buf tag p m =
     (if tag = 10 then rd (r_string W) buf p (\<lambda>v. m\<lparr>PruneKEKResponse_message := v\<rparr>)
      else Some NotHandled)"

definition PruneKEKResponse_dec :: "wire \<Rightarrow> nat \<Rightarrow> PruneKEKResponse decoder" where
  "PruneKEKResponse_dec W = decode_message W (PruneKEKResponse_field W) createBasePruneKEKResponse"

interpretation PruneKEKResponse_codec: message_codec
  PruneKEKResponse_dec PruneKEKResponse_field createBasePruneKEKResponse PruneKEKResponse_encode
  "\<lambda>_. True" "\<lambda>_. 1"
  "\<lambda>W. [string_field W 10 PruneKEKResponse_message (\<lambda>v m. m\<lparr>PruneKEKResponse_message := v\<rparr>)]"
  "[10]"
  by unfold_locales
     (auto simp: PruneKEKResponse_dec_def PruneKEKResponse_field_def
       PruneKEKResponse_encode_def createBasePruneKEKResponse_def
       intro!: simple_laws goes_on_intros PruneKEKResponse.equality)

subsection \<open>RotateMasterKeyRequest\<close>

record RotateMasterKeyRequest =
  RotateMasterKeyRequest_newKey :: "byte list"

definition createBaseRotateMasterKeyRequest :: RotateMasterKeyRequest where
  "createBaseRotateMasterKeyRequest =
     \<lparr>RotateMasterKeyRequest_newKey = []\<rparr>"

definition RotateMasterKeyRequest_encode :: "wire \<Rightarrow> RotateMasterKeyRequest \<Rightarrow> byte list option" where
  "RotateMasterKeyRequest_encode W m = enc_fields
     [f_bytes W 10 (RotateMasterKeyRequest_newKey m)]"

definition RotateMasterKeyRequest_field :: "wire \<Rightarrow> nat \<Rightarrow> RotateMasterKeyRequest handler" where
  "RotateMasterKeyRequest_field W r buf tag p m =
     (if tag = 10 then rd (r_bytes W) buf p (\<lambda>v. m\<lparr>RotateMasterKeyRequest_newKey := v\<rparr>)
      else Some NotHandled)"

definition RotateMasterKeyRequest_dec :: "wire \<Rightarrow> nat \<Rightarrow> RotateMasterKeyRequest decoder" where
  "RotateMasterKeyRequest_dec W = decode_message W (RotateMasterKeyRequest_field W) createBaseRotateMasterKeyRequest"

interpretation RotateMasterKeyRequest_codec: message_codec
  RotateMasterKeyRequest_dec RotateMasterKeyRequest_field createBaseRotateMasterKeyRequest RotateMasterKeyRequest_encode
  "\<lambda>_. True" "\<lambda>_. 1"
  "\<lambda>W. [bytes_field W 10 RotateMasterKeyRequest_newKey (\<lambda>v m. m\<lparr>RotateMasterKeyRequest_newKey := v\<rparr>)]"
  "[10]"
  by unfold_locales
     (auto simp: RotateMasterKeyRequest_dec_def RotateMasterKeyRequest_field_def
       RotateMasterKeyRequest_encode_def createBaseRotateMasterKeyRequest_def
       intro!: simple_laws goes_on_intros RotateMasterKeyRequest.equality)

subsection \<open>RotateMasterKeyResponse\<close>

record RotateMasterKeyResponse =
  RotateMasterKeyResponse_message :: string
  RotateMasterKeyResponse_keksRewrapped :: int

definition createBaseRotateMasterKeyResponse :: RotateMasterKeyResponse where
  "createBaseRotateMasterKeyResponse =
     \<lparr>RotateMasterKeyResponse_message = '''', RotateMasterKeyResponse_keksRewrapped = 0\<rparr>"

definition RotateMasterKeyResponse_encode :: "wire \<Rightarrow> RotateMasterKeyResponse \<Rightarrow> byte list option" where
  "RotateMasterKeyResponse_encode W m = enc_fields
     [f_string W 10 (RotateMasterKeyResponse_message m),
      f_int32 W 16 (RotateMasterKeyResponse_keksRewrapped m)]"

definition RotateMasterKeyResponse_field :: "wire \<Rightarrow> nat \<Rightarrow> RotateMasterKeyResponse handler" where
  "RotateMasterKeyResponse_field W r buf tag p m =
     (if tag = 10 then rd (r_string W) buf p (\<lambda>v. m\<lparr>RotateMasterKeyResponse_message := v\<rparr>)
      else if tag = 16 then rd (r_int32 W) buf p (\<lambda>v. m\<lparr>RotateMasterKeyResponse_keksRewrapped := v\<rparr>)
      else Some NotHandled)"

definition RotateMasterKeyResponse_dec :: "wire \<Rightarrow> nat \<Rightarrow> RotateMasterKeyResponse decoder" where
  "RotateMasterKeyResponse_dec W = decode_message W (RotateMasterKeyResponse_field W) createBaseRotateMasterKeyResponse"

definition valid_RotateMasterKeyResponse :: "RotateMasterKeyResponse \<Rightarrow> bool" where
  "valid_RotateMasterKeyResponse m \<longleftrightarrow> in_int32 (RotateMasterKeyResponse_keksRewrapped m)"

interpretation RotateMasterKeyResponse_codec: message_codec
  RotateMasterKeyResponse_dec RotateMasterKeyResponse_field createBaseRotateMasterKeyResponse RotateMasterKeyResponse_encode
  "valid_RotateMasterKeyResponse" "\<lambda>_. 1"
  "\<lambda>W. [string_field W 10 RotateMasterKeyResponse_message (\<lambda>v m. m\<lparr>RotateMasterKeyResponse_message := v\<rparr>),
       int32_field W 16 RotateMasterKeyResponse_keksRewrapped (\<lambda>v m. m\<lparr>RotateMasterKeyResponse_keksRewrapped := v\<rparr>)]"
  "[10, 16]"
  by unfold_locales
     (auto simp: RotateMasterKeyResponse_dec_def RotateMasterKeyResponse_field_def
       RotateMasterKeyResponse_encode_def createBaseRotateMasterKeyResponse_def
       valid_RotateMasterKeyResponse_def int_field_total
       intro!: simple_laws goes_on_intros RotateMasterKeyResponse.equality)

text \<open>Every codec of this theory reads back what it wrote.\<close>

lemmas AdminSealMessages_sound =
      UnsealKeyRequest_codec.sound UnsealKeyResponse_codec.sound
      UnsealShareRequest_codec.sound UnsealShareResponse_codec.sound SealRequest_codec.sound
      SealResponse_codec.sound StatusRequest_codec.sound StatusResponse_codec.sound
      RotateKEKRequest_codec.sound RotateKEKResponse_codec.sound ListKEKsRequest_codec.sound
      KEKInfo_codec.sound ListKEKsResponse_codec.sound PruneKEKRequest_codec.sound
      PruneKEKResponse_codec.sound RotateMasterKeyRequest_codec.sound
      RotateMasterKeyResponse_codec.sound

text \<open>Every codec of this theory returns.\<close>

lemmas AdminSealMessages_total =
      UnsealKeyRequest_codec.total UnsealKeyResponse_codec.total
      UnsealShareRequest_codec.total UnsealShareResponse_codec.total SealRequest_codec.total
      SealResponse_codec.total StatusRequest_codec.total StatusResponse_codec.total
      RotateKEKRequest_codec.total RotateKEKResponse_codec.total ListKEKsRequest_codec.total
      KEKInfo_codec.total ListKEKsResponse_codec.total PruneKEKRequest_codec.total
      PruneKEKResponse_codec.total RotateMasterKeyRequest_codec.total
      RotateMasterKeyResponse_codec.total

text \<open>Every codec of this theory skips what it does not know.\<close>

lemmas AdminSealMessages_ignores =
      UnsealKeyRequest_codec.ignores UnsealKeyResponse_codec.ignores
      UnsealShareRequest_codec.ignores UnsealShareResponse_codec.ignores
      SealRequest_codec.ignores SealResponse_codec.ignores StatusRequest_codec.ignores
      StatusResponse_codec.ignores RotateKEKRequest_codec.ignores
      RotateKEKResponse_codec.ignores ListKEKsRequest_codec.ignores KEKInfo_codec.ignores
      ListKEKsResponse_codec.ignores PruneKEKRequest_codec.ignores
      PruneKEKResponse_codec.ignores RotateMasterKeyRequest_codec.ignores
      RotateMasterKeyResponse_codec.ignores

end
