(* ===== verification/AdminPolicyMessages.thy ===== *)
theory AdminPolicyMessages
  imports MessageCodec
begin

text \<open>
  The messages of \<open>src/gen/admin/v1/admin.ts\<close> on policies and deletions:
  for each, its fields, \<open>createBase\<dots>\<close>, \<open>encode\<close>, the \<open>switch\<close> of \<open>decode\<close> (\<open>\<dots>_field\<close>) and
  \<open>decode\<close> (\<open>\<dots>_dec\<close>), and the proof that it is a codec. A message without fields is \<open>unit\<close>.
\<close>

subsection \<open>CreatePolicyRequest\<close>

record CreatePolicyRequest =
  CreatePolicyRequest_spiffeId :: string
  CreatePolicyRequest_namespace :: string
  CreatePolicyRequest_service :: string
  CreatePolicyRequest_secretName :: string
  CreatePolicyRequest_permissions :: "string list"

definition createBaseCreatePolicyRequest :: CreatePolicyRequest where
  "createBaseCreatePolicyRequest =
     \<lparr>CreatePolicyRequest_spiffeId = '''', CreatePolicyRequest_namespace = '''',
      CreatePolicyRequest_service = '''', CreatePolicyRequest_secretName = '''',
      CreatePolicyRequest_permissions = []\<rparr>"

definition CreatePolicyRequest_encode :: "wire \<Rightarrow> CreatePolicyRequest \<Rightarrow> byte list option" where
  "CreatePolicyRequest_encode W m = enc_fields
     [f_string W 10 (CreatePolicyRequest_spiffeId m),
      f_string W 18 (CreatePolicyRequest_namespace m),
      f_string W 26 (CreatePolicyRequest_service m),
      f_string W 34 (CreatePolicyRequest_secretName m),
      f_rep_string W 42 (CreatePolicyRequest_permissions m)]"

definition CreatePolicyRequest_field :: "wire \<Rightarrow> nat \<Rightarrow> CreatePolicyRequest handler" where
  "CreatePolicyRequest_field W r buf tag p m =
     (if tag = 10 then rd (r_string W) buf p (\<lambda>v. m\<lparr>CreatePolicyRequest_spiffeId := v\<rparr>)
      else if tag = 18 then rd (r_string W) buf p (\<lambda>v. m\<lparr>CreatePolicyRequest_namespace := v\<rparr>)
      else if tag = 26 then rd (r_string W) buf p (\<lambda>v. m\<lparr>CreatePolicyRequest_service := v\<rparr>)
      else if tag = 34 then rd (r_string W) buf p (\<lambda>v. m\<lparr>CreatePolicyRequest_secretName := v\<rparr>)
      else if tag = 42 then rd (r_string W) buf p (\<lambda>v. m\<lparr>CreatePolicyRequest_permissions := CreatePolicyRequest_permissions m @ [v]\<rparr>)
      else Some NotHandled)"

definition CreatePolicyRequest_dec :: "wire \<Rightarrow> nat \<Rightarrow> CreatePolicyRequest decoder" where
  "CreatePolicyRequest_dec W = decode_message W (CreatePolicyRequest_field W) createBaseCreatePolicyRequest"

interpretation CreatePolicyRequest_codec: message_codec
  CreatePolicyRequest_dec CreatePolicyRequest_field createBaseCreatePolicyRequest CreatePolicyRequest_encode
  "\<lambda>_. True" "\<lambda>_. 1"
  "\<lambda>W. [string_field W 10 CreatePolicyRequest_spiffeId (\<lambda>v m. m\<lparr>CreatePolicyRequest_spiffeId := v\<rparr>),
       string_field W 18 CreatePolicyRequest_namespace (\<lambda>v m. m\<lparr>CreatePolicyRequest_namespace := v\<rparr>),
       string_field W 26 CreatePolicyRequest_service (\<lambda>v m. m\<lparr>CreatePolicyRequest_service := v\<rparr>),
       string_field W 34 CreatePolicyRequest_secretName (\<lambda>v m. m\<lparr>CreatePolicyRequest_secretName := v\<rparr>),
       rep_string_field W 42 CreatePolicyRequest_permissions (\<lambda>v m. m\<lparr>CreatePolicyRequest_permissions := v\<rparr>)]"
  "[10, 18, 26, 34, 42]"
  by unfold_locales
     (auto simp: CreatePolicyRequest_dec_def CreatePolicyRequest_field_def
       CreatePolicyRequest_encode_def createBaseCreatePolicyRequest_def
       intro!: simple_laws goes_on_intros CreatePolicyRequest.equality)

subsection \<open>CreatePolicyResponse\<close>

record CreatePolicyResponse =
  CreatePolicyResponse_id :: string

definition createBaseCreatePolicyResponse :: CreatePolicyResponse where
  "createBaseCreatePolicyResponse =
     \<lparr>CreatePolicyResponse_id = ''''\<rparr>"

definition CreatePolicyResponse_encode :: "wire \<Rightarrow> CreatePolicyResponse \<Rightarrow> byte list option" where
  "CreatePolicyResponse_encode W m = enc_fields
     [f_string W 10 (CreatePolicyResponse_id m)]"

definition CreatePolicyResponse_field :: "wire \<Rightarrow> nat \<Rightarrow> CreatePolicyResponse handler" where
  "CreatePolicyResponse_field W r buf tag p m =
     (if tag = 10 then rd (r_string W) buf p (\<lambda>v. m\<lparr>CreatePolicyResponse_id := v\<rparr>)
      else Some NotHandled)"

definition CreatePolicyResponse_dec :: "wire \<Rightarrow> nat \<Rightarrow> CreatePolicyResponse decoder" where
  "CreatePolicyResponse_dec W = decode_message W (CreatePolicyResponse_field W) createBaseCreatePolicyResponse"

interpretation CreatePolicyResponse_codec: message_codec
  CreatePolicyResponse_dec CreatePolicyResponse_field createBaseCreatePolicyResponse CreatePolicyResponse_encode
  "\<lambda>_. True" "\<lambda>_. 1"
  "\<lambda>W. [string_field W 10 CreatePolicyResponse_id (\<lambda>v m. m\<lparr>CreatePolicyResponse_id := v\<rparr>)]"
  "[10]"
  by unfold_locales
     (auto simp: CreatePolicyResponse_dec_def CreatePolicyResponse_field_def
       CreatePolicyResponse_encode_def createBaseCreatePolicyResponse_def
       intro!: simple_laws goes_on_intros CreatePolicyResponse.equality)

subsection \<open>ListPoliciesRequest\<close>

type_synonym ListPoliciesRequest = unit

definition createBaseListPoliciesRequest :: ListPoliciesRequest where
  "createBaseListPoliciesRequest =
     ()"

definition ListPoliciesRequest_encode :: "wire \<Rightarrow> ListPoliciesRequest \<Rightarrow> byte list option" where
  "ListPoliciesRequest_encode W m = enc_fields
     []"

definition ListPoliciesRequest_field :: "wire \<Rightarrow> nat \<Rightarrow> ListPoliciesRequest handler" where
  "ListPoliciesRequest_field W r buf tag p m =
     (Some NotHandled)"

definition ListPoliciesRequest_dec :: "wire \<Rightarrow> nat \<Rightarrow> ListPoliciesRequest decoder" where
  "ListPoliciesRequest_dec W = decode_message W (ListPoliciesRequest_field W) createBaseListPoliciesRequest"

interpretation ListPoliciesRequest_codec: message_codec
  ListPoliciesRequest_dec ListPoliciesRequest_field createBaseListPoliciesRequest ListPoliciesRequest_encode
  "\<lambda>_. True" "\<lambda>_. 1"
  "\<lambda>W. []"
  "[]"
  by unfold_locales
     (auto simp: ListPoliciesRequest_dec_def ListPoliciesRequest_field_def
       ListPoliciesRequest_encode_def createBaseListPoliciesRequest_def
       intro!: simple_laws goes_on_intros)

subsection \<open>PolicyInfo\<close>

record PolicyInfo =
  PolicyInfo_id :: string
  PolicyInfo_spiffeId :: string
  PolicyInfo_namespace :: string
  PolicyInfo_pattern :: string
  PolicyInfo_permissions :: "string list"
  PolicyInfo_createdAt :: string

definition createBasePolicyInfo :: PolicyInfo where
  "createBasePolicyInfo =
     \<lparr>PolicyInfo_id = '''', PolicyInfo_spiffeId = '''', PolicyInfo_namespace = '''',
      PolicyInfo_pattern = '''', PolicyInfo_permissions = [],
      PolicyInfo_createdAt = ''''\<rparr>"

definition PolicyInfo_encode :: "wire \<Rightarrow> PolicyInfo \<Rightarrow> byte list option" where
  "PolicyInfo_encode W m = enc_fields
     [f_string W 10 (PolicyInfo_id m),
      f_string W 18 (PolicyInfo_spiffeId m),
      f_string W 26 (PolicyInfo_namespace m),
      f_string W 34 (PolicyInfo_pattern m),
      f_rep_string W 42 (PolicyInfo_permissions m),
      f_string W 50 (PolicyInfo_createdAt m)]"

definition PolicyInfo_field :: "wire \<Rightarrow> nat \<Rightarrow> PolicyInfo handler" where
  "PolicyInfo_field W r buf tag p m =
     (if tag = 10 then rd (r_string W) buf p (\<lambda>v. m\<lparr>PolicyInfo_id := v\<rparr>)
      else if tag = 18 then rd (r_string W) buf p (\<lambda>v. m\<lparr>PolicyInfo_spiffeId := v\<rparr>)
      else if tag = 26 then rd (r_string W) buf p (\<lambda>v. m\<lparr>PolicyInfo_namespace := v\<rparr>)
      else if tag = 34 then rd (r_string W) buf p (\<lambda>v. m\<lparr>PolicyInfo_pattern := v\<rparr>)
      else if tag = 42 then rd (r_string W) buf p (\<lambda>v. m\<lparr>PolicyInfo_permissions := PolicyInfo_permissions m @ [v]\<rparr>)
      else if tag = 50 then rd (r_string W) buf p (\<lambda>v. m\<lparr>PolicyInfo_createdAt := v\<rparr>)
      else Some NotHandled)"

definition PolicyInfo_dec :: "wire \<Rightarrow> nat \<Rightarrow> PolicyInfo decoder" where
  "PolicyInfo_dec W = decode_message W (PolicyInfo_field W) createBasePolicyInfo"

interpretation PolicyInfo_codec: message_codec
  PolicyInfo_dec PolicyInfo_field createBasePolicyInfo PolicyInfo_encode
  "\<lambda>_. True" "\<lambda>_. 1"
  "\<lambda>W. [string_field W 10 PolicyInfo_id (\<lambda>v m. m\<lparr>PolicyInfo_id := v\<rparr>),
       string_field W 18 PolicyInfo_spiffeId (\<lambda>v m. m\<lparr>PolicyInfo_spiffeId := v\<rparr>),
       string_field W 26 PolicyInfo_namespace (\<lambda>v m. m\<lparr>PolicyInfo_namespace := v\<rparr>),
       string_field W 34 PolicyInfo_pattern (\<lambda>v m. m\<lparr>PolicyInfo_pattern := v\<rparr>),
       rep_string_field W 42 PolicyInfo_permissions (\<lambda>v m. m\<lparr>PolicyInfo_permissions := v\<rparr>),
       string_field W 50 PolicyInfo_createdAt (\<lambda>v m. m\<lparr>PolicyInfo_createdAt := v\<rparr>)]"
  "[10, 18, 26, 34, 42, 50]"
  by unfold_locales
     (auto simp: PolicyInfo_dec_def PolicyInfo_field_def PolicyInfo_encode_def
       createBasePolicyInfo_def
       intro!: simple_laws goes_on_intros PolicyInfo.equality)

subsection \<open>ListPoliciesResponse\<close>

record ListPoliciesResponse =
  ListPoliciesResponse_policies :: "PolicyInfo list"

definition createBaseListPoliciesResponse :: ListPoliciesResponse where
  "createBaseListPoliciesResponse =
     \<lparr>ListPoliciesResponse_policies = []\<rparr>"

definition ListPoliciesResponse_encode :: "wire \<Rightarrow> ListPoliciesResponse \<Rightarrow> byte list option" where
  "ListPoliciesResponse_encode W m = enc_fields
     [f_rep_msg W 10 (PolicyInfo_encode W) (ListPoliciesResponse_policies m)]"

definition ListPoliciesResponse_field :: "wire \<Rightarrow> nat \<Rightarrow> ListPoliciesResponse handler" where
  "ListPoliciesResponse_field W r buf tag p m =
     (if tag = 10 then rd_msg W (PolicyInfo_dec W r) buf p (\<lambda>v. m\<lparr>ListPoliciesResponse_policies := ListPoliciesResponse_policies m @ [v]\<rparr>)
      else Some NotHandled)"

definition ListPoliciesResponse_dec :: "wire \<Rightarrow> nat \<Rightarrow> ListPoliciesResponse decoder" where
  "ListPoliciesResponse_dec W = decode_message W (ListPoliciesResponse_field W) createBaseListPoliciesResponse"

definition depth_ListPoliciesResponse :: "ListPoliciesResponse \<Rightarrow> nat" where
  "depth_ListPoliciesResponse m = Suc (list_depth (\<lambda>_. 1) (ListPoliciesResponse_policies m))"

interpretation ListPoliciesResponse_codec: message_codec
  ListPoliciesResponse_dec ListPoliciesResponse_field createBaseListPoliciesResponse ListPoliciesResponse_encode
  "\<lambda>_. True" "depth_ListPoliciesResponse"
  "\<lambda>W. [rep_msg_field W 10 (PolicyInfo_encode W) ListPoliciesResponse_policies (\<lambda>v m. m\<lparr>ListPoliciesResponse_policies := v\<rparr>)]"
  "[10]"
  by unfold_locales
     (auto simp: ListPoliciesResponse_dec_def ListPoliciesResponse_field_def
       ListPoliciesResponse_encode_def createBaseListPoliciesResponse_def
       depth_ListPoliciesResponse_def PolicyInfo_codec.list_total
       intro!: simple_laws goes_on_intros PolicyInfo_codec.law_list PolicyInfo_codec.goes_on_nested ListPoliciesResponse.equality)

subsection \<open>DeletePolicyRequest\<close>

record DeletePolicyRequest =
  DeletePolicyRequest_id :: string

definition createBaseDeletePolicyRequest :: DeletePolicyRequest where
  "createBaseDeletePolicyRequest =
     \<lparr>DeletePolicyRequest_id = ''''\<rparr>"

definition DeletePolicyRequest_encode :: "wire \<Rightarrow> DeletePolicyRequest \<Rightarrow> byte list option" where
  "DeletePolicyRequest_encode W m = enc_fields
     [f_string W 10 (DeletePolicyRequest_id m)]"

definition DeletePolicyRequest_field :: "wire \<Rightarrow> nat \<Rightarrow> DeletePolicyRequest handler" where
  "DeletePolicyRequest_field W r buf tag p m =
     (if tag = 10 then rd (r_string W) buf p (\<lambda>v. m\<lparr>DeletePolicyRequest_id := v\<rparr>)
      else Some NotHandled)"

definition DeletePolicyRequest_dec :: "wire \<Rightarrow> nat \<Rightarrow> DeletePolicyRequest decoder" where
  "DeletePolicyRequest_dec W = decode_message W (DeletePolicyRequest_field W) createBaseDeletePolicyRequest"

interpretation DeletePolicyRequest_codec: message_codec
  DeletePolicyRequest_dec DeletePolicyRequest_field createBaseDeletePolicyRequest DeletePolicyRequest_encode
  "\<lambda>_. True" "\<lambda>_. 1"
  "\<lambda>W. [string_field W 10 DeletePolicyRequest_id (\<lambda>v m. m\<lparr>DeletePolicyRequest_id := v\<rparr>)]"
  "[10]"
  by unfold_locales
     (auto simp: DeletePolicyRequest_dec_def DeletePolicyRequest_field_def
       DeletePolicyRequest_encode_def createBaseDeletePolicyRequest_def
       intro!: simple_laws goes_on_intros DeletePolicyRequest.equality)

subsection \<open>DeletePolicyResponse\<close>

record DeletePolicyResponse =
  DeletePolicyResponse_message :: string

definition createBaseDeletePolicyResponse :: DeletePolicyResponse where
  "createBaseDeletePolicyResponse =
     \<lparr>DeletePolicyResponse_message = ''''\<rparr>"

definition DeletePolicyResponse_encode :: "wire \<Rightarrow> DeletePolicyResponse \<Rightarrow> byte list option" where
  "DeletePolicyResponse_encode W m = enc_fields
     [f_string W 10 (DeletePolicyResponse_message m)]"

definition DeletePolicyResponse_field :: "wire \<Rightarrow> nat \<Rightarrow> DeletePolicyResponse handler" where
  "DeletePolicyResponse_field W r buf tag p m =
     (if tag = 10 then rd (r_string W) buf p (\<lambda>v. m\<lparr>DeletePolicyResponse_message := v\<rparr>)
      else Some NotHandled)"

definition DeletePolicyResponse_dec :: "wire \<Rightarrow> nat \<Rightarrow> DeletePolicyResponse decoder" where
  "DeletePolicyResponse_dec W = decode_message W (DeletePolicyResponse_field W) createBaseDeletePolicyResponse"

interpretation DeletePolicyResponse_codec: message_codec
  DeletePolicyResponse_dec DeletePolicyResponse_field createBaseDeletePolicyResponse DeletePolicyResponse_encode
  "\<lambda>_. True" "\<lambda>_. 1"
  "\<lambda>W. [string_field W 10 DeletePolicyResponse_message (\<lambda>v m. m\<lparr>DeletePolicyResponse_message := v\<rparr>)]"
  "[10]"
  by unfold_locales
     (auto simp: DeletePolicyResponse_dec_def DeletePolicyResponse_field_def
       DeletePolicyResponse_encode_def createBaseDeletePolicyResponse_def
       intro!: simple_laws goes_on_intros DeletePolicyResponse.equality)

subsection \<open>DeleteSecretRequest\<close>

record DeleteSecretRequest =
  DeleteSecretRequest_namespace :: string
  DeleteSecretRequest_service :: string
  DeleteSecretRequest_secretName :: string

definition createBaseDeleteSecretRequest :: DeleteSecretRequest where
  "createBaseDeleteSecretRequest =
     \<lparr>DeleteSecretRequest_namespace = '''', DeleteSecretRequest_service = '''',
      DeleteSecretRequest_secretName = ''''\<rparr>"

definition DeleteSecretRequest_encode :: "wire \<Rightarrow> DeleteSecretRequest \<Rightarrow> byte list option" where
  "DeleteSecretRequest_encode W m = enc_fields
     [f_string W 10 (DeleteSecretRequest_namespace m),
      f_string W 18 (DeleteSecretRequest_service m),
      f_string W 26 (DeleteSecretRequest_secretName m)]"

definition DeleteSecretRequest_field :: "wire \<Rightarrow> nat \<Rightarrow> DeleteSecretRequest handler" where
  "DeleteSecretRequest_field W r buf tag p m =
     (if tag = 10 then rd (r_string W) buf p (\<lambda>v. m\<lparr>DeleteSecretRequest_namespace := v\<rparr>)
      else if tag = 18 then rd (r_string W) buf p (\<lambda>v. m\<lparr>DeleteSecretRequest_service := v\<rparr>)
      else if tag = 26 then rd (r_string W) buf p (\<lambda>v. m\<lparr>DeleteSecretRequest_secretName := v\<rparr>)
      else Some NotHandled)"

definition DeleteSecretRequest_dec :: "wire \<Rightarrow> nat \<Rightarrow> DeleteSecretRequest decoder" where
  "DeleteSecretRequest_dec W = decode_message W (DeleteSecretRequest_field W) createBaseDeleteSecretRequest"

interpretation DeleteSecretRequest_codec: message_codec
  DeleteSecretRequest_dec DeleteSecretRequest_field createBaseDeleteSecretRequest DeleteSecretRequest_encode
  "\<lambda>_. True" "\<lambda>_. 1"
  "\<lambda>W. [string_field W 10 DeleteSecretRequest_namespace (\<lambda>v m. m\<lparr>DeleteSecretRequest_namespace := v\<rparr>),
       string_field W 18 DeleteSecretRequest_service (\<lambda>v m. m\<lparr>DeleteSecretRequest_service := v\<rparr>),
       string_field W 26 DeleteSecretRequest_secretName (\<lambda>v m. m\<lparr>DeleteSecretRequest_secretName := v\<rparr>)]"
  "[10, 18, 26]"
  by unfold_locales
     (auto simp: DeleteSecretRequest_dec_def DeleteSecretRequest_field_def
       DeleteSecretRequest_encode_def createBaseDeleteSecretRequest_def
       intro!: simple_laws goes_on_intros DeleteSecretRequest.equality)

subsection \<open>DeleteSecretResponse\<close>

record DeleteSecretResponse =
  DeleteSecretResponse_message :: string

definition createBaseDeleteSecretResponse :: DeleteSecretResponse where
  "createBaseDeleteSecretResponse =
     \<lparr>DeleteSecretResponse_message = ''''\<rparr>"

definition DeleteSecretResponse_encode :: "wire \<Rightarrow> DeleteSecretResponse \<Rightarrow> byte list option" where
  "DeleteSecretResponse_encode W m = enc_fields
     [f_string W 10 (DeleteSecretResponse_message m)]"

definition DeleteSecretResponse_field :: "wire \<Rightarrow> nat \<Rightarrow> DeleteSecretResponse handler" where
  "DeleteSecretResponse_field W r buf tag p m =
     (if tag = 10 then rd (r_string W) buf p (\<lambda>v. m\<lparr>DeleteSecretResponse_message := v\<rparr>)
      else Some NotHandled)"

definition DeleteSecretResponse_dec :: "wire \<Rightarrow> nat \<Rightarrow> DeleteSecretResponse decoder" where
  "DeleteSecretResponse_dec W = decode_message W (DeleteSecretResponse_field W) createBaseDeleteSecretResponse"

interpretation DeleteSecretResponse_codec: message_codec
  DeleteSecretResponse_dec DeleteSecretResponse_field createBaseDeleteSecretResponse DeleteSecretResponse_encode
  "\<lambda>_. True" "\<lambda>_. 1"
  "\<lambda>W. [string_field W 10 DeleteSecretResponse_message (\<lambda>v m. m\<lparr>DeleteSecretResponse_message := v\<rparr>)]"
  "[10]"
  by unfold_locales
     (auto simp: DeleteSecretResponse_dec_def DeleteSecretResponse_field_def
       DeleteSecretResponse_encode_def createBaseDeleteSecretResponse_def
       intro!: simple_laws goes_on_intros DeleteSecretResponse.equality)

subsection \<open>DeleteConfigRequest\<close>

record DeleteConfigRequest =
  DeleteConfigRequest_namespace :: string
  DeleteConfigRequest_service :: string

definition createBaseDeleteConfigRequest :: DeleteConfigRequest where
  "createBaseDeleteConfigRequest =
     \<lparr>DeleteConfigRequest_namespace = '''', DeleteConfigRequest_service = ''''\<rparr>"

definition DeleteConfigRequest_encode :: "wire \<Rightarrow> DeleteConfigRequest \<Rightarrow> byte list option" where
  "DeleteConfigRequest_encode W m = enc_fields
     [f_string W 10 (DeleteConfigRequest_namespace m),
      f_string W 18 (DeleteConfigRequest_service m)]"

definition DeleteConfigRequest_field :: "wire \<Rightarrow> nat \<Rightarrow> DeleteConfigRequest handler" where
  "DeleteConfigRequest_field W r buf tag p m =
     (if tag = 10 then rd (r_string W) buf p (\<lambda>v. m\<lparr>DeleteConfigRequest_namespace := v\<rparr>)
      else if tag = 18 then rd (r_string W) buf p (\<lambda>v. m\<lparr>DeleteConfigRequest_service := v\<rparr>)
      else Some NotHandled)"

definition DeleteConfigRequest_dec :: "wire \<Rightarrow> nat \<Rightarrow> DeleteConfigRequest decoder" where
  "DeleteConfigRequest_dec W = decode_message W (DeleteConfigRequest_field W) createBaseDeleteConfigRequest"

interpretation DeleteConfigRequest_codec: message_codec
  DeleteConfigRequest_dec DeleteConfigRequest_field createBaseDeleteConfigRequest DeleteConfigRequest_encode
  "\<lambda>_. True" "\<lambda>_. 1"
  "\<lambda>W. [string_field W 10 DeleteConfigRequest_namespace (\<lambda>v m. m\<lparr>DeleteConfigRequest_namespace := v\<rparr>),
       string_field W 18 DeleteConfigRequest_service (\<lambda>v m. m\<lparr>DeleteConfigRequest_service := v\<rparr>)]"
  "[10, 18]"
  by unfold_locales
     (auto simp: DeleteConfigRequest_dec_def DeleteConfigRequest_field_def
       DeleteConfigRequest_encode_def createBaseDeleteConfigRequest_def
       intro!: simple_laws goes_on_intros DeleteConfigRequest.equality)

subsection \<open>DeleteConfigResponse\<close>

record DeleteConfigResponse =
  DeleteConfigResponse_message :: string

definition createBaseDeleteConfigResponse :: DeleteConfigResponse where
  "createBaseDeleteConfigResponse =
     \<lparr>DeleteConfigResponse_message = ''''\<rparr>"

definition DeleteConfigResponse_encode :: "wire \<Rightarrow> DeleteConfigResponse \<Rightarrow> byte list option" where
  "DeleteConfigResponse_encode W m = enc_fields
     [f_string W 10 (DeleteConfigResponse_message m)]"

definition DeleteConfigResponse_field :: "wire \<Rightarrow> nat \<Rightarrow> DeleteConfigResponse handler" where
  "DeleteConfigResponse_field W r buf tag p m =
     (if tag = 10 then rd (r_string W) buf p (\<lambda>v. m\<lparr>DeleteConfigResponse_message := v\<rparr>)
      else Some NotHandled)"

definition DeleteConfigResponse_dec :: "wire \<Rightarrow> nat \<Rightarrow> DeleteConfigResponse decoder" where
  "DeleteConfigResponse_dec W = decode_message W (DeleteConfigResponse_field W) createBaseDeleteConfigResponse"

interpretation DeleteConfigResponse_codec: message_codec
  DeleteConfigResponse_dec DeleteConfigResponse_field createBaseDeleteConfigResponse DeleteConfigResponse_encode
  "\<lambda>_. True" "\<lambda>_. 1"
  "\<lambda>W. [string_field W 10 DeleteConfigResponse_message (\<lambda>v m. m\<lparr>DeleteConfigResponse_message := v\<rparr>)]"
  "[10]"
  by unfold_locales
     (auto simp: DeleteConfigResponse_dec_def DeleteConfigResponse_field_def
       DeleteConfigResponse_encode_def createBaseDeleteConfigResponse_def
       intro!: simple_laws goes_on_intros DeleteConfigResponse.equality)

text \<open>Every codec of this theory reads back what it wrote.\<close>

lemmas AdminPolicyMessages_sound =
      CreatePolicyRequest_codec.sound CreatePolicyResponse_codec.sound
      ListPoliciesRequest_codec.sound PolicyInfo_codec.sound ListPoliciesResponse_codec.sound
      DeletePolicyRequest_codec.sound DeletePolicyResponse_codec.sound
      DeleteSecretRequest_codec.sound DeleteSecretResponse_codec.sound
      DeleteConfigRequest_codec.sound DeleteConfigResponse_codec.sound

text \<open>Every codec of this theory returns.\<close>

lemmas AdminPolicyMessages_total =
      CreatePolicyRequest_codec.total CreatePolicyResponse_codec.total
      ListPoliciesRequest_codec.total PolicyInfo_codec.total ListPoliciesResponse_codec.total
      DeletePolicyRequest_codec.total DeletePolicyResponse_codec.total
      DeleteSecretRequest_codec.total DeleteSecretResponse_codec.total
      DeleteConfigRequest_codec.total DeleteConfigResponse_codec.total

text \<open>Every codec of this theory skips what it does not know.\<close>

lemmas AdminPolicyMessages_ignores =
      CreatePolicyRequest_codec.ignores CreatePolicyResponse_codec.ignores
      ListPoliciesRequest_codec.ignores PolicyInfo_codec.ignores
      ListPoliciesResponse_codec.ignores DeletePolicyRequest_codec.ignores
      DeletePolicyResponse_codec.ignores DeleteSecretRequest_codec.ignores
      DeleteSecretResponse_codec.ignores DeleteConfigRequest_codec.ignores
      DeleteConfigResponse_codec.ignores

end
