(* ===== verification/AdminService.thy ===== *)
theory AdminService
  imports AdminSealMessages AdminPolicyMessages Rpc
begin

text \<open>
  \<open>AdminServiceService\<close> of \<open>src/gen/admin/v1/admin.ts\<close>: the methods for sealing, key encryption
  keys, policies and deletions, the handlers and calls its two interfaces declare, and that they
  agree.
\<close>

section \<open>The methods\<close>

definition AdminService_unsealKey :: "wire \<Rightarrow> (UnsealKeyRequest, UnsealKeyResponse) rpc_method" where
  "AdminService_unsealKey W =
     \<lparr>rpc_path = ''/admin.v1.AdminService/UnsealKey'', requestStream = False, responseStream = False,
      requestSerialize = UnsealKeyRequest_encode W, requestDeserialize = decode_top (UnsealKeyRequest_dec W),
      responseSerialize = UnsealKeyResponse_encode W, responseDeserialize = decode_top (UnsealKeyResponse_dec W)\<rparr>"

interpretation AdminService_unsealKey_rpc: rpc_contract UnsealKeyRequest_dec UnsealKeyRequest_encode "\<lambda>_. True" "\<lambda>_. 1"
  UnsealKeyResponse_dec UnsealKeyResponse_encode "valid_UnsealKeyResponse" "\<lambda>_. 1" AdminService_unsealKey
  by unfold_locales (simp_all add: AdminService_unsealKey_def)

definition AdminService_unsealShare :: "wire \<Rightarrow> (UnsealShareRequest, UnsealShareResponse) rpc_method" where
  "AdminService_unsealShare W =
     \<lparr>rpc_path = ''/admin.v1.AdminService/UnsealShare'', requestStream = False, responseStream = False,
      requestSerialize = UnsealShareRequest_encode W, requestDeserialize = decode_top (UnsealShareRequest_dec W),
      responseSerialize = UnsealShareResponse_encode W, responseDeserialize = decode_top (UnsealShareResponse_dec W)\<rparr>"

interpretation AdminService_unsealShare_rpc: rpc_contract UnsealShareRequest_dec UnsealShareRequest_encode "\<lambda>_. True" "\<lambda>_. 1"
  UnsealShareResponse_dec UnsealShareResponse_encode "valid_UnsealShareResponse" "\<lambda>_. 1" AdminService_unsealShare
  by unfold_locales (simp_all add: AdminService_unsealShare_def)

definition AdminService_seal :: "wire \<Rightarrow> (SealRequest, SealResponse) rpc_method" where
  "AdminService_seal W =
     \<lparr>rpc_path = ''/admin.v1.AdminService/Seal'', requestStream = False, responseStream = False,
      requestSerialize = SealRequest_encode W, requestDeserialize = decode_top (SealRequest_dec W),
      responseSerialize = SealResponse_encode W, responseDeserialize = decode_top (SealResponse_dec W)\<rparr>"

interpretation AdminService_seal_rpc: rpc_contract SealRequest_dec SealRequest_encode "\<lambda>_. True" "\<lambda>_. 1"
  SealResponse_dec SealResponse_encode "\<lambda>_. True" "\<lambda>_. 1" AdminService_seal
  by unfold_locales (simp_all add: AdminService_seal_def)

definition AdminService_status :: "wire \<Rightarrow> (StatusRequest, StatusResponse) rpc_method" where
  "AdminService_status W =
     \<lparr>rpc_path = ''/admin.v1.AdminService/Status'', requestStream = False, responseStream = False,
      requestSerialize = StatusRequest_encode W, requestDeserialize = decode_top (StatusRequest_dec W),
      responseSerialize = StatusResponse_encode W, responseDeserialize = decode_top (StatusResponse_dec W)\<rparr>"

interpretation AdminService_status_rpc: rpc_contract StatusRequest_dec StatusRequest_encode "\<lambda>_. True" "\<lambda>_. 1"
  StatusResponse_dec StatusResponse_encode "valid_StatusResponse" "\<lambda>_. 1" AdminService_status
  by unfold_locales (simp_all add: AdminService_status_def)

definition AdminService_rotateKek :: "wire \<Rightarrow> (RotateKEKRequest, RotateKEKResponse) rpc_method" where
  "AdminService_rotateKek W =
     \<lparr>rpc_path = ''/admin.v1.AdminService/RotateKEK'', requestStream = False, responseStream = False,
      requestSerialize = RotateKEKRequest_encode W, requestDeserialize = decode_top (RotateKEKRequest_dec W),
      responseSerialize = RotateKEKResponse_encode W, responseDeserialize = decode_top (RotateKEKResponse_dec W)\<rparr>"

interpretation AdminService_rotateKek_rpc: rpc_contract RotateKEKRequest_dec RotateKEKRequest_encode "\<lambda>_. True" "\<lambda>_. 1"
  RotateKEKResponse_dec RotateKEKResponse_encode "valid_RotateKEKResponse" "\<lambda>_. 1" AdminService_rotateKek
  by unfold_locales (simp_all add: AdminService_rotateKek_def)

definition AdminService_listKeKs :: "wire \<Rightarrow> (ListKEKsRequest, ListKEKsResponse) rpc_method" where
  "AdminService_listKeKs W =
     \<lparr>rpc_path = ''/admin.v1.AdminService/ListKEKs'', requestStream = False, responseStream = False,
      requestSerialize = ListKEKsRequest_encode W, requestDeserialize = decode_top (ListKEKsRequest_dec W),
      responseSerialize = ListKEKsResponse_encode W, responseDeserialize = decode_top (ListKEKsResponse_dec W)\<rparr>"

interpretation AdminService_listKeKs_rpc: rpc_contract ListKEKsRequest_dec ListKEKsRequest_encode "\<lambda>_. True" "\<lambda>_. 1"
  ListKEKsResponse_dec ListKEKsResponse_encode "\<lambda>_. True" "depth_ListKEKsResponse" AdminService_listKeKs
  by unfold_locales (simp_all add: AdminService_listKeKs_def)

definition AdminService_pruneKek :: "wire \<Rightarrow> (PruneKEKRequest, PruneKEKResponse) rpc_method" where
  "AdminService_pruneKek W =
     \<lparr>rpc_path = ''/admin.v1.AdminService/PruneKEK'', requestStream = False, responseStream = False,
      requestSerialize = PruneKEKRequest_encode W, requestDeserialize = decode_top (PruneKEKRequest_dec W),
      responseSerialize = PruneKEKResponse_encode W, responseDeserialize = decode_top (PruneKEKResponse_dec W)\<rparr>"

interpretation AdminService_pruneKek_rpc: rpc_contract PruneKEKRequest_dec PruneKEKRequest_encode "\<lambda>_. True" "\<lambda>_. 1"
  PruneKEKResponse_dec PruneKEKResponse_encode "\<lambda>_. True" "\<lambda>_. 1" AdminService_pruneKek
  by unfold_locales (simp_all add: AdminService_pruneKek_def)

definition AdminService_rotateMasterKey :: "wire \<Rightarrow> (RotateMasterKeyRequest, RotateMasterKeyResponse) rpc_method" where
  "AdminService_rotateMasterKey W =
     \<lparr>rpc_path = ''/admin.v1.AdminService/RotateMasterKey'', requestStream = False, responseStream = False,
      requestSerialize = RotateMasterKeyRequest_encode W, requestDeserialize = decode_top (RotateMasterKeyRequest_dec W),
      responseSerialize = RotateMasterKeyResponse_encode W, responseDeserialize = decode_top (RotateMasterKeyResponse_dec W)\<rparr>"

interpretation AdminService_rotateMasterKey_rpc: rpc_contract RotateMasterKeyRequest_dec RotateMasterKeyRequest_encode "\<lambda>_. True" "\<lambda>_. 1"
  RotateMasterKeyResponse_dec RotateMasterKeyResponse_encode "valid_RotateMasterKeyResponse" "\<lambda>_. 1" AdminService_rotateMasterKey
  by unfold_locales (simp_all add: AdminService_rotateMasterKey_def)

definition AdminService_createPolicy :: "wire \<Rightarrow> (CreatePolicyRequest, CreatePolicyResponse) rpc_method" where
  "AdminService_createPolicy W =
     \<lparr>rpc_path = ''/admin.v1.AdminService/CreatePolicy'', requestStream = False, responseStream = False,
      requestSerialize = CreatePolicyRequest_encode W, requestDeserialize = decode_top (CreatePolicyRequest_dec W),
      responseSerialize = CreatePolicyResponse_encode W, responseDeserialize = decode_top (CreatePolicyResponse_dec W)\<rparr>"

interpretation AdminService_createPolicy_rpc: rpc_contract CreatePolicyRequest_dec CreatePolicyRequest_encode "\<lambda>_. True" "\<lambda>_. 1"
  CreatePolicyResponse_dec CreatePolicyResponse_encode "\<lambda>_. True" "\<lambda>_. 1" AdminService_createPolicy
  by unfold_locales (simp_all add: AdminService_createPolicy_def)

definition AdminService_listPolicies :: "wire \<Rightarrow> (ListPoliciesRequest, ListPoliciesResponse) rpc_method" where
  "AdminService_listPolicies W =
     \<lparr>rpc_path = ''/admin.v1.AdminService/ListPolicies'', requestStream = False, responseStream = False,
      requestSerialize = ListPoliciesRequest_encode W, requestDeserialize = decode_top (ListPoliciesRequest_dec W),
      responseSerialize = ListPoliciesResponse_encode W, responseDeserialize = decode_top (ListPoliciesResponse_dec W)\<rparr>"

interpretation AdminService_listPolicies_rpc: rpc_contract ListPoliciesRequest_dec ListPoliciesRequest_encode "\<lambda>_. True" "\<lambda>_. 1"
  ListPoliciesResponse_dec ListPoliciesResponse_encode "\<lambda>_. True" "depth_ListPoliciesResponse" AdminService_listPolicies
  by unfold_locales (simp_all add: AdminService_listPolicies_def)

definition AdminService_deletePolicy :: "wire \<Rightarrow> (DeletePolicyRequest, DeletePolicyResponse) rpc_method" where
  "AdminService_deletePolicy W =
     \<lparr>rpc_path = ''/admin.v1.AdminService/DeletePolicy'', requestStream = False, responseStream = False,
      requestSerialize = DeletePolicyRequest_encode W, requestDeserialize = decode_top (DeletePolicyRequest_dec W),
      responseSerialize = DeletePolicyResponse_encode W, responseDeserialize = decode_top (DeletePolicyResponse_dec W)\<rparr>"

interpretation AdminService_deletePolicy_rpc: rpc_contract DeletePolicyRequest_dec DeletePolicyRequest_encode "\<lambda>_. True" "\<lambda>_. 1"
  DeletePolicyResponse_dec DeletePolicyResponse_encode "\<lambda>_. True" "\<lambda>_. 1" AdminService_deletePolicy
  by unfold_locales (simp_all add: AdminService_deletePolicy_def)

definition AdminService_deleteSecret :: "wire \<Rightarrow> (DeleteSecretRequest, DeleteSecretResponse) rpc_method" where
  "AdminService_deleteSecret W =
     \<lparr>rpc_path = ''/admin.v1.AdminService/DeleteSecret'', requestStream = False, responseStream = False,
      requestSerialize = DeleteSecretRequest_encode W, requestDeserialize = decode_top (DeleteSecretRequest_dec W),
      responseSerialize = DeleteSecretResponse_encode W, responseDeserialize = decode_top (DeleteSecretResponse_dec W)\<rparr>"

interpretation AdminService_deleteSecret_rpc: rpc_contract DeleteSecretRequest_dec DeleteSecretRequest_encode "\<lambda>_. True" "\<lambda>_. 1"
  DeleteSecretResponse_dec DeleteSecretResponse_encode "\<lambda>_. True" "\<lambda>_. 1" AdminService_deleteSecret
  by unfold_locales (simp_all add: AdminService_deleteSecret_def)

definition AdminService_deleteConfig :: "wire \<Rightarrow> (DeleteConfigRequest, DeleteConfigResponse) rpc_method" where
  "AdminService_deleteConfig W =
     \<lparr>rpc_path = ''/admin.v1.AdminService/DeleteConfig'', requestStream = False, responseStream = False,
      requestSerialize = DeleteConfigRequest_encode W, requestDeserialize = decode_top (DeleteConfigRequest_dec W),
      responseSerialize = DeleteConfigResponse_encode W, responseDeserialize = decode_top (DeleteConfigResponse_dec W)\<rparr>"

interpretation AdminService_deleteConfig_rpc: rpc_contract DeleteConfigRequest_dec DeleteConfigRequest_encode "\<lambda>_. True" "\<lambda>_. 1"
  DeleteConfigResponse_dec DeleteConfigResponse_encode "\<lambda>_. True" "\<lambda>_. 1" AdminService_deleteConfig
  by unfold_locales (simp_all add: AdminService_deleteConfig_def)

section \<open>The table\<close>

text \<open>Name, path and kind of every method, in the order of the table.\<close>

definition AdminServiceService :: "wire \<Rightarrow> (string \<times> string \<times> call_kind) list" where
  "AdminServiceService W =
     [(''unsealKey'', rpc_path (AdminService_unsealKey W), kind_of (AdminService_unsealKey W)),
      (''unsealShare'', rpc_path (AdminService_unsealShare W), kind_of (AdminService_unsealShare W)),
      (''seal'', rpc_path (AdminService_seal W), kind_of (AdminService_seal W)),
      (''status'', rpc_path (AdminService_status W), kind_of (AdminService_status W)),
      (''rotateKek'', rpc_path (AdminService_rotateKek W), kind_of (AdminService_rotateKek W)),
      (''listKeKs'', rpc_path (AdminService_listKeKs W), kind_of (AdminService_listKeKs W)),
      (''pruneKek'', rpc_path (AdminService_pruneKek W), kind_of (AdminService_pruneKek W)),
      (''rotateMasterKey'', rpc_path (AdminService_rotateMasterKey W), kind_of (AdminService_rotateMasterKey W)),
      (''createPolicy'', rpc_path (AdminService_createPolicy W), kind_of (AdminService_createPolicy W)),
      (''listPolicies'', rpc_path (AdminService_listPolicies W), kind_of (AdminService_listPolicies W)),
      (''deletePolicy'', rpc_path (AdminService_deletePolicy W), kind_of (AdminService_deletePolicy W)),
      (''deleteSecret'', rpc_path (AdminService_deleteSecret W), kind_of (AdminService_deleteSecret W)),
      (''deleteConfig'', rpc_path (AdminService_deleteConfig W), kind_of (AdminService_deleteConfig W))]"

text \<open>The handlers a server declares, and the calls a client declares.\<close>

definition AdminServiceServer :: "(string \<times> call_kind) list" where
  "AdminServiceServer =
     [(''unsealKey'', Unary),
      (''unsealShare'', Unary),
      (''seal'', Unary),
      (''status'', Unary),
      (''rotateKek'', Unary),
      (''listKeKs'', Unary),
      (''pruneKek'', Unary),
      (''rotateMasterKey'', Unary),
      (''createPolicy'', Unary),
      (''listPolicies'', Unary),
      (''deletePolicy'', Unary),
      (''deleteSecret'', Unary),
      (''deleteConfig'', Unary)]"

definition AdminServiceClient :: "(string \<times> call_kind) list" where
  "AdminServiceClient =
     [(''unsealKey'', Unary),
      (''unsealShare'', Unary),
      (''seal'', Unary),
      (''status'', Unary),
      (''rotateKek'', Unary),
      (''listKeKs'', Unary),
      (''pruneKek'', Unary),
      (''rotateMasterKey'', Unary),
      (''createPolicy'', Unary),
      (''listPolicies'', Unary),
      (''deletePolicy'', Unary),
      (''deleteSecret'', Unary),
      (''deleteConfig'', Unary)]"

definition AdminServiceClient_serviceName :: string where
  "AdminServiceClient_serviceName = ''admin.v1.AdminService''"

lemmas AdminService_defs =
      AdminService_unsealKey_def AdminService_unsealShare_def AdminService_seal_def
      AdminService_status_def AdminService_rotateKek_def AdminService_listKeKs_def
      AdminService_pruneKek_def AdminService_rotateMasterKey_def AdminService_createPolicy_def
      AdminService_listPolicies_def AdminService_deletePolicy_def
      AdminService_deleteSecret_def AdminService_deleteConfig_def

lemmas AdminService_calls =
      AdminService_unsealKey_rpc.calls AdminService_unsealShare_rpc.calls
      AdminService_seal_rpc.calls AdminService_status_rpc.calls
      AdminService_rotateKek_rpc.calls AdminService_listKeKs_rpc.calls
      AdminService_pruneKek_rpc.calls AdminService_rotateMasterKey_rpc.calls
      AdminService_createPolicy_rpc.calls AdminService_listPolicies_rpc.calls
      AdminService_deletePolicy_rpc.calls AdminService_deleteSecret_rpc.calls
      AdminService_deleteConfig_rpc.calls

lemma AdminService_entries:
  "AdminServiceService W =
     [(''unsealKey'', ''/admin.v1.AdminService/UnsealKey'', Unary),
      (''unsealShare'', ''/admin.v1.AdminService/UnsealShare'', Unary),
      (''seal'', ''/admin.v1.AdminService/Seal'', Unary),
      (''status'', ''/admin.v1.AdminService/Status'', Unary),
      (''rotateKek'', ''/admin.v1.AdminService/RotateKEK'', Unary),
      (''listKeKs'', ''/admin.v1.AdminService/ListKEKs'', Unary),
      (''pruneKek'', ''/admin.v1.AdminService/PruneKEK'', Unary),
      (''rotateMasterKey'', ''/admin.v1.AdminService/RotateMasterKey'', Unary),
      (''createPolicy'', ''/admin.v1.AdminService/CreatePolicy'', Unary),
      (''listPolicies'', ''/admin.v1.AdminService/ListPolicies'', Unary),
      (''deletePolicy'', ''/admin.v1.AdminService/DeletePolicy'', Unary),
      (''deleteSecret'', ''/admin.v1.AdminService/DeleteSecret'', Unary),
      (''deleteConfig'', ''/admin.v1.AdminService/DeleteConfig'', Unary)]"
  by (simp add: AdminServiceService_def AdminService_defs kind_of_def)

lemma AdminService_declared:
  "map (\<lambda>(n, p, k). (n, k)) (AdminServiceService W) = AdminServiceServer" "AdminServiceClient = AdminServiceServer"
  by (simp_all add: AdminService_entries AdminServiceServer_def AdminServiceClient_def)

lemma AdminService_paths:
  "\<forall>(n, p, k) \<in> set (AdminServiceService W). path_of AdminServiceClient_serviceName p"
  by (simp add: AdminService_entries AdminServiceClient_serviceName_def path_of_split)

end
