(* ===== verification/AdminRepositoryMessages.thy ===== *)
theory AdminRepositoryMessages
  imports MessageCodec
begin

text \<open>
  The messages of \<open>src/gen/admin/v1/admin.ts\<close> on repositories and synchronisation:
  for each, its fields, \<open>createBase\<dots>\<close>, \<open>encode\<close>, the \<open>switch\<close> of \<open>decode\<close> (\<open>\<dots>_field\<close>) and
  \<open>decode\<close> (\<open>\<dots>_dec\<close>), and the proof that it is a codec. A message without fields is \<open>unit\<close>.
\<close>

subsection \<open>RegisterRepositoryRequest\<close>

record RegisterRepositoryRequest =
  RegisterRepositoryRequest_name :: string
  RegisterRepositoryRequest_repoUrl :: string
  RegisterRepositoryRequest_branch :: string
  RegisterRepositoryRequest_secretsPath :: string
  RegisterRepositoryRequest_deployKey :: "byte list"
  RegisterRepositoryRequest_configPath :: string

definition createBaseRegisterRepositoryRequest :: RegisterRepositoryRequest where
  "createBaseRegisterRepositoryRequest =
     \<lparr>RegisterRepositoryRequest_name = '''', RegisterRepositoryRequest_repoUrl = '''',
      RegisterRepositoryRequest_branch = '''',
      RegisterRepositoryRequest_secretsPath = '''',
      RegisterRepositoryRequest_deployKey = [],
      RegisterRepositoryRequest_configPath = ''''\<rparr>"

definition RegisterRepositoryRequest_encode :: "wire \<Rightarrow> RegisterRepositoryRequest \<Rightarrow> byte list option" where
  "RegisterRepositoryRequest_encode W m = enc_fields
     [f_string W 10 (RegisterRepositoryRequest_name m),
      f_string W 18 (RegisterRepositoryRequest_repoUrl m),
      f_string W 26 (RegisterRepositoryRequest_branch m),
      f_string W 34 (RegisterRepositoryRequest_secretsPath m),
      f_bytes W 42 (RegisterRepositoryRequest_deployKey m),
      f_string W 50 (RegisterRepositoryRequest_configPath m)]"

definition RegisterRepositoryRequest_field :: "wire \<Rightarrow> nat \<Rightarrow> RegisterRepositoryRequest handler" where
  "RegisterRepositoryRequest_field W r buf tag p m =
     (if tag = 10 then rd (r_string W) buf p (\<lambda>v. m\<lparr>RegisterRepositoryRequest_name := v\<rparr>)
      else if tag = 18 then rd (r_string W) buf p (\<lambda>v. m\<lparr>RegisterRepositoryRequest_repoUrl := v\<rparr>)
      else if tag = 26 then rd (r_string W) buf p (\<lambda>v. m\<lparr>RegisterRepositoryRequest_branch := v\<rparr>)
      else if tag = 34 then rd (r_string W) buf p (\<lambda>v. m\<lparr>RegisterRepositoryRequest_secretsPath := v\<rparr>)
      else if tag = 42 then rd (r_bytes W) buf p (\<lambda>v. m\<lparr>RegisterRepositoryRequest_deployKey := v\<rparr>)
      else if tag = 50 then rd (r_string W) buf p (\<lambda>v. m\<lparr>RegisterRepositoryRequest_configPath := v\<rparr>)
      else Some NotHandled)"

definition RegisterRepositoryRequest_dec :: "wire \<Rightarrow> nat \<Rightarrow> RegisterRepositoryRequest decoder" where
  "RegisterRepositoryRequest_dec W = decode_message W (RegisterRepositoryRequest_field W) createBaseRegisterRepositoryRequest"

interpretation RegisterRepositoryRequest_codec: message_codec
  RegisterRepositoryRequest_dec RegisterRepositoryRequest_field createBaseRegisterRepositoryRequest RegisterRepositoryRequest_encode
  "\<lambda>_. True" "\<lambda>_. 1"
  "\<lambda>W. [string_field W 10 RegisterRepositoryRequest_name (\<lambda>v m. m\<lparr>RegisterRepositoryRequest_name := v\<rparr>),
       string_field W 18 RegisterRepositoryRequest_repoUrl (\<lambda>v m. m\<lparr>RegisterRepositoryRequest_repoUrl := v\<rparr>),
       string_field W 26 RegisterRepositoryRequest_branch (\<lambda>v m. m\<lparr>RegisterRepositoryRequest_branch := v\<rparr>),
       string_field W 34 RegisterRepositoryRequest_secretsPath (\<lambda>v m. m\<lparr>RegisterRepositoryRequest_secretsPath := v\<rparr>),
       bytes_field W 42 RegisterRepositoryRequest_deployKey (\<lambda>v m. m\<lparr>RegisterRepositoryRequest_deployKey := v\<rparr>),
       string_field W 50 RegisterRepositoryRequest_configPath (\<lambda>v m. m\<lparr>RegisterRepositoryRequest_configPath := v\<rparr>)]"
  "[10, 18, 26, 34, 42, 50]"
  by unfold_locales
     (auto simp: RegisterRepositoryRequest_dec_def RegisterRepositoryRequest_field_def
       RegisterRepositoryRequest_encode_def createBaseRegisterRepositoryRequest_def
       intro!: simple_laws goes_on_intros RegisterRepositoryRequest.equality)

subsection \<open>RegisterRepositoryResponse\<close>

record RegisterRepositoryResponse =
  RegisterRepositoryResponse_id :: string
  RegisterRepositoryResponse_webhookUrl :: string
  RegisterRepositoryResponse_webhookSecret :: string

definition createBaseRegisterRepositoryResponse :: RegisterRepositoryResponse where
  "createBaseRegisterRepositoryResponse =
     \<lparr>RegisterRepositoryResponse_id = '''', RegisterRepositoryResponse_webhookUrl = '''',
      RegisterRepositoryResponse_webhookSecret = ''''\<rparr>"

definition RegisterRepositoryResponse_encode :: "wire \<Rightarrow> RegisterRepositoryResponse \<Rightarrow> byte list option" where
  "RegisterRepositoryResponse_encode W m = enc_fields
     [f_string W 10 (RegisterRepositoryResponse_id m),
      f_string W 18 (RegisterRepositoryResponse_webhookUrl m),
      f_string W 26 (RegisterRepositoryResponse_webhookSecret m)]"

definition RegisterRepositoryResponse_field :: "wire \<Rightarrow> nat \<Rightarrow> RegisterRepositoryResponse handler" where
  "RegisterRepositoryResponse_field W r buf tag p m =
     (if tag = 10 then rd (r_string W) buf p (\<lambda>v. m\<lparr>RegisterRepositoryResponse_id := v\<rparr>)
      else if tag = 18 then rd (r_string W) buf p (\<lambda>v. m\<lparr>RegisterRepositoryResponse_webhookUrl := v\<rparr>)
      else if tag = 26 then rd (r_string W) buf p (\<lambda>v. m\<lparr>RegisterRepositoryResponse_webhookSecret := v\<rparr>)
      else Some NotHandled)"

definition RegisterRepositoryResponse_dec :: "wire \<Rightarrow> nat \<Rightarrow> RegisterRepositoryResponse decoder" where
  "RegisterRepositoryResponse_dec W = decode_message W (RegisterRepositoryResponse_field W) createBaseRegisterRepositoryResponse"

interpretation RegisterRepositoryResponse_codec: message_codec
  RegisterRepositoryResponse_dec RegisterRepositoryResponse_field createBaseRegisterRepositoryResponse RegisterRepositoryResponse_encode
  "\<lambda>_. True" "\<lambda>_. 1"
  "\<lambda>W. [string_field W 10 RegisterRepositoryResponse_id (\<lambda>v m. m\<lparr>RegisterRepositoryResponse_id := v\<rparr>),
       string_field W 18 RegisterRepositoryResponse_webhookUrl (\<lambda>v m. m\<lparr>RegisterRepositoryResponse_webhookUrl := v\<rparr>),
       string_field W 26 RegisterRepositoryResponse_webhookSecret (\<lambda>v m. m\<lparr>RegisterRepositoryResponse_webhookSecret := v\<rparr>)]"
  "[10, 18, 26]"
  by unfold_locales
     (auto simp: RegisterRepositoryResponse_dec_def RegisterRepositoryResponse_field_def
       RegisterRepositoryResponse_encode_def createBaseRegisterRepositoryResponse_def
       intro!: simple_laws goes_on_intros RegisterRepositoryResponse.equality)

subsection \<open>ListRepositoriesRequest\<close>

type_synonym ListRepositoriesRequest = unit

definition createBaseListRepositoriesRequest :: ListRepositoriesRequest where
  "createBaseListRepositoriesRequest =
     ()"

definition ListRepositoriesRequest_encode :: "wire \<Rightarrow> ListRepositoriesRequest \<Rightarrow> byte list option" where
  "ListRepositoriesRequest_encode W m = enc_fields
     []"

definition ListRepositoriesRequest_field :: "wire \<Rightarrow> nat \<Rightarrow> ListRepositoriesRequest handler" where
  "ListRepositoriesRequest_field W r buf tag p m =
     (Some NotHandled)"

definition ListRepositoriesRequest_dec :: "wire \<Rightarrow> nat \<Rightarrow> ListRepositoriesRequest decoder" where
  "ListRepositoriesRequest_dec W = decode_message W (ListRepositoriesRequest_field W) createBaseListRepositoriesRequest"

interpretation ListRepositoriesRequest_codec: message_codec
  ListRepositoriesRequest_dec ListRepositoriesRequest_field createBaseListRepositoriesRequest ListRepositoriesRequest_encode
  "\<lambda>_. True" "\<lambda>_. 1"
  "\<lambda>W. []"
  "[]"
  by unfold_locales
     (auto simp: ListRepositoriesRequest_dec_def ListRepositoriesRequest_field_def
       ListRepositoriesRequest_encode_def createBaseListRepositoriesRequest_def
       intro!: simple_laws goes_on_intros)

subsection \<open>RepositoryInfo\<close>

record RepositoryInfo =
  RepositoryInfo_id :: string
  RepositoryInfo_name :: string
  RepositoryInfo_repoUrl :: string
  RepositoryInfo_branch :: string
  RepositoryInfo_secretsPath :: string
  RepositoryInfo_lastSyncSha :: string
  RepositoryInfo_lastSyncAt :: string
  RepositoryInfo_configPath :: string

definition createBaseRepositoryInfo :: RepositoryInfo where
  "createBaseRepositoryInfo =
     \<lparr>RepositoryInfo_id = '''', RepositoryInfo_name = '''', RepositoryInfo_repoUrl = '''',
      RepositoryInfo_branch = '''', RepositoryInfo_secretsPath = '''',
      RepositoryInfo_lastSyncSha = '''', RepositoryInfo_lastSyncAt = '''',
      RepositoryInfo_configPath = ''''\<rparr>"

definition RepositoryInfo_encode :: "wire \<Rightarrow> RepositoryInfo \<Rightarrow> byte list option" where
  "RepositoryInfo_encode W m = enc_fields
     [f_string W 10 (RepositoryInfo_id m),
      f_string W 18 (RepositoryInfo_name m),
      f_string W 26 (RepositoryInfo_repoUrl m),
      f_string W 34 (RepositoryInfo_branch m),
      f_string W 42 (RepositoryInfo_secretsPath m),
      f_string W 50 (RepositoryInfo_lastSyncSha m),
      f_string W 58 (RepositoryInfo_lastSyncAt m),
      f_string W 66 (RepositoryInfo_configPath m)]"

definition RepositoryInfo_field :: "wire \<Rightarrow> nat \<Rightarrow> RepositoryInfo handler" where
  "RepositoryInfo_field W r buf tag p m =
     (if tag = 10 then rd (r_string W) buf p (\<lambda>v. m\<lparr>RepositoryInfo_id := v\<rparr>)
      else if tag = 18 then rd (r_string W) buf p (\<lambda>v. m\<lparr>RepositoryInfo_name := v\<rparr>)
      else if tag = 26 then rd (r_string W) buf p (\<lambda>v. m\<lparr>RepositoryInfo_repoUrl := v\<rparr>)
      else if tag = 34 then rd (r_string W) buf p (\<lambda>v. m\<lparr>RepositoryInfo_branch := v\<rparr>)
      else if tag = 42 then rd (r_string W) buf p (\<lambda>v. m\<lparr>RepositoryInfo_secretsPath := v\<rparr>)
      else if tag = 50 then rd (r_string W) buf p (\<lambda>v. m\<lparr>RepositoryInfo_lastSyncSha := v\<rparr>)
      else if tag = 58 then rd (r_string W) buf p (\<lambda>v. m\<lparr>RepositoryInfo_lastSyncAt := v\<rparr>)
      else if tag = 66 then rd (r_string W) buf p (\<lambda>v. m\<lparr>RepositoryInfo_configPath := v\<rparr>)
      else Some NotHandled)"

definition RepositoryInfo_dec :: "wire \<Rightarrow> nat \<Rightarrow> RepositoryInfo decoder" where
  "RepositoryInfo_dec W = decode_message W (RepositoryInfo_field W) createBaseRepositoryInfo"

interpretation RepositoryInfo_codec: message_codec
  RepositoryInfo_dec RepositoryInfo_field createBaseRepositoryInfo RepositoryInfo_encode
  "\<lambda>_. True" "\<lambda>_. 1"
  "\<lambda>W. [string_field W 10 RepositoryInfo_id (\<lambda>v m. m\<lparr>RepositoryInfo_id := v\<rparr>),
       string_field W 18 RepositoryInfo_name (\<lambda>v m. m\<lparr>RepositoryInfo_name := v\<rparr>),
       string_field W 26 RepositoryInfo_repoUrl (\<lambda>v m. m\<lparr>RepositoryInfo_repoUrl := v\<rparr>),
       string_field W 34 RepositoryInfo_branch (\<lambda>v m. m\<lparr>RepositoryInfo_branch := v\<rparr>),
       string_field W 42 RepositoryInfo_secretsPath (\<lambda>v m. m\<lparr>RepositoryInfo_secretsPath := v\<rparr>),
       string_field W 50 RepositoryInfo_lastSyncSha (\<lambda>v m. m\<lparr>RepositoryInfo_lastSyncSha := v\<rparr>),
       string_field W 58 RepositoryInfo_lastSyncAt (\<lambda>v m. m\<lparr>RepositoryInfo_lastSyncAt := v\<rparr>),
       string_field W 66 RepositoryInfo_configPath (\<lambda>v m. m\<lparr>RepositoryInfo_configPath := v\<rparr>)]"
  "[10, 18, 26, 34, 42, 50, 58, 66]"
  by unfold_locales
     (auto simp: RepositoryInfo_dec_def RepositoryInfo_field_def RepositoryInfo_encode_def
       createBaseRepositoryInfo_def
       intro!: simple_laws goes_on_intros RepositoryInfo.equality)

subsection \<open>ListRepositoriesResponse\<close>

record ListRepositoriesResponse =
  ListRepositoriesResponse_repositories :: "RepositoryInfo list"

definition createBaseListRepositoriesResponse :: ListRepositoriesResponse where
  "createBaseListRepositoriesResponse =
     \<lparr>ListRepositoriesResponse_repositories = []\<rparr>"

definition ListRepositoriesResponse_encode :: "wire \<Rightarrow> ListRepositoriesResponse \<Rightarrow> byte list option" where
  "ListRepositoriesResponse_encode W m = enc_fields
     [f_rep_msg W 10 (RepositoryInfo_encode W) (ListRepositoriesResponse_repositories m)]"

definition ListRepositoriesResponse_field :: "wire \<Rightarrow> nat \<Rightarrow> ListRepositoriesResponse handler" where
  "ListRepositoriesResponse_field W r buf tag p m =
     (if tag = 10 then rd_msg W (RepositoryInfo_dec W r) buf p (\<lambda>v. m\<lparr>ListRepositoriesResponse_repositories := ListRepositoriesResponse_repositories m @ [v]\<rparr>)
      else Some NotHandled)"

definition ListRepositoriesResponse_dec :: "wire \<Rightarrow> nat \<Rightarrow> ListRepositoriesResponse decoder" where
  "ListRepositoriesResponse_dec W = decode_message W (ListRepositoriesResponse_field W) createBaseListRepositoriesResponse"

definition depth_ListRepositoriesResponse :: "ListRepositoriesResponse \<Rightarrow> nat" where
  "depth_ListRepositoriesResponse m = Suc (list_depth (\<lambda>_. 1) (ListRepositoriesResponse_repositories m))"

interpretation ListRepositoriesResponse_codec: message_codec
  ListRepositoriesResponse_dec ListRepositoriesResponse_field createBaseListRepositoriesResponse ListRepositoriesResponse_encode
  "\<lambda>_. True" "depth_ListRepositoriesResponse"
  "\<lambda>W. [rep_msg_field W 10 (RepositoryInfo_encode W) ListRepositoriesResponse_repositories (\<lambda>v m. m\<lparr>ListRepositoriesResponse_repositories := v\<rparr>)]"
  "[10]"
  by unfold_locales
     (auto simp: ListRepositoriesResponse_dec_def ListRepositoriesResponse_field_def
       ListRepositoriesResponse_encode_def createBaseListRepositoriesResponse_def
       depth_ListRepositoriesResponse_def RepositoryInfo_codec.list_total
       intro!: simple_laws goes_on_intros RepositoryInfo_codec.law_list RepositoryInfo_codec.goes_on_nested ListRepositoriesResponse.equality)

subsection \<open>RemoveRepositoryRequest\<close>

record RemoveRepositoryRequest =
  RemoveRepositoryRequest_id :: string

definition createBaseRemoveRepositoryRequest :: RemoveRepositoryRequest where
  "createBaseRemoveRepositoryRequest =
     \<lparr>RemoveRepositoryRequest_id = ''''\<rparr>"

definition RemoveRepositoryRequest_encode :: "wire \<Rightarrow> RemoveRepositoryRequest \<Rightarrow> byte list option" where
  "RemoveRepositoryRequest_encode W m = enc_fields
     [f_string W 10 (RemoveRepositoryRequest_id m)]"

definition RemoveRepositoryRequest_field :: "wire \<Rightarrow> nat \<Rightarrow> RemoveRepositoryRequest handler" where
  "RemoveRepositoryRequest_field W r buf tag p m =
     (if tag = 10 then rd (r_string W) buf p (\<lambda>v. m\<lparr>RemoveRepositoryRequest_id := v\<rparr>)
      else Some NotHandled)"

definition RemoveRepositoryRequest_dec :: "wire \<Rightarrow> nat \<Rightarrow> RemoveRepositoryRequest decoder" where
  "RemoveRepositoryRequest_dec W = decode_message W (RemoveRepositoryRequest_field W) createBaseRemoveRepositoryRequest"

interpretation RemoveRepositoryRequest_codec: message_codec
  RemoveRepositoryRequest_dec RemoveRepositoryRequest_field createBaseRemoveRepositoryRequest RemoveRepositoryRequest_encode
  "\<lambda>_. True" "\<lambda>_. 1"
  "\<lambda>W. [string_field W 10 RemoveRepositoryRequest_id (\<lambda>v m. m\<lparr>RemoveRepositoryRequest_id := v\<rparr>)]"
  "[10]"
  by unfold_locales
     (auto simp: RemoveRepositoryRequest_dec_def RemoveRepositoryRequest_field_def
       RemoveRepositoryRequest_encode_def createBaseRemoveRepositoryRequest_def
       intro!: simple_laws goes_on_intros RemoveRepositoryRequest.equality)

subsection \<open>RemoveRepositoryResponse\<close>

record RemoveRepositoryResponse =
  RemoveRepositoryResponse_message :: string

definition createBaseRemoveRepositoryResponse :: RemoveRepositoryResponse where
  "createBaseRemoveRepositoryResponse =
     \<lparr>RemoveRepositoryResponse_message = ''''\<rparr>"

definition RemoveRepositoryResponse_encode :: "wire \<Rightarrow> RemoveRepositoryResponse \<Rightarrow> byte list option" where
  "RemoveRepositoryResponse_encode W m = enc_fields
     [f_string W 10 (RemoveRepositoryResponse_message m)]"

definition RemoveRepositoryResponse_field :: "wire \<Rightarrow> nat \<Rightarrow> RemoveRepositoryResponse handler" where
  "RemoveRepositoryResponse_field W r buf tag p m =
     (if tag = 10 then rd (r_string W) buf p (\<lambda>v. m\<lparr>RemoveRepositoryResponse_message := v\<rparr>)
      else Some NotHandled)"

definition RemoveRepositoryResponse_dec :: "wire \<Rightarrow> nat \<Rightarrow> RemoveRepositoryResponse decoder" where
  "RemoveRepositoryResponse_dec W = decode_message W (RemoveRepositoryResponse_field W) createBaseRemoveRepositoryResponse"

interpretation RemoveRepositoryResponse_codec: message_codec
  RemoveRepositoryResponse_dec RemoveRepositoryResponse_field createBaseRemoveRepositoryResponse RemoveRepositoryResponse_encode
  "\<lambda>_. True" "\<lambda>_. 1"
  "\<lambda>W. [string_field W 10 RemoveRepositoryResponse_message (\<lambda>v m. m\<lparr>RemoveRepositoryResponse_message := v\<rparr>)]"
  "[10]"
  by unfold_locales
     (auto simp: RemoveRepositoryResponse_dec_def RemoveRepositoryResponse_field_def
       RemoveRepositoryResponse_encode_def createBaseRemoveRepositoryResponse_def
       intro!: simple_laws goes_on_intros RemoveRepositoryResponse.equality)

subsection \<open>TriggerSyncRequest\<close>

record TriggerSyncRequest =
  TriggerSyncRequest_id :: string
  TriggerSyncRequest_force :: bool

definition createBaseTriggerSyncRequest :: TriggerSyncRequest where
  "createBaseTriggerSyncRequest =
     \<lparr>TriggerSyncRequest_id = '''', TriggerSyncRequest_force = False\<rparr>"

definition TriggerSyncRequest_encode :: "wire \<Rightarrow> TriggerSyncRequest \<Rightarrow> byte list option" where
  "TriggerSyncRequest_encode W m = enc_fields
     [f_string W 10 (TriggerSyncRequest_id m),
      f_bool W 16 (TriggerSyncRequest_force m)]"

definition TriggerSyncRequest_field :: "wire \<Rightarrow> nat \<Rightarrow> TriggerSyncRequest handler" where
  "TriggerSyncRequest_field W r buf tag p m =
     (if tag = 10 then rd (r_string W) buf p (\<lambda>v. m\<lparr>TriggerSyncRequest_id := v\<rparr>)
      else if tag = 16 then rd (r_bool W) buf p (\<lambda>v. m\<lparr>TriggerSyncRequest_force := v\<rparr>)
      else Some NotHandled)"

definition TriggerSyncRequest_dec :: "wire \<Rightarrow> nat \<Rightarrow> TriggerSyncRequest decoder" where
  "TriggerSyncRequest_dec W = decode_message W (TriggerSyncRequest_field W) createBaseTriggerSyncRequest"

interpretation TriggerSyncRequest_codec: message_codec
  TriggerSyncRequest_dec TriggerSyncRequest_field createBaseTriggerSyncRequest TriggerSyncRequest_encode
  "\<lambda>_. True" "\<lambda>_. 1"
  "\<lambda>W. [string_field W 10 TriggerSyncRequest_id (\<lambda>v m. m\<lparr>TriggerSyncRequest_id := v\<rparr>),
       bool_field W 16 TriggerSyncRequest_force (\<lambda>v m. m\<lparr>TriggerSyncRequest_force := v\<rparr>)]"
  "[10, 16]"
  by unfold_locales
     (auto simp: TriggerSyncRequest_dec_def TriggerSyncRequest_field_def
       TriggerSyncRequest_encode_def createBaseTriggerSyncRequest_def
       intro!: simple_laws goes_on_intros TriggerSyncRequest.equality)

subsection \<open>TriggerSyncResponse\<close>

record TriggerSyncResponse =
  TriggerSyncResponse_secretsAdded :: int
  TriggerSyncResponse_secretsUpdated :: int
  TriggerSyncResponse_secretsDeleted :: int
  TriggerSyncResponse_syncSha :: string
  TriggerSyncResponse_errors :: "string list"
  TriggerSyncResponse_configsSynced :: int
  TriggerSyncResponse_configsConflicted :: int

definition createBaseTriggerSyncResponse :: TriggerSyncResponse where
  "createBaseTriggerSyncResponse =
     \<lparr>TriggerSyncResponse_secretsAdded = 0, TriggerSyncResponse_secretsUpdated = 0,
      TriggerSyncResponse_secretsDeleted = 0, TriggerSyncResponse_syncSha = '''',
      TriggerSyncResponse_errors = [], TriggerSyncResponse_configsSynced = 0,
      TriggerSyncResponse_configsConflicted = 0\<rparr>"

definition TriggerSyncResponse_encode :: "wire \<Rightarrow> TriggerSyncResponse \<Rightarrow> byte list option" where
  "TriggerSyncResponse_encode W m = enc_fields
     [f_int32 W 8 (TriggerSyncResponse_secretsAdded m),
      f_int32 W 16 (TriggerSyncResponse_secretsUpdated m),
      f_int32 W 24 (TriggerSyncResponse_secretsDeleted m),
      f_string W 34 (TriggerSyncResponse_syncSha m),
      f_rep_string W 42 (TriggerSyncResponse_errors m),
      f_int32 W 48 (TriggerSyncResponse_configsSynced m),
      f_int32 W 56 (TriggerSyncResponse_configsConflicted m)]"

definition TriggerSyncResponse_field :: "wire \<Rightarrow> nat \<Rightarrow> TriggerSyncResponse handler" where
  "TriggerSyncResponse_field W r buf tag p m =
     (if tag = 8 then rd (r_int32 W) buf p (\<lambda>v. m\<lparr>TriggerSyncResponse_secretsAdded := v\<rparr>)
      else if tag = 16 then rd (r_int32 W) buf p (\<lambda>v. m\<lparr>TriggerSyncResponse_secretsUpdated := v\<rparr>)
      else if tag = 24 then rd (r_int32 W) buf p (\<lambda>v. m\<lparr>TriggerSyncResponse_secretsDeleted := v\<rparr>)
      else if tag = 34 then rd (r_string W) buf p (\<lambda>v. m\<lparr>TriggerSyncResponse_syncSha := v\<rparr>)
      else if tag = 42 then rd (r_string W) buf p (\<lambda>v. m\<lparr>TriggerSyncResponse_errors := TriggerSyncResponse_errors m @ [v]\<rparr>)
      else if tag = 48 then rd (r_int32 W) buf p (\<lambda>v. m\<lparr>TriggerSyncResponse_configsSynced := v\<rparr>)
      else if tag = 56 then rd (r_int32 W) buf p (\<lambda>v. m\<lparr>TriggerSyncResponse_configsConflicted := v\<rparr>)
      else Some NotHandled)"

definition TriggerSyncResponse_dec :: "wire \<Rightarrow> nat \<Rightarrow> TriggerSyncResponse decoder" where
  "TriggerSyncResponse_dec W = decode_message W (TriggerSyncResponse_field W) createBaseTriggerSyncResponse"

definition valid_TriggerSyncResponse :: "TriggerSyncResponse \<Rightarrow> bool" where
  "valid_TriggerSyncResponse m \<longleftrightarrow> in_int32 (TriggerSyncResponse_secretsAdded m) \<and> in_int32 (TriggerSyncResponse_secretsUpdated m) \<and> in_int32 (TriggerSyncResponse_secretsDeleted m) \<and> in_int32 (TriggerSyncResponse_configsSynced m) \<and> in_int32 (TriggerSyncResponse_configsConflicted m)"

interpretation TriggerSyncResponse_codec: message_codec
  TriggerSyncResponse_dec TriggerSyncResponse_field createBaseTriggerSyncResponse TriggerSyncResponse_encode
  "valid_TriggerSyncResponse" "\<lambda>_. 1"
  "\<lambda>W. [int32_field W 8 TriggerSyncResponse_secretsAdded (\<lambda>v m. m\<lparr>TriggerSyncResponse_secretsAdded := v\<rparr>),
       int32_field W 16 TriggerSyncResponse_secretsUpdated (\<lambda>v m. m\<lparr>TriggerSyncResponse_secretsUpdated := v\<rparr>),
       int32_field W 24 TriggerSyncResponse_secretsDeleted (\<lambda>v m. m\<lparr>TriggerSyncResponse_secretsDeleted := v\<rparr>),
       string_field W 34 TriggerSyncResponse_syncSha (\<lambda>v m. m\<lparr>TriggerSyncResponse_syncSha := v\<rparr>),
       rep_string_field W 42 TriggerSyncResponse_errors (\<lambda>v m. m\<lparr>TriggerSyncResponse_errors := v\<rparr>),
       int32_field W 48 TriggerSyncResponse_configsSynced (\<lambda>v m. m\<lparr>TriggerSyncResponse_configsSynced := v\<rparr>),
       int32_field W 56 TriggerSyncResponse_configsConflicted (\<lambda>v m. m\<lparr>TriggerSyncResponse_configsConflicted := v\<rparr>)]"
  "[8, 16, 24, 34, 42, 48, 56]"
  by unfold_locales
     (auto simp: TriggerSyncResponse_dec_def TriggerSyncResponse_field_def
       TriggerSyncResponse_encode_def createBaseTriggerSyncResponse_def
       valid_TriggerSyncResponse_def int_field_total
       intro!: simple_laws goes_on_intros TriggerSyncResponse.equality)

subsection \<open>SyncBundleHeader\<close>

record SyncBundleHeader =
  SyncBundleHeader_secretsPath :: string
  SyncBundleHeader_headSha :: string
  SyncBundleHeader_configPath :: string

definition createBaseSyncBundleHeader :: SyncBundleHeader where
  "createBaseSyncBundleHeader =
     \<lparr>SyncBundleHeader_secretsPath = '''', SyncBundleHeader_headSha = '''',
      SyncBundleHeader_configPath = ''''\<rparr>"

definition SyncBundleHeader_encode :: "wire \<Rightarrow> SyncBundleHeader \<Rightarrow> byte list option" where
  "SyncBundleHeader_encode W m = enc_fields
     [f_string W 10 (SyncBundleHeader_secretsPath m),
      f_string W 18 (SyncBundleHeader_headSha m),
      f_string W 26 (SyncBundleHeader_configPath m)]"

definition SyncBundleHeader_field :: "wire \<Rightarrow> nat \<Rightarrow> SyncBundleHeader handler" where
  "SyncBundleHeader_field W r buf tag p m =
     (if tag = 10 then rd (r_string W) buf p (\<lambda>v. m\<lparr>SyncBundleHeader_secretsPath := v\<rparr>)
      else if tag = 18 then rd (r_string W) buf p (\<lambda>v. m\<lparr>SyncBundleHeader_headSha := v\<rparr>)
      else if tag = 26 then rd (r_string W) buf p (\<lambda>v. m\<lparr>SyncBundleHeader_configPath := v\<rparr>)
      else Some NotHandled)"

definition SyncBundleHeader_dec :: "wire \<Rightarrow> nat \<Rightarrow> SyncBundleHeader decoder" where
  "SyncBundleHeader_dec W = decode_message W (SyncBundleHeader_field W) createBaseSyncBundleHeader"

interpretation SyncBundleHeader_codec: message_codec
  SyncBundleHeader_dec SyncBundleHeader_field createBaseSyncBundleHeader SyncBundleHeader_encode
  "\<lambda>_. True" "\<lambda>_. 1"
  "\<lambda>W. [string_field W 10 SyncBundleHeader_secretsPath (\<lambda>v m. m\<lparr>SyncBundleHeader_secretsPath := v\<rparr>),
       string_field W 18 SyncBundleHeader_headSha (\<lambda>v m. m\<lparr>SyncBundleHeader_headSha := v\<rparr>),
       string_field W 26 SyncBundleHeader_configPath (\<lambda>v m. m\<lparr>SyncBundleHeader_configPath := v\<rparr>)]"
  "[10, 18, 26]"
  by unfold_locales
     (auto simp: SyncBundleHeader_dec_def SyncBundleHeader_field_def
       SyncBundleHeader_encode_def createBaseSyncBundleHeader_def
       intro!: simple_laws goes_on_intros SyncBundleHeader.equality)

subsection \<open>SyncBundleChunk\<close>

record SyncBundleChunk =
  SyncBundleChunk_header :: "SyncBundleHeader option"
  SyncBundleChunk_data :: "byte list option"

definition createBaseSyncBundleChunk :: SyncBundleChunk where
  "createBaseSyncBundleChunk =
     \<lparr>SyncBundleChunk_header = None, SyncBundleChunk_data = None\<rparr>"

definition SyncBundleChunk_encode :: "wire \<Rightarrow> SyncBundleChunk \<Rightarrow> byte list option" where
  "SyncBundleChunk_encode W m = enc_fields
     [f_msg W 10 (SyncBundleHeader_encode W) (SyncBundleChunk_header m),
      f_opt_bytes W 18 (SyncBundleChunk_data m)]"

definition SyncBundleChunk_field :: "wire \<Rightarrow> nat \<Rightarrow> SyncBundleChunk handler" where
  "SyncBundleChunk_field W r buf tag p m =
     (if tag = 10 then rd_msg W (SyncBundleHeader_dec W r) buf p (\<lambda>v. m\<lparr>SyncBundleChunk_header := Some v\<rparr>)
      else if tag = 18 then rd (r_bytes W) buf p (\<lambda>v. m\<lparr>SyncBundleChunk_data := Some v\<rparr>)
      else Some NotHandled)"

definition SyncBundleChunk_dec :: "wire \<Rightarrow> nat \<Rightarrow> SyncBundleChunk decoder" where
  "SyncBundleChunk_dec W = decode_message W (SyncBundleChunk_field W) createBaseSyncBundleChunk"

definition depth_SyncBundleChunk :: "SyncBundleChunk \<Rightarrow> nat" where
  "depth_SyncBundleChunk m = Suc (opt_depth (\<lambda>_. 1) (SyncBundleChunk_header m))"

interpretation SyncBundleChunk_codec: message_codec
  SyncBundleChunk_dec SyncBundleChunk_field createBaseSyncBundleChunk SyncBundleChunk_encode
  "\<lambda>_. True" "depth_SyncBundleChunk"
  "\<lambda>W. [msg_field W 10 (SyncBundleHeader_encode W) SyncBundleChunk_header (\<lambda>v m. m\<lparr>SyncBundleChunk_header := v\<rparr>),
       opt_bytes_field W 18 SyncBundleChunk_data (\<lambda>v m. m\<lparr>SyncBundleChunk_data := v\<rparr>)]"
  "[10, 18]"
  by unfold_locales
     (auto simp: SyncBundleChunk_dec_def SyncBundleChunk_field_def SyncBundleChunk_encode_def
       createBaseSyncBundleChunk_def depth_SyncBundleChunk_def
       SyncBundleHeader_codec.opt_total
       intro!: simple_laws goes_on_intros SyncBundleHeader_codec.law_opt SyncBundleHeader_codec.goes_on_nested SyncBundleChunk.equality)

subsection \<open>SyncBundleResponse\<close>

record SyncBundleResponse =
  SyncBundleResponse_secretsAdded :: int
  SyncBundleResponse_secretsUpdated :: int
  SyncBundleResponse_secretsDeleted :: int
  SyncBundleResponse_syncSha :: string
  SyncBundleResponse_errors :: "string list"
  SyncBundleResponse_configsSynced :: int

definition createBaseSyncBundleResponse :: SyncBundleResponse where
  "createBaseSyncBundleResponse =
     \<lparr>SyncBundleResponse_secretsAdded = 0, SyncBundleResponse_secretsUpdated = 0,
      SyncBundleResponse_secretsDeleted = 0, SyncBundleResponse_syncSha = '''',
      SyncBundleResponse_errors = [], SyncBundleResponse_configsSynced = 0\<rparr>"

definition SyncBundleResponse_encode :: "wire \<Rightarrow> SyncBundleResponse \<Rightarrow> byte list option" where
  "SyncBundleResponse_encode W m = enc_fields
     [f_int32 W 8 (SyncBundleResponse_secretsAdded m),
      f_int32 W 16 (SyncBundleResponse_secretsUpdated m),
      f_int32 W 24 (SyncBundleResponse_secretsDeleted m),
      f_string W 34 (SyncBundleResponse_syncSha m),
      f_rep_string W 42 (SyncBundleResponse_errors m),
      f_int32 W 48 (SyncBundleResponse_configsSynced m)]"

definition SyncBundleResponse_field :: "wire \<Rightarrow> nat \<Rightarrow> SyncBundleResponse handler" where
  "SyncBundleResponse_field W r buf tag p m =
     (if tag = 8 then rd (r_int32 W) buf p (\<lambda>v. m\<lparr>SyncBundleResponse_secretsAdded := v\<rparr>)
      else if tag = 16 then rd (r_int32 W) buf p (\<lambda>v. m\<lparr>SyncBundleResponse_secretsUpdated := v\<rparr>)
      else if tag = 24 then rd (r_int32 W) buf p (\<lambda>v. m\<lparr>SyncBundleResponse_secretsDeleted := v\<rparr>)
      else if tag = 34 then rd (r_string W) buf p (\<lambda>v. m\<lparr>SyncBundleResponse_syncSha := v\<rparr>)
      else if tag = 42 then rd (r_string W) buf p (\<lambda>v. m\<lparr>SyncBundleResponse_errors := SyncBundleResponse_errors m @ [v]\<rparr>)
      else if tag = 48 then rd (r_int32 W) buf p (\<lambda>v. m\<lparr>SyncBundleResponse_configsSynced := v\<rparr>)
      else Some NotHandled)"

definition SyncBundleResponse_dec :: "wire \<Rightarrow> nat \<Rightarrow> SyncBundleResponse decoder" where
  "SyncBundleResponse_dec W = decode_message W (SyncBundleResponse_field W) createBaseSyncBundleResponse"

definition valid_SyncBundleResponse :: "SyncBundleResponse \<Rightarrow> bool" where
  "valid_SyncBundleResponse m \<longleftrightarrow> in_int32 (SyncBundleResponse_secretsAdded m) \<and> in_int32 (SyncBundleResponse_secretsUpdated m) \<and> in_int32 (SyncBundleResponse_secretsDeleted m) \<and> in_int32 (SyncBundleResponse_configsSynced m)"

interpretation SyncBundleResponse_codec: message_codec
  SyncBundleResponse_dec SyncBundleResponse_field createBaseSyncBundleResponse SyncBundleResponse_encode
  "valid_SyncBundleResponse" "\<lambda>_. 1"
  "\<lambda>W. [int32_field W 8 SyncBundleResponse_secretsAdded (\<lambda>v m. m\<lparr>SyncBundleResponse_secretsAdded := v\<rparr>),
       int32_field W 16 SyncBundleResponse_secretsUpdated (\<lambda>v m. m\<lparr>SyncBundleResponse_secretsUpdated := v\<rparr>),
       int32_field W 24 SyncBundleResponse_secretsDeleted (\<lambda>v m. m\<lparr>SyncBundleResponse_secretsDeleted := v\<rparr>),
       string_field W 34 SyncBundleResponse_syncSha (\<lambda>v m. m\<lparr>SyncBundleResponse_syncSha := v\<rparr>),
       rep_string_field W 42 SyncBundleResponse_errors (\<lambda>v m. m\<lparr>SyncBundleResponse_errors := v\<rparr>),
       int32_field W 48 SyncBundleResponse_configsSynced (\<lambda>v m. m\<lparr>SyncBundleResponse_configsSynced := v\<rparr>)]"
  "[8, 16, 24, 34, 42, 48]"
  by unfold_locales
     (auto simp: SyncBundleResponse_dec_def SyncBundleResponse_field_def
       SyncBundleResponse_encode_def createBaseSyncBundleResponse_def
       valid_SyncBundleResponse_def int_field_total
       intro!: simple_laws goes_on_intros SyncBundleResponse.equality)

text \<open>Every codec of this theory reads back what it wrote.\<close>

lemmas AdminRepositoryMessages_sound =
      RegisterRepositoryRequest_codec.sound RegisterRepositoryResponse_codec.sound
      ListRepositoriesRequest_codec.sound RepositoryInfo_codec.sound
      ListRepositoriesResponse_codec.sound RemoveRepositoryRequest_codec.sound
      RemoveRepositoryResponse_codec.sound TriggerSyncRequest_codec.sound
      TriggerSyncResponse_codec.sound SyncBundleHeader_codec.sound SyncBundleChunk_codec.sound
      SyncBundleResponse_codec.sound

text \<open>Every codec of this theory returns.\<close>

lemmas AdminRepositoryMessages_total =
      RegisterRepositoryRequest_codec.total RegisterRepositoryResponse_codec.total
      ListRepositoriesRequest_codec.total RepositoryInfo_codec.total
      ListRepositoriesResponse_codec.total RemoveRepositoryRequest_codec.total
      RemoveRepositoryResponse_codec.total TriggerSyncRequest_codec.total
      TriggerSyncResponse_codec.total SyncBundleHeader_codec.total SyncBundleChunk_codec.total
      SyncBundleResponse_codec.total

text \<open>Every codec of this theory skips what it does not know.\<close>

lemmas AdminRepositoryMessages_ignores =
      RegisterRepositoryRequest_codec.ignores RegisterRepositoryResponse_codec.ignores
      ListRepositoriesRequest_codec.ignores RepositoryInfo_codec.ignores
      ListRepositoriesResponse_codec.ignores RemoveRepositoryRequest_codec.ignores
      RemoveRepositoryResponse_codec.ignores TriggerSyncRequest_codec.ignores
      TriggerSyncResponse_codec.ignores SyncBundleHeader_codec.ignores
      SyncBundleChunk_codec.ignores SyncBundleResponse_codec.ignores

end
