(* ===== verification/GitOpsService.thy ===== *)
theory GitOpsService
  imports AdminSopsMessages AdminRepositoryMessages AdminConfigMessages Rpc
begin

text \<open>
  \<open>GitOpsServiceService\<close> of \<open>src/gen/admin/v1/admin.ts\<close>: the methods for SOPS keys, repositories,
  bundles and service configuration, the handlers and calls its two interfaces declare, and that
  they agree.
\<close>

section \<open>The methods\<close>

definition GitOpsService_getSopsPublicKey :: "wire \<Rightarrow> (GetSOPSPublicKeyRequest, GetSOPSPublicKeyResponse) rpc_method" where
  "GitOpsService_getSopsPublicKey W =
     \<lparr>rpc_path = ''/admin.v1.GitOpsService/GetSOPSPublicKey'', requestStream = False, responseStream = False,
      requestSerialize = GetSOPSPublicKeyRequest_encode W, requestDeserialize = decode_top (GetSOPSPublicKeyRequest_dec W),
      responseSerialize = GetSOPSPublicKeyResponse_encode W, responseDeserialize = decode_top (GetSOPSPublicKeyResponse_dec W)\<rparr>"

interpretation GitOpsService_getSopsPublicKey_rpc: rpc_contract GetSOPSPublicKeyRequest_dec GetSOPSPublicKeyRequest_encode "\<lambda>_. True" "\<lambda>_. 1"
  GetSOPSPublicKeyResponse_dec GetSOPSPublicKeyResponse_encode "\<lambda>_. True" "\<lambda>_. 1" GitOpsService_getSopsPublicKey
  by unfold_locales (simp_all add: GitOpsService_getSopsPublicKey_def)

definition GitOpsService_rotateSopsKey :: "wire \<Rightarrow> (RotateSOPSKeyRequest, RotateSOPSKeyResponse) rpc_method" where
  "GitOpsService_rotateSopsKey W =
     \<lparr>rpc_path = ''/admin.v1.GitOpsService/RotateSOPSKey'', requestStream = False, responseStream = False,
      requestSerialize = RotateSOPSKeyRequest_encode W, requestDeserialize = decode_top (RotateSOPSKeyRequest_dec W),
      responseSerialize = RotateSOPSKeyResponse_encode W, responseDeserialize = decode_top (RotateSOPSKeyResponse_dec W)\<rparr>"

interpretation GitOpsService_rotateSopsKey_rpc: rpc_contract RotateSOPSKeyRequest_dec RotateSOPSKeyRequest_encode "\<lambda>_. True" "\<lambda>_. 1"
  RotateSOPSKeyResponse_dec RotateSOPSKeyResponse_encode "\<lambda>_. True" "\<lambda>_. 1" GitOpsService_rotateSopsKey
  by unfold_locales (simp_all add: GitOpsService_rotateSopsKey_def)

definition GitOpsService_listSopsKeys :: "wire \<Rightarrow> (ListSOPSKeysRequest, ListSOPSKeysResponse) rpc_method" where
  "GitOpsService_listSopsKeys W =
     \<lparr>rpc_path = ''/admin.v1.GitOpsService/ListSOPSKeys'', requestStream = False, responseStream = False,
      requestSerialize = ListSOPSKeysRequest_encode W, requestDeserialize = decode_top (ListSOPSKeysRequest_dec W),
      responseSerialize = ListSOPSKeysResponse_encode W, responseDeserialize = decode_top (ListSOPSKeysResponse_dec W)\<rparr>"

interpretation GitOpsService_listSopsKeys_rpc: rpc_contract ListSOPSKeysRequest_dec ListSOPSKeysRequest_encode "\<lambda>_. True" "\<lambda>_. 1"
  ListSOPSKeysResponse_dec ListSOPSKeysResponse_encode "\<lambda>_. True" "depth_ListSOPSKeysResponse" GitOpsService_listSopsKeys
  by unfold_locales (simp_all add: GitOpsService_listSopsKeys_def)

definition GitOpsService_pruneSopsKey :: "wire \<Rightarrow> (PruneSOPSKeyRequest, PruneSOPSKeyResponse) rpc_method" where
  "GitOpsService_pruneSopsKey W =
     \<lparr>rpc_path = ''/admin.v1.GitOpsService/PruneSOPSKey'', requestStream = False, responseStream = False,
      requestSerialize = PruneSOPSKeyRequest_encode W, requestDeserialize = decode_top (PruneSOPSKeyRequest_dec W),
      responseSerialize = PruneSOPSKeyResponse_encode W, responseDeserialize = decode_top (PruneSOPSKeyResponse_dec W)\<rparr>"

interpretation GitOpsService_pruneSopsKey_rpc: rpc_contract PruneSOPSKeyRequest_dec PruneSOPSKeyRequest_encode "\<lambda>_. True" "\<lambda>_. 1"
  PruneSOPSKeyResponse_dec PruneSOPSKeyResponse_encode "\<lambda>_. True" "\<lambda>_. 1" GitOpsService_pruneSopsKey
  by unfold_locales (simp_all add: GitOpsService_pruneSopsKey_def)

definition GitOpsService_registerRepository :: "wire \<Rightarrow> (RegisterRepositoryRequest, RegisterRepositoryResponse) rpc_method" where
  "GitOpsService_registerRepository W =
     \<lparr>rpc_path = ''/admin.v1.GitOpsService/RegisterRepository'', requestStream = False, responseStream = False,
      requestSerialize = RegisterRepositoryRequest_encode W, requestDeserialize = decode_top (RegisterRepositoryRequest_dec W),
      responseSerialize = RegisterRepositoryResponse_encode W, responseDeserialize = decode_top (RegisterRepositoryResponse_dec W)\<rparr>"

interpretation GitOpsService_registerRepository_rpc: rpc_contract RegisterRepositoryRequest_dec RegisterRepositoryRequest_encode "\<lambda>_. True" "\<lambda>_. 1"
  RegisterRepositoryResponse_dec RegisterRepositoryResponse_encode "\<lambda>_. True" "\<lambda>_. 1" GitOpsService_registerRepository
  by unfold_locales (simp_all add: GitOpsService_registerRepository_def)

definition GitOpsService_listRepositories :: "wire \<Rightarrow> (ListRepositoriesRequest, ListRepositoriesResponse) rpc_method" where
  "GitOpsService_listRepositories W =
     \<lparr>rpc_path = ''/admin.v1.GitOpsService/ListRepositories'', requestStream = False, responseStream = False,
      requestSerialize = ListRepositoriesRequest_encode W, requestDeserialize = decode_top (ListRepositoriesRequest_dec W),
      responseSerialize = ListRepositoriesResponse_encode W, responseDeserialize = decode_top (ListRepositoriesResponse_dec W)\<rparr>"

interpretation GitOpsService_listRepositories_rpc: rpc_contract ListRepositoriesRequest_dec ListRepositoriesRequest_encode "\<lambda>_. True" "\<lambda>_. 1"
  ListRepositoriesResponse_dec ListRepositoriesResponse_encode "\<lambda>_. True" "depth_ListRepositoriesResponse" GitOpsService_listRepositories
  by unfold_locales (simp_all add: GitOpsService_listRepositories_def)

definition GitOpsService_removeRepository :: "wire \<Rightarrow> (RemoveRepositoryRequest, RemoveRepositoryResponse) rpc_method" where
  "GitOpsService_removeRepository W =
     \<lparr>rpc_path = ''/admin.v1.GitOpsService/RemoveRepository'', requestStream = False, responseStream = False,
      requestSerialize = RemoveRepositoryRequest_encode W, requestDeserialize = decode_top (RemoveRepositoryRequest_dec W),
      responseSerialize = RemoveRepositoryResponse_encode W, responseDeserialize = decode_top (RemoveRepositoryResponse_dec W)\<rparr>"

interpretation GitOpsService_removeRepository_rpc: rpc_contract RemoveRepositoryRequest_dec RemoveRepositoryRequest_encode "\<lambda>_. True" "\<lambda>_. 1"
  RemoveRepositoryResponse_dec RemoveRepositoryResponse_encode "\<lambda>_. True" "\<lambda>_. 1" GitOpsService_removeRepository
  by unfold_locales (simp_all add: GitOpsService_removeRepository_def)

definition GitOpsService_triggerSync :: "wire \<Rightarrow> (TriggerSyncRequest, TriggerSyncResponse) rpc_method" where
  "GitOpsService_triggerSync W =
     \<lparr>rpc_path = ''/admin.v1.GitOpsService/TriggerSync'', requestStream = False, responseStream = False,
      requestSerialize = TriggerSyncRequest_encode W, requestDeserialize = decode_top (TriggerSyncRequest_dec W),
      responseSerialize = TriggerSyncResponse_encode W, responseDeserialize = decode_top (TriggerSyncResponse_dec W)\<rparr>"

interpretation GitOpsService_triggerSync_rpc: rpc_contract TriggerSyncRequest_dec TriggerSyncRequest_encode "\<lambda>_. True" "\<lambda>_. 1"
  TriggerSyncResponse_dec TriggerSyncResponse_encode "valid_TriggerSyncResponse" "\<lambda>_. 1" GitOpsService_triggerSync
  by unfold_locales (simp_all add: GitOpsService_triggerSync_def)

definition GitOpsService_syncBundle :: "wire \<Rightarrow> (SyncBundleChunk, SyncBundleResponse) rpc_method" where
  "GitOpsService_syncBundle W =
     \<lparr>rpc_path = ''/admin.v1.GitOpsService/SyncBundle'', requestStream = True, responseStream = False,
      requestSerialize = SyncBundleChunk_encode W, requestDeserialize = decode_top (SyncBundleChunk_dec W),
      responseSerialize = SyncBundleResponse_encode W, responseDeserialize = decode_top (SyncBundleResponse_dec W)\<rparr>"

interpretation GitOpsService_syncBundle_rpc: rpc_contract SyncBundleChunk_dec SyncBundleChunk_encode "\<lambda>_. True" "depth_SyncBundleChunk"
  SyncBundleResponse_dec SyncBundleResponse_encode "valid_SyncBundleResponse" "\<lambda>_. 1" GitOpsService_syncBundle
  by unfold_locales (simp_all add: GitOpsService_syncBundle_def)

definition GitOpsService_patchServiceConfig :: "wire \<Rightarrow> (PatchServiceConfigRequest, PatchServiceConfigResponse) rpc_method" where
  "GitOpsService_patchServiceConfig W =
     \<lparr>rpc_path = ''/admin.v1.GitOpsService/PatchServiceConfig'', requestStream = False, responseStream = False,
      requestSerialize = PatchServiceConfigRequest_encode W, requestDeserialize = decode_top (PatchServiceConfigRequest_dec W),
      responseSerialize = PatchServiceConfigResponse_encode W, responseDeserialize = decode_top (PatchServiceConfigResponse_dec W)\<rparr>"

interpretation GitOpsService_patchServiceConfig_rpc: rpc_contract PatchServiceConfigRequest_dec PatchServiceConfigRequest_encode "valid_PatchServiceConfigRequest" "depth_PatchServiceConfigRequest"
  PatchServiceConfigResponse_dec PatchServiceConfigResponse_encode "valid_PatchServiceConfigResponse" "\<lambda>_. 1" GitOpsService_patchServiceConfig
  by unfold_locales (simp_all add: GitOpsService_patchServiceConfig_def)

definition GitOpsService_getServiceConfig :: "wire \<Rightarrow> (AdminGetServiceConfigRequest, AdminGetServiceConfigResponse) rpc_method" where
  "GitOpsService_getServiceConfig W =
     \<lparr>rpc_path = ''/admin.v1.GitOpsService/GetServiceConfig'', requestStream = False, responseStream = False,
      requestSerialize = AdminGetServiceConfigRequest_encode W, requestDeserialize = decode_top (AdminGetServiceConfigRequest_dec W),
      responseSerialize = AdminGetServiceConfigResponse_encode W, responseDeserialize = decode_top (AdminGetServiceConfigResponse_dec W)\<rparr>"

interpretation GitOpsService_getServiceConfig_rpc: rpc_contract AdminGetServiceConfigRequest_dec AdminGetServiceConfigRequest_encode "\<lambda>_. True" "\<lambda>_. 1"
  AdminGetServiceConfigResponse_dec AdminGetServiceConfigResponse_encode "valid_AdminGetServiceConfigResponse" "depth_AdminGetServiceConfigResponse" GitOpsService_getServiceConfig
  by unfold_locales (simp_all add: GitOpsService_getServiceConfig_def)

definition GitOpsService_putServiceConfig :: "wire \<Rightarrow> (PutServiceConfigRequest, PutServiceConfigResponse) rpc_method" where
  "GitOpsService_putServiceConfig W =
     \<lparr>rpc_path = ''/admin.v1.GitOpsService/PutServiceConfig'', requestStream = False, responseStream = False,
      requestSerialize = PutServiceConfigRequest_encode W, requestDeserialize = decode_top (PutServiceConfigRequest_dec W),
      responseSerialize = PutServiceConfigResponse_encode W, responseDeserialize = decode_top (PutServiceConfigResponse_dec W)\<rparr>"

interpretation GitOpsService_putServiceConfig_rpc: rpc_contract PutServiceConfigRequest_dec PutServiceConfigRequest_encode "valid_PutServiceConfigRequest" "depth_PutServiceConfigRequest"
  PutServiceConfigResponse_dec PutServiceConfigResponse_encode "valid_PutServiceConfigResponse" "\<lambda>_. 1" GitOpsService_putServiceConfig
  by unfold_locales (simp_all add: GitOpsService_putServiceConfig_def)

section \<open>The table\<close>

text \<open>Name, path and kind of every method, in the order of the table.\<close>

definition GitOpsServiceService :: "wire \<Rightarrow> (string \<times> string \<times> call_kind) list" where
  "GitOpsServiceService W =
     [(''getSopsPublicKey'', rpc_path (GitOpsService_getSopsPublicKey W), kind_of (GitOpsService_getSopsPublicKey W)),
      (''rotateSopsKey'', rpc_path (GitOpsService_rotateSopsKey W), kind_of (GitOpsService_rotateSopsKey W)),
      (''listSopsKeys'', rpc_path (GitOpsService_listSopsKeys W), kind_of (GitOpsService_listSopsKeys W)),
      (''pruneSopsKey'', rpc_path (GitOpsService_pruneSopsKey W), kind_of (GitOpsService_pruneSopsKey W)),
      (''registerRepository'', rpc_path (GitOpsService_registerRepository W), kind_of (GitOpsService_registerRepository W)),
      (''listRepositories'', rpc_path (GitOpsService_listRepositories W), kind_of (GitOpsService_listRepositories W)),
      (''removeRepository'', rpc_path (GitOpsService_removeRepository W), kind_of (GitOpsService_removeRepository W)),
      (''triggerSync'', rpc_path (GitOpsService_triggerSync W), kind_of (GitOpsService_triggerSync W)),
      (''syncBundle'', rpc_path (GitOpsService_syncBundle W), kind_of (GitOpsService_syncBundle W)),
      (''patchServiceConfig'', rpc_path (GitOpsService_patchServiceConfig W), kind_of (GitOpsService_patchServiceConfig W)),
      (''getServiceConfig'', rpc_path (GitOpsService_getServiceConfig W), kind_of (GitOpsService_getServiceConfig W)),
      (''putServiceConfig'', rpc_path (GitOpsService_putServiceConfig W), kind_of (GitOpsService_putServiceConfig W))]"

text \<open>The handlers a server declares, and the calls a client declares.\<close>

definition GitOpsServiceServer :: "(string \<times> call_kind) list" where
  "GitOpsServiceServer =
     [(''getSopsPublicKey'', Unary),
      (''rotateSopsKey'', Unary),
      (''listSopsKeys'', Unary),
      (''pruneSopsKey'', Unary),
      (''registerRepository'', Unary),
      (''listRepositories'', Unary),
      (''removeRepository'', Unary),
      (''triggerSync'', Unary),
      (''syncBundle'', ClientStreaming),
      (''patchServiceConfig'', Unary),
      (''getServiceConfig'', Unary),
      (''putServiceConfig'', Unary)]"

definition GitOpsServiceClient :: "(string \<times> call_kind) list" where
  "GitOpsServiceClient =
     [(''getSopsPublicKey'', Unary),
      (''rotateSopsKey'', Unary),
      (''listSopsKeys'', Unary),
      (''pruneSopsKey'', Unary),
      (''registerRepository'', Unary),
      (''listRepositories'', Unary),
      (''removeRepository'', Unary),
      (''triggerSync'', Unary),
      (''syncBundle'', ClientStreaming),
      (''patchServiceConfig'', Unary),
      (''getServiceConfig'', Unary),
      (''putServiceConfig'', Unary)]"

definition GitOpsServiceClient_serviceName :: string where
  "GitOpsServiceClient_serviceName = ''admin.v1.GitOpsService''"

lemmas GitOpsService_defs =
      GitOpsService_getSopsPublicKey_def GitOpsService_rotateSopsKey_def
      GitOpsService_listSopsKeys_def GitOpsService_pruneSopsKey_def
      GitOpsService_registerRepository_def GitOpsService_listRepositories_def
      GitOpsService_removeRepository_def GitOpsService_triggerSync_def
      GitOpsService_syncBundle_def GitOpsService_patchServiceConfig_def
      GitOpsService_getServiceConfig_def GitOpsService_putServiceConfig_def

lemmas GitOpsService_calls =
      GitOpsService_getSopsPublicKey_rpc.calls GitOpsService_rotateSopsKey_rpc.calls
      GitOpsService_listSopsKeys_rpc.calls GitOpsService_pruneSopsKey_rpc.calls
      GitOpsService_registerRepository_rpc.calls GitOpsService_listRepositories_rpc.calls
      GitOpsService_removeRepository_rpc.calls GitOpsService_triggerSync_rpc.calls
      GitOpsService_syncBundle_rpc.calls GitOpsService_patchServiceConfig_rpc.calls
      GitOpsService_getServiceConfig_rpc.calls GitOpsService_putServiceConfig_rpc.calls

lemma GitOpsService_entries:
  "GitOpsServiceService W =
     [(''getSopsPublicKey'', ''/admin.v1.GitOpsService/GetSOPSPublicKey'', Unary),
      (''rotateSopsKey'', ''/admin.v1.GitOpsService/RotateSOPSKey'', Unary),
      (''listSopsKeys'', ''/admin.v1.GitOpsService/ListSOPSKeys'', Unary),
      (''pruneSopsKey'', ''/admin.v1.GitOpsService/PruneSOPSKey'', Unary),
      (''registerRepository'', ''/admin.v1.GitOpsService/RegisterRepository'', Unary),
      (''listRepositories'', ''/admin.v1.GitOpsService/ListRepositories'', Unary),
      (''removeRepository'', ''/admin.v1.GitOpsService/RemoveRepository'', Unary),
      (''triggerSync'', ''/admin.v1.GitOpsService/TriggerSync'', Unary),
      (''syncBundle'', ''/admin.v1.GitOpsService/SyncBundle'', ClientStreaming),
      (''patchServiceConfig'', ''/admin.v1.GitOpsService/PatchServiceConfig'', Unary),
      (''getServiceConfig'', ''/admin.v1.GitOpsService/GetServiceConfig'', Unary),
      (''putServiceConfig'', ''/admin.v1.GitOpsService/PutServiceConfig'', Unary)]"
  by (simp add: GitOpsServiceService_def GitOpsService_defs kind_of_def)

lemma GitOpsService_declared:
  "map (\<lambda>(n, p, k). (n, k)) (GitOpsServiceService W) = GitOpsServiceServer" "GitOpsServiceClient = GitOpsServiceServer"
  by (simp_all add: GitOpsService_entries GitOpsServiceServer_def GitOpsServiceClient_def)

lemma GitOpsService_paths:
  "\<forall>(n, p, k) \<in> set (GitOpsServiceService W). path_of GitOpsServiceClient_serviceName p"
  by (simp add: GitOpsService_entries GitOpsServiceClient_serviceName_def path_of_split)

end
