(* ===== verification/SecretsJson.thy ===== *)
theory SecretsJson
  imports SecretsMessages JsonCodec
begin

text \<open>
  \<open>fromJSON\<close>, \<open>toJSON\<close>, \<open>fromPartial\<close> and \<open>create\<close> of the messages of \<open>SecretsMessages\<close>, as
  \<open>src/gen/signet/v1/secrets.ts\<close> has them, and the enumerations they mention. Each message is shown to
  keep the contract \<open>json_message\<close>: what \<open>toJSON\<close> writes, \<open>fromJSON\<close> reads back. \<open>\<dots>_as_partial\<close> is
  a message seen as a partial one; \<open>fromPartial\<close> gives it back.
\<close>

subsection \<open>WatchSecretResponse_EventType\<close>

definition WatchSecretResponse_EventType_values :: "int list" where
  "WatchSecretResponse_EventType_values = [0, 1, 2, -1]"

definition WatchSecretResponse_EventTypeFromJSON :: "js \<Rightarrow> int" where
  "WatchSecretResponse_EventTypeFromJSON v =
     (if case_label 0 ''EVENT_TYPE_UNSPECIFIED'' v then 0
      else if case_label 1 ''EVENT_TYPE_UPDATED'' v then 1
      else if case_label 2 ''EVENT_TYPE_DELETED'' v then 2
      else -1)"

definition WatchSecretResponse_EventTypeToJSON :: "int \<Rightarrow> string" where
  "WatchSecretResponse_EventTypeToJSON i =
     (if i = 0 then ''EVENT_TYPE_UNSPECIFIED''
      else if i = 1 then ''EVENT_TYPE_UPDATED''
      else if i = 2 then ''EVENT_TYPE_DELETED''
      else ''UNRECOGNIZED'')"

lemma WatchSecretResponse_EventType_back:
  "i \<in> set WatchSecretResponse_EventType_values \<Longrightarrow> WatchSecretResponse_EventTypeFromJSON (JString (WatchSecretResponse_EventTypeToJSON i)) = i"
  by (auto simp: WatchSecretResponse_EventType_values_def WatchSecretResponse_EventTypeFromJSON_def WatchSecretResponse_EventTypeToJSON_def case_label_def)

subsection \<open>WatchServiceBundleResponse_EventType\<close>

definition WatchServiceBundleResponse_EventType_values :: "int list" where
  "WatchServiceBundleResponse_EventType_values = [0, 1, -1]"

definition WatchServiceBundleResponse_EventTypeFromJSON :: "js \<Rightarrow> int" where
  "WatchServiceBundleResponse_EventTypeFromJSON v =
     (if case_label 0 ''EVENT_TYPE_UNSPECIFIED'' v then 0
      else if case_label 1 ''EVENT_TYPE_CHANGED'' v then 1
      else -1)"

definition WatchServiceBundleResponse_EventTypeToJSON :: "int \<Rightarrow> string" where
  "WatchServiceBundleResponse_EventTypeToJSON i =
     (if i = 0 then ''EVENT_TYPE_UNSPECIFIED''
      else if i = 1 then ''EVENT_TYPE_CHANGED''
      else ''UNRECOGNIZED'')"

lemma WatchServiceBundleResponse_EventType_back:
  "i \<in> set WatchServiceBundleResponse_EventType_values \<Longrightarrow> WatchServiceBundleResponse_EventTypeFromJSON (JString (WatchServiceBundleResponse_EventTypeToJSON i)) = i"
  by (auto simp: WatchServiceBundleResponse_EventType_values_def WatchServiceBundleResponse_EventTypeFromJSON_def WatchServiceBundleResponse_EventTypeToJSON_def case_label_def)

subsection \<open>AcquireRestartLockResponse_MessageType\<close>

definition AcquireRestartLockResponse_MessageType_values :: "int list" where
  "AcquireRestartLockResponse_MessageType_values = [0, 1, 2, 3, -1]"

definition AcquireRestartLockResponse_MessageTypeFromJSON :: "js \<Rightarrow> int" where
  "AcquireRestartLockResponse_MessageTypeFromJSON v =
     (if case_label 0 ''MESSAGE_TYPE_UNSPECIFIED'' v then 0
      else if case_label 1 ''MESSAGE_TYPE_QUEUE_POSITION'' v then 1
      else if case_label 2 ''MESSAGE_TYPE_ACQUIRED'' v then 2
      else if case_label 3 ''MESSAGE_TYPE_TTL_EXTENDED'' v then 3
      else -1)"

definition AcquireRestartLockResponse_MessageTypeToJSON :: "int \<Rightarrow> string" where
  "AcquireRestartLockResponse_MessageTypeToJSON i =
     (if i = 0 then ''MESSAGE_TYPE_UNSPECIFIED''
      else if i = 1 then ''MESSAGE_TYPE_QUEUE_POSITION''
      else if i = 2 then ''MESSAGE_TYPE_ACQUIRED''
      else if i = 3 then ''MESSAGE_TYPE_TTL_EXTENDED''
      else ''UNRECOGNIZED'')"

lemma AcquireRestartLockResponse_MessageType_back:
  "i \<in> set AcquireRestartLockResponse_MessageType_values \<Longrightarrow> AcquireRestartLockResponse_MessageTypeFromJSON (JString (AcquireRestartLockResponse_MessageTypeToJSON i)) = i"
  by (auto simp: AcquireRestartLockResponse_MessageType_values_def AcquireRestartLockResponse_MessageTypeFromJSON_def AcquireRestartLockResponse_MessageTypeToJSON_def case_label_def)

subsection \<open>WatchServiceConfigResponse_EventType\<close>

definition WatchServiceConfigResponse_EventType_values :: "int list" where
  "WatchServiceConfigResponse_EventType_values = [0, 1, 2, -1]"

definition WatchServiceConfigResponse_EventTypeFromJSON :: "js \<Rightarrow> int" where
  "WatchServiceConfigResponse_EventTypeFromJSON v =
     (if case_label 0 ''EVENT_TYPE_UNSPECIFIED'' v then 0
      else if case_label 1 ''EVENT_TYPE_UPDATED'' v then 1
      else if case_label 2 ''EVENT_TYPE_DELETED'' v then 2
      else -1)"

definition WatchServiceConfigResponse_EventTypeToJSON :: "int \<Rightarrow> string" where
  "WatchServiceConfigResponse_EventTypeToJSON i =
     (if i = 0 then ''EVENT_TYPE_UNSPECIFIED''
      else if i = 1 then ''EVENT_TYPE_UPDATED''
      else if i = 2 then ''EVENT_TYPE_DELETED''
      else ''UNRECOGNIZED'')"

lemma WatchServiceConfigResponse_EventType_back:
  "i \<in> set WatchServiceConfigResponse_EventType_values \<Longrightarrow> WatchServiceConfigResponse_EventTypeFromJSON (JString (WatchServiceConfigResponse_EventTypeToJSON i)) = i"
  by (auto simp: WatchServiceConfigResponse_EventType_values_def WatchServiceConfigResponse_EventTypeFromJSON_def WatchServiceConfigResponse_EventTypeToJSON_def case_label_def)

subsection \<open>GetSecretRequest\<close>

definition GetSecretRequest_fromJSON :: "json_lang \<Rightarrow> js \<Rightarrow> json_error + GetSecretRequest" where
  "GetSecretRequest_fromJSON L object =
     bindE (set_field L (js_string L) '''' [''namespace''] object) (\<lambda>v1.
     bindE (set_field L (js_string L) '''' [''service''] object) (\<lambda>v2.
     bindE (set_field L (js_string L) '''' [''name''] object) (\<lambda>v3.
       Inr \<lparr>GetSecretRequest_namespace = v1,
            GetSecretRequest_service = v2,
            GetSecretRequest_name = v3\<rparr>)))"

definition GetSecretRequest_toJSON :: "json_lang \<Rightarrow> GetSecretRequest \<Rightarrow> json_error + js" where
  "GetSecretRequest_toJSON L m = json_object
     [(''namespace'', Inr (string_json (GetSecretRequest_namespace m))),
      (''service'', Inr (string_json (GetSecretRequest_service m))),
      (''name'', Inr (string_json (GetSecretRequest_name m)))]"

type_synonym GetSecretRequest_partial = "string option \<times> string option \<times> string option"

definition GetSecretRequest_fromPartial :: "GetSecretRequest_partial \<Rightarrow> GetSecretRequest" where
  "GetSecretRequest_fromPartial object =
     (case object of (p1, p2, p3) \<Rightarrow>
       \<lparr>GetSecretRequest_namespace = or_default '''' p1,
        GetSecretRequest_service = or_default '''' p2,
        GetSecretRequest_name = or_default '''' p3\<rparr>)"

definition GetSecretRequest_create :: "GetSecretRequest_partial option \<Rightarrow> GetSecretRequest" where
  "GetSecretRequest_create base = GetSecretRequest_fromPartial (or_default (None, None, None) base)"

definition GetSecretRequest_as_partial :: "GetSecretRequest \<Rightarrow> GetSecretRequest_partial" where
  "GetSecretRequest_as_partial m = (Some (GetSecretRequest_namespace m), Some (GetSecretRequest_service m), Some (GetSecretRequest_name m))"

interpretation GetSecretRequest_json: json_message GetSecretRequest_toJSON GetSecretRequest_fromJSON "\<lambda>_. True"
  by unfold_locales (simp add: GetSecretRequest_toJSON_def GetSecretRequest_fromJSON_def json_back)

lemma GetSecretRequest_partial_back: "GetSecretRequest_fromPartial (GetSecretRequest_as_partial m) = m"
  by (simp add: GetSecretRequest_fromPartial_def GetSecretRequest_as_partial_def partial_simps)

lemma GetSecretRequest_create_empty: "GetSecretRequest_create None = createBaseGetSecretRequest"
  by (simp add: GetSecretRequest_create_def GetSecretRequest_fromPartial_def createBaseGetSecretRequest_def partial_simps)

lemma GetSecretRequest_partial_ok:
  "partial_faithful GetSecretRequest_create GetSecretRequest_fromPartial GetSecretRequest_as_partial createBaseGetSecretRequest
     (\<lambda>_. True)"
  by (simp add: partial_faithful_def GetSecretRequest_create_empty GetSecretRequest_partial_back)
     (simp add: GetSecretRequest_create_def or_default_simps)

subsection \<open>GetSecretResponse\<close>

definition GetSecretResponse_fromJSON :: "json_lang \<Rightarrow> js \<Rightarrow> json_error + GetSecretResponse" where
  "GetSecretResponse_fromJSON L object =
     bindE (set_field L (bytesFromBase64 L) [] [''value''] object) (\<lambda>v1.
     bindE (set_field L (js_int L) 0 [''version''] object) (\<lambda>v2.
       Inr \<lparr>GetSecretResponse_value = v1,
            GetSecretResponse_version = v2\<rparr>))"

definition GetSecretResponse_toJSON :: "json_lang \<Rightarrow> GetSecretResponse \<Rightarrow> json_error + js" where
  "GetSecretResponse_toJSON L m = json_object
     [(''value'', Inr (bytes_json (GetSecretResponse_value m))),
      (''version'', Inr (int_json (GetSecretResponse_version m)))]"

type_synonym GetSecretResponse_partial = "byte list option \<times> int option"

definition GetSecretResponse_fromPartial :: "GetSecretResponse_partial \<Rightarrow> GetSecretResponse" where
  "GetSecretResponse_fromPartial object =
     (case object of (p1, p2) \<Rightarrow>
       \<lparr>GetSecretResponse_value = or_default [] p1,
        GetSecretResponse_version = or_default 0 p2\<rparr>)"

definition GetSecretResponse_create :: "GetSecretResponse_partial option \<Rightarrow> GetSecretResponse" where
  "GetSecretResponse_create base = GetSecretResponse_fromPartial (or_default (None, None) base)"

definition GetSecretResponse_as_partial :: "GetSecretResponse \<Rightarrow> GetSecretResponse_partial" where
  "GetSecretResponse_as_partial m = (Some (GetSecretResponse_value m), Some (GetSecretResponse_version m))"

definition json_ok_GetSecretResponse :: "GetSecretResponse \<Rightarrow> bool" where
  "json_ok_GetSecretResponse m \<longleftrightarrow> safe_int (GetSecretResponse_version m)"

interpretation GetSecretResponse_json: json_message GetSecretResponse_toJSON GetSecretResponse_fromJSON "json_ok_GetSecretResponse"
  by unfold_locales (simp add: GetSecretResponse_toJSON_def GetSecretResponse_fromJSON_def json_back
       bytes_back json_ok_GetSecretResponse_def)

lemma GetSecretResponse_partial_back: "GetSecretResponse_fromPartial (GetSecretResponse_as_partial m) = m"
  by (simp add: GetSecretResponse_fromPartial_def GetSecretResponse_as_partial_def
       partial_simps)

lemma GetSecretResponse_create_empty: "GetSecretResponse_create None = createBaseGetSecretResponse"
  by (simp add: GetSecretResponse_create_def GetSecretResponse_fromPartial_def createBaseGetSecretResponse_def partial_simps)

lemma GetSecretResponse_partial_ok:
  "partial_faithful GetSecretResponse_create GetSecretResponse_fromPartial GetSecretResponse_as_partial createBaseGetSecretResponse
     (\<lambda>_. True)"
  by (simp add: partial_faithful_def GetSecretResponse_create_empty GetSecretResponse_partial_back)
     (simp add: GetSecretResponse_create_def or_default_simps)

subsection \<open>WatchSecretRequest\<close>

definition WatchSecretRequest_fromJSON :: "json_lang \<Rightarrow> js \<Rightarrow> json_error + WatchSecretRequest" where
  "WatchSecretRequest_fromJSON L object =
     bindE (set_field L (js_string L) '''' [''namespace''] object) (\<lambda>v1.
     bindE (set_field L (js_string L) '''' [''service''] object) (\<lambda>v2.
     bindE (set_field L (js_string L) '''' [''name''] object) (\<lambda>v3.
       Inr \<lparr>WatchSecretRequest_namespace = v1,
            WatchSecretRequest_service = v2,
            WatchSecretRequest_name = v3\<rparr>)))"

definition WatchSecretRequest_toJSON :: "json_lang \<Rightarrow> WatchSecretRequest \<Rightarrow> json_error + js" where
  "WatchSecretRequest_toJSON L m = json_object
     [(''namespace'', Inr (string_json (WatchSecretRequest_namespace m))),
      (''service'', Inr (string_json (WatchSecretRequest_service m))),
      (''name'', Inr (string_json (WatchSecretRequest_name m)))]"

type_synonym WatchSecretRequest_partial = "string option \<times> string option \<times> string option"

definition WatchSecretRequest_fromPartial :: "WatchSecretRequest_partial \<Rightarrow> WatchSecretRequest" where
  "WatchSecretRequest_fromPartial object =
     (case object of (p1, p2, p3) \<Rightarrow>
       \<lparr>WatchSecretRequest_namespace = or_default '''' p1,
        WatchSecretRequest_service = or_default '''' p2,
        WatchSecretRequest_name = or_default '''' p3\<rparr>)"

definition WatchSecretRequest_create :: "WatchSecretRequest_partial option \<Rightarrow> WatchSecretRequest" where
  "WatchSecretRequest_create base = WatchSecretRequest_fromPartial (or_default (None, None, None) base)"

definition WatchSecretRequest_as_partial :: "WatchSecretRequest \<Rightarrow> WatchSecretRequest_partial" where
  "WatchSecretRequest_as_partial m = (Some (WatchSecretRequest_namespace m), Some (WatchSecretRequest_service m), Some (WatchSecretRequest_name m))"

interpretation WatchSecretRequest_json: json_message WatchSecretRequest_toJSON WatchSecretRequest_fromJSON "\<lambda>_. True"
  by unfold_locales (simp add: WatchSecretRequest_toJSON_def WatchSecretRequest_fromJSON_def json_back)

lemma WatchSecretRequest_partial_back: "WatchSecretRequest_fromPartial (WatchSecretRequest_as_partial m) = m"
  by (simp add: WatchSecretRequest_fromPartial_def WatchSecretRequest_as_partial_def
       partial_simps)

lemma WatchSecretRequest_create_empty: "WatchSecretRequest_create None = createBaseWatchSecretRequest"
  by (simp add: WatchSecretRequest_create_def WatchSecretRequest_fromPartial_def createBaseWatchSecretRequest_def partial_simps)

lemma WatchSecretRequest_partial_ok:
  "partial_faithful WatchSecretRequest_create WatchSecretRequest_fromPartial WatchSecretRequest_as_partial createBaseWatchSecretRequest
     (\<lambda>_. True)"
  by (simp add: partial_faithful_def WatchSecretRequest_create_empty WatchSecretRequest_partial_back)
     (simp add: WatchSecretRequest_create_def or_default_simps)

subsection \<open>WatchSecretResponse\<close>

definition WatchSecretResponse_fromJSON :: "json_lang \<Rightarrow> js \<Rightarrow> json_error + WatchSecretResponse" where
  "WatchSecretResponse_fromJSON L object =
     bindE (set_field L (\<lambda>v. Inr (WatchSecretResponse_EventTypeFromJSON v)) 0 [''eventType'', ''event_type''] object) (\<lambda>v1.
     bindE (set_field L (js_string L) '''' [''namespace''] object) (\<lambda>v2.
     bindE (set_field L (js_string L) '''' [''service''] object) (\<lambda>v3.
     bindE (set_field L (js_string L) '''' [''name''] object) (\<lambda>v4.
     bindE (set_field L (bytesFromBase64 L) [] [''value''] object) (\<lambda>v5.
     bindE (set_field L (js_int L) 0 [''version''] object) (\<lambda>v6.
       Inr \<lparr>WatchSecretResponse_eventType = v1,
            WatchSecretResponse_namespace = v2,
            WatchSecretResponse_service = v3,
            WatchSecretResponse_name = v4,
            WatchSecretResponse_value = v5,
            WatchSecretResponse_version = v6\<rparr>))))))"

definition WatchSecretResponse_toJSON :: "json_lang \<Rightarrow> WatchSecretResponse \<Rightarrow> json_error + js" where
  "WatchSecretResponse_toJSON L m = json_object
     [(''eventType'', Inr (enum_json WatchSecretResponse_EventTypeToJSON (WatchSecretResponse_eventType m))),
      (''namespace'', Inr (string_json (WatchSecretResponse_namespace m))),
      (''service'', Inr (string_json (WatchSecretResponse_service m))),
      (''name'', Inr (string_json (WatchSecretResponse_name m))),
      (''value'', Inr (bytes_json (WatchSecretResponse_value m))),
      (''version'', Inr (int_json (WatchSecretResponse_version m)))]"

type_synonym WatchSecretResponse_partial = "int option \<times> string option \<times> string option \<times> string option \<times> byte list option \<times> int option"

definition WatchSecretResponse_fromPartial :: "WatchSecretResponse_partial \<Rightarrow> WatchSecretResponse" where
  "WatchSecretResponse_fromPartial object =
     (case object of (p1, p2, p3, p4, p5, p6) \<Rightarrow>
       \<lparr>WatchSecretResponse_eventType = or_default 0 p1,
        WatchSecretResponse_namespace = or_default '''' p2,
        WatchSecretResponse_service = or_default '''' p3,
        WatchSecretResponse_name = or_default '''' p4,
        WatchSecretResponse_value = or_default [] p5,
        WatchSecretResponse_version = or_default 0 p6\<rparr>)"

definition WatchSecretResponse_create :: "WatchSecretResponse_partial option \<Rightarrow> WatchSecretResponse" where
  "WatchSecretResponse_create base = WatchSecretResponse_fromPartial (or_default (None, None, None, None, None, None) base)"

definition WatchSecretResponse_as_partial :: "WatchSecretResponse \<Rightarrow> WatchSecretResponse_partial" where
  "WatchSecretResponse_as_partial m = (Some (WatchSecretResponse_eventType m), Some (WatchSecretResponse_namespace m), Some (WatchSecretResponse_service m), Some (WatchSecretResponse_name m), Some (WatchSecretResponse_value m), Some (WatchSecretResponse_version m))"

definition json_ok_WatchSecretResponse :: "WatchSecretResponse \<Rightarrow> bool" where
  "json_ok_WatchSecretResponse m \<longleftrightarrow> WatchSecretResponse_eventType m \<in> set WatchSecretResponse_EventType_values \<and> safe_int (WatchSecretResponse_version m)"

interpretation WatchSecretResponse_json: json_message WatchSecretResponse_toJSON WatchSecretResponse_fromJSON "json_ok_WatchSecretResponse"
  by unfold_locales (simp add: WatchSecretResponse_toJSON_def WatchSecretResponse_fromJSON_def json_back
       bytes_back WatchSecretResponse_EventType_back enum_back
       json_ok_WatchSecretResponse_def)

lemma WatchSecretResponse_partial_back: "WatchSecretResponse_fromPartial (WatchSecretResponse_as_partial m) = m"
  by (simp add: WatchSecretResponse_fromPartial_def WatchSecretResponse_as_partial_def
       partial_simps)

lemma WatchSecretResponse_create_empty: "WatchSecretResponse_create None = createBaseWatchSecretResponse"
  by (simp add: WatchSecretResponse_create_def WatchSecretResponse_fromPartial_def createBaseWatchSecretResponse_def partial_simps)

lemma WatchSecretResponse_partial_ok:
  "partial_faithful WatchSecretResponse_create WatchSecretResponse_fromPartial WatchSecretResponse_as_partial createBaseWatchSecretResponse
     (\<lambda>_. True)"
  by (simp add: partial_faithful_def WatchSecretResponse_create_empty WatchSecretResponse_partial_back)
     (simp add: WatchSecretResponse_create_def or_default_simps)

subsection \<open>GetConfigRequest\<close>

definition GetConfigRequest_fromJSON :: "json_lang \<Rightarrow> js \<Rightarrow> json_error + GetConfigRequest" where
  "GetConfigRequest_fromJSON L object =
     bindE (set_field L (js_string L) '''' [''namespace''] object) (\<lambda>v1.
     bindE (set_field L (js_string L) '''' [''service''] object) (\<lambda>v2.
     bindE (set_field L (js_string L) '''' [''key''] object) (\<lambda>v3.
       Inr \<lparr>GetConfigRequest_namespace = v1,
            GetConfigRequest_service = v2,
            GetConfigRequest_key = v3\<rparr>)))"

definition GetConfigRequest_toJSON :: "json_lang \<Rightarrow> GetConfigRequest \<Rightarrow> json_error + js" where
  "GetConfigRequest_toJSON L m = json_object
     [(''namespace'', Inr (string_json (GetConfigRequest_namespace m))),
      (''service'', Inr (string_json (GetConfigRequest_service m))),
      (''key'', Inr (string_json (GetConfigRequest_key m)))]"

type_synonym GetConfigRequest_partial = "string option \<times> string option \<times> string option"

definition GetConfigRequest_fromPartial :: "GetConfigRequest_partial \<Rightarrow> GetConfigRequest" where
  "GetConfigRequest_fromPartial object =
     (case object of (p1, p2, p3) \<Rightarrow>
       \<lparr>GetConfigRequest_namespace = or_default '''' p1,
        GetConfigRequest_service = or_default '''' p2,
        GetConfigRequest_key = or_default '''' p3\<rparr>)"

definition GetConfigRequest_create :: "GetConfigRequest_partial option \<Rightarrow> GetConfigRequest" where
  "GetConfigRequest_create base = GetConfigRequest_fromPartial (or_default (None, None, None) base)"

definition GetConfigRequest_as_partial :: "GetConfigRequest \<Rightarrow> GetConfigRequest_partial" where
  "GetConfigRequest_as_partial m = (Some (GetConfigRequest_namespace m), Some (GetConfigRequest_service m), Some (GetConfigRequest_key m))"

interpretation GetConfigRequest_json: json_message GetConfigRequest_toJSON GetConfigRequest_fromJSON "\<lambda>_. True"
  by unfold_locales (simp add: GetConfigRequest_toJSON_def GetConfigRequest_fromJSON_def json_back)

lemma GetConfigRequest_partial_back: "GetConfigRequest_fromPartial (GetConfigRequest_as_partial m) = m"
  by (simp add: GetConfigRequest_fromPartial_def GetConfigRequest_as_partial_def partial_simps)

lemma GetConfigRequest_create_empty: "GetConfigRequest_create None = createBaseGetConfigRequest"
  by (simp add: GetConfigRequest_create_def GetConfigRequest_fromPartial_def createBaseGetConfigRequest_def partial_simps)

lemma GetConfigRequest_partial_ok:
  "partial_faithful GetConfigRequest_create GetConfigRequest_fromPartial GetConfigRequest_as_partial createBaseGetConfigRequest
     (\<lambda>_. True)"
  by (simp add: partial_faithful_def GetConfigRequest_create_empty GetConfigRequest_partial_back)
     (simp add: GetConfigRequest_create_def or_default_simps)

subsection \<open>GetConfigResponse\<close>

definition GetConfigResponse_fromJSON :: "json_lang \<Rightarrow> js \<Rightarrow> json_error + GetConfigResponse" where
  "GetConfigResponse_fromJSON L object =
     bindE (any_field_of L ''value'' object) (\<lambda>v1.
     bindE (set_field L (js_int L) 0 [''version''] object) (\<lambda>v2.
       Inr \<lparr>GetConfigResponse_value = v1,
            GetConfigResponse_version = v2\<rparr>))"

definition GetConfigResponse_toJSON :: "json_lang \<Rightarrow> GetConfigResponse \<Rightarrow> json_error + js" where
  "GetConfigResponse_toJSON L m = json_object
     [(''value'', Inr (GetConfigResponse_value m)),
      (''version'', Inr (int_json (GetConfigResponse_version m)))]"

type_synonym GetConfigResponse_partial = "js \<times> int option"

definition GetConfigResponse_fromPartial :: "GetConfigResponse_partial \<Rightarrow> GetConfigResponse" where
  "GetConfigResponse_fromPartial object =
     (case object of (p1, p2) \<Rightarrow>
       \<lparr>GetConfigResponse_value = any_or_undefined p1,
        GetConfigResponse_version = or_default 0 p2\<rparr>)"

definition GetConfigResponse_create :: "GetConfigResponse_partial option \<Rightarrow> GetConfigResponse" where
  "GetConfigResponse_create base = GetConfigResponse_fromPartial (or_default (JUndefined, None) base)"

definition GetConfigResponse_as_partial :: "GetConfigResponse \<Rightarrow> GetConfigResponse_partial" where
  "GetConfigResponse_as_partial m = (GetConfigResponse_value m, Some (GetConfigResponse_version m))"

definition json_ok_GetConfigResponse :: "GetConfigResponse \<Rightarrow> bool" where
  "json_ok_GetConfigResponse m \<longleftrightarrow> GetConfigResponse_value m \<noteq> JNull \<and> safe_int (GetConfigResponse_version m)"

interpretation GetConfigResponse_json: json_message GetConfigResponse_toJSON GetConfigResponse_fromJSON "json_ok_GetConfigResponse"
  by unfold_locales (simp add: GetConfigResponse_toJSON_def GetConfigResponse_fromJSON_def json_back
       json_ok_GetConfigResponse_def)

lemma GetConfigResponse_partial_back: "GetConfigResponse_value m \<noteq> JNull \<Longrightarrow> GetConfigResponse_fromPartial (GetConfigResponse_as_partial m) = m"
  by (simp add: GetConfigResponse_fromPartial_def GetConfigResponse_as_partial_def
       partial_simps)

lemma GetConfigResponse_create_empty: "GetConfigResponse_create None = createBaseGetConfigResponse"
  by (simp add: GetConfigResponse_create_def GetConfigResponse_fromPartial_def createBaseGetConfigResponse_def partial_simps)

lemma GetConfigResponse_partial_ok:
  "partial_faithful GetConfigResponse_create GetConfigResponse_fromPartial GetConfigResponse_as_partial createBaseGetConfigResponse
     (\<lambda>m. GetConfigResponse_value m \<noteq> JNull)"
  by (simp add: partial_faithful_def GetConfigResponse_create_empty GetConfigResponse_partial_back)
     (simp add: GetConfigResponse_create_def or_default_simps)

subsection \<open>GetServiceConfigRequest\<close>

definition GetServiceConfigRequest_fromJSON :: "json_lang \<Rightarrow> js \<Rightarrow> json_error + GetServiceConfigRequest" where
  "GetServiceConfigRequest_fromJSON L object =
     bindE (set_field L (js_string L) '''' [''namespace''] object) (\<lambda>v1.
     bindE (set_field L (js_string L) '''' [''service''] object) (\<lambda>v2.
       Inr \<lparr>GetServiceConfigRequest_namespace = v1,
            GetServiceConfigRequest_service = v2\<rparr>))"

definition GetServiceConfigRequest_toJSON :: "json_lang \<Rightarrow> GetServiceConfigRequest \<Rightarrow> json_error + js" where
  "GetServiceConfigRequest_toJSON L m = json_object
     [(''namespace'', Inr (string_json (GetServiceConfigRequest_namespace m))),
      (''service'', Inr (string_json (GetServiceConfigRequest_service m)))]"

type_synonym GetServiceConfigRequest_partial = "string option \<times> string option"

definition GetServiceConfigRequest_fromPartial :: "GetServiceConfigRequest_partial \<Rightarrow> GetServiceConfigRequest" where
  "GetServiceConfigRequest_fromPartial object =
     (case object of (p1, p2) \<Rightarrow>
       \<lparr>GetServiceConfigRequest_namespace = or_default '''' p1,
        GetServiceConfigRequest_service = or_default '''' p2\<rparr>)"

definition GetServiceConfigRequest_create :: "GetServiceConfigRequest_partial option \<Rightarrow> GetServiceConfigRequest" where
  "GetServiceConfigRequest_create base = GetServiceConfigRequest_fromPartial (or_default (None, None) base)"

definition GetServiceConfigRequest_as_partial :: "GetServiceConfigRequest \<Rightarrow> GetServiceConfigRequest_partial" where
  "GetServiceConfigRequest_as_partial m = (Some (GetServiceConfigRequest_namespace m), Some (GetServiceConfigRequest_service m))"

interpretation GetServiceConfigRequest_json: json_message GetServiceConfigRequest_toJSON GetServiceConfigRequest_fromJSON "\<lambda>_. True"
  by unfold_locales (simp add: GetServiceConfigRequest_toJSON_def GetServiceConfigRequest_fromJSON_def
       json_back)

lemma GetServiceConfigRequest_partial_back: "GetServiceConfigRequest_fromPartial (GetServiceConfigRequest_as_partial m) = m"
  by (simp add: GetServiceConfigRequest_fromPartial_def GetServiceConfigRequest_as_partial_def
       partial_simps)

lemma GetServiceConfigRequest_create_empty: "GetServiceConfigRequest_create None = createBaseGetServiceConfigRequest"
  by (simp add: GetServiceConfigRequest_create_def GetServiceConfigRequest_fromPartial_def createBaseGetServiceConfigRequest_def partial_simps)

lemma GetServiceConfigRequest_partial_ok:
  "partial_faithful GetServiceConfigRequest_create GetServiceConfigRequest_fromPartial GetServiceConfigRequest_as_partial createBaseGetServiceConfigRequest
     (\<lambda>_. True)"
  by (simp add: partial_faithful_def GetServiceConfigRequest_create_empty GetServiceConfigRequest_partial_back)
     (simp add: GetServiceConfigRequest_create_def or_default_simps)

subsection \<open>GetServiceConfigResponse\<close>

definition GetServiceConfigResponse_fromJSON :: "json_lang \<Rightarrow> js \<Rightarrow> json_error + GetServiceConfigResponse" where
  "GetServiceConfigResponse_fromJSON L object =
     bindE (object_field L [''values''] object) (\<lambda>v1.
     bindE (set_field L (js_int L) 0 [''version''] object) (\<lambda>v2.
       Inr \<lparr>GetServiceConfigResponse_values = v1,
            GetServiceConfigResponse_version = v2\<rparr>))"

definition GetServiceConfigResponse_toJSON :: "json_lang \<Rightarrow> GetServiceConfigResponse \<Rightarrow> json_error + js" where
  "GetServiceConfigResponse_toJSON L m = json_object
     [(''values'', Inr (opt_obj_json (GetServiceConfigResponse_values m))),
      (''version'', Inr (int_json (GetServiceConfigResponse_version m)))]"

type_synonym GetServiceConfigResponse_partial = "obj option \<times> int option"

definition GetServiceConfigResponse_fromPartial :: "GetServiceConfigResponse_partial \<Rightarrow> GetServiceConfigResponse" where
  "GetServiceConfigResponse_fromPartial object =
     (case object of (p1, p2) \<Rightarrow>
       \<lparr>GetServiceConfigResponse_values = p1,
        GetServiceConfigResponse_version = or_default 0 p2\<rparr>)"

definition GetServiceConfigResponse_create :: "GetServiceConfigResponse_partial option \<Rightarrow> GetServiceConfigResponse" where
  "GetServiceConfigResponse_create base = GetServiceConfigResponse_fromPartial (or_default (None, None) base)"

definition GetServiceConfigResponse_as_partial :: "GetServiceConfigResponse \<Rightarrow> GetServiceConfigResponse_partial" where
  "GetServiceConfigResponse_as_partial m = (GetServiceConfigResponse_values m, Some (GetServiceConfigResponse_version m))"

definition json_ok_GetServiceConfigResponse :: "GetServiceConfigResponse \<Rightarrow> bool" where
  "json_ok_GetServiceConfigResponse m \<longleftrightarrow> safe_int (GetServiceConfigResponse_version m)"

interpretation GetServiceConfigResponse_json: json_message GetServiceConfigResponse_toJSON GetServiceConfigResponse_fromJSON "json_ok_GetServiceConfigResponse"
  by unfold_locales (simp add: GetServiceConfigResponse_toJSON_def GetServiceConfigResponse_fromJSON_def
       json_back json_ok_GetServiceConfigResponse_def)

lemma GetServiceConfigResponse_partial_back: "GetServiceConfigResponse_fromPartial (GetServiceConfigResponse_as_partial m) = m"
  by (simp add: GetServiceConfigResponse_fromPartial_def
       GetServiceConfigResponse_as_partial_def partial_simps)

lemma GetServiceConfigResponse_create_empty: "GetServiceConfigResponse_create None = createBaseGetServiceConfigResponse"
  by (simp add: GetServiceConfigResponse_create_def GetServiceConfigResponse_fromPartial_def createBaseGetServiceConfigResponse_def partial_simps)

lemma GetServiceConfigResponse_partial_ok:
  "partial_faithful GetServiceConfigResponse_create GetServiceConfigResponse_fromPartial GetServiceConfigResponse_as_partial createBaseGetServiceConfigResponse
     (\<lambda>_. True)"
  by (simp add: partial_faithful_def GetServiceConfigResponse_create_empty GetServiceConfigResponse_partial_back)
     (simp add: GetServiceConfigResponse_create_def or_default_simps)

subsection \<open>WatchServiceConfigRequest\<close>

definition WatchServiceConfigRequest_fromJSON :: "json_lang \<Rightarrow> js \<Rightarrow> json_error + WatchServiceConfigRequest" where
  "WatchServiceConfigRequest_fromJSON L object =
     bindE (set_field L (js_string L) '''' [''namespace''] object) (\<lambda>v1.
     bindE (set_field L (js_string L) '''' [''service''] object) (\<lambda>v2.
       Inr \<lparr>WatchServiceConfigRequest_namespace = v1,
            WatchServiceConfigRequest_service = v2\<rparr>))"

definition WatchServiceConfigRequest_toJSON :: "json_lang \<Rightarrow> WatchServiceConfigRequest \<Rightarrow> json_error + js" where
  "WatchServiceConfigRequest_toJSON L m = json_object
     [(''namespace'', Inr (string_json (WatchServiceConfigRequest_namespace m))),
      (''service'', Inr (string_json (WatchServiceConfigRequest_service m)))]"

type_synonym WatchServiceConfigRequest_partial = "string option \<times> string option"

definition WatchServiceConfigRequest_fromPartial :: "WatchServiceConfigRequest_partial \<Rightarrow> WatchServiceConfigRequest" where
  "WatchServiceConfigRequest_fromPartial object =
     (case object of (p1, p2) \<Rightarrow>
       \<lparr>WatchServiceConfigRequest_namespace = or_default '''' p1,
        WatchServiceConfigRequest_service = or_default '''' p2\<rparr>)"

definition WatchServiceConfigRequest_create :: "WatchServiceConfigRequest_partial option \<Rightarrow> WatchServiceConfigRequest" where
  "WatchServiceConfigRequest_create base = WatchServiceConfigRequest_fromPartial (or_default (None, None) base)"

definition WatchServiceConfigRequest_as_partial :: "WatchServiceConfigRequest \<Rightarrow> WatchServiceConfigRequest_partial" where
  "WatchServiceConfigRequest_as_partial m = (Some (WatchServiceConfigRequest_namespace m), Some (WatchServiceConfigRequest_service m))"

interpretation WatchServiceConfigRequest_json: json_message WatchServiceConfigRequest_toJSON WatchServiceConfigRequest_fromJSON "\<lambda>_. True"
  by unfold_locales (simp add: WatchServiceConfigRequest_toJSON_def WatchServiceConfigRequest_fromJSON_def
       json_back)

lemma WatchServiceConfigRequest_partial_back: "WatchServiceConfigRequest_fromPartial (WatchServiceConfigRequest_as_partial m) = m"
  by (simp add: WatchServiceConfigRequest_fromPartial_def
       WatchServiceConfigRequest_as_partial_def partial_simps)

lemma WatchServiceConfigRequest_create_empty: "WatchServiceConfigRequest_create None = createBaseWatchServiceConfigRequest"
  by (simp add: WatchServiceConfigRequest_create_def WatchServiceConfigRequest_fromPartial_def createBaseWatchServiceConfigRequest_def partial_simps)

lemma WatchServiceConfigRequest_partial_ok:
  "partial_faithful WatchServiceConfigRequest_create WatchServiceConfigRequest_fromPartial WatchServiceConfigRequest_as_partial createBaseWatchServiceConfigRequest
     (\<lambda>_. True)"
  by (simp add: partial_faithful_def WatchServiceConfigRequest_create_empty WatchServiceConfigRequest_partial_back)
     (simp add: WatchServiceConfigRequest_create_def or_default_simps)

subsection \<open>GetServiceBundleRequest\<close>

definition GetServiceBundleRequest_fromJSON :: "json_lang \<Rightarrow> js \<Rightarrow> json_error + GetServiceBundleRequest" where
  "GetServiceBundleRequest_fromJSON L object =
     bindE (set_field L (js_string L) '''' [''namespace''] object) (\<lambda>v1.
     bindE (set_field L (js_string L) '''' [''service''] object) (\<lambda>v2.
       Inr \<lparr>GetServiceBundleRequest_namespace = v1,
            GetServiceBundleRequest_service = v2\<rparr>))"

definition GetServiceBundleRequest_toJSON :: "json_lang \<Rightarrow> GetServiceBundleRequest \<Rightarrow> json_error + js" where
  "GetServiceBundleRequest_toJSON L m = json_object
     [(''namespace'', Inr (string_json (GetServiceBundleRequest_namespace m))),
      (''service'', Inr (string_json (GetServiceBundleRequest_service m)))]"

type_synonym GetServiceBundleRequest_partial = "string option \<times> string option"

definition GetServiceBundleRequest_fromPartial :: "GetServiceBundleRequest_partial \<Rightarrow> GetServiceBundleRequest" where
  "GetServiceBundleRequest_fromPartial object =
     (case object of (p1, p2) \<Rightarrow>
       \<lparr>GetServiceBundleRequest_namespace = or_default '''' p1,
        GetServiceBundleRequest_service = or_default '''' p2\<rparr>)"

definition GetServiceBundleRequest_create :: "GetServiceBundleRequest_partial option \<Rightarrow> GetServiceBundleRequest" where
  "GetServiceBundleRequest_create base = GetServiceBundleRequest_fromPartial (or_default (None, None) base)"

definition GetServiceBundleRequest_as_partial :: "GetServiceBundleRequest \<Rightarrow> GetServiceBundleRequest_partial" where
  "GetServiceBundleRequest_as_partial m = (Some (GetServiceBundleRequest_namespace m), Some (GetServiceBundleRequest_service m))"

interpretation GetServiceBundleRequest_json: json_message GetServiceBundleRequest_toJSON GetServiceBundleRequest_fromJSON "\<lambda>_. True"
  by unfold_locales (simp add: GetServiceBundleRequest_toJSON_def GetServiceBundleRequest_fromJSON_def
       json_back)

lemma GetServiceBundleRequest_partial_back: "GetServiceBundleRequest_fromPartial (GetServiceBundleRequest_as_partial m) = m"
  by (simp add: GetServiceBundleRequest_fromPartial_def GetServiceBundleRequest_as_partial_def
       partial_simps)

lemma GetServiceBundleRequest_create_empty: "GetServiceBundleRequest_create None = createBaseGetServiceBundleRequest"
  by (simp add: GetServiceBundleRequest_create_def GetServiceBundleRequest_fromPartial_def createBaseGetServiceBundleRequest_def partial_simps)

lemma GetServiceBundleRequest_partial_ok:
  "partial_faithful GetServiceBundleRequest_create GetServiceBundleRequest_fromPartial GetServiceBundleRequest_as_partial createBaseGetServiceBundleRequest
     (\<lambda>_. True)"
  by (simp add: partial_faithful_def GetServiceBundleRequest_create_empty GetServiceBundleRequest_partial_back)
     (simp add: GetServiceBundleRequest_create_def or_default_simps)

subsection \<open>GetServiceBundleResponse\<close>

definition GetServiceBundleResponse_fromJSON :: "json_lang \<Rightarrow> js \<Rightarrow> json_error + GetServiceBundleResponse" where
  "GetServiceBundleResponse_fromJSON L object =
     bindE (object_field L [''bundle''] object) (\<lambda>v1.
     bindE (set_field L (js_int L) 0 [''configVersion'', ''config_version''] object) (\<lambda>v2.
       Inr \<lparr>GetServiceBundleResponse_bundle = v1,
            GetServiceBundleResponse_configVersion = v2\<rparr>))"

definition GetServiceBundleResponse_toJSON :: "json_lang \<Rightarrow> GetServiceBundleResponse \<Rightarrow> json_error + js" where
  "GetServiceBundleResponse_toJSON L m = json_object
     [(''bundle'', Inr (opt_obj_json (GetServiceBundleResponse_bundle m))),
      (''configVersion'', Inr (int_json (GetServiceBundleResponse_configVersion m)))]"

type_synonym GetServiceBundleResponse_partial = "obj option \<times> int option"

definition GetServiceBundleResponse_fromPartial :: "GetServiceBundleResponse_partial \<Rightarrow> GetServiceBundleResponse" where
  "GetServiceBundleResponse_fromPartial object =
     (case object of (p1, p2) \<Rightarrow>
       \<lparr>GetServiceBundleResponse_bundle = p1,
        GetServiceBundleResponse_configVersion = or_default 0 p2\<rparr>)"

definition GetServiceBundleResponse_create :: "GetServiceBundleResponse_partial option \<Rightarrow> GetServiceBundleResponse" where
  "GetServiceBundleResponse_create base = GetServiceBundleResponse_fromPartial (or_default (None, None) base)"

definition GetServiceBundleResponse_as_partial :: "GetServiceBundleResponse \<Rightarrow> GetServiceBundleResponse_partial" where
  "GetServiceBundleResponse_as_partial m = (GetServiceBundleResponse_bundle m, Some (GetServiceBundleResponse_configVersion m))"

definition json_ok_GetServiceBundleResponse :: "GetServiceBundleResponse \<Rightarrow> bool" where
  "json_ok_GetServiceBundleResponse m \<longleftrightarrow> safe_int (GetServiceBundleResponse_configVersion m)"

interpretation GetServiceBundleResponse_json: json_message GetServiceBundleResponse_toJSON GetServiceBundleResponse_fromJSON "json_ok_GetServiceBundleResponse"
  by unfold_locales (simp add: GetServiceBundleResponse_toJSON_def GetServiceBundleResponse_fromJSON_def
       json_back json_ok_GetServiceBundleResponse_def)

lemma GetServiceBundleResponse_partial_back: "GetServiceBundleResponse_fromPartial (GetServiceBundleResponse_as_partial m) = m"
  by (simp add: GetServiceBundleResponse_fromPartial_def
       GetServiceBundleResponse_as_partial_def partial_simps)

lemma GetServiceBundleResponse_create_empty: "GetServiceBundleResponse_create None = createBaseGetServiceBundleResponse"
  by (simp add: GetServiceBundleResponse_create_def GetServiceBundleResponse_fromPartial_def createBaseGetServiceBundleResponse_def partial_simps)

lemma GetServiceBundleResponse_partial_ok:
  "partial_faithful GetServiceBundleResponse_create GetServiceBundleResponse_fromPartial GetServiceBundleResponse_as_partial createBaseGetServiceBundleResponse
     (\<lambda>_. True)"
  by (simp add: partial_faithful_def GetServiceBundleResponse_create_empty GetServiceBundleResponse_partial_back)
     (simp add: GetServiceBundleResponse_create_def or_default_simps)

subsection \<open>WatchServiceBundleRequest\<close>

definition WatchServiceBundleRequest_fromJSON :: "json_lang \<Rightarrow> js \<Rightarrow> json_error + WatchServiceBundleRequest" where
  "WatchServiceBundleRequest_fromJSON L object =
     bindE (set_field L (js_string L) '''' [''namespace''] object) (\<lambda>v1.
     bindE (set_field L (js_string L) '''' [''service''] object) (\<lambda>v2.
       Inr \<lparr>WatchServiceBundleRequest_namespace = v1,
            WatchServiceBundleRequest_service = v2\<rparr>))"

definition WatchServiceBundleRequest_toJSON :: "json_lang \<Rightarrow> WatchServiceBundleRequest \<Rightarrow> json_error + js" where
  "WatchServiceBundleRequest_toJSON L m = json_object
     [(''namespace'', Inr (string_json (WatchServiceBundleRequest_namespace m))),
      (''service'', Inr (string_json (WatchServiceBundleRequest_service m)))]"

type_synonym WatchServiceBundleRequest_partial = "string option \<times> string option"

definition WatchServiceBundleRequest_fromPartial :: "WatchServiceBundleRequest_partial \<Rightarrow> WatchServiceBundleRequest" where
  "WatchServiceBundleRequest_fromPartial object =
     (case object of (p1, p2) \<Rightarrow>
       \<lparr>WatchServiceBundleRequest_namespace = or_default '''' p1,
        WatchServiceBundleRequest_service = or_default '''' p2\<rparr>)"

definition WatchServiceBundleRequest_create :: "WatchServiceBundleRequest_partial option \<Rightarrow> WatchServiceBundleRequest" where
  "WatchServiceBundleRequest_create base = WatchServiceBundleRequest_fromPartial (or_default (None, None) base)"

definition WatchServiceBundleRequest_as_partial :: "WatchServiceBundleRequest \<Rightarrow> WatchServiceBundleRequest_partial" where
  "WatchServiceBundleRequest_as_partial m = (Some (WatchServiceBundleRequest_namespace m), Some (WatchServiceBundleRequest_service m))"

interpretation WatchServiceBundleRequest_json: json_message WatchServiceBundleRequest_toJSON WatchServiceBundleRequest_fromJSON "\<lambda>_. True"
  by unfold_locales (simp add: WatchServiceBundleRequest_toJSON_def WatchServiceBundleRequest_fromJSON_def
       json_back)

lemma WatchServiceBundleRequest_partial_back: "WatchServiceBundleRequest_fromPartial (WatchServiceBundleRequest_as_partial m) = m"
  by (simp add: WatchServiceBundleRequest_fromPartial_def
       WatchServiceBundleRequest_as_partial_def partial_simps)

lemma WatchServiceBundleRequest_create_empty: "WatchServiceBundleRequest_create None = createBaseWatchServiceBundleRequest"
  by (simp add: WatchServiceBundleRequest_create_def WatchServiceBundleRequest_fromPartial_def createBaseWatchServiceBundleRequest_def partial_simps)

lemma WatchServiceBundleRequest_partial_ok:
  "partial_faithful WatchServiceBundleRequest_create WatchServiceBundleRequest_fromPartial WatchServiceBundleRequest_as_partial createBaseWatchServiceBundleRequest
     (\<lambda>_. True)"
  by (simp add: partial_faithful_def WatchServiceBundleRequest_create_empty WatchServiceBundleRequest_partial_back)
     (simp add: WatchServiceBundleRequest_create_def or_default_simps)

subsection \<open>WatchServiceBundleResponse\<close>

definition WatchServiceBundleResponse_fromJSON :: "json_lang \<Rightarrow> js \<Rightarrow> json_error + WatchServiceBundleResponse" where
  "WatchServiceBundleResponse_fromJSON L object =
     bindE (set_field L (\<lambda>v. Inr (WatchServiceBundleResponse_EventTypeFromJSON v)) 0 [''eventType'', ''event_type''] object) (\<lambda>v1.
     bindE (set_field L (js_string L) '''' [''namespace''] object) (\<lambda>v2.
     bindE (set_field L (js_string L) '''' [''service''] object) (\<lambda>v3.
       Inr \<lparr>WatchServiceBundleResponse_eventType = v1,
            WatchServiceBundleResponse_namespace = v2,
            WatchServiceBundleResponse_service = v3\<rparr>)))"

definition WatchServiceBundleResponse_toJSON :: "json_lang \<Rightarrow> WatchServiceBundleResponse \<Rightarrow> json_error + js" where
  "WatchServiceBundleResponse_toJSON L m = json_object
     [(''eventType'', Inr (enum_json WatchServiceBundleResponse_EventTypeToJSON (WatchServiceBundleResponse_eventType m))),
      (''namespace'', Inr (string_json (WatchServiceBundleResponse_namespace m))),
      (''service'', Inr (string_json (WatchServiceBundleResponse_service m)))]"

type_synonym WatchServiceBundleResponse_partial = "int option \<times> string option \<times> string option"

definition WatchServiceBundleResponse_fromPartial :: "WatchServiceBundleResponse_partial \<Rightarrow> WatchServiceBundleResponse" where
  "WatchServiceBundleResponse_fromPartial object =
     (case object of (p1, p2, p3) \<Rightarrow>
       \<lparr>WatchServiceBundleResponse_eventType = or_default 0 p1,
        WatchServiceBundleResponse_namespace = or_default '''' p2,
        WatchServiceBundleResponse_service = or_default '''' p3\<rparr>)"

definition WatchServiceBundleResponse_create :: "WatchServiceBundleResponse_partial option \<Rightarrow> WatchServiceBundleResponse" where
  "WatchServiceBundleResponse_create base = WatchServiceBundleResponse_fromPartial (or_default (None, None, None) base)"

definition WatchServiceBundleResponse_as_partial :: "WatchServiceBundleResponse \<Rightarrow> WatchServiceBundleResponse_partial" where
  "WatchServiceBundleResponse_as_partial m = (Some (WatchServiceBundleResponse_eventType m), Some (WatchServiceBundleResponse_namespace m), Some (WatchServiceBundleResponse_service m))"

definition json_ok_WatchServiceBundleResponse :: "WatchServiceBundleResponse \<Rightarrow> bool" where
  "json_ok_WatchServiceBundleResponse m \<longleftrightarrow> WatchServiceBundleResponse_eventType m \<in> set WatchServiceBundleResponse_EventType_values"

interpretation WatchServiceBundleResponse_json: json_message WatchServiceBundleResponse_toJSON WatchServiceBundleResponse_fromJSON "json_ok_WatchServiceBundleResponse"
  by unfold_locales (simp add: WatchServiceBundleResponse_toJSON_def WatchServiceBundleResponse_fromJSON_def
       json_back WatchServiceBundleResponse_EventType_back enum_back
       json_ok_WatchServiceBundleResponse_def)

lemma WatchServiceBundleResponse_partial_back: "WatchServiceBundleResponse_fromPartial (WatchServiceBundleResponse_as_partial m) = m"
  by (simp add: WatchServiceBundleResponse_fromPartial_def
       WatchServiceBundleResponse_as_partial_def partial_simps)

lemma WatchServiceBundleResponse_create_empty: "WatchServiceBundleResponse_create None = createBaseWatchServiceBundleResponse"
  by (simp add: WatchServiceBundleResponse_create_def WatchServiceBundleResponse_fromPartial_def createBaseWatchServiceBundleResponse_def partial_simps)

lemma WatchServiceBundleResponse_partial_ok:
  "partial_faithful WatchServiceBundleResponse_create WatchServiceBundleResponse_fromPartial WatchServiceBundleResponse_as_partial createBaseWatchServiceBundleResponse
     (\<lambda>_. True)"
  by (simp add: partial_faithful_def WatchServiceBundleResponse_create_empty WatchServiceBundleResponse_partial_back)
     (simp add: WatchServiceBundleResponse_create_def or_default_simps)

subsection \<open>AcquireRestartLockRequest\<close>

definition AcquireRestartLockRequest_fromJSON :: "json_lang \<Rightarrow> js \<Rightarrow> json_error + AcquireRestartLockRequest" where
  "AcquireRestartLockRequest_fromJSON L object =
     bindE (set_field L (js_string L) '''' [''namespace''] object) (\<lambda>v1.
     bindE (set_field L (js_string L) '''' [''service''] object) (\<lambda>v2.
     bindE (set_field L (js_int L) 0 [''ttlSeconds'', ''ttl_seconds''] object) (\<lambda>v3.
     bindE (set_field L (\<lambda>v. Inr (js_boolean L v)) False [''heartbeat''] object) (\<lambda>v4.
       Inr \<lparr>AcquireRestartLockRequest_namespace = v1,
            AcquireRestartLockRequest_service = v2,
            AcquireRestartLockRequest_ttlSeconds = v3,
            AcquireRestartLockRequest_heartbeat = v4\<rparr>))))"

definition AcquireRestartLockRequest_toJSON :: "json_lang \<Rightarrow> AcquireRestartLockRequest \<Rightarrow> json_error + js" where
  "AcquireRestartLockRequest_toJSON L m = json_object
     [(''namespace'', Inr (string_json (AcquireRestartLockRequest_namespace m))),
      (''service'', Inr (string_json (AcquireRestartLockRequest_service m))),
      (''ttlSeconds'', Inr (int_json (AcquireRestartLockRequest_ttlSeconds m))),
      (''heartbeat'', Inr (bool_json (AcquireRestartLockRequest_heartbeat m)))]"

type_synonym AcquireRestartLockRequest_partial = "string option \<times> string option \<times> int option \<times> bool option"

definition AcquireRestartLockRequest_fromPartial :: "AcquireRestartLockRequest_partial \<Rightarrow> AcquireRestartLockRequest" where
  "AcquireRestartLockRequest_fromPartial object =
     (case object of (p1, p2, p3, p4) \<Rightarrow>
       \<lparr>AcquireRestartLockRequest_namespace = or_default '''' p1,
        AcquireRestartLockRequest_service = or_default '''' p2,
        AcquireRestartLockRequest_ttlSeconds = or_default 0 p3,
        AcquireRestartLockRequest_heartbeat = or_default False p4\<rparr>)"

definition AcquireRestartLockRequest_create :: "AcquireRestartLockRequest_partial option \<Rightarrow> AcquireRestartLockRequest" where
  "AcquireRestartLockRequest_create base = AcquireRestartLockRequest_fromPartial (or_default (None, None, None, None) base)"

definition AcquireRestartLockRequest_as_partial :: "AcquireRestartLockRequest \<Rightarrow> AcquireRestartLockRequest_partial" where
  "AcquireRestartLockRequest_as_partial m = (Some (AcquireRestartLockRequest_namespace m), Some (AcquireRestartLockRequest_service m), Some (AcquireRestartLockRequest_ttlSeconds m), Some (AcquireRestartLockRequest_heartbeat m))"

definition json_ok_AcquireRestartLockRequest :: "AcquireRestartLockRequest \<Rightarrow> bool" where
  "json_ok_AcquireRestartLockRequest m \<longleftrightarrow> safe_int (AcquireRestartLockRequest_ttlSeconds m)"

interpretation AcquireRestartLockRequest_json: json_message AcquireRestartLockRequest_toJSON AcquireRestartLockRequest_fromJSON "json_ok_AcquireRestartLockRequest"
  by unfold_locales (simp add: AcquireRestartLockRequest_toJSON_def AcquireRestartLockRequest_fromJSON_def
       json_back json_ok_AcquireRestartLockRequest_def)

lemma AcquireRestartLockRequest_partial_back: "AcquireRestartLockRequest_fromPartial (AcquireRestartLockRequest_as_partial m) = m"
  by (simp add: AcquireRestartLockRequest_fromPartial_def
       AcquireRestartLockRequest_as_partial_def partial_simps)

lemma AcquireRestartLockRequest_create_empty: "AcquireRestartLockRequest_create None = createBaseAcquireRestartLockRequest"
  by (simp add: AcquireRestartLockRequest_create_def AcquireRestartLockRequest_fromPartial_def createBaseAcquireRestartLockRequest_def partial_simps)

lemma AcquireRestartLockRequest_partial_ok:
  "partial_faithful AcquireRestartLockRequest_create AcquireRestartLockRequest_fromPartial AcquireRestartLockRequest_as_partial createBaseAcquireRestartLockRequest
     (\<lambda>_. True)"
  by (simp add: partial_faithful_def AcquireRestartLockRequest_create_empty AcquireRestartLockRequest_partial_back)
     (simp add: AcquireRestartLockRequest_create_def or_default_simps)

subsection \<open>AcquireRestartLockResponse\<close>

definition AcquireRestartLockResponse_fromJSON :: "json_lang \<Rightarrow> js \<Rightarrow> json_error + AcquireRestartLockResponse" where
  "AcquireRestartLockResponse_fromJSON L object =
     bindE (set_field L (\<lambda>v. Inr (AcquireRestartLockResponse_MessageTypeFromJSON v)) 0 [''messageType'', ''message_type''] object) (\<lambda>v1.
     bindE (set_field L (js_int L) 0 [''position''] object) (\<lambda>v2.
     bindE (set_field L (js_string L) '''' [''token''] object) (\<lambda>v3.
     bindE (set_field L (some_of (fromJsonTimestamp L)) None [''expiresAt'', ''expires_at''] object) (\<lambda>v4.
       Inr \<lparr>AcquireRestartLockResponse_messageType = v1,
            AcquireRestartLockResponse_position = v2,
            AcquireRestartLockResponse_token = v3,
            AcquireRestartLockResponse_expiresAt = v4\<rparr>))))"

definition AcquireRestartLockResponse_toJSON :: "json_lang \<Rightarrow> AcquireRestartLockResponse \<Rightarrow> json_error + js" where
  "AcquireRestartLockResponse_toJSON L m = json_object
     [(''messageType'', Inr (enum_json AcquireRestartLockResponse_MessageTypeToJSON (AcquireRestartLockResponse_messageType m))),
      (''position'', Inr (int_json (AcquireRestartLockResponse_position m))),
      (''token'', Inr (string_json (AcquireRestartLockResponse_token m))),
      (''expiresAt'', opt_json (date_json L) (AcquireRestartLockResponse_expiresAt m))]"

type_synonym AcquireRestartLockResponse_partial = "int option \<times> int option \<times> string option \<times> date option"

definition AcquireRestartLockResponse_fromPartial :: "AcquireRestartLockResponse_partial \<Rightarrow> AcquireRestartLockResponse" where
  "AcquireRestartLockResponse_fromPartial object =
     (case object of (p1, p2, p3, p4) \<Rightarrow>
       \<lparr>AcquireRestartLockResponse_messageType = or_default 0 p1,
        AcquireRestartLockResponse_position = or_default 0 p2,
        AcquireRestartLockResponse_token = or_default '''' p3,
        AcquireRestartLockResponse_expiresAt = p4\<rparr>)"

definition AcquireRestartLockResponse_create :: "AcquireRestartLockResponse_partial option \<Rightarrow> AcquireRestartLockResponse" where
  "AcquireRestartLockResponse_create base = AcquireRestartLockResponse_fromPartial (or_default (None, None, None, None) base)"

definition AcquireRestartLockResponse_as_partial :: "AcquireRestartLockResponse \<Rightarrow> AcquireRestartLockResponse_partial" where
  "AcquireRestartLockResponse_as_partial m = (Some (AcquireRestartLockResponse_messageType m), Some (AcquireRestartLockResponse_position m), Some (AcquireRestartLockResponse_token m), AcquireRestartLockResponse_expiresAt m)"

definition json_ok_AcquireRestartLockResponse :: "AcquireRestartLockResponse \<Rightarrow> bool" where
  "json_ok_AcquireRestartLockResponse m \<longleftrightarrow> AcquireRestartLockResponse_messageType m \<in> set AcquireRestartLockResponse_MessageType_values \<and> safe_int (AcquireRestartLockResponse_position m) \<and> pred_option valid_date (AcquireRestartLockResponse_expiresAt m)"

interpretation AcquireRestartLockResponse_json: json_message AcquireRestartLockResponse_toJSON AcquireRestartLockResponse_fromJSON "json_ok_AcquireRestartLockResponse"
proof
  fix L :: json_lang and m :: AcquireRestartLockResponse
  assume ok: "lang_ok L" "json_ok_AcquireRestartLockResponse m"
  obtain v4 where v4: "opt_json (date_json L) (AcquireRestartLockResponse_expiresAt m) = Inr v4"
    "pick_if isSet (some_of (fromJsonTimestamp L)) v4 (Inr None) = Inr (AcquireRestartLockResponse_expiresAt m)"
    using date_back [of L "AcquireRestartLockResponse_expiresAt m"] ok by (auto simp: json_ok_AcquireRestartLockResponse_def)
  with ok show "\<exists>ob. AcquireRestartLockResponse_toJSON L m = Inr (JObject ob) \<and> AcquireRestartLockResponse_fromJSON L (JObject ob) = Inr m"
    by (simp add: AcquireRestartLockResponse_toJSON_def AcquireRestartLockResponse_fromJSON_def
       json_back AcquireRestartLockResponse_MessageType_back enum_back
       json_ok_AcquireRestartLockResponse_def)
qed

lemma AcquireRestartLockResponse_partial_back: "AcquireRestartLockResponse_fromPartial (AcquireRestartLockResponse_as_partial m) = m"
  by (simp add: AcquireRestartLockResponse_fromPartial_def
       AcquireRestartLockResponse_as_partial_def partial_simps)

lemma AcquireRestartLockResponse_create_empty: "AcquireRestartLockResponse_create None = createBaseAcquireRestartLockResponse"
  by (simp add: AcquireRestartLockResponse_create_def AcquireRestartLockResponse_fromPartial_def createBaseAcquireRestartLockResponse_def partial_simps)

lemma AcquireRestartLockResponse_partial_ok:
  "partial_faithful AcquireRestartLockResponse_create AcquireRestartLockResponse_fromPartial AcquireRestartLockResponse_as_partial createBaseAcquireRestartLockResponse
     (\<lambda>_. True)"
  by (simp add: partial_faithful_def AcquireRestartLockResponse_create_empty AcquireRestartLockResponse_partial_back)
     (simp add: AcquireRestartLockResponse_create_def or_default_simps)

subsection \<open>WatchServiceConfigResponse\<close>

definition WatchServiceConfigResponse_fromJSON :: "json_lang \<Rightarrow> js \<Rightarrow> json_error + WatchServiceConfigResponse" where
  "WatchServiceConfigResponse_fromJSON L object =
     bindE (set_field L (\<lambda>v. Inr (WatchServiceConfigResponse_EventTypeFromJSON v)) 0 [''eventType'', ''event_type''] object) (\<lambda>v1.
     bindE (set_field L (js_string L) '''' [''namespace''] object) (\<lambda>v2.
     bindE (set_field L (js_string L) '''' [''service''] object) (\<lambda>v3.
     bindE (object_field L [''values''] object) (\<lambda>v4.
     bindE (set_field L (js_int L) 0 [''version''] object) (\<lambda>v5.
       Inr \<lparr>WatchServiceConfigResponse_eventType = v1,
            WatchServiceConfigResponse_namespace = v2,
            WatchServiceConfigResponse_service = v3,
            WatchServiceConfigResponse_values = v4,
            WatchServiceConfigResponse_version = v5\<rparr>)))))"

definition WatchServiceConfigResponse_toJSON :: "json_lang \<Rightarrow> WatchServiceConfigResponse \<Rightarrow> json_error + js" where
  "WatchServiceConfigResponse_toJSON L m = json_object
     [(''eventType'', Inr (enum_json WatchServiceConfigResponse_EventTypeToJSON (WatchServiceConfigResponse_eventType m))),
      (''namespace'', Inr (string_json (WatchServiceConfigResponse_namespace m))),
      (''service'', Inr (string_json (WatchServiceConfigResponse_service m))),
      (''values'', Inr (opt_obj_json (WatchServiceConfigResponse_values m))),
      (''version'', Inr (int_json (WatchServiceConfigResponse_version m)))]"

type_synonym WatchServiceConfigResponse_partial = "int option \<times> string option \<times> string option \<times> obj option \<times> int option"

definition WatchServiceConfigResponse_fromPartial :: "WatchServiceConfigResponse_partial \<Rightarrow> WatchServiceConfigResponse" where
  "WatchServiceConfigResponse_fromPartial object =
     (case object of (p1, p2, p3, p4, p5) \<Rightarrow>
       \<lparr>WatchServiceConfigResponse_eventType = or_default 0 p1,
        WatchServiceConfigResponse_namespace = or_default '''' p2,
        WatchServiceConfigResponse_service = or_default '''' p3,
        WatchServiceConfigResponse_values = p4,
        WatchServiceConfigResponse_version = or_default 0 p5\<rparr>)"

definition WatchServiceConfigResponse_create :: "WatchServiceConfigResponse_partial option \<Rightarrow> WatchServiceConfigResponse" where
  "WatchServiceConfigResponse_create base = WatchServiceConfigResponse_fromPartial (or_default (None, None, None, None, None) base)"

definition WatchServiceConfigResponse_as_partial :: "WatchServiceConfigResponse \<Rightarrow> WatchServiceConfigResponse_partial" where
  "WatchServiceConfigResponse_as_partial m = (Some (WatchServiceConfigResponse_eventType m), Some (WatchServiceConfigResponse_namespace m), Some (WatchServiceConfigResponse_service m), WatchServiceConfigResponse_values m, Some (WatchServiceConfigResponse_version m))"

definition json_ok_WatchServiceConfigResponse :: "WatchServiceConfigResponse \<Rightarrow> bool" where
  "json_ok_WatchServiceConfigResponse m \<longleftrightarrow> WatchServiceConfigResponse_eventType m \<in> set WatchServiceConfigResponse_EventType_values \<and> safe_int (WatchServiceConfigResponse_version m)"

interpretation WatchServiceConfigResponse_json: json_message WatchServiceConfigResponse_toJSON WatchServiceConfigResponse_fromJSON "json_ok_WatchServiceConfigResponse"
  by unfold_locales (simp add: WatchServiceConfigResponse_toJSON_def WatchServiceConfigResponse_fromJSON_def
       json_back WatchServiceConfigResponse_EventType_back enum_back
       json_ok_WatchServiceConfigResponse_def)

lemma WatchServiceConfigResponse_partial_back: "WatchServiceConfigResponse_fromPartial (WatchServiceConfigResponse_as_partial m) = m"
  by (simp add: WatchServiceConfigResponse_fromPartial_def
       WatchServiceConfigResponse_as_partial_def partial_simps)

lemma WatchServiceConfigResponse_create_empty: "WatchServiceConfigResponse_create None = createBaseWatchServiceConfigResponse"
  by (simp add: WatchServiceConfigResponse_create_def WatchServiceConfigResponse_fromPartial_def createBaseWatchServiceConfigResponse_def partial_simps)

lemma WatchServiceConfigResponse_partial_ok:
  "partial_faithful WatchServiceConfigResponse_create WatchServiceConfigResponse_fromPartial WatchServiceConfigResponse_as_partial createBaseWatchServiceConfigResponse
     (\<lambda>_. True)"
  by (simp add: partial_faithful_def WatchServiceConfigResponse_create_empty WatchServiceConfigResponse_partial_back)
     (simp add: WatchServiceConfigResponse_create_def or_default_simps)

text \<open>The round trips, and the completions of partial messages, of this theory.\<close>

lemmas SecretsJson_faithful =
      GetSecretRequest_json.faithful GetSecretResponse_json.faithful
      WatchSecretRequest_json.faithful WatchSecretResponse_json.faithful
      GetConfigRequest_json.faithful GetConfigResponse_json.faithful
      GetServiceConfigRequest_json.faithful GetServiceConfigResponse_json.faithful
      WatchServiceConfigRequest_json.faithful GetServiceBundleRequest_json.faithful
      GetServiceBundleResponse_json.faithful WatchServiceBundleRequest_json.faithful
      WatchServiceBundleResponse_json.faithful AcquireRestartLockRequest_json.faithful
      AcquireRestartLockResponse_json.faithful WatchServiceConfigResponse_json.faithful

lemmas SecretsJson_completed =
      GetSecretRequest_partial_ok GetSecretResponse_partial_ok WatchSecretRequest_partial_ok
      WatchSecretResponse_partial_ok GetConfigRequest_partial_ok GetConfigResponse_partial_ok
      GetServiceConfigRequest_partial_ok GetServiceConfigResponse_partial_ok
      WatchServiceConfigRequest_partial_ok GetServiceBundleRequest_partial_ok
      GetServiceBundleResponse_partial_ok WatchServiceBundleRequest_partial_ok
      WatchServiceBundleResponse_partial_ok AcquireRestartLockRequest_partial_ok
      AcquireRestartLockResponse_partial_ok WatchServiceConfigResponse_partial_ok

end
