(* ===== verification/AdminSealJson.thy ===== *)
theory AdminSealJson
  imports AdminSealMessages JsonCodec
begin

text \<open>
  \<open>fromJSON\<close>, \<open>toJSON\<close>, \<open>fromPartial\<close> and \<open>create\<close> of the messages of \<open>AdminSealMessages\<close>, as
  \<open>src/gen/admin/v1/admin.ts\<close> has them, and the enumerations they mention. Each message is shown to
  keep the contract \<open>json_message\<close>: what \<open>toJSON\<close> writes, \<open>fromJSON\<close> reads back. \<open>\<dots>_as_partial\<close> is
  a message seen as a partial one; \<open>fromPartial\<close> gives it back.
\<close>

subsection \<open>StatusResponse_State\<close>

definition StatusResponse_State_values :: "int list" where
  "StatusResponse_State_values = [0, 1, 2, 3, -1]"

definition StatusResponse_StateFromJSON :: "js \<Rightarrow> int" where
  "StatusResponse_StateFromJSON v =
     (if case_label 0 ''STATE_UNSPECIFIED'' v then 0
      else if case_label 1 ''STATE_SEALED'' v then 1
      else if case_label 2 ''STATE_UNSEALING'' v then 2
      else if case_label 3 ''STATE_UNSEALED'' v then 3
      else -1)"

definition StatusResponse_StateToJSON :: "int \<Rightarrow> string" where
  "StatusResponse_StateToJSON i =
     (if i = 0 then ''STATE_UNSPECIFIED''
      else if i = 1 then ''STATE_SEALED''
      else if i = 2 then ''STATE_UNSEALING''
      else if i = 3 then ''STATE_UNSEALED''
      else ''UNRECOGNIZED'')"

lemma StatusResponse_State_back:
  "i \<in> set StatusResponse_State_values \<Longrightarrow> StatusResponse_StateFromJSON (JString (StatusResponse_StateToJSON i)) = i"
  by (auto simp: StatusResponse_State_values_def StatusResponse_StateFromJSON_def StatusResponse_StateToJSON_def case_label_def)

subsection \<open>UnsealKeyRequest\<close>

definition UnsealKeyRequest_fromJSON :: "json_lang \<Rightarrow> js \<Rightarrow> json_error + UnsealKeyRequest" where
  "UnsealKeyRequest_fromJSON L object =
     bindE (set_field L (bytesFromBase64 L) [] [''key''] object) (\<lambda>v1.
       Inr \<lparr>UnsealKeyRequest_key = v1\<rparr>)"

definition UnsealKeyRequest_toJSON :: "json_lang \<Rightarrow> UnsealKeyRequest \<Rightarrow> json_error + js" where
  "UnsealKeyRequest_toJSON L m = json_object
     [(''key'', Inr (bytes_json (UnsealKeyRequest_key m)))]"

type_synonym UnsealKeyRequest_partial = "byte list option"

definition UnsealKeyRequest_fromPartial :: "UnsealKeyRequest_partial \<Rightarrow> UnsealKeyRequest" where
  "UnsealKeyRequest_fromPartial object =
     \<lparr>UnsealKeyRequest_key = or_default [] object\<rparr>"

definition UnsealKeyRequest_create :: "UnsealKeyRequest_partial option \<Rightarrow> UnsealKeyRequest" where
  "UnsealKeyRequest_create base = UnsealKeyRequest_fromPartial (or_default (None) base)"

definition UnsealKeyRequest_as_partial :: "UnsealKeyRequest \<Rightarrow> UnsealKeyRequest_partial" where
  "UnsealKeyRequest_as_partial m = (Some (UnsealKeyRequest_key m))"

interpretation UnsealKeyRequest_json: json_message UnsealKeyRequest_toJSON UnsealKeyRequest_fromJSON "\<lambda>_. True"
  by unfold_locales (simp add: UnsealKeyRequest_toJSON_def UnsealKeyRequest_fromJSON_def json_back bytes_back)

lemma UnsealKeyRequest_partial_back: "UnsealKeyRequest_fromPartial (UnsealKeyRequest_as_partial m) = m"
  by (simp add: UnsealKeyRequest_fromPartial_def UnsealKeyRequest_as_partial_def partial_simps)

lemma UnsealKeyRequest_create_empty: "UnsealKeyRequest_create None = createBaseUnsealKeyRequest"
  by (simp add: UnsealKeyRequest_create_def UnsealKeyRequest_fromPartial_def createBaseUnsealKeyRequest_def partial_simps)

lemma UnsealKeyRequest_partial_ok:
  "partial_faithful UnsealKeyRequest_create UnsealKeyRequest_fromPartial UnsealKeyRequest_as_partial createBaseUnsealKeyRequest
     (\<lambda>_. True)"
  by (simp add: partial_faithful_def UnsealKeyRequest_create_empty UnsealKeyRequest_partial_back)
     (simp add: UnsealKeyRequest_create_def or_default_simps)

subsection \<open>UnsealKeyResponse\<close>

definition UnsealKeyResponse_fromJSON :: "json_lang \<Rightarrow> js \<Rightarrow> json_error + UnsealKeyResponse" where
  "UnsealKeyResponse_fromJSON L object =
     bindE (set_field L (\<lambda>v. Inr (js_boolean L v)) False [''unsealed''] object) (\<lambda>v1.
     bindE (set_field L (js_int L) 0 [''sharesReceived'', ''shares_received''] object) (\<lambda>v2.
     bindE (set_field L (js_int L) 0 [''sharesRequired'', ''shares_required''] object) (\<lambda>v3.
     bindE (set_field L (js_string L) '''' [''message''] object) (\<lambda>v4.
       Inr \<lparr>UnsealKeyResponse_unsealed = v1,
            UnsealKeyResponse_sharesReceived = v2,
            UnsealKeyResponse_sharesRequired = v3,
            UnsealKeyResponse_message = v4\<rparr>))))"

definition UnsealKeyResponse_toJSON :: "json_lang \<Rightarrow> UnsealKeyResponse \<Rightarrow> json_error + js" where
  "UnsealKeyResponse_toJSON L m = json_object
     [(''unsealed'', Inr (bool_json (UnsealKeyResponse_unsealed m))),
      (''sharesReceived'', Inr (int_json (UnsealKeyResponse_sharesReceived m))),
      (''sharesRequired'', Inr (int_json (UnsealKeyResponse_sharesRequired m))),
      (''message'', Inr (string_json (UnsealKeyResponse_message m)))]"

type_synonym UnsealKeyResponse_partial = "bool option \<times> int option \<times> int option \<times> string option"

definition UnsealKeyResponse_fromPartial :: "UnsealKeyResponse_partial \<Rightarrow> UnsealKeyResponse" where
  "UnsealKeyResponse_fromPartial object =
     (case object of (p1, p2, p3, p4) \<Rightarrow>
       \<lparr>UnsealKeyResponse_unsealed = or_default False p1,
        UnsealKeyResponse_sharesReceived = or_default 0 p2,
        UnsealKeyResponse_sharesRequired = or_default 0 p3,
        UnsealKeyResponse_message = or_default '''' p4\<rparr>)"

definition UnsealKeyResponse_create :: "UnsealKeyResponse_partial option \<Rightarrow> UnsealKeyResponse" where
  "UnsealKeyResponse_create base = UnsealKeyResponse_fromPartial (or_default (None, None, None, None) base)"

definition UnsealKeyResponse_as_partial :: "UnsealKeyResponse \<Rightarrow> UnsealKeyResponse_partial" where
  "UnsealKeyResponse_as_partial m = (Some (UnsealKeyResponse_unsealed m), Some (UnsealKeyResponse_sharesReceived m), Some (UnsealKeyResponse_sharesRequired m), Some (UnsealKeyResponse_message m))"

definition json_ok_UnsealKeyResponse :: "UnsealKeyResponse \<Rightarrow> bool" where
  "json_ok_UnsealKeyResponse m \<longleftrightarrow> safe_int (UnsealKeyResponse_sharesReceived m) \<and> safe_int (UnsealKeyResponse_sharesRequired m)"

interpretation UnsealKeyResponse_json: json_message UnsealKeyResponse_toJSON UnsealKeyResponse_fromJSON "json_ok_UnsealKeyResponse"
  by unfold_locales (simp add: UnsealKeyResponse_toJSON_def UnsealKeyResponse_fromJSON_def json_back
       json_ok_UnsealKeyResponse_def)

lemma UnsealKeyResponse_partial_back: "UnsealKeyResponse_fromPartial (UnsealKeyResponse_as_partial m) = m"
  by (simp add: UnsealKeyResponse_fromPartial_def UnsealKeyResponse_as_partial_def
       partial_simps)

lemma UnsealKeyResponse_create_empty: "UnsealKeyResponse_create None = createBaseUnsealKeyResponse"
  by (simp add: UnsealKeyResponse_create_def UnsealKeyResponse_fromPartial_def createBaseUnsealKeyResponse_def partial_simps)

lemma UnsealKeyResponse_partial_ok:
  "partial_faithful UnsealKeyResponse_create UnsealKeyResponse_fromPartial UnsealKeyResponse_as_partial createBaseUnsealKeyResponse
     (\<lambda>_. True)"
  by (simp add: partial_faithful_def UnsealKeyResponse_create_empty UnsealKeyResponse_partial_back)
     (simp add: UnsealKeyResponse_create_def or_default_simps)

subsection \<open>UnsealShareRequest\<close>

definition UnsealShareRequest_fromJSON :: "json_lang \<Rightarrow> js \<Rightarrow> json_error + UnsealShareRequest" where
  "UnsealShareRequest_fromJSON L object =
     bindE (set_field L (bytesFromBase64 L) [] [''share''] object) (\<lambda>v1.
       Inr \<lparr>UnsealShareRequest_share = v1\<rparr>)"

definition UnsealShareRequest_toJSON :: "json_lang \<Rightarrow> UnsealShareRequest \<Rightarrow> json_error + js" where
  "UnsealShareRequest_toJSON L m = json_object
     [(''share'', Inr (bytes_json (UnsealShareRequest_share m)))]"

type_synonym UnsealShareRequest_partial = "byte list option"

definition UnsealShareRequest_fromPartial :: "UnsealShareRequest_partial \<Rightarrow> UnsealShareRequest" where
  "UnsealShareRequest_fromPartial object =
     \<lparr>UnsealShareRequest_share = or_default [] object\<rparr>"

definition UnsealShareRequest_create :: "UnsealShareRequest_partial option \<Rightarrow> UnsealShareRequest" where
  "UnsealShareRequest_create base = UnsealShareRequest_fromPartial (or_default (None) base)"

definition UnsealShareRequest_as_partial :: "UnsealShareRequest \<Rightarrow> UnsealShareRequest_partial" where
  "UnsealShareRequest_as_partial m = (Some (UnsealShareRequest_share m))"

interpretation UnsealShareRequest_json: json_message UnsealShareRequest_toJSON UnsealShareRequest_fromJSON "\<lambda>_. True"
  by unfold_locales (simp add: UnsealShareRequest_toJSON_def UnsealShareRequest_fromJSON_def json_back
       bytes_back)

lemma UnsealShareRequest_partial_back: "UnsealShareRequest_fromPartial (UnsealShareRequest_as_partial m) = m"
  by (simp add: UnsealShareRequest_fromPartial_def UnsealShareRequest_as_partial_def
       partial_simps)

lemma UnsealShareRequest_create_empty: "UnsealShareRequest_create None = createBaseUnsealShareRequest"
  by (simp add: UnsealShareRequest_create_def UnsealShareRequest_fromPartial_def createBaseUnsealShareRequest_def partial_simps)

lemma UnsealShareRequest_partial_ok:
  "partial_faithful UnsealShareRequest_create UnsealShareRequest_fromPartial UnsealShareRequest_as_partial createBaseUnsealShareRequest
     (\<lambda>_. True)"
  by (simp add: partial_faithful_def UnsealShareRequest_create_empty UnsealShareRequest_partial_back)
     (simp add: UnsealShareRequest_create_def or_default_simps)

subsection \<open>UnsealShareResponse\<close>

definition UnsealShareResponse_fromJSON :: "json_lang \<Rightarrow> js \<Rightarrow> json_error + UnsealShareResponse" where
  "UnsealShareResponse_fromJSON L object =
     bindE (set_field L (\<lambda>v. Inr (js_boolean L v)) False [''unsealed''] object) (\<lambda>v1.
     bindE (set_field L (js_int L) 0 [''sharesReceived'', ''shares_received''] object) (\<lambda>v2.
     bindE (set_field L (js_int L) 0 [''sharesRequired'', ''shares_required''] object) (\<lambda>v3.
     bindE (set_field L (js_string L) '''' [''message''] object) (\<lambda>v4.
       Inr \<lparr>UnsealShareResponse_unsealed = v1,
            UnsealShareResponse_sharesReceived = v2,
            UnsealShareResponse_sharesRequired = v3,
            UnsealShareResponse_message = v4\<rparr>))))"

definition UnsealShareResponse_toJSON :: "json_lang \<Rightarrow> UnsealShareResponse \<Rightarrow> json_error + js" where
  "UnsealShareResponse_toJSON L m = json_object
     [(''unsealed'', Inr (bool_json (UnsealShareResponse_unsealed m))),
      (''sharesReceived'', Inr (int_json (UnsealShareResponse_sharesReceived m))),
      (''sharesRequired'', Inr (int_json (UnsealShareResponse_sharesRequired m))),
      (''message'', Inr (string_json (UnsealShareResponse_message m)))]"

type_synonym UnsealShareResponse_partial = "bool option \<times> int option \<times> int option \<times> string option"

definition UnsealShareResponse_fromPartial :: "UnsealShareResponse_partial \<Rightarrow> UnsealShareResponse" where
  "UnsealShareResponse_fromPartial object =
     (case object of (p1, p2, p3, p4) \<Rightarrow>
       \<lparr>UnsealShareResponse_unsealed = or_default False p1,
        UnsealShareResponse_sharesReceived = or_default 0 p2,
        UnsealShareResponse_sharesRequired = or_default 0 p3,
        UnsealShareResponse_message = or_default '''' p4\<rparr>)"

definition UnsealShareResponse_create :: "UnsealShareResponse_partial option \<Rightarrow> UnsealShareResponse" where
  "UnsealShareResponse_create base = UnsealShareResponse_fromPartial (or_default (None, None, None, None) base)"

definition UnsealShareResponse_as_partial :: "UnsealShareResponse \<Rightarrow> UnsealShareResponse_partial" where
  "UnsealShareResponse_as_partial m = (Some (UnsealShareResponse_unsealed m), Some (UnsealShareResponse_sharesReceived m), Some (UnsealShareResponse_sharesRequired m), Some (UnsealShareResponse_message m))"

definition json_ok_UnsealShareResponse :: "UnsealShareResponse \<Rightarrow> bool" where
  "json_ok_UnsealShareResponse m \<longleftrightarrow> safe_int (UnsealShareResponse_sharesReceived m) \<and> safe_int (UnsealShareResponse_sharesRequired m)"

interpretation UnsealShareResponse_json: json_message UnsealShareResponse_toJSON UnsealShareResponse_fromJSON "json_ok_UnsealShareResponse"
  by unfold_locales (simp add: UnsealShareResponse_toJSON_def UnsealShareResponse_fromJSON_def json_back
       json_ok_UnsealShareResponse_def)

lemma UnsealShareResponse_partial_back: "UnsealShareResponse_fromPartial (UnsealShareResponse_as_partial m) = m"
  by (simp add: UnsealShareResponse_fromPartial_def UnsealShareResponse_as_partial_def
       partial_simps)

lemma UnsealShareResponse_create_empty: "UnsealShareResponse_create None = createBaseUnsealShareResponse"
  by (simp add: UnsealShareResponse_create_def UnsealShareResponse_fromPartial_def createBaseUnsealShareResponse_def partial_simps)

lemma UnsealShareResponse_partial_ok:
  "partial_faithful UnsealShareResponse_create UnsealShareResponse_fromPartial UnsealShareResponse_as_partial createBaseUnsealShareResponse
     (\<lambda>_. True)"
  by (simp add: partial_faithful_def UnsealShareResponse_create_empty UnsealShareResponse_partial_back)
     (simp add: UnsealShareResponse_create_def or_default_simps)

subsection \<open>SealRequest\<close>

definition SealRequest_fromJSON :: "json_lang \<Rightarrow> js \<Rightarrow> json_error + SealRequest" where
  "SealRequest_fromJSON L object =
       Inr ()"

definition SealRequest_toJSON :: "json_lang \<Rightarrow> SealRequest \<Rightarrow> json_error + js" where
  "SealRequest_toJSON L m = json_object
     []"

type_synonym SealRequest_partial = "unit"

definition SealRequest_fromPartial :: "SealRequest_partial \<Rightarrow> SealRequest" where
  "SealRequest_fromPartial object = ()"

definition SealRequest_create :: "SealRequest_partial option \<Rightarrow> SealRequest" where
  "SealRequest_create base = SealRequest_fromPartial (or_default () base)"

definition SealRequest_as_partial :: "SealRequest \<Rightarrow> SealRequest_partial" where
  "SealRequest_as_partial m = ()"

interpretation SealRequest_json: json_message SealRequest_toJSON SealRequest_fromJSON "\<lambda>_. True"
  by unfold_locales (simp add: SealRequest_toJSON_def SealRequest_fromJSON_def json_back)

lemma SealRequest_partial_back: "SealRequest_fromPartial (SealRequest_as_partial m) = m"
  by (simp add: SealRequest_fromPartial_def SealRequest_as_partial_def partial_simps)

lemma SealRequest_create_empty: "SealRequest_create None = createBaseSealRequest"
  by (simp add: SealRequest_create_def SealRequest_fromPartial_def createBaseSealRequest_def partial_simps)

lemma SealRequest_partial_ok:
  "partial_faithful SealRequest_create SealRequest_fromPartial SealRequest_as_partial createBaseSealRequest
     (\<lambda>_. True)"
  by (simp add: partial_faithful_def SealRequest_create_empty SealRequest_partial_back)

subsection \<open>SealResponse\<close>

definition SealResponse_fromJSON :: "json_lang \<Rightarrow> js \<Rightarrow> json_error + SealResponse" where
  "SealResponse_fromJSON L object =
     bindE (set_field L (js_string L) '''' [''message''] object) (\<lambda>v1.
       Inr \<lparr>SealResponse_message = v1\<rparr>)"

definition SealResponse_toJSON :: "json_lang \<Rightarrow> SealResponse \<Rightarrow> json_error + js" where
  "SealResponse_toJSON L m = json_object
     [(''message'', Inr (string_json (SealResponse_message m)))]"

type_synonym SealResponse_partial = "string option"

definition SealResponse_fromPartial :: "SealResponse_partial \<Rightarrow> SealResponse" where
  "SealResponse_fromPartial object =
     \<lparr>SealResponse_message = or_default '''' object\<rparr>"

definition SealResponse_create :: "SealResponse_partial option \<Rightarrow> SealResponse" where
  "SealResponse_create base = SealResponse_fromPartial (or_default (None) base)"

definition SealResponse_as_partial :: "SealResponse \<Rightarrow> SealResponse_partial" where
  "SealResponse_as_partial m = (Some (SealResponse_message m))"

interpretation SealResponse_json: json_message SealResponse_toJSON SealResponse_fromJSON "\<lambda>_. True"
  by unfold_locales (simp add: SealResponse_toJSON_def SealResponse_fromJSON_def json_back)

lemma SealResponse_partial_back: "SealResponse_fromPartial (SealResponse_as_partial m) = m"
  by (simp add: SealResponse_fromPartial_def SealResponse_as_partial_def partial_simps)

lemma SealResponse_create_empty: "SealResponse_create None = createBaseSealResponse"
  by (simp add: SealResponse_create_def SealResponse_fromPartial_def createBaseSealResponse_def partial_simps)

lemma SealResponse_partial_ok:
  "partial_faithful SealResponse_create SealResponse_fromPartial SealResponse_as_partial createBaseSealResponse
     (\<lambda>_. True)"
  by (simp add: partial_faithful_def SealResponse_create_empty SealResponse_partial_back)
     (simp add: SealResponse_create_def or_default_simps)

subsection \<open>StatusRequest\<close>

definition StatusRequest_fromJSON :: "json_lang \<Rightarrow> js \<Rightarrow> json_error + StatusRequest" where
  "StatusRequest_fromJSON L object =
       Inr ()"

definition StatusRequest_toJSON :: "json_lang \<Rightarrow> StatusRequest \<Rightarrow> json_error + js" where
  "StatusRequest_toJSON L m = json_object
     []"

type_synonym StatusRequest_partial = "unit"

definition StatusRequest_fromPartial :: "StatusRequest_partial \<Rightarrow> StatusRequest" where
  "StatusRequest_fromPartial object = ()"

definition StatusRequest_create :: "StatusRequest_partial option \<Rightarrow> StatusRequest" where
  "StatusRequest_create base = StatusRequest_fromPartial (or_default () base)"

definition StatusRequest_as_partial :: "StatusRequest \<Rightarrow> StatusRequest_partial" where
  "StatusRequest_as_partial m = ()"

interpretation StatusRequest_json: json_message StatusRequest_toJSON StatusRequest_fromJSON "\<lambda>_. True"
  by unfold_locales (simp add: StatusRequest_toJSON_def StatusRequest_fromJSON_def json_back)

lemma StatusRequest_partial_back: "StatusRequest_fromPartial (StatusRequest_as_partial m) = m"
  by (simp add: StatusRequest_fromPartial_def StatusRequest_as_partial_def partial_simps)

lemma StatusRequest_create_empty: "StatusRequest_create None = createBaseStatusRequest"
  by (simp add: StatusRequest_create_def StatusRequest_fromPartial_def createBaseStatusRequest_def partial_simps)

lemma StatusRequest_partial_ok:
  "partial_faithful StatusRequest_create StatusRequest_fromPartial StatusRequest_as_partial createBaseStatusRequest
     (\<lambda>_. True)"
  by (simp add: partial_faithful_def StatusRequest_create_empty StatusRequest_partial_back)

subsection \<open>StatusResponse\<close>

definition StatusResponse_fromJSON :: "json_lang \<Rightarrow> js \<Rightarrow> json_error + StatusResponse" where
  "StatusResponse_fromJSON L object =
     bindE (set_field L (\<lambda>v. Inr (StatusResponse_StateFromJSON v)) 0 [''state''] object) (\<lambda>v1.
     bindE (set_field L (js_int L) 0 [''sharesReceived'', ''shares_received''] object) (\<lambda>v2.
     bindE (set_field L (js_int L) 0 [''sharesRequired'', ''shares_required''] object) (\<lambda>v3.
     bindE (set_field L (js_string L) '''' [''version''] object) (\<lambda>v4.
       Inr \<lparr>StatusResponse_state = v1,
            StatusResponse_sharesReceived = v2,
            StatusResponse_sharesRequired = v3,
            StatusResponse_version = v4\<rparr>))))"

definition StatusResponse_toJSON :: "json_lang \<Rightarrow> StatusResponse \<Rightarrow> json_error + js" where
  "StatusResponse_toJSON L m = json_object
     [(''state'', Inr (enum_json StatusResponse_StateToJSON (StatusResponse_state m))),
      (''sharesReceived'', Inr (int_json (StatusResponse_sharesReceived m))),
      (''sharesRequired'', Inr (int_json (StatusResponse_sharesRequired m))),
      (''version'', Inr (string_json (StatusResponse_version m)))]"

type_synonym StatusResponse_partial = "int option \<times> int option \<times> int option \<times> string option"

definition StatusResponse_fromPartial :: "StatusResponse_partial \<Rightarrow> StatusResponse" where
  "StatusResponse_fromPartial object =
     (case object of (p1, p2, p3, p4) \<Rightarrow>
       \<lparr>StatusResponse_state = or_default 0 p1,
        StatusResponse_sharesReceived = or_default 0 p2,
        StatusResponse_sharesRequired = or_default 0 p3,
        StatusResponse_version = or_default '''' p4\<rparr>)"

definition StatusResponse_create :: "StatusResponse_partial option \<Rightarrow> StatusResponse" where
  "StatusResponse_create base = StatusResponse_fromPartial (or_default (None, None, None, None) base)"

definition StatusResponse_as_partial :: "StatusResponse \<Rightarrow> StatusResponse_partial" where
  "StatusResponse_as_partial m = (Some (StatusResponse_state m), Some (StatusResponse_sharesReceived m), Some (StatusResponse_sharesRequired m), Some (StatusResponse_version m))"

definition json_ok_StatusResponse :: "StatusResponse \<Rightarrow> bool" where
  "json_ok_StatusResponse m \<longleftrightarrow> StatusResponse_state m \<in> set StatusResponse_State_values \<and> safe_int (StatusResponse_sharesReceived m) \<and> safe_int (StatusResponse_sharesRequired m)"

interpretation StatusResponse_json: json_message StatusResponse_toJSON StatusResponse_fromJSON "json_ok_StatusResponse"
  by unfold_locales (simp add: StatusResponse_toJSON_def StatusResponse_fromJSON_def json_back
       StatusResponse_State_back enum_back json_ok_StatusResponse_def)

lemma StatusResponse_partial_back: "StatusResponse_fromPartial (StatusResponse_as_partial m) = m"
  by (simp add: StatusResponse_fromPartial_def StatusResponse_as_partial_def partial_simps)

lemma StatusResponse_create_empty: "StatusResponse_create None = createBaseStatusResponse"
  by (simp add: StatusResponse_create_def StatusResponse_fromPartial_def createBaseStatusResponse_def partial_simps)

lemma StatusResponse_partial_ok:
  "partial_faithful StatusResponse_create StatusResponse_fromPartial StatusResponse_as_partial createBaseStatusResponse
     (\<lambda>_. True)"
  by (simp add: partial_faithful_def StatusResponse_create_empty StatusResponse_partial_back)
     (simp add: StatusResponse_create_def or_default_simps)

subsection \<open>RotateKEKRequest\<close>

definition RotateKEKRequest_fromJSON :: "json_lang \<Rightarrow> js \<Rightarrow> json_error + RotateKEKRequest" where
  "RotateKEKRequest_fromJSON L object =
       Inr ()"

definition RotateKEKRequest_toJSON :: "json_lang \<Rightarrow> RotateKEKRequest \<Rightarrow> json_error + js" where
  "RotateKEKRequest_toJSON L m = json_object
     []"

type_synonym RotateKEKRequest_partial = "unit"

definition RotateKEKRequest_fromPartial :: "RotateKEKRequest_partial \<Rightarrow> RotateKEKRequest" where
  "RotateKEKRequest_fromPartial object = ()"

definition RotateKEKRequest_create :: "RotateKEKRequest_partial option \<Rightarrow> RotateKEKRequest" where
  "RotateKEKRequest_create base = RotateKEKRequest_fromPartial (or_default () base)"

definition RotateKEKRequest_as_partial :: "RotateKEKRequest \<Rightarrow> RotateKEKRequest_partial" where
  "RotateKEKRequest_as_partial m = ()"

interpretation RotateKEKRequest_json: json_message RotateKEKRequest_toJSON RotateKEKRequest_fromJSON "\<lambda>_. True"
  by unfold_locales (simp add: RotateKEKRequest_toJSON_def RotateKEKRequest_fromJSON_def json_back)

lemma RotateKEKRequest_partial_back: "RotateKEKRequest_fromPartial (RotateKEKRequest_as_partial m) = m"
  by (simp add: RotateKEKRequest_fromPartial_def RotateKEKRequest_as_partial_def partial_simps)

lemma RotateKEKRequest_create_empty: "RotateKEKRequest_create None = createBaseRotateKEKRequest"
  by (simp add: RotateKEKRequest_create_def RotateKEKRequest_fromPartial_def createBaseRotateKEKRequest_def partial_simps)

lemma RotateKEKRequest_partial_ok:
  "partial_faithful RotateKEKRequest_create RotateKEKRequest_fromPartial RotateKEKRequest_as_partial createBaseRotateKEKRequest
     (\<lambda>_. True)"
  by (simp add: partial_faithful_def RotateKEKRequest_create_empty RotateKEKRequest_partial_back)

subsection \<open>RotateKEKResponse\<close>

definition RotateKEKResponse_fromJSON :: "json_lang \<Rightarrow> js \<Rightarrow> json_error + RotateKEKResponse" where
  "RotateKEKResponse_fromJSON L object =
     bindE (set_field L (js_string L) '''' [''newKekId'', ''new_kek_id''] object) (\<lambda>v1.
     bindE (set_field L (js_string L) '''' [''oldKekId'', ''old_kek_id''] object) (\<lambda>v2.
     bindE (set_field L (js_int L) 0 [''secretsRewrapped'', ''secrets_rewrapped''] object) (\<lambda>v3.
       Inr \<lparr>RotateKEKResponse_newKekId = v1,
            RotateKEKResponse_oldKekId = v2,
            RotateKEKResponse_secretsRewrapped = v3\<rparr>)))"

definition RotateKEKResponse_toJSON :: "json_lang \<Rightarrow> RotateKEKResponse \<Rightarrow> json_error + js" where
  "RotateKEKResponse_toJSON L m = json_object
     [(''newKekId'', Inr (string_json (RotateKEKResponse_newKekId m))),
      (''oldKekId'', Inr (string_json (RotateKEKResponse_oldKekId m))),
      (''secretsRewrapped'', Inr (int_json (RotateKEKResponse_secretsRewrapped m)))]"

type_synonym RotateKEKResponse_partial = "string option \<times> string option \<times> int option"

definition RotateKEKResponse_fromPartial :: "RotateKEKResponse_partial \<Rightarrow> RotateKEKResponse" where
  "RotateKEKResponse_fromPartial object =
     (case object of (p1, p2, p3) \<Rightarrow>
       \<lparr>RotateKEKResponse_newKekId = or_default '''' p1,
        RotateKEKResponse_oldKekId = or_default '''' p2,
        RotateKEKResponse_secretsRewrapped = or_default 0 p3\<rparr>)"

definition RotateKEKResponse_create :: "RotateKEKResponse_partial option \<Rightarrow> RotateKEKResponse" where
  "RotateKEKResponse_create base = RotateKEKResponse_fromPartial (or_default (None, None, None) base)"

definition RotateKEKResponse_as_partial :: "RotateKEKResponse \<Rightarrow> RotateKEKResponse_partial" where
  "RotateKEKResponse_as_partial m = (Some (RotateKEKResponse_newKekId m), Some (RotateKEKResponse_oldKekId m), Some (RotateKEKResponse_secretsRewrapped m))"

definition json_ok_RotateKEKResponse :: "RotateKEKResponse \<Rightarrow> bool" where
  "json_ok_RotateKEKResponse m \<longleftrightarrow> safe_int (RotateKEKResponse_secretsRewrapped m)"

interpretation RotateKEKResponse_json: json_message RotateKEKResponse_toJSON RotateKEKResponse_fromJSON "json_ok_RotateKEKResponse"
  by unfold_locales (simp add: RotateKEKResponse_toJSON_def RotateKEKResponse_fromJSON_def json_back
       json_ok_RotateKEKResponse_def)

lemma RotateKEKResponse_partial_back: "RotateKEKResponse_fromPartial (RotateKEKResponse_as_partial m) = m"
  by (simp add: RotateKEKResponse_fromPartial_def RotateKEKResponse_as_partial_def
       partial_simps)

lemma RotateKEKResponse_create_empty: "RotateKEKResponse_create None = createBaseRotateKEKResponse"
  by (simp add: RotateKEKResponse_create_def RotateKEKResponse_fromPartial_def createBaseRotateKEKResponse_def partial_simps)

lemma RotateKEKResponse_partial_ok:
  "partial_faithful RotateKEKResponse_create RotateKEKResponse_fromPartial RotateKEKResponse_as_partial createBaseRotateKEKResponse
     (\<lambda>_. True)"
  by (simp add: partial_faithful_def RotateKEKResponse_create_empty RotateKEKResponse_partial_back)
     (simp add: RotateKEKResponse_create_def or_default_simps)

subsection \<open>ListKEKsRequest\<close>

definition ListKEKsRequest_fromJSON :: "json_lang \<Rightarrow> js \<Rightarrow> json_error + ListKEKsRequest" where
  "ListKEKsRequest_fromJSON L object =
       Inr ()"

definition ListKEKsRequest_toJSON :: "json_lang \<Rightarrow> ListKEKsRequest \<Rightarrow> json_error + js" where
  "ListKEKsRequest_toJSON L m = json_object
     []"

type_synonym ListKEKsRequest_partial = "unit"

definition ListKEKsRequest_fromPartial :: "ListKEKsRequest_partial \<Rightarrow> ListKEKsRequest" where
  "ListKEKsRequest_fromPartial object = ()"

definition ListKEKsRequest_create :: "ListKEKsRequest_partial option \<Rightarrow> ListKEKsRequest" where
  "ListKEKsRequest_create base = ListKEKsRequest_fromPartial (or_default () base)"

definition ListKEKsRequest_as_partial :: "ListKEKsRequest \<Rightarrow> ListKEKsRequest_partial" where
  "ListKEKsRequest_as_partial m = ()"

interpretation ListKEKsRequest_json: json_message ListKEKsRequest_toJSON ListKEKsRequest_fromJSON "\<lambda>_. True"
  by unfold_locales (simp add: ListKEKsRequest_toJSON_def ListKEKsRequest_fromJSON_def json_back)

lemma ListKEKsRequest_partial_back: "ListKEKsRequest_fromPartial (ListKEKsRequest_as_partial m) = m"
  by (simp add: ListKEKsRequest_fromPartial_def ListKEKsRequest_as_partial_def partial_simps)

lemma ListKEKsRequest_create_empty: "ListKEKsRequest_create None = createBaseListKEKsRequest"
  by (simp add: ListKEKsRequest_create_def ListKEKsRequest_fromPartial_def createBaseListKEKsRequest_def partial_simps)

lemma ListKEKsRequest_partial_ok:
  "partial_faithful ListKEKsRequest_create ListKEKsRequest_fromPartial ListKEKsRequest_as_partial createBaseListKEKsRequest
     (\<lambda>_. True)"
  by (simp add: partial_faithful_def ListKEKsRequest_create_empty ListKEKsRequest_partial_back)

subsection \<open>KEKInfo\<close>

definition KEKInfo_fromJSON :: "json_lang \<Rightarrow> js \<Rightarrow> json_error + KEKInfo" where
  "KEKInfo_fromJSON L object =
     bindE (set_field L (js_string L) '''' [''id''] object) (\<lambda>v1.
     bindE (set_field L (\<lambda>v. Inr (js_boolean L v)) False [''isActive'', ''is_active''] object) (\<lambda>v2.
     bindE (set_field L (js_string L) '''' [''createdAt'', ''created_at''] object) (\<lambda>v3.
     bindE (set_field L (js_string L) '''' [''deactivatedAt'', ''deactivated_at''] object) (\<lambda>v4.
       Inr \<lparr>KEKInfo_id = v1,
            KEKInfo_isActive = v2,
            KEKInfo_createdAt = v3,
            KEKInfo_deactivatedAt = v4\<rparr>))))"

definition KEKInfo_toJSON :: "json_lang \<Rightarrow> KEKInfo \<Rightarrow> json_error + js" where
  "KEKInfo_toJSON L m = json_object
     [(''id'', Inr (string_json (KEKInfo_id m))),
      (''isActive'', Inr (bool_json (KEKInfo_isActive m))),
      (''createdAt'', Inr (string_json (KEKInfo_createdAt m))),
      (''deactivatedAt'', Inr (string_json (KEKInfo_deactivatedAt m)))]"

type_synonym KEKInfo_partial = "string option \<times> bool option \<times> string option \<times> string option"

definition KEKInfo_fromPartial :: "KEKInfo_partial \<Rightarrow> KEKInfo" where
  "KEKInfo_fromPartial object =
     (case object of (p1, p2, p3, p4) \<Rightarrow>
       \<lparr>KEKInfo_id = or_default '''' p1,
        KEKInfo_isActive = or_default False p2,
        KEKInfo_createdAt = or_default '''' p3,
        KEKInfo_deactivatedAt = or_default '''' p4\<rparr>)"

definition KEKInfo_create :: "KEKInfo_partial option \<Rightarrow> KEKInfo" where
  "KEKInfo_create base = KEKInfo_fromPartial (or_default (None, None, None, None) base)"

definition KEKInfo_as_partial :: "KEKInfo \<Rightarrow> KEKInfo_partial" where
  "KEKInfo_as_partial m = (Some (KEKInfo_id m), Some (KEKInfo_isActive m), Some (KEKInfo_createdAt m), Some (KEKInfo_deactivatedAt m))"

interpretation KEKInfo_json: json_message KEKInfo_toJSON KEKInfo_fromJSON "\<lambda>_. True"
  by unfold_locales (simp add: KEKInfo_toJSON_def KEKInfo_fromJSON_def json_back)

lemma KEKInfo_partial_back: "KEKInfo_fromPartial (KEKInfo_as_partial m) = m"
  by (simp add: KEKInfo_fromPartial_def KEKInfo_as_partial_def partial_simps)

lemma KEKInfo_create_empty: "KEKInfo_create None = createBaseKEKInfo"
  by (simp add: KEKInfo_create_def KEKInfo_fromPartial_def createBaseKEKInfo_def partial_simps)

lemma KEKInfo_partial_ok:
  "partial_faithful KEKInfo_create KEKInfo_fromPartial KEKInfo_as_partial createBaseKEKInfo
     (\<lambda>_. True)"
  by (simp add: partial_faithful_def KEKInfo_create_empty KEKInfo_partial_back)
     (simp add: KEKInfo_create_def or_default_simps)

subsection \<open>ListKEKsResponse\<close>

definition ListKEKsResponse_fromJSON :: "json_lang \<Rightarrow> js \<Rightarrow> json_error + ListKEKsResponse" where
  "ListKEKsResponse_fromJSON L object =
     bindE (array_field L (KEKInfo_fromJSON L) [''keks''] object) (\<lambda>v1.
       Inr \<lparr>ListKEKsResponse_keks = v1\<rparr>)"

definition ListKEKsResponse_toJSON :: "json_lang \<Rightarrow> ListKEKsResponse \<Rightarrow> json_error + js" where
  "ListKEKsResponse_toJSON L m = json_object
     [(''keks'', list_json (KEKInfo_toJSON L) (ListKEKsResponse_keks m))]"

type_synonym ListKEKsResponse_partial = "KEKInfo_partial list option"

definition ListKEKsResponse_fromPartial :: "ListKEKsResponse_partial \<Rightarrow> ListKEKsResponse" where
  "ListKEKsResponse_fromPartial object =
     \<lparr>ListKEKsResponse_keks = or_default [] (map_option (map KEKInfo_fromPartial) object)\<rparr>"

definition ListKEKsResponse_create :: "ListKEKsResponse_partial option \<Rightarrow> ListKEKsResponse" where
  "ListKEKsResponse_create base = ListKEKsResponse_fromPartial (or_default (None) base)"

definition ListKEKsResponse_as_partial :: "ListKEKsResponse \<Rightarrow> ListKEKsResponse_partial" where
  "ListKEKsResponse_as_partial m = (Some (map KEKInfo_as_partial (ListKEKsResponse_keks m)))"

interpretation ListKEKsResponse_json: json_message ListKEKsResponse_toJSON ListKEKsResponse_fromJSON "\<lambda>_. True"
proof
  fix L :: json_lang and m :: ListKEKsResponse
  assume ok: "lang_ok L" "(\<lambda>_. True) m"
  obtain v1 where v1: "list_json (KEKInfo_toJSON L) (ListKEKsResponse_keks m) = Inr v1"
    "pick_if is_array (map_array (KEKInfo_fromJSON L)) v1 (Inr []) = Inr (ListKEKsResponse_keks m)"
    using KEKInfo_json.list_back [of L "ListKEKsResponse_keks m"] ok by (auto simp: all_true)
  with ok show "\<exists>ob. ListKEKsResponse_toJSON L m = Inr (JObject ob) \<and> ListKEKsResponse_fromJSON L (JObject ob) = Inr m"
    by (simp add: ListKEKsResponse_toJSON_def ListKEKsResponse_fromJSON_def json_back)
qed

lemma ListKEKsResponse_partial_back: "ListKEKsResponse_fromPartial (ListKEKsResponse_as_partial m) = m"
  by (simp add: ListKEKsResponse_fromPartial_def ListKEKsResponse_as_partial_def partial_simps
       KEKInfo_partial_back)

lemma ListKEKsResponse_create_empty: "ListKEKsResponse_create None = createBaseListKEKsResponse"
  by (simp add: ListKEKsResponse_create_def ListKEKsResponse_fromPartial_def createBaseListKEKsResponse_def partial_simps)

lemma ListKEKsResponse_partial_ok:
  "partial_faithful ListKEKsResponse_create ListKEKsResponse_fromPartial ListKEKsResponse_as_partial createBaseListKEKsResponse
     (\<lambda>_. True)"
  by (simp add: partial_faithful_def ListKEKsResponse_create_empty ListKEKsResponse_partial_back)
     (simp add: ListKEKsResponse_create_def or_default_simps)

subsection \<open>PruneKEKRequest\<close>

definition PruneKEKRequest_fromJSON :: "json_lang \<Rightarrow> js \<Rightarrow> json_error + PruneKEKRequest" where
  "PruneKEKRequest_fromJSON L object =
     bindE (set_field L (js_string L) '''' [''id''] object) (\<lambda>v1.
       Inr \<lparr>PruneKEKRequest_id = v1\<rparr>)"

definition PruneKEKRequest_toJSON :: "json_lang \<Rightarrow> PruneKEKRequest \<Rightarrow> json_error + js" where
  "PruneKEKRequest_toJSON L m = json_object
     [(''id'', Inr (string_json (PruneKEKRequest_id m)))]"

type_synonym PruneKEKRequest_partial = "string option"

definition PruneKEKRequest_fromPartial :: "PruneKEKRequest_partial \<Rightarrow> PruneKEKRequest" where
  "PruneKEKRequest_fromPartial object =
     \<lparr>PruneKEKRequest_id = or_default '''' object\<rparr>"

definition PruneKEKRequest_create :: "PruneKEKRequest_partial option \<Rightarrow> PruneKEKRequest" where
  "PruneKEKRequest_create base = PruneKEKRequest_fromPartial (or_default (None) base)"

definition PruneKEKRequest_as_partial :: "PruneKEKRequest \<Rightarrow> PruneKEKRequest_partial" where
  "PruneKEKRequest_as_partial m = (Some (PruneKEKRequest_id m))"

interpretation PruneKEKRequest_json: json_message PruneKEKRequest_toJSON PruneKEKRequest_fromJSON "\<lambda>_. True"
  by unfold_locales (simp add: PruneKEKRequest_toJSON_def PruneKEKRequest_fromJSON_def json_back)

lemma PruneKEKRequest_partial_back: "PruneKEKRequest_fromPartial (PruneKEKRequest_as_partial m) = m"
  by (simp add: PruneKEKRequest_fromPartial_def PruneKEKRequest_as_partial_def partial_simps)

lemma PruneKEKRequest_create_empty: "PruneKEKRequest_create None = createBasePruneKEKRequest"
  by (simp add: PruneKEKRequest_create_def PruneKEKRequest_fromPartial_def createBasePruneKEKRequest_def partial_simps)

lemma PruneKEKRequest_partial_ok:
  "partial_faithful PruneKEKRequest_create PruneKEKRequest_fromPartial PruneKEKRequest_as_partial createBasePruneKEKRequest
     (\<lambda>_. True)"
  by (simp add: partial_faithful_def PruneKEKRequest_create_empty PruneKEKRequest_partial_back)
     (simp add: PruneKEKRequest_create_def or_default_simps)

subsection \<open>PruneKEKResponse\<close>

definition PruneKEKResponse_fromJSON :: "json_lang \<Rightarrow> js \<Rightarrow> json_error + PruneKEKResponse" where
  "PruneKEKResponse_fromJSON L object =
     bindE (set_field L (js_string L) '''' [''message''] object) (\<lambda>v1.
       Inr \<lparr>PruneKEKResponse_message = v1\<rparr>)"

definition PruneKEKResponse_toJSON :: "json_lang \<Rightarrow> PruneKEKResponse \<Rightarrow> json_error + js" where
  "PruneKEKResponse_toJSON L m = json_object
     [(''message'', Inr (string_json (PruneKEKResponse_message m)))]"

type_synonym PruneKEKResponse_partial = "string option"

definition PruneKEKResponse_fromPartial :: "PruneKEKResponse_partial \<Rightarrow> PruneKEKResponse" where
  "PruneKEKResponse_fromPartial object =
     \<lparr>PruneKEKResponse_message = or_default '''' object\<rparr>"

definition PruneKEKResponse_create :: "PruneKEKResponse_partial option \<Rightarrow> PruneKEKResponse" where
  "PruneKEKResponse_create base = PruneKEKResponse_fromPartial (or_default (None) base)"

definition PruneKEKResponse_as_partial :: "PruneKEKResponse \<Rightarrow> PruneKEKResponse_partial" where
  "PruneKEKResponse_as_partial m = (Some (PruneKEKResponse_message m))"

interpretation PruneKEKResponse_json: json_message PruneKEKResponse_toJSON PruneKEKResponse_fromJSON "\<lambda>_. True"
  by unfold_locales (simp add: PruneKEKResponse_toJSON_def PruneKEKResponse_fromJSON_def json_back)

lemma PruneKEKResponse_partial_back: "PruneKEKResponse_fromPartial (PruneKEKResponse_as_partial m) = m"
  by (simp add: PruneKEKResponse_fromPartial_def PruneKEKResponse_as_partial_def partial_simps)

lemma PruneKEKResponse_create_empty: "PruneKEKResponse_create None = createBasePruneKEKResponse"
  by (simp add: PruneKEKResponse_create_def PruneKEKResponse_fromPartial_def createBasePruneKEKResponse_def partial_simps)

lemma PruneKEKResponse_partial_ok:
  "partial_faithful PruneKEKResponse_create PruneKEKResponse_fromPartial PruneKEKResponse_as_partial createBasePruneKEKResponse
     (\<lambda>_. True)"
  by (simp add: partial_faithful_def PruneKEKResponse_create_empty PruneKEKResponse_partial_back)
     (simp add: PruneKEKResponse_create_def or_default_simps)

subsection \<open>RotateMasterKeyRequest\<close>

definition RotateMasterKeyRequest_fromJSON :: "json_lang \<Rightarrow> js \<Rightarrow> json_error + RotateMasterKeyRequest" where
  "RotateMasterKeyRequest_fromJSON L object =
     bindE (set_field L (bytesFromBase64 L) [] [''newKey'', ''new_key''] object) (\<lambda>v1.
       Inr \<lparr>RotateMasterKeyRequest_newKey = v1\<rparr>)"

definition RotateMasterKeyRequest_toJSON :: "json_lang \<Rightarrow> RotateMasterKeyRequest \<Rightarrow> json_error + js" where
  "RotateMasterKeyRequest_toJSON L m = json_object
     [(''newKey'', Inr (bytes_json (RotateMasterKeyRequest_newKey m)))]"

type_synonym RotateMasterKeyRequest_partial = "byte list option"

definition RotateMasterKeyRequest_fromPartial :: "RotateMasterKeyRequest_partial \<Rightarrow> RotateMasterKeyRequest" where
  "RotateMasterKeyRequest_fromPartial object =
     \<lparr>RotateMasterKeyRequest_newKey = or_default [] object\<rparr>"

definition RotateMasterKeyRequest_create :: "RotateMasterKeyRequest_partial option \<Rightarrow> RotateMasterKeyRequest" where
  "RotateMasterKeyRequest_create base = RotateMasterKeyRequest_fromPartial (or_default (None) base)"

definition RotateMasterKeyRequest_as_partial :: "RotateMasterKeyRequest \<Rightarrow> RotateMasterKeyRequest_partial" where
  "RotateMasterKeyRequest_as_partial m = (Some (RotateMasterKeyRequest_newKey m))"

interpretation RotateMasterKeyRequest_json: json_message RotateMasterKeyRequest_toJSON RotateMasterKeyRequest_fromJSON "\<lambda>_. True"
  by unfold_locales (simp add: RotateMasterKeyRequest_toJSON_def RotateMasterKeyRequest_fromJSON_def
       json_back bytes_back)

lemma RotateMasterKeyRequest_partial_back: "RotateMasterKeyRequest_fromPartial (RotateMasterKeyRequest_as_partial m) = m"
  by (simp add: RotateMasterKeyRequest_fromPartial_def RotateMasterKeyRequest_as_partial_def
       partial_simps)

lemma RotateMasterKeyRequest_create_empty: "RotateMasterKeyRequest_create None = createBaseRotateMasterKeyRequest"
  by (simp add: RotateMasterKeyRequest_create_def RotateMasterKeyRequest_fromPartial_def createBaseRotateMasterKeyRequest_def partial_simps)

lemma RotateMasterKeyRequest_partial_ok:
  "partial_faithful RotateMasterKeyRequest_create RotateMasterKeyRequest_fromPartial RotateMasterKeyRequest_as_partial createBaseRotateMasterKeyRequest
     (\<lambda>_. True)"
  by (simp add: partial_faithful_def RotateMasterKeyRequest_create_empty RotateMasterKeyRequest_partial_back)
     (simp add: RotateMasterKeyRequest_create_def or_default_simps)

subsection \<open>RotateMasterKeyResponse\<close>

definition RotateMasterKeyResponse_fromJSON :: "json_lang \<Rightarrow> js \<Rightarrow> json_error + RotateMasterKeyResponse" where
  "RotateMasterKeyResponse_fromJSON L object =
     bindE (set_field L (js_string L) '''' [''message''] object) (\<lambda>v1.
     bindE (set_field L (js_int L) 0 [''keksRewrapped'', ''keks_rewrapped''] object) (\<lambda>v2.
       Inr \<lparr>RotateMasterKeyResponse_message = v1,
            RotateMasterKeyResponse_keksRewrapped = v2\<rparr>))"

definition RotateMasterKeyResponse_toJSON :: "json_lang \<Rightarrow> RotateMasterKeyResponse \<Rightarrow> json_error + js" where
  "RotateMasterKeyResponse_toJSON L m = json_object
     [(''message'', Inr (string_json (RotateMasterKeyResponse_message m))),
      (''keksRewrapped'', Inr (int_json (RotateMasterKeyResponse_keksRewrapped m)))]"

type_synonym RotateMasterKeyResponse_partial = "string option \<times> int option"

definition RotateMasterKeyResponse_fromPartial :: "RotateMasterKeyResponse_partial \<Rightarrow> RotateMasterKeyResponse" where
  "RotateMasterKeyResponse_fromPartial object =
     (case object of (p1, p2) \<Rightarrow>
       \<lparr>RotateMasterKeyResponse_message = or_default '''' p1,
        RotateMasterKeyResponse_keksRewrapped = or_default 0 p2\<rparr>)"

definition RotateMasterKeyResponse_create :: "RotateMasterKeyResponse_partial option \<Rightarrow> RotateMasterKeyResponse" where
  "RotateMasterKeyResponse_create base = RotateMasterKeyResponse_fromPartial (or_default (None, None) base)"

definition RotateMasterKeyResponse_as_partial :: "RotateMasterKeyResponse \<Rightarrow> RotateMasterKeyResponse_partial" where
  "RotateMasterKeyResponse_as_partial m = (Some (RotateMasterKeyResponse_message m), Some (RotateMasterKeyResponse_keksRewrapped m))"

definition json_ok_RotateMasterKeyResponse :: "RotateMasterKeyResponse \<Rightarrow> bool" where
  "json_ok_RotateMasterKeyResponse m \<longleftrightarrow> safe_int (RotateMasterKeyResponse_keksRewrapped m)"

interpretation RotateMasterKeyResponse_json: json_message RotateMasterKeyResponse_toJSON RotateMasterKeyResponse_fromJSON "json_ok_RotateMasterKeyResponse"
  by unfold_locales (simp add: RotateMasterKeyResponse_toJSON_def RotateMasterKeyResponse_fromJSON_def
       json_back json_ok_RotateMasterKeyResponse_def)

lemma RotateMasterKeyResponse_partial_back: "RotateMasterKeyResponse_fromPartial (RotateMasterKeyResponse_as_partial m) = m"
  by (simp add: RotateMasterKeyResponse_fromPartial_def RotateMasterKeyResponse_as_partial_def
       partial_simps)

lemma RotateMasterKeyResponse_create_empty: "RotateMasterKeyResponse_create None = createBaseRotateMasterKeyResponse"
  by (simp add: RotateMasterKeyResponse_create_def RotateMasterKeyResponse_fromPartial_def createBaseRotateMasterKeyResponse_def partial_simps)

lemma RotateMasterKeyResponse_partial_ok:
  "partial_faithful RotateMasterKeyResponse_create RotateMasterKeyResponse_fromPartial RotateMasterKeyResponse_as_partial createBaseRotateMasterKeyResponse
     (\<lambda>_. True)"
  by (simp add: partial_faithful_def RotateMasterKeyResponse_create_empty RotateMasterKeyResponse_partial_back)
     (simp add: RotateMasterKeyResponse_create_def or_default_simps)

text \<open>The round trips, and the completions of partial messages, of this theory.\<close>

lemmas AdminSealJson_faithful =
      UnsealKeyRequest_json.faithful UnsealKeyResponse_json.faithful
      UnsealShareRequest_json.faithful UnsealShareResponse_json.faithful
      SealRequest_json.faithful SealResponse_json.faithful StatusRequest_json.faithful
      StatusResponse_json.faithful RotateKEKRequest_json.faithful
      RotateKEKResponse_json.faithful ListKEKsRequest_json.faithful KEKInfo_json.faithful
      ListKEKsResponse_json.faithful PruneKEKRequest_json.faithful
      PruneKEKResponse_json.faithful RotateMasterKeyRequest_json.faithful
      RotateMasterKeyResponse_json.faithful

lemmas AdminSealJson_completed =
      UnsealKeyRequest_partial_ok UnsealKeyResponse_partial_ok UnsealShareRequest_partial_ok
      UnsealShareResponse_partial_ok SealRequest_partial_ok SealResponse_partial_ok
      StatusRequest_partial_ok StatusResponse_partial_ok RotateKEKRequest_partial_ok
      RotateKEKResponse_partial_ok ListKEKsRequest_partial_ok KEKInfo_partial_ok
      ListKEKsResponse_partial_ok PruneKEKRequest_partial_ok PruneKEKResponse_partial_ok
      RotateMasterKeyRequest_partial_ok RotateMasterKeyResponse_partial_ok

end
