(* ===== verification/AdminPolicyJson.thy ===== *)
theory AdminPolicyJson
  imports AdminPolicyMessages JsonCodec
begin

text \<open>
  \<open>fromJSON\<close>, \<open>toJSON\<close>, \<open>fromPartial\<close> and \<open>create\<close> of the messages of \<open>AdminPolicyMessages\<close>, as
  \<open>src/gen/admin/v1/admin.ts\<close> has them, and the enumerations they mention. Each message is shown to
  keep the contract \<open>json_message\<close>: what \<open>toJSON\<close> writes, \<open>fromJSON\<close> reads back. \<open>\<dots>_as_partial\<close> is
  a message seen as a partial one; \<open>fromPartial\<close> gives it back.
\<close>

subsection \<open>CreatePolicyRequest\<close>

definition CreatePolicyRequest_fromJSON :: "json_lang \<Rightarrow> js \<Rightarrow> json_error + CreatePolicyRequest" where
  "CreatePolicyRequest_fromJSON L object =
     bindE (set_field L (js_string L) '''' [''spiffeId'', ''spiffe_id''] object) (\<lambda>v1.
     bindE (set_field L (js_string L) '''' [''namespace''] object) (\<lambda>v2.
     bindE (set_field L (js_string L) '''' [''service''] object) (\<lambda>v3.
     bindE (set_field L (js_string L) '''' [''secretName'', ''secret_name''] object) (\<lambda>v4.
     bindE (array_field L (js_string L) [''permissions''] object) (\<lambda>v5.
       Inr \<lparr>CreatePolicyRequest_spiffeId = v1,
            CreatePolicyRequest_namespace = v2,
            CreatePolicyRequest_service = v3,
            CreatePolicyRequest_secretName = v4,
            CreatePolicyRequest_permissions = v5\<rparr>)))))"

definition CreatePolicyRequest_toJSON :: "json_lang \<Rightarrow> CreatePolicyRequest \<Rightarrow> json_error + js" where
  "CreatePolicyRequest_toJSON L m = json_object
     [(''spiffeId'', Inr (string_json (CreatePolicyRequest_spiffeId m))),
      (''namespace'', Inr (string_json (CreatePolicyRequest_namespace m))),
      (''service'', Inr (string_json (CreatePolicyRequest_service m))),
      (''secretName'', Inr (string_json (CreatePolicyRequest_secretName m))),
      (''permissions'', Inr (strings_json (CreatePolicyRequest_permissions m)))]"

type_synonym CreatePolicyRequest_partial = "string option \<times> string option \<times> string option \<times> string option \<times> string list option"

definition CreatePolicyRequest_fromPartial :: "CreatePolicyRequest_partial \<Rightarrow> CreatePolicyRequest" where
  "CreatePolicyRequest_fromPartial object =
     (case object of (p1, p2, p3, p4, p5) \<Rightarrow>
       \<lparr>CreatePolicyRequest_spiffeId = or_default '''' p1,
        CreatePolicyRequest_namespace = or_default '''' p2,
        CreatePolicyRequest_service = or_default '''' p3,
        CreatePolicyRequest_secretName = or_default '''' p4,
        CreatePolicyRequest_permissions = or_default [] p5\<rparr>)"

definition CreatePolicyRequest_create :: "CreatePolicyRequest_partial option \<Rightarrow> CreatePolicyRequest" where
  "CreatePolicyRequest_create base = CreatePolicyRequest_fromPartial (or_default (None, None, None, None, None) base)"

definition CreatePolicyRequest_as_partial :: "CreatePolicyRequest \<Rightarrow> CreatePolicyRequest_partial" where
  "CreatePolicyRequest_as_partial m = (Some (CreatePolicyRequest_spiffeId m), Some (CreatePolicyRequest_namespace m), Some (CreatePolicyRequest_service m), Some (CreatePolicyRequest_secretName m), Some (CreatePolicyRequest_permissions m))"

interpretation CreatePolicyRequest_json: json_message CreatePolicyRequest_toJSON CreatePolicyRequest_fromJSON "\<lambda>_. True"
  by unfold_locales (simp add: CreatePolicyRequest_toJSON_def CreatePolicyRequest_fromJSON_def json_back)

lemma CreatePolicyRequest_partial_back: "CreatePolicyRequest_fromPartial (CreatePolicyRequest_as_partial m) = m"
  by (simp add: CreatePolicyRequest_fromPartial_def CreatePolicyRequest_as_partial_def
       partial_simps)

lemma CreatePolicyRequest_create_empty: "CreatePolicyRequest_create None = createBaseCreatePolicyRequest"
  by (simp add: CreatePolicyRequest_create_def CreatePolicyRequest_fromPartial_def createBaseCreatePolicyRequest_def partial_simps)

lemma CreatePolicyRequest_partial_ok:
  "partial_faithful CreatePolicyRequest_create CreatePolicyRequest_fromPartial CreatePolicyRequest_as_partial createBaseCreatePolicyRequest
     (\<lambda>_. True)"
  by (simp add: partial_faithful_def CreatePolicyRequest_create_empty CreatePolicyRequest_partial_back)
     (simp add: CreatePolicyRequest_create_def or_default_simps)

subsection \<open>CreatePolicyResponse\<close>

definition CreatePolicyResponse_fromJSON :: "json_lang \<Rightarrow> js \<Rightarrow> json_error + CreatePolicyResponse" where
  "CreatePolicyResponse_fromJSON L object =
     bindE (set_field L (js_string L) '''' [''id''] object) (\<lambda>v1.
       Inr \<lparr>CreatePolicyResponse_id = v1\<rparr>)"

definition CreatePolicyResponse_toJSON :: "json_lang \<Rightarrow> CreatePolicyResponse \<Rightarrow> json_error + js" where
  "CreatePolicyResponse_toJSON L m = json_object
     [(''id'', Inr (string_json (CreatePolicyResponse_id m)))]"

type_synonym CreatePolicyResponse_partial = "string option"

definition CreatePolicyResponse_fromPartial :: "CreatePolicyResponse_partial \<Rightarrow> CreatePolicyResponse" where
  "CreatePolicyResponse_fromPartial object =
     \<lparr>CreatePolicyResponse_id = or_default '''' object\<rparr>"

definition CreatePolicyResponse_create :: "CreatePolicyResponse_partial option \<Rightarrow> CreatePolicyResponse" where
  "CreatePolicyResponse_create base = CreatePolicyResponse_fromPartial (or_default (None) base)"

definition CreatePolicyResponse_as_partial :: "CreatePolicyResponse \<Rightarrow> CreatePolicyResponse_partial" where
  "CreatePolicyResponse_as_partial m = (Some (CreatePolicyResponse_id m))"

interpretation CreatePolicyResponse_json: json_message CreatePolicyResponse_toJSON CreatePolicyResponse_fromJSON "\<lambda>_. True"
  by unfold_locales (simp add: CreatePolicyResponse_toJSON_def CreatePolicyResponse_fromJSON_def json_back)

lemma CreatePolicyResponse_partial_back: "CreatePolicyResponse_fromPartial (CreatePolicyResponse_as_partial m) = m"
  by (simp add: CreatePolicyResponse_fromPartial_def CreatePolicyResponse_as_partial_def
       partial_simps)

lemma CreatePolicyResponse_create_empty: "CreatePolicyResponse_create None = createBaseCreatePolicyResponse"
  by (simp add: CreatePolicyResponse_create_def CreatePolicyResponse_fromPartial_def createBaseCreatePolicyResponse_def partial_simps)

lemma CreatePolicyResponse_partial_ok:
  "partial_faithful CreatePolicyResponse_create CreatePolicyResponse_fromPartial CreatePolicyResponse_as_partial createBaseCreatePolicyResponse
     (\<lambda>_. True)"
  by (simp add: partial_faithful_def CreatePolicyResponse_create_empty CreatePolicyResponse_partial_back)
     (simp add: CreatePolicyResponse_create_def or_default_simps)

subsection \<open>ListPoliciesRequest\<close>

definition ListPoliciesRequest_fromJSON :: "json_lang \<Rightarrow> js \<Rightarrow> json_error + ListPoliciesRequest" where
  "ListPoliciesRequest_fromJSON L object =
       Inr ()"

definition ListPoliciesRequest_toJSON :: "json_lang \<Rightarrow> ListPoliciesRequest \<Rightarrow> json_error + js" where
  "ListPoliciesRequest_toJSON L m = json_object
     []"

type_synonym ListPoliciesRequest_partial = "unit"

definition ListPoliciesRequest_fromPartial :: "ListPoliciesRequest_partial \<Rightarrow> ListPoliciesRequest" where
  "ListPoliciesRequest_fromPartial object = ()"

definition ListPoliciesRequest_create :: "ListPoliciesRequest_partial option \<Rightarrow> ListPoliciesRequest" where
  "ListPoliciesRequest_create base = ListPoliciesRequest_fromPartial (or_default () base)"

definition ListPoliciesRequest_as_partial :: "ListPoliciesRequest \<Rightarrow> ListPoliciesRequest_partial" where
  "ListPoliciesRequest_as_partial m = ()"

interpretation ListPoliciesRequest_json: json_message ListPoliciesRequest_toJSON ListPoliciesRequest_fromJSON "\<lambda>_. True"
  by unfold_locales (simp add: ListPoliciesRequest_toJSON_def ListPoliciesRequest_fromJSON_def json_back)

lemma ListPoliciesRequest_partial_back: "ListPoliciesRequest_fromPartial (ListPoliciesRequest_as_partial m) = m"
  by (simp add: ListPoliciesRequest_fromPartial_def ListPoliciesRequest_as_partial_def
       partial_simps)

lemma ListPoliciesRequest_create_empty: "ListPoliciesRequest_create None = createBaseListPoliciesRequest"
  by (simp add: ListPoliciesRequest_create_def ListPoliciesRequest_fromPartial_def createBaseListPoliciesRequest_def partial_simps)

lemma ListPoliciesRequest_partial_ok:
  "partial_faithful ListPoliciesRequest_create ListPoliciesRequest_fromPartial ListPoliciesRequest_as_partial createBaseListPoliciesRequest
     (\<lambda>_. True)"
  by (simp add: partial_faithful_def ListPoliciesRequest_create_empty ListPoliciesRequest_partial_back)

subsection \<open>PolicyInfo\<close>

definition PolicyInfo_fromJSON :: "json_lang \<Rightarrow> js \<Rightarrow> json_error + PolicyInfo" where
  "PolicyInfo_fromJSON L object =
     bindE (set_field L (js_string L) '''' [''id''] object) (\<lambda>v1.
     bindE (set_field L (js_string L) '''' [''spiffeId'', ''spiffe_id''] object) (\<lambda>v2.
     bindE (set_field L (js_string L) '''' [''namespace''] object) (\<lambda>v3.
     bindE (set_field L (js_string L) '''' [''pattern''] object) (\<lambda>v4.
     bindE (array_field L (js_string L) [''permissions''] object) (\<lambda>v5.
     bindE (set_field L (js_string L) '''' [''createdAt'', ''created_at''] object) (\<lambda>v6.
       Inr \<lparr>PolicyInfo_id = v1,
            PolicyInfo_spiffeId = v2,
            PolicyInfo_namespace = v3,
            PolicyInfo_pattern = v4,
            PolicyInfo_permissions = v5,
            PolicyInfo_createdAt = v6\<rparr>))))))"

definition PolicyInfo_toJSON :: "json_lang \<Rightarrow> PolicyInfo \<Rightarrow> json_error + js" where
  "PolicyInfo_toJSON L m = json_object
     [(''id'', Inr (string_json (PolicyInfo_id m))),
      (''spiffeId'', Inr (string_json (PolicyInfo_spiffeId m))),
      (''namespace'', Inr (string_json (PolicyInfo_namespace m))),
      (''pattern'', Inr (string_json (PolicyInfo_pattern m))),
      (''permissions'', Inr (strings_json (PolicyInfo_permissions m))),
      (''createdAt'', Inr (string_json (PolicyInfo_createdAt m)))]"

type_synonym PolicyInfo_partial = "string option \<times> string option \<times> string option \<times> string option \<times> string list option \<times> string option"

definition PolicyInfo_fromPartial :: "PolicyInfo_partial \<Rightarrow> PolicyInfo" where
  "PolicyInfo_fromPartial object =
     (case object of (p1, p2, p3, p4, p5, p6) \<Rightarrow>
       \<lparr>PolicyInfo_id = or_default '''' p1,
        PolicyInfo_spiffeId = or_default '''' p2,
        PolicyInfo_namespace = or_default '''' p3,
        PolicyInfo_pattern = or_default '''' p4,
        PolicyInfo_permissions = or_default [] p5,
        PolicyInfo_createdAt = or_default '''' p6\<rparr>)"

definition PolicyInfo_create :: "PolicyInfo_partial option \<Rightarrow> PolicyInfo" where
  "PolicyInfo_create base = PolicyInfo_fromPartial (or_default (None, None, None, None, None, None) base)"

definition PolicyInfo_as_partial :: "PolicyInfo \<Rightarrow> PolicyInfo_partial" where
  "PolicyInfo_as_partial m = (Some (PolicyInfo_id m), Some (PolicyInfo_spiffeId m), Some (PolicyInfo_namespace m), Some (PolicyInfo_pattern m), Some (PolicyInfo_permissions m), Some (PolicyInfo_createdAt m))"

interpretation PolicyInfo_json: json_message PolicyInfo_toJSON PolicyInfo_fromJSON "\<lambda>_. True"
  by unfold_locales (simp add: PolicyInfo_toJSON_def PolicyInfo_fromJSON_def json_back)

lemma PolicyInfo_partial_back: "PolicyInfo_fromPartial (PolicyInfo_as_partial m) = m"
  by (simp add: PolicyInfo_fromPartial_def PolicyInfo_as_partial_def partial_simps)

lemma PolicyInfo_create_empty: "PolicyInfo_create None = createBasePolicyInfo"
  by (simp add: PolicyInfo_create_def PolicyInfo_fromPartial_def createBasePolicyInfo_def partial_simps)

lemma PolicyInfo_partial_ok:
  "partial_faithful PolicyInfo_create PolicyInfo_fromPartial PolicyInfo_as_partial createBasePolicyInfo
     (\<lambda>_. True)"
  by (simp add: partial_faithful_def PolicyInfo_create_empty PolicyInfo_partial_back)
     (simp add: PolicyInfo_create_def or_default_simps)

subsection \<open>ListPoliciesResponse\<close>

definition ListPoliciesResponse_fromJSON :: "json_lang \<Rightarrow> js \<Rightarrow> json_error + ListPoliciesResponse" where
  "ListPoliciesResponse_fromJSON L object =
     bindE (array_field L (PolicyInfo_fromJSON L) [''policies''] object) (\<lambda>v1.
       Inr \<lparr>ListPoliciesResponse_policies = v1\<rparr>)"

definition ListPoliciesResponse_toJSON :: "json_lang \<Rightarrow> ListPoliciesResponse \<Rightarrow> json_error + js" where
  "ListPoliciesResponse_toJSON L m = json_object
     [(''policies'', list_json (PolicyInfo_toJSON L) (ListPoliciesResponse_policies m))]"

type_synonym ListPoliciesResponse_partial = "PolicyInfo_partial list option"

definition ListPoliciesResponse_fromPartial :: "ListPoliciesResponse_partial \<Rightarrow> ListPoliciesResponse" where
  "ListPoliciesResponse_fromPartial object =
     \<lparr>ListPoliciesResponse_policies = or_default [] (map_option (map PolicyInfo_fromPartial) object)\<rparr>"

definition ListPoliciesResponse_create :: "ListPoliciesResponse_partial option \<Rightarrow> ListPoliciesResponse" where
  "ListPoliciesResponse_create base = ListPoliciesResponse_fromPartial (or_default (None) base)"

definition ListPoliciesResponse_as_partial :: "ListPoliciesResponse \<Rightarrow> ListPoliciesResponse_partial" where
  "ListPoliciesResponse_as_partial m = (Some (map PolicyInfo_as_partial (ListPoliciesResponse_policies m)))"

interpretation ListPoliciesResponse_json: json_message ListPoliciesResponse_toJSON ListPoliciesResponse_fromJSON "\<lambda>_. True"
proof
  fix L :: json_lang and m :: ListPoliciesResponse
  assume ok: "lang_ok L" "(\<lambda>_. True) m"
  obtain v1 where v1: "list_json (PolicyInfo_toJSON L) (ListPoliciesResponse_policies m) = Inr v1"
    "pick_if is_array (map_array (PolicyInfo_fromJSON L)) v1 (Inr []) = Inr (ListPoliciesResponse_policies m)"
    using PolicyInfo_json.list_back [of L "ListPoliciesResponse_policies m"] ok by (auto simp: all_true)
  with ok show "\<exists>ob. ListPoliciesResponse_toJSON L m = Inr (JObject ob) \<and> ListPoliciesResponse_fromJSON L (JObject ob) = Inr m"
    by (simp add: ListPoliciesResponse_toJSON_def ListPoliciesResponse_fromJSON_def json_back)
qed

lemma ListPoliciesResponse_partial_back: "ListPoliciesResponse_fromPartial (ListPoliciesResponse_as_partial m) = m"
  by (simp add: ListPoliciesResponse_fromPartial_def ListPoliciesResponse_as_partial_def
       partial_simps PolicyInfo_partial_back)

lemma ListPoliciesResponse_create_empty: "ListPoliciesResponse_create None = createBaseListPoliciesResponse"
  by (simp add: ListPoliciesResponse_create_def ListPoliciesResponse_fromPartial_def createBaseListPoliciesResponse_def partial_simps)

lemma ListPoliciesResponse_partial_ok:
  "partial_faithful ListPoliciesResponse_create ListPoliciesResponse_fromPartial ListPoliciesResponse_as_partial createBaseListPoliciesResponse
     (\<lambda>_. True)"
  by (simp add: partial_faithful_def ListPoliciesResponse_create_empty ListPoliciesResponse_partial_back)
     (simp add: ListPoliciesResponse_create_def or_default_simps)

subsection \<open>DeletePolicyRequest\<close>

definition DeletePolicyRequest_fromJSON :: "json_lang \<Rightarrow> js \<Rightarrow> json_error + DeletePolicyRequest" where
  "DeletePolicyRequest_fromJSON L object =
     bindE (set_field L (js_string L) '''' [''id''] object) (\<lambda>v1.
       Inr \<lparr>DeletePolicyRequest_id = v1\<rparr>)"

definition DeletePolicyRequest_toJSON :: "json_lang \<Rightarrow> DeletePolicyRequest \<Rightarrow> json_error + js" where
  "DeletePolicyRequest_toJSON L m = json_object
     [(''id'', Inr (string_json (DeletePolicyRequest_id m)))]"

type_synonym DeletePolicyRequest_partial = "string option"

definition DeletePolicyRequest_fromPartial :: "DeletePolicyRequest_partial \<Rightarrow> DeletePolicyRequest" where
  "DeletePolicyRequest_fromPartial object =
     \<lparr>DeletePolicyRequest_id = or_default '''' object\<rparr>"

definition DeletePolicyRequest_create :: "DeletePolicyRequest_partial option \<Rightarrow> DeletePolicyRequest" where
  "DeletePolicyRequest_create base = DeletePolicyRequest_fromPartial (or_default (None) base)"

definition DeletePolicyRequest_as_partial :: "DeletePolicyRequest \<Rightarrow> DeletePolicyRequest_partial" where
  "DeletePolicyRequest_as_partial m = (Some (DeletePolicyRequest_id m))"

interpretation DeletePolicyRequest_json: json_message DeletePolicyRequest_toJSON DeletePolicyRequest_fromJSON "\<lambda>_. True"
  by unfold_locales (simp add: DeletePolicyRequest_toJSON_def DeletePolicyRequest_fromJSON_def json_back)

lemma DeletePolicyRequest_partial_back: "DeletePolicyRequest_fromPartial (DeletePolicyRequest_as_partial m) = m"
  by (simp add: DeletePolicyRequest_fromPartial_def DeletePolicyRequest_as_partial_def
       partial_simps)

lemma DeletePolicyRequest_create_empty: "DeletePolicyRequest_create None = createBaseDeletePolicyRequest"
  by (simp add: DeletePolicyRequest_create_def DeletePolicyRequest_fromPartial_def createBaseDeletePolicyRequest_def partial_simps)

lemma DeletePolicyRequest_partial_ok:
  "partial_faithful DeletePolicyRequest_create DeletePolicyRequest_fromPartial DeletePolicyRequest_as_partial createBaseDeletePolicyRequest
     (\<lambda>_. True)"
  by (simp add: partial_faithful_def DeletePolicyRequest_create_empty DeletePolicyRequest_partial_back)
     (simp add: DeletePolicyRequest_create_def or_default_simps)

subsection \<open>DeletePolicyResponse\<close>

definition DeletePolicyResponse_fromJSON :: "json_lang \<Rightarrow> js \<Rightarrow> json_error + DeletePolicyResponse" where
  "DeletePolicyResponse_fromJSON L object =
     bindE (set_field L (js_string L) '''' [''message''] object) (\<lambda>v1.
       Inr \<lparr>DeletePolicyResponse_message = v1\<rparr>)"

definition DeletePolicyResponse_toJSON :: "json_lang \<Rightarrow> DeletePolicyResponse \<Rightarrow> json_error + js" where
  "DeletePolicyResponse_toJSON L m = json_object
     [(''message'', Inr (string_json (DeletePolicyResponse_message m)))]"

type_synonym DeletePolicyResponse_partial = "string option"

definition DeletePolicyResponse_fromPartial :: "DeletePolicyResponse_partial \<Rightarrow> DeletePolicyResponse" where
  "DeletePolicyResponse_fromPartial object =
     \<lparr>DeletePolicyResponse_message = or_default '''' object\<rparr>"

definition DeletePolicyResponse_create :: "DeletePolicyResponse_partial option \<Rightarrow> DeletePolicyResponse" where
  "DeletePolicyResponse_create base = DeletePolicyResponse_fromPartial (or_default (None) base)"

definition DeletePolicyResponse_as_partial :: "DeletePolicyResponse \<Rightarrow> DeletePolicyResponse_partial" where
  "DeletePolicyResponse_as_partial m = (Some (DeletePolicyResponse_message m))"

interpretation DeletePolicyResponse_json: json_message DeletePolicyResponse_toJSON DeletePolicyResponse_fromJSON "\<lambda>_. True"
  by unfold_locales (simp add: DeletePolicyResponse_toJSON_def DeletePolicyResponse_fromJSON_def json_back)

lemma DeletePolicyResponse_partial_back: "DeletePolicyResponse_fromPartial (DeletePolicyResponse_as_partial m) = m"
  by (simp add: DeletePolicyResponse_fromPartial_def DeletePolicyResponse_as_partial_def
       partial_simps)

lemma DeletePolicyResponse_create_empty: "DeletePolicyResponse_create None = createBaseDeletePolicyResponse"
  by (simp add: DeletePolicyResponse_create_def DeletePolicyResponse_fromPartial_def createBaseDeletePolicyResponse_def partial_simps)

lemma DeletePolicyResponse_partial_ok:
  "partial_faithful DeletePolicyResponse_create DeletePolicyResponse_fromPartial DeletePolicyResponse_as_partial createBaseDeletePolicyResponse
     (\<lambda>_. True)"
  by (simp add: partial_faithful_def DeletePolicyResponse_create_empty DeletePolicyResponse_partial_back)
     (simp add: DeletePolicyResponse_create_def or_default_simps)

subsection \<open>DeleteSecretRequest\<close>

definition DeleteSecretRequest_fromJSON :: "json_lang \<Rightarrow> js \<Rightarrow> json_error + DeleteSecretRequest" where
  "DeleteSecretRequest_fromJSON L object =
     bindE (set_field L (js_string L) '''' [''namespace''] object) (\<lambda>v1.
     bindE (set_field L (js_string L) '''' [''service''] object) (\<lambda>v2.
     bindE (set_field L (js_string L) '''' [''secretName'', ''secret_name''] object) (\<lambda>v3.
       Inr \<lparr>DeleteSecretRequest_namespace = v1,
            DeleteSecretRequest_service = v2,
            DeleteSecretRequest_secretName = v3\<rparr>)))"

definition DeleteSecretRequest_toJSON :: "json_lang \<Rightarrow> DeleteSecretRequest \<Rightarrow> json_error + js" where
  "DeleteSecretRequest_toJSON L m = json_object
     [(''namespace'', Inr (string_json (DeleteSecretRequest_namespace m))),
      (''service'', Inr (string_json (DeleteSecretRequest_service m))),
      (''secretName'', Inr (string_json (DeleteSecretRequest_secretName m)))]"

type_synonym DeleteSecretRequest_partial = "string option \<times> string option \<times> string option"

definition DeleteSecretRequest_fromPartial :: "DeleteSecretRequest_partial \<Rightarrow> DeleteSecretRequest" where
  "DeleteSecretRequest_fromPartial object =
     (case object of (p1, p2, p3) \<Rightarrow>
       \<lparr>DeleteSecretRequest_namespace = or_default '''' p1,
        DeleteSecretRequest_service = or_default '''' p2,
        DeleteSecretRequest_secretName = or_default '''' p3\<rparr>)"

definition DeleteSecretRequest_create :: "DeleteSecretRequest_partial option \<Rightarrow> DeleteSecretRequest" where
  "DeleteSecretRequest_create base = DeleteSecretRequest_fromPartial (or_default (None, None, None) base)"

definition DeleteSecretRequest_as_partial :: "DeleteSecretRequest \<Rightarrow> DeleteSecretRequest_partial" where
  "DeleteSecretRequest_as_partial m = (Some (DeleteSecretRequest_namespace m), Some (DeleteSecretRequest_service m), Some (DeleteSecretRequest_secretName m))"

interpretation DeleteSecretRequest_json: json_message DeleteSecretRequest_toJSON DeleteSecretRequest_fromJSON "\<lambda>_. True"
  by unfold_locales (simp add: DeleteSecretRequest_toJSON_def DeleteSecretRequest_fromJSON_def json_back)

lemma DeleteSecretRequest_partial_back: "DeleteSecretRequest_fromPartial (DeleteSecretRequest_as_partial m) = m"
  by (simp add: DeleteSecretRequest_fromPartial_def DeleteSecretRequest_as_partial_def
       partial_simps)

lemma DeleteSecretRequest_create_empty: "DeleteSecretRequest_create None = createBaseDeleteSecretRequest"
  by (simp add: DeleteSecretRequest_create_def DeleteSecretRequest_fromPartial_def createBaseDeleteSecretRequest_def partial_simps)

lemma DeleteSecretRequest_partial_ok:
  "partial_faithful DeleteSecretRequest_create DeleteSecretRequest_fromPartial DeleteSecretRequest_as_partial createBaseDeleteSecretRequest
     (\<lambda>_. True)"
  by (simp add: partial_faithful_def DeleteSecretRequest_create_empty DeleteSecretRequest_partial_back)
     (simp add: DeleteSecretRequest_create_def or_default_simps)

subsection \<open>DeleteSecretResponse\<close>

definition DeleteSecretResponse_fromJSON :: "json_lang \<Rightarrow> js \<Rightarrow> json_error + DeleteSecretResponse" where
  "DeleteSecretResponse_fromJSON L object =
     bindE (set_field L (js_string L) '''' [''message''] object) (\<lambda>v1.
       Inr \<lparr>DeleteSecretResponse_message = v1\<rparr>)"

definition DeleteSecretResponse_toJSON :: "json_lang \<Rightarrow> DeleteSecretResponse \<Rightarrow> json_error + js" where
  "DeleteSecretResponse_toJSON L m = json_object
     [(''message'', Inr (string_json (DeleteSecretResponse_message m)))]"

type_synonym DeleteSecretResponse_partial = "string option"

definition DeleteSecretResponse_fromPartial :: "DeleteSecretResponse_partial \<Rightarrow> DeleteSecretResponse" where
  "DeleteSecretResponse_fromPartial object =
     \<lparr>DeleteSecretResponse_message = or_default '''' object\<rparr>"

definition DeleteSecretResponse_create :: "DeleteSecretResponse_partial option \<Rightarrow> DeleteSecretResponse" where
  "DeleteSecretResponse_create base = DeleteSecretResponse_fromPartial (or_default (None) base)"

definition DeleteSecretResponse_as_partial :: "DeleteSecretResponse \<Rightarrow> DeleteSecretResponse_partial" where
  "DeleteSecretResponse_as_partial m = (Some (DeleteSecretResponse_message m))"

interpretation DeleteSecretResponse_json: json_message DeleteSecretResponse_toJSON DeleteSecretResponse_fromJSON "\<lambda>_. True"
  by unfold_locales (simp add: DeleteSecretResponse_toJSON_def DeleteSecretResponse_fromJSON_def json_back)

lemma DeleteSecretResponse_partial_back: "DeleteSecretResponse_fromPartial (DeleteSecretResponse_as_partial m) = m"
  by (simp add: DeleteSecretResponse_fromPartial_def DeleteSecretResponse_as_partial_def
       partial_simps)

lemma DeleteSecretResponse_create_empty: "DeleteSecretResponse_create None = createBaseDeleteSecretResponse"
  by (simp add: DeleteSecretResponse_create_def DeleteSecretResponse_fromPartial_def createBaseDeleteSecretResponse_def partial_simps)

lemma DeleteSecretResponse_partial_ok:
  "partial_faithful DeleteSecretResponse_create DeleteSecretResponse_fromPartial DeleteSecretResponse_as_partial createBaseDeleteSecretResponse
     (\<lambda>_. True)"
  by (simp add: partial_faithful_def DeleteSecretResponse_create_empty DeleteSecretResponse_partial_back)
     (simp add: DeleteSecretResponse_create_def or_default_simps)

subsection \<open>DeleteConfigRequest\<close>

definition DeleteConfigRequest_fromJSON :: "json_lang \<Rightarrow> js \<Rightarrow> json_error + DeleteConfigRequest" where
  "DeleteConfigRequest_fromJSON L object =
     bindE (set_field L (js_string L) '''' [''namespace''] object) (\<lambda>v1.
     bindE (set_field L (js_string L) '''' [''service''] object) (\<lambda>v2.
       Inr \<lparr>DeleteConfigRequest_namespace = v1,
            DeleteConfigRequest_service = v2\<rparr>))"

definition DeleteConfigRequest_toJSON :: "json_lang \<Rightarrow> DeleteConfigRequest \<Rightarrow> json_error + js" where
  "DeleteConfigRequest_toJSON L m = json_object
     [(''namespace'', Inr (string_json (DeleteConfigRequest_namespace m))),
      (''service'', Inr (string_json (DeleteConfigRequest_service m)))]"

type_synonym DeleteConfigRequest_partial = "string option \<times> string option"

definition DeleteConfigRequest_fromPartial :: "DeleteConfigRequest_partial \<Rightarrow> DeleteConfigRequest" where
  "DeleteConfigRequest_fromPartial object =
     (case object of (p1, p2) \<Rightarrow>
       \<lparr>DeleteConfigRequest_namespace = or_default '''' p1,
        DeleteConfigRequest_service = or_default '''' p2\<rparr>)"

definition DeleteConfigRequest_create :: "DeleteConfigRequest_partial option \<Rightarrow> DeleteConfigRequest" where
  "DeleteConfigRequest_create base = DeleteConfigRequest_fromPartial (or_default (None, None) base)"

definition DeleteConfigRequest_as_partial :: "DeleteConfigRequest \<Rightarrow> DeleteConfigRequest_partial" where
  "DeleteConfigRequest_as_partial m = (Some (DeleteConfigRequest_namespace m), Some (DeleteConfigRequest_service m))"

interpretation DeleteConfigRequest_json: json_message DeleteConfigRequest_toJSON DeleteConfigRequest_fromJSON "\<lambda>_. True"
  by unfold_locales (simp add: DeleteConfigRequest_toJSON_def DeleteConfigRequest_fromJSON_def json_back)

lemma DeleteConfigRequest_partial_back: "DeleteConfigRequest_fromPartial (DeleteConfigRequest_as_partial m) = m"
  by (simp add: DeleteConfigRequest_fromPartial_def DeleteConfigRequest_as_partial_def
       partial_simps)

lemma DeleteConfigRequest_create_empty: "DeleteConfigRequest_create None = createBaseDeleteConfigRequest"
  by (simp add: DeleteConfigRequest_create_def DeleteConfigRequest_fromPartial_def createBaseDeleteConfigRequest_def partial_simps)

lemma DeleteConfigRequest_partial_ok:
  "partial_faithful DeleteConfigRequest_create DeleteConfigRequest_fromPartial DeleteConfigRequest_as_partial createBaseDeleteConfigRequest
     (\<lambda>_. True)"
  by (simp add: partial_faithful_def DeleteConfigRequest_create_empty DeleteConfigRequest_partial_back)
     (simp add: DeleteConfigRequest_create_def or_default_simps)

subsection \<open>DeleteConfigResponse\<close>

definition DeleteConfigResponse_fromJSON :: "json_lang \<Rightarrow> js \<Rightarrow> json_error + DeleteConfigResponse" where
  "DeleteConfigResponse_fromJSON L object =
     bindE (set_field L (js_string L) '''' [''message''] object) (\<lambda>v1.
       Inr \<lparr>DeleteConfigResponse_message = v1\<rparr>)"

definition DeleteConfigResponse_toJSON :: "json_lang \<Rightarrow> DeleteConfigResponse \<Rightarrow> json_error + js" where
  "DeleteConfigResponse_toJSON L m = json_object
     [(''message'', Inr (string_json (DeleteConfigResponse_message m)))]"

type_synonym DeleteConfigResponse_partial = "string option"

definition DeleteConfigResponse_fromPartial :: "DeleteConfigResponse_partial \<Rightarrow> DeleteConfigResponse" where
  "DeleteConfigResponse_fromPartial object =
     \<lparr>DeleteConfigResponse_message = or_default '''' object\<rparr>"

definition DeleteConfigResponse_create :: "DeleteConfigResponse_partial option \<Rightarrow> DeleteConfigResponse" where
  "DeleteConfigResponse_create base = DeleteConfigResponse_fromPartial (or_default (None) base)"

definition DeleteConfigResponse_as_partial :: "DeleteConfigResponse \<Rightarrow> DeleteConfigResponse_partial" where
  "DeleteConfigResponse_as_partial m = (Some (DeleteConfigResponse_message m))"

interpretation DeleteConfigResponse_json: json_message DeleteConfigResponse_toJSON DeleteConfigResponse_fromJSON "\<lambda>_. True"
  by unfold_locales (simp add: DeleteConfigResponse_toJSON_def DeleteConfigResponse_fromJSON_def json_back)

lemma DeleteConfigResponse_partial_back: "DeleteConfigResponse_fromPartial (DeleteConfigResponse_as_partial m) = m"
  by (simp add: DeleteConfigResponse_fromPartial_def DeleteConfigResponse_as_partial_def
       partial_simps)

lemma DeleteConfigResponse_create_empty: "DeleteConfigResponse_create None = createBaseDeleteConfigResponse"
  by (simp add: DeleteConfigResponse_create_def DeleteConfigResponse_fromPartial_def createBaseDeleteConfigResponse_def partial_simps)

lemma DeleteConfigResponse_partial_ok:
  "partial_faithful DeleteConfigResponse_create DeleteConfigResponse_fromPartial DeleteConfigResponse_as_partial createBaseDeleteConfigResponse
     (\<lambda>_. True)"
  by (simp add: partial_faithful_def DeleteConfigResponse_create_empty DeleteConfigResponse_partial_back)
     (simp add: DeleteConfigResponse_create_def or_default_simps)

text \<open>The round trips, and the completions of partial messages, of this theory.\<close>

lemmas AdminPolicyJson_faithful =
      CreatePolicyRequest_json.faithful CreatePolicyResponse_json.faithful
      ListPoliciesRequest_json.faithful PolicyInfo_json.faithful
      ListPoliciesResponse_json.faithful DeletePolicyRequest_json.faithful
      DeletePolicyResponse_json.faithful DeleteSecretRequest_json.faithful
      DeleteSecretResponse_json.faithful DeleteConfigRequest_json.faithful
      DeleteConfigResponse_json.faithful

lemmas AdminPolicyJson_completed =
      CreatePolicyRequest_partial_ok CreatePolicyResponse_partial_ok
      ListPoliciesRequest_partial_ok PolicyInfo_partial_ok ListPoliciesResponse_partial_ok
      DeletePolicyRequest_partial_ok DeletePolicyResponse_partial_ok
      DeleteSecretRequest_partial_ok DeleteSecretResponse_partial_ok
      DeleteConfigRequest_partial_ok DeleteConfigResponse_partial_ok

end
