(* ===== verification/AdminSopsJson.thy ===== *)
theory AdminSopsJson
  imports AdminSopsMessages JsonCodec
begin

text \<open>
  \<open>fromJSON\<close>, \<open>toJSON\<close>, \<open>fromPartial\<close> and \<open>create\<close> of the messages of \<open>AdminSopsMessages\<close>, as
  \<open>src/gen/admin/v1/admin.ts\<close> has them, and the enumerations they mention. Each message is shown to
  keep the contract \<open>json_message\<close>: what \<open>toJSON\<close> writes, \<open>fromJSON\<close> reads back. \<open>\<dots>_as_partial\<close> is
  a message seen as a partial one; \<open>fromPartial\<close> gives it back.
\<close>

subsection \<open>GetSOPSPublicKeyRequest\<close>

definition GetSOPSPublicKeyRequest_fromJSON :: "json_lang \<Rightarrow> js \<Rightarrow> json_error + GetSOPSPublicKeyRequest" where
  "GetSOPSPublicKeyRequest_fromJSON L object =
       Inr ()"

definition GetSOPSPublicKeyRequest_toJSON :: "json_lang \<Rightarrow> GetSOPSPublicKeyRequest \<Rightarrow> json_error + js" where
  "GetSOPSPublicKeyRequest_toJSON L m = json_object
     []"

type_synonym GetSOPSPublicKeyRequest_partial = "unit"

definition GetSOPSPublicKeyRequest_fromPartial :: "GetSOPSPublicKeyRequest_partial \<Rightarrow> GetSOPSPublicKeyRequest" where
  "GetSOPSPublicKeyRequest_fromPartial object = ()"

definition GetSOPSPublicKeyRequest_create :: "GetSOPSPublicKeyRequest_partial option \<Rightarrow> GetSOPSPublicKeyRequest" where
  "GetSOPSPublicKeyRequest_create base = GetSOPSPublicKeyRequest_fromPartial (or_default () base)"

definition GetSOPSPublicKeyRequest_as_partial :: "GetSOPSPublicKeyRequest \<Rightarrow> GetSOPSPublicKeyRequest_partial" where
  "GetSOPSPublicKeyRequest_as_partial m = ()"

interpretation GetSOPSPublicKeyRequest_json: json_message GetSOPSPublicKeyRequest_toJSON GetSOPSPublicKeyRequest_fromJSON "\<lambda>_. True"
  by unfold_locales (simp add: GetSOPSPublicKeyRequest_toJSON_def GetSOPSPublicKeyRequest_fromJSON_def
       json_back)

lemma GetSOPSPublicKeyRequest_partial_back: "GetSOPSPublicKeyRequest_fromPartial (GetSOPSPublicKeyRequest_as_partial m) = m"
  by (simp add: GetSOPSPublicKeyRequest_fromPartial_def GetSOPSPublicKeyRequest_as_partial_def
       partial_simps)

lemma GetSOPSPublicKeyRequest_create_empty: "GetSOPSPublicKeyRequest_create None = createBaseGetSOPSPublicKeyRequest"
  by (simp add: GetSOPSPublicKeyRequest_create_def GetSOPSPublicKeyRequest_fromPartial_def createBaseGetSOPSPublicKeyRequest_def partial_simps)

lemma GetSOPSPublicKeyRequest_partial_ok:
  "partial_faithful GetSOPSPublicKeyRequest_create GetSOPSPublicKeyRequest_fromPartial GetSOPSPublicKeyRequest_as_partial createBaseGetSOPSPublicKeyRequest
     (\<lambda>_. True)"
  by (simp add: partial_faithful_def GetSOPSPublicKeyRequest_create_empty GetSOPSPublicKeyRequest_partial_back)

subsection \<open>GetSOPSPublicKeyResponse\<close>

definition GetSOPSPublicKeyResponse_fromJSON :: "json_lang \<Rightarrow> js \<Rightarrow> json_error + GetSOPSPublicKeyResponse" where
  "GetSOPSPublicKeyResponse_fromJSON L object =
     bindE (set_field L (js_string L) '''' [''publicKey'', ''public_key''] object) (\<lambda>v1.
     bindE (set_field L (js_string L) '''' [''fingerprint''] object) (\<lambda>v2.
     bindE (set_field L (js_string L) '''' [''createdAt'', ''created_at''] object) (\<lambda>v3.
     bindE (set_field L (js_string L) '''' [''environment''] object) (\<lambda>v4.
       Inr \<lparr>GetSOPSPublicKeyResponse_publicKey = v1,
            GetSOPSPublicKeyResponse_fingerprint = v2,
            GetSOPSPublicKeyResponse_createdAt = v3,
            GetSOPSPublicKeyResponse_environment = v4\<rparr>))))"

definition GetSOPSPublicKeyResponse_toJSON :: "json_lang \<Rightarrow> GetSOPSPublicKeyResponse \<Rightarrow> json_error + js" where
  "GetSOPSPublicKeyResponse_toJSON L m = json_object
     [(''publicKey'', Inr (string_json (GetSOPSPublicKeyResponse_publicKey m))),
      (''fingerprint'', Inr (string_json (GetSOPSPublicKeyResponse_fingerprint m))),
      (''createdAt'', Inr (string_json (GetSOPSPublicKeyResponse_createdAt m))),
      (''environment'', Inr (string_json (GetSOPSPublicKeyResponse_environment m)))]"

type_synonym GetSOPSPublicKeyResponse_partial = "string option \<times> string option \<times> string option \<times> string option"

definition GetSOPSPublicKeyResponse_fromPartial :: "GetSOPSPublicKeyResponse_partial \<Rightarrow> GetSOPSPublicKeyResponse" where
  "GetSOPSPublicKeyResponse_fromPartial object =
     (case object of (p1, p2, p3, p4) \<Rightarrow>
       \<lparr>GetSOPSPublicKeyResponse_publicKey = or_default '''' p1,
        GetSOPSPublicKeyResponse_fingerprint = or_default '''' p2,
        GetSOPSPublicKeyResponse_createdAt = or_default '''' p3,
        GetSOPSPublicKeyResponse_environment = or_default '''' p4\<rparr>)"

definition GetSOPSPublicKeyResponse_create :: "GetSOPSPublicKeyResponse_partial option \<Rightarrow> GetSOPSPublicKeyResponse" where
  "GetSOPSPublicKeyResponse_create base = GetSOPSPublicKeyResponse_fromPartial (or_default (None, None, None, None) base)"

definition GetSOPSPublicKeyResponse_as_partial :: "GetSOPSPublicKeyResponse \<Rightarrow> GetSOPSPublicKeyResponse_partial" where
  "GetSOPSPublicKeyResponse_as_partial m = (Some (GetSOPSPublicKeyResponse_publicKey m), Some (GetSOPSPublicKeyResponse_fingerprint m), Some (GetSOPSPublicKeyResponse_createdAt m), Some (GetSOPSPublicKeyResponse_environment m))"

interpretation GetSOPSPublicKeyResponse_json: json_message GetSOPSPublicKeyResponse_toJSON GetSOPSPublicKeyResponse_fromJSON "\<lambda>_. True"
  by unfold_locales (simp add: GetSOPSPublicKeyResponse_toJSON_def GetSOPSPublicKeyResponse_fromJSON_def
       json_back)

lemma GetSOPSPublicKeyResponse_partial_back: "GetSOPSPublicKeyResponse_fromPartial (GetSOPSPublicKeyResponse_as_partial m) = m"
  by (simp add: GetSOPSPublicKeyResponse_fromPartial_def
       GetSOPSPublicKeyResponse_as_partial_def partial_simps)

lemma GetSOPSPublicKeyResponse_create_empty: "GetSOPSPublicKeyResponse_create None = createBaseGetSOPSPublicKeyResponse"
  by (simp add: GetSOPSPublicKeyResponse_create_def GetSOPSPublicKeyResponse_fromPartial_def createBaseGetSOPSPublicKeyResponse_def partial_simps)

lemma GetSOPSPublicKeyResponse_partial_ok:
  "partial_faithful GetSOPSPublicKeyResponse_create GetSOPSPublicKeyResponse_fromPartial GetSOPSPublicKeyResponse_as_partial createBaseGetSOPSPublicKeyResponse
     (\<lambda>_. True)"
  by (simp add: partial_faithful_def GetSOPSPublicKeyResponse_create_empty GetSOPSPublicKeyResponse_partial_back)
     (simp add: GetSOPSPublicKeyResponse_create_def or_default_simps)

subsection \<open>RotateSOPSKeyRequest\<close>

definition RotateSOPSKeyRequest_fromJSON :: "json_lang \<Rightarrow> js \<Rightarrow> json_error + RotateSOPSKeyRequest" where
  "RotateSOPSKeyRequest_fromJSON L object =
       Inr ()"

definition RotateSOPSKeyRequest_toJSON :: "json_lang \<Rightarrow> RotateSOPSKeyRequest \<Rightarrow> json_error + js" where
  "RotateSOPSKeyRequest_toJSON L m = json_object
     []"

type_synonym RotateSOPSKeyRequest_partial = "unit"

definition RotateSOPSKeyRequest_fromPartial :: "RotateSOPSKeyRequest_partial \<Rightarrow> RotateSOPSKeyRequest" where
  "RotateSOPSKeyRequest_fromPartial object = ()"

definition RotateSOPSKeyRequest_create :: "RotateSOPSKeyRequest_partial option \<Rightarrow> RotateSOPSKeyRequest" where
  "RotateSOPSKeyRequest_create base = RotateSOPSKeyRequest_fromPartial (or_default () base)"

definition RotateSOPSKeyRequest_as_partial :: "RotateSOPSKeyRequest \<Rightarrow> RotateSOPSKeyRequest_partial" where
  "RotateSOPSKeyRequest_as_partial m = ()"

interpretation RotateSOPSKeyRequest_json: json_message RotateSOPSKeyRequest_toJSON RotateSOPSKeyRequest_fromJSON "\<lambda>_. True"
  by unfold_locales (simp add: RotateSOPSKeyRequest_toJSON_def RotateSOPSKeyRequest_fromJSON_def json_back)

lemma RotateSOPSKeyRequest_partial_back: "RotateSOPSKeyRequest_fromPartial (RotateSOPSKeyRequest_as_partial m) = m"
  by (simp add: RotateSOPSKeyRequest_fromPartial_def RotateSOPSKeyRequest_as_partial_def
       partial_simps)

lemma RotateSOPSKeyRequest_create_empty: "RotateSOPSKeyRequest_create None = createBaseRotateSOPSKeyRequest"
  by (simp add: RotateSOPSKeyRequest_create_def RotateSOPSKeyRequest_fromPartial_def createBaseRotateSOPSKeyRequest_def partial_simps)

lemma RotateSOPSKeyRequest_partial_ok:
  "partial_faithful RotateSOPSKeyRequest_create RotateSOPSKeyRequest_fromPartial RotateSOPSKeyRequest_as_partial createBaseRotateSOPSKeyRequest
     (\<lambda>_. True)"
  by (simp add: partial_faithful_def RotateSOPSKeyRequest_create_empty RotateSOPSKeyRequest_partial_back)

subsection \<open>RotateSOPSKeyResponse\<close>

definition RotateSOPSKeyResponse_fromJSON :: "json_lang \<Rightarrow> js \<Rightarrow> json_error + RotateSOPSKeyResponse" where
  "RotateSOPSKeyResponse_fromJSON L object =
     bindE (set_field L (js_string L) '''' [''newPublicKey'', ''new_public_key''] object) (\<lambda>v1.
     bindE (set_field L (js_string L) '''' [''newFingerprint'', ''new_fingerprint''] object) (\<lambda>v2.
     bindE (set_field L (js_string L) '''' [''oldPublicKey'', ''old_public_key''] object) (\<lambda>v3.
     bindE (set_field L (js_string L) '''' [''newEnvironment'', ''new_environment''] object) (\<lambda>v4.
       Inr \<lparr>RotateSOPSKeyResponse_newPublicKey = v1,
            RotateSOPSKeyResponse_newFingerprint = v2,
            RotateSOPSKeyResponse_oldPublicKey = v3,
            RotateSOPSKeyResponse_newEnvironment = v4\<rparr>))))"

definition RotateSOPSKeyResponse_toJSON :: "json_lang \<Rightarrow> RotateSOPSKeyResponse \<Rightarrow> json_error + js" where
  "RotateSOPSKeyResponse_toJSON L m = json_object
     [(''newPublicKey'', Inr (string_json (RotateSOPSKeyResponse_newPublicKey m))),
      (''newFingerprint'', Inr (string_json (RotateSOPSKeyResponse_newFingerprint m))),
      (''oldPublicKey'', Inr (string_json (RotateSOPSKeyResponse_oldPublicKey m))),
      (''newEnvironment'', Inr (string_json (RotateSOPSKeyResponse_newEnvironment m)))]"

type_synonym RotateSOPSKeyResponse_partial = "string option \<times> string option \<times> string option \<times> string option"

definition RotateSOPSKeyResponse_fromPartial :: "RotateSOPSKeyResponse_partial \<Rightarrow> RotateSOPSKeyResponse" where
  "RotateSOPSKeyResponse_fromPartial object =
     (case object of (p1, p2, p3, p4) \<Rightarrow>
       \<lparr>RotateSOPSKeyResponse_newPublicKey = or_default '''' p1,
        RotateSOPSKeyResponse_newFingerprint = or_default '''' p2,
        RotateSOPSKeyResponse_oldPublicKey = or_default '''' p3,
        RotateSOPSKeyResponse_newEnvironment = or_default '''' p4\<rparr>)"

definition RotateSOPSKeyResponse_create :: "RotateSOPSKeyResponse_partial option \<Rightarrow> RotateSOPSKeyResponse" where
  "RotateSOPSKeyResponse_create base = RotateSOPSKeyResponse_fromPartial (or_default (None, None, None, None) base)"

definition RotateSOPSKeyResponse_as_partial :: "RotateSOPSKeyResponse \<Rightarrow> RotateSOPSKeyResponse_partial" where
  "RotateSOPSKeyResponse_as_partial m = (Some (RotateSOPSKeyResponse_newPublicKey m), Some (RotateSOPSKeyResponse_newFingerprint m), Some (RotateSOPSKeyResponse_oldPublicKey m), Some (RotateSOPSKeyResponse_newEnvironment m))"

interpretation RotateSOPSKeyResponse_json: json_message RotateSOPSKeyResponse_toJSON RotateSOPSKeyResponse_fromJSON "\<lambda>_. True"
  by unfold_locales (simp add: RotateSOPSKeyResponse_toJSON_def RotateSOPSKeyResponse_fromJSON_def json_back)

lemma RotateSOPSKeyResponse_partial_back: "RotateSOPSKeyResponse_fromPartial (RotateSOPSKeyResponse_as_partial m) = m"
  by (simp add: RotateSOPSKeyResponse_fromPartial_def RotateSOPSKeyResponse_as_partial_def
       partial_simps)

lemma RotateSOPSKeyResponse_create_empty: "RotateSOPSKeyResponse_create None = createBaseRotateSOPSKeyResponse"
  by (simp add: RotateSOPSKeyResponse_create_def RotateSOPSKeyResponse_fromPartial_def createBaseRotateSOPSKeyResponse_def partial_simps)

lemma RotateSOPSKeyResponse_partial_ok:
  "partial_faithful RotateSOPSKeyResponse_create RotateSOPSKeyResponse_fromPartial RotateSOPSKeyResponse_as_partial createBaseRotateSOPSKeyResponse
     (\<lambda>_. True)"
  by (simp add: partial_faithful_def RotateSOPSKeyResponse_create_empty RotateSOPSKeyResponse_partial_back)
     (simp add: RotateSOPSKeyResponse_create_def or_default_simps)

subsection \<open>ListSOPSKeysRequest\<close>

definition ListSOPSKeysRequest_fromJSON :: "json_lang \<Rightarrow> js \<Rightarrow> json_error + ListSOPSKeysRequest" where
  "ListSOPSKeysRequest_fromJSON L object =
       Inr ()"

definition ListSOPSKeysRequest_toJSON :: "json_lang \<Rightarrow> ListSOPSKeysRequest \<Rightarrow> json_error + js" where
  "ListSOPSKeysRequest_toJSON L m = json_object
     []"

type_synonym ListSOPSKeysRequest_partial = "unit"

definition ListSOPSKeysRequest_fromPartial :: "ListSOPSKeysRequest_partial \<Rightarrow> ListSOPSKeysRequest" where
  "ListSOPSKeysRequest_fromPartial object = ()"

definition ListSOPSKeysRequest_create :: "ListSOPSKeysRequest_partial option \<Rightarrow> ListSOPSKeysRequest" where
  "ListSOPSKeysRequest_create base = ListSOPSKeysRequest_fromPartial (or_default () base)"

definition ListSOPSKeysRequest_as_partial :: "ListSOPSKeysRequest \<Rightarrow> ListSOPSKeysRequest_partial" where
  "ListSOPSKeysRequest_as_partial m = ()"

interpretation ListSOPSKeysRequest_json: json_message ListSOPSKeysRequest_toJSON ListSOPSKeysRequest_fromJSON "\<lambda>_. True"
  by unfold_locales (simp add: ListSOPSKeysRequest_toJSON_def ListSOPSKeysRequest_fromJSON_def json_back)

lemma ListSOPSKeysRequest_partial_back: "ListSOPSKeysRequest_fromPartial (ListSOPSKeysRequest_as_partial m) = m"
  by (simp add: ListSOPSKeysRequest_fromPartial_def ListSOPSKeysRequest_as_partial_def
       partial_simps)

lemma ListSOPSKeysRequest_create_empty: "ListSOPSKeysRequest_create None = createBaseListSOPSKeysRequest"
  by (simp add: ListSOPSKeysRequest_create_def ListSOPSKeysRequest_fromPartial_def createBaseListSOPSKeysRequest_def partial_simps)

lemma ListSOPSKeysRequest_partial_ok:
  "partial_faithful ListSOPSKeysRequest_create ListSOPSKeysRequest_fromPartial ListSOPSKeysRequest_as_partial createBaseListSOPSKeysRequest
     (\<lambda>_. True)"
  by (simp add: partial_faithful_def ListSOPSKeysRequest_create_empty ListSOPSKeysRequest_partial_back)

subsection \<open>SOPSKeyInfo\<close>

definition SOPSKeyInfo_fromJSON :: "json_lang \<Rightarrow> js \<Rightarrow> json_error + SOPSKeyInfo" where
  "SOPSKeyInfo_fromJSON L object =
     bindE (set_field L (js_string L) '''' [''publicKey'', ''public_key''] object) (\<lambda>v1.
     bindE (set_field L (js_string L) '''' [''fingerprint''] object) (\<lambda>v2.
     bindE (set_field L (\<lambda>v. Inr (js_boolean L v)) False [''isActive'', ''is_active''] object) (\<lambda>v3.
     bindE (set_field L (js_string L) '''' [''createdAt'', ''created_at''] object) (\<lambda>v4.
     bindE (set_field L (js_string L) '''' [''deactivatedAt'', ''deactivated_at''] object) (\<lambda>v5.
     bindE (set_field L (js_string L) '''' [''environment''] object) (\<lambda>v6.
       Inr \<lparr>SOPSKeyInfo_publicKey = v1,
            SOPSKeyInfo_fingerprint = v2,
            SOPSKeyInfo_isActive = v3,
            SOPSKeyInfo_createdAt = v4,
            SOPSKeyInfo_deactivatedAt = v5,
            SOPSKeyInfo_environment = v6\<rparr>))))))"

definition SOPSKeyInfo_toJSON :: "json_lang \<Rightarrow> SOPSKeyInfo \<Rightarrow> json_error + js" where
  "SOPSKeyInfo_toJSON L m = json_object
     [(''publicKey'', Inr (string_json (SOPSKeyInfo_publicKey m))),
      (''fingerprint'', Inr (string_json (SOPSKeyInfo_fingerprint m))),
      (''isActive'', Inr (bool_json (SOPSKeyInfo_isActive m))),
      (''createdAt'', Inr (string_json (SOPSKeyInfo_createdAt m))),
      (''deactivatedAt'', Inr (string_json (SOPSKeyInfo_deactivatedAt m))),
      (''environment'', Inr (string_json (SOPSKeyInfo_environment m)))]"

type_synonym SOPSKeyInfo_partial = "string option \<times> string option \<times> bool option \<times> string option \<times> string option \<times> string option"

definition SOPSKeyInfo_fromPartial :: "SOPSKeyInfo_partial \<Rightarrow> SOPSKeyInfo" where
  "SOPSKeyInfo_fromPartial object =
     (case object of (p1, p2, p3, p4, p5, p6) \<Rightarrow>
       \<lparr>SOPSKeyInfo_publicKey = or_default '''' p1,
        SOPSKeyInfo_fingerprint = or_default '''' p2,
        SOPSKeyInfo_isActive = or_default False p3,
        SOPSKeyInfo_createdAt = or_default '''' p4,
        SOPSKeyInfo_deactivatedAt = or_default '''' p5,
        SOPSKeyInfo_environment = or_default '''' p6\<rparr>)"

definition SOPSKeyInfo_create :: "SOPSKeyInfo_partial option \<Rightarrow> SOPSKeyInfo" where
  "SOPSKeyInfo_create base = SOPSKeyInfo_fromPartial (or_default (None, None, None, None, None, None) base)"

definition SOPSKeyInfo_as_partial :: "SOPSKeyInfo \<Rightarrow> SOPSKeyInfo_partial" where
  "SOPSKeyInfo_as_partial m = (Some (SOPSKeyInfo_publicKey m), Some (SOPSKeyInfo_fingerprint m), Some (SOPSKeyInfo_isActive m), Some (SOPSKeyInfo_createdAt m), Some (SOPSKeyInfo_deactivatedAt m), Some (SOPSKeyInfo_environment m))"

interpretation SOPSKeyInfo_json: json_message SOPSKeyInfo_toJSON SOPSKeyInfo_fromJSON "\<lambda>_. True"
  by unfold_locales (simp add: SOPSKeyInfo_toJSON_def SOPSKeyInfo_fromJSON_def json_back)

lemma SOPSKeyInfo_partial_back: "SOPSKeyInfo_fromPartial (SOPSKeyInfo_as_partial m) = m"
  by (simp add: SOPSKeyInfo_fromPartial_def SOPSKeyInfo_as_partial_def partial_simps)

lemma SOPSKeyInfo_create_empty: "SOPSKeyInfo_create None = createBaseSOPSKeyInfo"
  by (simp add: SOPSKeyInfo_create_def SOPSKeyInfo_fromPartial_def createBaseSOPSKeyInfo_def partial_simps)

lemma SOPSKeyInfo_partial_ok:
  "partial_faithful SOPSKeyInfo_create SOPSKeyInfo_fromPartial SOPSKeyInfo_as_partial createBaseSOPSKeyInfo
     (\<lambda>_. True)"
  by (simp add: partial_faithful_def SOPSKeyInfo_create_empty SOPSKeyInfo_partial_back)
     (simp add: SOPSKeyInfo_create_def or_default_simps)

subsection \<open>ListSOPSKeysResponse\<close>

definition ListSOPSKeysResponse_fromJSON :: "json_lang \<Rightarrow> js \<Rightarrow> json_error + ListSOPSKeysResponse" where
  "ListSOPSKeysResponse_fromJSON L object =
     bindE (array_field L (SOPSKeyInfo_fromJSON L) [''keys''] object) (\<lambda>v1.
       Inr \<lparr>ListSOPSKeysResponse_keys = v1\<rparr>)"

definition ListSOPSKeysResponse_toJSON :: "json_lang \<Rightarrow> ListSOPSKeysResponse \<Rightarrow> json_error + js" where
  "ListSOPSKeysResponse_toJSON L m = json_object
     [(''keys'', list_json (SOPSKeyInfo_toJSON L) (ListSOPSKeysResponse_keys m))]"

type_synonym ListSOPSKeysResponse_partial = "SOPSKeyInfo_partial list option"

definition ListSOPSKeysResponse_fromPartial :: "ListSOPSKeysResponse_partial \<Rightarrow> ListSOPSKeysResponse" where
  "ListSOPSKeysResponse_fromPartial object =
     \<lparr>ListSOPSKeysResponse_keys = or_default [] (map_option (map SOPSKeyInfo_fromPartial) object)\<rparr>"

definition ListSOPSKeysResponse_create :: "ListSOPSKeysResponse_partial option \<Rightarrow> ListSOPSKeysResponse" where
  "ListSOPSKeysResponse_create base = ListSOPSKeysResponse_fromPartial (or_default (None) base)"

definition ListSOPSKeysResponse_as_partial :: "ListSOPSKeysResponse \<Rightarrow> ListSOPSKeysResponse_partial" where
  "ListSOPSKeysResponse_as_partial m = (Some (map SOPSKeyInfo_as_partial (ListSOPSKeysResponse_keys m)))"

interpretation ListSOPSKeysResponse_json: json_message ListSOPSKeysResponse_toJSON ListSOPSKeysResponse_fromJSON "\<lambda>_. True"
proof
  fix L :: json_lang and m :: ListSOPSKeysResponse
  assume ok: "lang_ok L" "(\<lambda>_. True) m"
  obtain v1 where v1: "list_json (SOPSKeyInfo_toJSON L) (ListSOPSKeysResponse_keys m) = Inr v1"
    "pick_if is_array (map_array (SOPSKeyInfo_fromJSON L)) v1 (Inr []) = Inr (ListSOPSKeysResponse_keys m)"
    using SOPSKeyInfo_json.list_back [of L "ListSOPSKeysResponse_keys m"] ok by (auto simp: all_true)
  with ok show "\<exists>ob. ListSOPSKeysResponse_toJSON L m = Inr (JObject ob) \<and> ListSOPSKeysResponse_fromJSON L (JObject ob) = Inr m"
    by (simp add: ListSOPSKeysResponse_toJSON_def ListSOPSKeysResponse_fromJSON_def json_back)
qed

lemma ListSOPSKeysResponse_partial_back: "ListSOPSKeysResponse_fromPartial (ListSOPSKeysResponse_as_partial m) = m"
  by (simp add: ListSOPSKeysResponse_fromPartial_def ListSOPSKeysResponse_as_partial_def
       partial_simps SOPSKeyInfo_partial_back)

lemma ListSOPSKeysResponse_create_empty: "ListSOPSKeysResponse_create None = createBaseListSOPSKeysResponse"
  by (simp add: ListSOPSKeysResponse_create_def ListSOPSKeysResponse_fromPartial_def createBaseListSOPSKeysResponse_def partial_simps)

lemma ListSOPSKeysResponse_partial_ok:
  "partial_faithful ListSOPSKeysResponse_create ListSOPSKeysResponse_fromPartial ListSOPSKeysResponse_as_partial createBaseListSOPSKeysResponse
     (\<lambda>_. True)"
  by (simp add: partial_faithful_def ListSOPSKeysResponse_create_empty ListSOPSKeysResponse_partial_back)
     (simp add: ListSOPSKeysResponse_create_def or_default_simps)

subsection \<open>PruneSOPSKeyRequest\<close>

definition PruneSOPSKeyRequest_fromJSON :: "json_lang \<Rightarrow> js \<Rightarrow> json_error + PruneSOPSKeyRequest" where
  "PruneSOPSKeyRequest_fromJSON L object =
     bindE (set_field L (js_string L) '''' [''publicKey'', ''public_key''] object) (\<lambda>v1.
       Inr \<lparr>PruneSOPSKeyRequest_publicKey = v1\<rparr>)"

definition PruneSOPSKeyRequest_toJSON :: "json_lang \<Rightarrow> PruneSOPSKeyRequest \<Rightarrow> json_error + js" where
  "PruneSOPSKeyRequest_toJSON L m = json_object
     [(''publicKey'', Inr (string_json (PruneSOPSKeyRequest_publicKey m)))]"

type_synonym PruneSOPSKeyRequest_partial = "string option"

definition PruneSOPSKeyRequest_fromPartial :: "PruneSOPSKeyRequest_partial \<Rightarrow> PruneSOPSKeyRequest" where
  "PruneSOPSKeyRequest_fromPartial object =
     \<lparr>PruneSOPSKeyRequest_publicKey = or_default '''' object\<rparr>"

definition PruneSOPSKeyRequest_create :: "PruneSOPSKeyRequest_partial option \<Rightarrow> PruneSOPSKeyRequest" where
  "PruneSOPSKeyRequest_create base = PruneSOPSKeyRequest_fromPartial (or_default (None) base)"

definition PruneSOPSKeyRequest_as_partial :: "PruneSOPSKeyRequest \<Rightarrow> PruneSOPSKeyRequest_partial" where
  "PruneSOPSKeyRequest_as_partial m = (Some (PruneSOPSKeyRequest_publicKey m))"

interpretation PruneSOPSKeyRequest_json: json_message PruneSOPSKeyRequest_toJSON PruneSOPSKeyRequest_fromJSON "\<lambda>_. True"
  by unfold_locales (simp add: PruneSOPSKeyRequest_toJSON_def PruneSOPSKeyRequest_fromJSON_def json_back)

lemma PruneSOPSKeyRequest_partial_back: "PruneSOPSKeyRequest_fromPartial (PruneSOPSKeyRequest_as_partial m) = m"
  by (simp add: PruneSOPSKeyRequest_fromPartial_def PruneSOPSKeyRequest_as_partial_def
       partial_simps)

lemma PruneSOPSKeyRequest_create_empty: "PruneSOPSKeyRequest_create None = createBasePruneSOPSKeyRequest"
  by (simp add: PruneSOPSKeyRequest_create_def PruneSOPSKeyRequest_fromPartial_def createBasePruneSOPSKeyRequest_def partial_simps)

lemma PruneSOPSKeyRequest_partial_ok:
  "partial_faithful PruneSOPSKeyRequest_create PruneSOPSKeyRequest_fromPartial PruneSOPSKeyRequest_as_partial createBasePruneSOPSKeyRequest
     (\<lambda>_. True)"
  by (simp add: partial_faithful_def PruneSOPSKeyRequest_create_empty PruneSOPSKeyRequest_partial_back)
     (simp add: PruneSOPSKeyRequest_create_def or_default_simps)

subsection \<open>PruneSOPSKeyResponse\<close>

definition PruneSOPSKeyResponse_fromJSON :: "json_lang \<Rightarrow> js \<Rightarrow> json_error + PruneSOPSKeyResponse" where
  "PruneSOPSKeyResponse_fromJSON L object =
     bindE (set_field L (js_string L) '''' [''message''] object) (\<lambda>v1.
       Inr \<lparr>PruneSOPSKeyResponse_message = v1\<rparr>)"

definition PruneSOPSKeyResponse_toJSON :: "json_lang \<Rightarrow> PruneSOPSKeyResponse \<Rightarrow> json_error + js" where
  "PruneSOPSKeyResponse_toJSON L m = json_object
     [(''message'', Inr (string_json (PruneSOPSKeyResponse_message m)))]"

type_synonym PruneSOPSKeyResponse_partial = "string option"

definition PruneSOPSKeyResponse_fromPartial :: "PruneSOPSKeyResponse_partial \<Rightarrow> PruneSOPSKeyResponse" where
  "PruneSOPSKeyResponse_fromPartial object =
     \<lparr>PruneSOPSKeyResponse_message = or_default '''' object\<rparr>"

definition PruneSOPSKeyResponse_create :: "PruneSOPSKeyResponse_partial option \<Rightarrow> PruneSOPSKeyResponse" where
  "PruneSOPSKeyResponse_create base = PruneSOPSKeyResponse_fromPartial (or_default (None) base)"

definition PruneSOPSKeyResponse_as_partial :: "PruneSOPSKeyResponse \<Rightarrow> PruneSOPSKeyResponse_partial" where
  "PruneSOPSKeyResponse_as_partial m = (Some (PruneSOPSKeyResponse_message m))"

interpretation PruneSOPSKeyResponse_json: json_message PruneSOPSKeyResponse_toJSON PruneSOPSKeyResponse_fromJSON "\<lambda>_. True"
  by unfold_locales (simp add: PruneSOPSKeyResponse_toJSON_def PruneSOPSKeyResponse_fromJSON_def json_back)

lemma PruneSOPSKeyResponse_partial_back: "PruneSOPSKeyResponse_fromPartial (PruneSOPSKeyResponse_as_partial m) = m"
  by (simp add: PruneSOPSKeyResponse_fromPartial_def PruneSOPSKeyResponse_as_partial_def
       partial_simps)

lemma PruneSOPSKeyResponse_create_empty: "PruneSOPSKeyResponse_create None = createBasePruneSOPSKeyResponse"
  by (simp add: PruneSOPSKeyResponse_create_def PruneSOPSKeyResponse_fromPartial_def createBasePruneSOPSKeyResponse_def partial_simps)

lemma PruneSOPSKeyResponse_partial_ok:
  "partial_faithful PruneSOPSKeyResponse_create PruneSOPSKeyResponse_fromPartial PruneSOPSKeyResponse_as_partial createBasePruneSOPSKeyResponse
     (\<lambda>_. True)"
  by (simp add: partial_faithful_def PruneSOPSKeyResponse_create_empty PruneSOPSKeyResponse_partial_back)
     (simp add: PruneSOPSKeyResponse_create_def or_default_simps)

text \<open>The round trips, and the completions of partial messages, of this theory.\<close>

lemmas AdminSopsJson_faithful =
      GetSOPSPublicKeyRequest_json.faithful GetSOPSPublicKeyResponse_json.faithful
      RotateSOPSKeyRequest_json.faithful RotateSOPSKeyResponse_json.faithful
      ListSOPSKeysRequest_json.faithful SOPSKeyInfo_json.faithful
      ListSOPSKeysResponse_json.faithful PruneSOPSKeyRequest_json.faithful
      PruneSOPSKeyResponse_json.faithful

lemmas AdminSopsJson_completed =
      GetSOPSPublicKeyRequest_partial_ok GetSOPSPublicKeyResponse_partial_ok
      RotateSOPSKeyRequest_partial_ok RotateSOPSKeyResponse_partial_ok
      ListSOPSKeysRequest_partial_ok SOPSKeyInfo_partial_ok ListSOPSKeysResponse_partial_ok
      PruneSOPSKeyRequest_partial_ok PruneSOPSKeyResponse_partial_ok

end
