(* ===== verification/AdminRepositoryJson.thy ===== *)
theory AdminRepositoryJson
  imports AdminRepositoryMessages JsonCodec
begin

text \<open>
  \<open>fromJSON\<close>, \<open>toJSON\<close>, \<open>fromPartial\<close> and \<open>create\<close> of the messages of \<open>AdminRepositoryMessages\<close>, as
  \<open>src/gen/admin/v1/admin.ts\<close> has them, and the enumerations they mention. Each message is shown to
  keep the contract \<open>json_message\<close>: what \<open>toJSON\<close> writes, \<open>fromJSON\<close> reads back. \<open>\<dots>_as_partial\<close> is
  a message seen as a partial one; \<open>fromPartial\<close> gives it back.
\<close>

subsection \<open>RegisterRepositoryRequest\<close>

definition RegisterRepositoryRequest_fromJSON :: "json_lang \<Rightarrow> js \<Rightarrow> json_error + RegisterRepositoryRequest" where
  "RegisterRepositoryRequest_fromJSON L object =
     bindE (set_field L (js_string L) '''' [''name''] object) (\<lambda>v1.
     bindE (set_field L (js_string L) '''' [''repoUrl'', ''repo_url''] object) (\<lambda>v2.
     bindE (set_field L (js_string L) '''' [''branch''] object) (\<lambda>v3.
     bindE (set_field L (js_string L) '''' [''secretsPath'', ''secrets_path''] object) (\<lambda>v4.
     bindE (set_field L (bytesFromBase64 L) [] [''deployKey'', ''deploy_key''] object) (\<lambda>v5.
     bindE (set_field L (js_string L) '''' [''configPath'', ''config_path''] object) (\<lambda>v6.
       Inr \<lparr>RegisterRepositoryRequest_name = v1,
            RegisterRepositoryRequest_repoUrl = v2,
            RegisterRepositoryRequest_branch = v3,
            RegisterRepositoryRequest_secretsPath = v4,
            RegisterRepositoryRequest_deployKey = v5,
            RegisterRepositoryRequest_configPath = v6\<rparr>))))))"

definition RegisterRepositoryRequest_toJSON :: "json_lang \<Rightarrow> RegisterRepositoryRequest \<Rightarrow> json_error + js" where
  "RegisterRepositoryRequest_toJSON L m = json_object
     [(''name'', Inr (string_json (RegisterRepositoryRequest_name m))),
      (''repoUrl'', Inr (string_json (RegisterRepositoryRequest_repoUrl m))),
      (''branch'', Inr (string_json (RegisterRepositoryRequest_branch m))),
      (''secretsPath'', Inr (string_json (RegisterRepositoryRequest_secretsPath m))),
      (''deployKey'', Inr (bytes_json (RegisterRepositoryRequest_deployKey m))),
      (''configPath'', Inr (string_json (RegisterRepositoryRequest_configPath m)))]"

type_synonym RegisterRepositoryRequest_partial = "string option \<times> string option \<times> string option \<times> string option \<times> byte list option \<times> string option"

definition RegisterRepositoryRequest_fromPartial :: "RegisterRepositoryRequest_partial \<Rightarrow> RegisterRepositoryRequest" where
  "RegisterRepositoryRequest_fromPartial object =
     (case object of (p1, p2, p3, p4, p5, p6) \<Rightarrow>
       \<lparr>RegisterRepositoryRequest_name = or_default '''' p1,
        RegisterRepositoryRequest_repoUrl = or_default '''' p2,
        RegisterRepositoryRequest_branch = or_default '''' p3,
        RegisterRepositoryRequest_secretsPath = or_default '''' p4,
        RegisterRepositoryRequest_deployKey = or_default [] p5,
        RegisterRepositoryRequest_configPath = or_default '''' p6\<rparr>)"

definition RegisterRepositoryRequest_create :: "RegisterRepositoryRequest_partial option \<Rightarrow> RegisterRepositoryRequest" where
  "RegisterRepositoryRequest_create base = RegisterRepositoryRequest_fromPartial (or_default (None, None, None, None, None, None) base)"

definition RegisterRepositoryRequest_as_partial :: "RegisterRepositoryRequest \<Rightarrow> RegisterRepositoryRequest_partial" where
  "RegisterRepositoryRequest_as_partial m = (Some (RegisterRepositoryRequest_name m), Some (RegisterRepositoryRequest_repoUrl m), Some (RegisterRepositoryRequest_branch m), Some (RegisterRepositoryRequest_secretsPath m), Some (RegisterRepositoryRequest_deployKey m), Some (RegisterRepositoryRequest_configPath m))"

interpretation RegisterRepositoryRequest_json: json_message RegisterRepositoryRequest_toJSON RegisterRepositoryRequest_fromJSON "\<lambda>_. True"
  by unfold_locales (simp add: RegisterRepositoryRequest_toJSON_def RegisterRepositoryRequest_fromJSON_def
       json_back bytes_back)

lemma RegisterRepositoryRequest_partial_back: "RegisterRepositoryRequest_fromPartial (RegisterRepositoryRequest_as_partial m) = m"
  by (simp add: RegisterRepositoryRequest_fromPartial_def
       RegisterRepositoryRequest_as_partial_def partial_simps)

lemma RegisterRepositoryRequest_create_empty: "RegisterRepositoryRequest_create None = createBaseRegisterRepositoryRequest"
  by (simp add: RegisterRepositoryRequest_create_def RegisterRepositoryRequest_fromPartial_def createBaseRegisterRepositoryRequest_def partial_simps)

lemma RegisterRepositoryRequest_partial_ok:
  "partial_faithful RegisterRepositoryRequest_create RegisterRepositoryRequest_fromPartial RegisterRepositoryRequest_as_partial createBaseRegisterRepositoryRequest
     (\<lambda>_. True)"
  by (simp add: partial_faithful_def RegisterRepositoryRequest_create_empty RegisterRepositoryRequest_partial_back)
     (simp add: RegisterRepositoryRequest_create_def or_default_simps)

subsection \<open>RegisterRepositoryResponse\<close>

definition RegisterRepositoryResponse_fromJSON :: "json_lang \<Rightarrow> js \<Rightarrow> json_error + RegisterRepositoryResponse" where
  "RegisterRepositoryResponse_fromJSON L object =
     bindE (set_field L (js_string L) '''' [''id''] object) (\<lambda>v1.
     bindE (set_field L (js_string L) '''' [''webhookUrl'', ''webhook_url''] object) (\<lambda>v2.
     bindE (set_field L (js_string L) '''' [''webhookSecret'', ''webhook_secret''] object) (\<lambda>v3.
       Inr \<lparr>RegisterRepositoryResponse_id = v1,
            RegisterRepositoryResponse_webhookUrl = v2,
            RegisterRepositoryResponse_webhookSecret = v3\<rparr>)))"

definition RegisterRepositoryResponse_toJSON :: "json_lang \<Rightarrow> RegisterRepositoryResponse \<Rightarrow> json_error + js" where
  "RegisterRepositoryResponse_toJSON L m = json_object
     [(''id'', Inr (string_json (RegisterRepositoryResponse_id m))),
      (''webhookUrl'', Inr (string_json (RegisterRepositoryResponse_webhookUrl m))),
      (''webhookSecret'', Inr (string_json (RegisterRepositoryResponse_webhookSecret m)))]"

type_synonym RegisterRepositoryResponse_partial = "string option \<times> string option \<times> string option"

definition RegisterRepositoryResponse_fromPartial :: "RegisterRepositoryResponse_partial \<Rightarrow> RegisterRepositoryResponse" where
  "RegisterRepositoryResponse_fromPartial object =
     (case object of (p1, p2, p3) \<Rightarrow>
       \<lparr>RegisterRepositoryResponse_id = or_default '''' p1,
        RegisterRepositoryResponse_webhookUrl = or_default '''' p2,
        RegisterRepositoryResponse_webhookSecret = or_default '''' p3\<rparr>)"

definition RegisterRepositoryResponse_create :: "RegisterRepositoryResponse_partial option \<Rightarrow> RegisterRepositoryResponse" where
  "RegisterRepositoryResponse_create base = RegisterRepositoryResponse_fromPartial (or_default (None, None, None) base)"

definition RegisterRepositoryResponse_as_partial :: "RegisterRepositoryResponse \<Rightarrow> RegisterRepositoryResponse_partial" where
  "RegisterRepositoryResponse_as_partial m = (Some (RegisterRepositoryResponse_id m), Some (RegisterRepositoryResponse_webhookUrl m), Some (RegisterRepositoryResponse_webhookSecret m))"

interpretation RegisterRepositoryResponse_json: json_message RegisterRepositoryResponse_toJSON RegisterRepositoryResponse_fromJSON "\<lambda>_. True"
  by unfold_locales (simp add: RegisterRepositoryResponse_toJSON_def RegisterRepositoryResponse_fromJSON_def
       json_back)

lemma RegisterRepositoryResponse_partial_back: "RegisterRepositoryResponse_fromPartial (RegisterRepositoryResponse_as_partial m) = m"
  by (simp add: RegisterRepositoryResponse_fromPartial_def
       RegisterRepositoryResponse_as_partial_def partial_simps)

lemma RegisterRepositoryResponse_create_empty: "RegisterRepositoryResponse_create None = createBaseRegisterRepositoryResponse"
  by (simp add: RegisterRepositoryResponse_create_def RegisterRepositoryResponse_fromPartial_def createBaseRegisterRepositoryResponse_def partial_simps)

lemma RegisterRepositoryResponse_partial_ok:
  "partial_faithful RegisterRepositoryResponse_create RegisterRepositoryResponse_fromPartial RegisterRepositoryResponse_as_partial createBaseRegisterRepositoryResponse
     (\<lambda>_. True)"
  by (simp add: partial_faithful_def RegisterRepositoryResponse_create_empty RegisterRepositoryResponse_partial_back)
     (simp add: RegisterRepositoryResponse_create_def or_default_simps)

subsection \<open>ListRepositoriesRequest\<close>

definition ListRepositoriesRequest_fromJSON :: "json_lang \<Rightarrow> js \<Rightarrow> json_error + ListRepositoriesRequest" where
  "ListRepositoriesRequest_fromJSON L object =
       Inr ()"

definition ListRepositoriesRequest_toJSON :: "json_lang \<Rightarrow> ListRepositoriesRequest \<Rightarrow> json_error + js" where
  "ListRepositoriesRequest_toJSON L m = json_object
     []"

type_synonym ListRepositoriesRequest_partial = "unit"

definition ListRepositoriesRequest_fromPartial :: "ListRepositoriesRequest_partial \<Rightarrow> ListRepositoriesRequest" where
  "ListRepositoriesRequest_fromPartial object = ()"

definition ListRepositoriesRequest_create :: "ListRepositoriesRequest_partial option \<Rightarrow> ListRepositoriesRequest" where
  "ListRepositoriesRequest_create base = ListRepositoriesRequest_fromPartial (or_default () base)"

definition ListRepositoriesRequest_as_partial :: "ListRepositoriesRequest \<Rightarrow> ListRepositoriesRequest_partial" where
  "ListRepositoriesRequest_as_partial m = ()"

interpretation ListRepositoriesRequest_json: json_message ListRepositoriesRequest_toJSON ListRepositoriesRequest_fromJSON "\<lambda>_. True"
  by unfold_locales (simp add: ListRepositoriesRequest_toJSON_def ListRepositoriesRequest_fromJSON_def
       json_back)

lemma ListRepositoriesRequest_partial_back: "ListRepositoriesRequest_fromPartial (ListRepositoriesRequest_as_partial m) = m"
  by (simp add: ListRepositoriesRequest_fromPartial_def ListRepositoriesRequest_as_partial_def
       partial_simps)

lemma ListRepositoriesRequest_create_empty: "ListRepositoriesRequest_create None = createBaseListRepositoriesRequest"
  by (simp add: ListRepositoriesRequest_create_def ListRepositoriesRequest_fromPartial_def createBaseListRepositoriesRequest_def partial_simps)

lemma ListRepositoriesRequest_partial_ok:
  "partial_faithful ListRepositoriesRequest_create ListRepositoriesRequest_fromPartial ListRepositoriesRequest_as_partial createBaseListRepositoriesRequest
     (\<lambda>_. True)"
  by (simp add: partial_faithful_def ListRepositoriesRequest_create_empty ListRepositoriesRequest_partial_back)

subsection \<open>RepositoryInfo\<close>

definition RepositoryInfo_fromJSON :: "json_lang \<Rightarrow> js \<Rightarrow> json_error + RepositoryInfo" where
  "RepositoryInfo_fromJSON L object =
     bindE (set_field L (js_string L) '''' [''id''] object) (\<lambda>v1.
     bindE (set_field L (js_string L) '''' [''name''] object) (\<lambda>v2.
     bindE (set_field L (js_string L) '''' [''repoUrl'', ''repo_url''] object) (\<lambda>v3.
     bindE (set_field L (js_string L) '''' [''branch''] object) (\<lambda>v4.
     bindE (set_field L (js_string L) '''' [''secretsPath'', ''secrets_path''] object) (\<lambda>v5.
     bindE (set_field L (js_string L) '''' [''lastSyncSha'', ''last_sync_sha''] object) (\<lambda>v6.
     bindE (set_field L (js_string L) '''' [''lastSyncAt'', ''last_sync_at''] object) (\<lambda>v7.
     bindE (set_field L (js_string L) '''' [''configPath'', ''config_path''] object) (\<lambda>v8.
       Inr \<lparr>RepositoryInfo_id = v1,
            RepositoryInfo_name = v2,
            RepositoryInfo_repoUrl = v3,
            RepositoryInfo_branch = v4,
            RepositoryInfo_secretsPath = v5,
            RepositoryInfo_lastSyncSha = v6,
            RepositoryInfo_lastSyncAt = v7,
            RepositoryInfo_configPath = v8\<rparr>))))))))"

definition RepositoryInfo_toJSON :: "json_lang \<Rightarrow> RepositoryInfo \<Rightarrow> json_error + js" where
  "RepositoryInfo_toJSON L m = json_object
     [(''id'', Inr (string_json (RepositoryInfo_id m))),
      (''name'', Inr (string_json (RepositoryInfo_name m))),
      (''repoUrl'', Inr (string_json (RepositoryInfo_repoUrl m))),
      (''branch'', Inr (string_json (RepositoryInfo_branch m))),
      (''secretsPath'', Inr (string_json (RepositoryInfo_secretsPath m))),
      (''lastSyncSha'', Inr (string_json (RepositoryInfo_lastSyncSha m))),
      (''lastSyncAt'', Inr (string_json (RepositoryInfo_lastSyncAt m))),
      (''configPath'', Inr (string_json (RepositoryInfo_configPath m)))]"

type_synonym RepositoryInfo_partial = "string option \<times> string option \<times> string option \<times> string option \<times> string option \<times> string option \<times> string option \<times> string option"

definition RepositoryInfo_fromPartial :: "RepositoryInfo_partial \<Rightarrow> RepositoryInfo" where
  "RepositoryInfo_fromPartial object =
     (case object of (p1, p2, p3, p4, p5, p6, p7, p8) \<Rightarrow>
       \<lparr>RepositoryInfo_id = or_default '''' p1,
        RepositoryInfo_name = or_default '''' p2,
        RepositoryInfo_repoUrl = or_default '''' p3,
        RepositoryInfo_branch = or_default '''' p4,
        RepositoryInfo_secretsPath = or_default '''' p5,
        RepositoryInfo_lastSyncSha = or_default '''' p6,
        RepositoryInfo_lastSyncAt = or_default '''' p7,
        RepositoryInfo_configPath = or_default '''' p8\<rparr>)"

definition RepositoryInfo_create :: "RepositoryInfo_partial option \<Rightarrow> RepositoryInfo" where
  "RepositoryInfo_create base = RepositoryInfo_fromPartial (or_default (None, None, None, None, None, None, None, None) base)"

definition RepositoryInfo_as_partial :: "RepositoryInfo \<Rightarrow> RepositoryInfo_partial" where
  "RepositoryInfo_as_partial m = (Some (RepositoryInfo_id m), Some (RepositoryInfo_name m), Some (RepositoryInfo_repoUrl m), Some (RepositoryInfo_branch m), Some (RepositoryInfo_secretsPath m), Some (RepositoryInfo_lastSyncSha m), Some (RepositoryInfo_lastSyncAt m), Some (RepositoryInfo_configPath m))"

interpretation RepositoryInfo_json: json_message RepositoryInfo_toJSON RepositoryInfo_fromJSON "\<lambda>_. True"
  by unfold_locales (simp add: RepositoryInfo_toJSON_def RepositoryInfo_fromJSON_def json_back)

lemma RepositoryInfo_partial_back: "RepositoryInfo_fromPartial (RepositoryInfo_as_partial m) = m"
  by (simp add: RepositoryInfo_fromPartial_def RepositoryInfo_as_partial_def partial_simps)

lemma RepositoryInfo_create_empty: "RepositoryInfo_create None = createBaseRepositoryInfo"
  by (simp add: RepositoryInfo_create_def RepositoryInfo_fromPartial_def createBaseRepositoryInfo_def partial_simps)

lemma RepositoryInfo_partial_ok:
  "partial_faithful RepositoryInfo_create RepositoryInfo_fromPartial RepositoryInfo_as_partial createBaseRepositoryInfo
     (\<lambda>_. True)"
  by (simp add: partial_faithful_def RepositoryInfo_create_empty RepositoryInfo_partial_back)
     (simp add: RepositoryInfo_create_def or_default_simps)

subsection \<open>ListRepositoriesResponse\<close>

definition ListRepositoriesResponse_fromJSON :: "json_lang \<Rightarrow> js \<Rightarrow> json_error + ListRepositoriesResponse" where
  "ListRepositoriesResponse_fromJSON L object =
     bindE (array_field L (RepositoryInfo_fromJSON L) [''repositories''] object) (\<lambda>v1.
       Inr \<lparr>ListRepositoriesResponse_repositories = v1\<rparr>)"

definition ListRepositoriesResponse_toJSON :: "json_lang \<Rightarrow> ListRepositoriesResponse \<Rightarrow> json_error + js" where
  "ListRepositoriesResponse_toJSON L m = json_object
     [(''repositories'', list_json (RepositoryInfo_toJSON L) (ListRepositoriesResponse_repositories m))]"

type_synonym ListRepositoriesResponse_partial = "RepositoryInfo_partial list option"

definition ListRepositoriesResponse_fromPartial :: "ListRepositoriesResponse_partial \<Rightarrow> ListRepositoriesResponse" where
  "ListRepositoriesResponse_fromPartial object =
     \<lparr>ListRepositoriesResponse_repositories = or_default [] (map_option (map RepositoryInfo_fromPartial) object)\<rparr>"

definition ListRepositoriesResponse_create :: "ListRepositoriesResponse_partial option \<Rightarrow> ListRepositoriesResponse" where
  "ListRepositoriesResponse_create base = ListRepositoriesResponse_fromPartial (or_default (None) base)"

definition ListRepositoriesResponse_as_partial :: "ListRepositoriesResponse \<Rightarrow> ListRepositoriesResponse_partial" where
  "ListRepositoriesResponse_as_partial m = (Some (map RepositoryInfo_as_partial (ListRepositoriesResponse_repositories m)))"

interpretation ListRepositoriesResponse_json: json_message ListRepositoriesResponse_toJSON ListRepositoriesResponse_fromJSON "\<lambda>_. True"
proof
  fix L :: json_lang and m :: ListRepositoriesResponse
  assume ok: "lang_ok L" "(\<lambda>_. True) m"
  obtain v1 where v1: "list_json (RepositoryInfo_toJSON L) (ListRepositoriesResponse_repositories m) = Inr v1"
    "pick_if is_array (map_array (RepositoryInfo_fromJSON L)) v1 (Inr []) = Inr (ListRepositoriesResponse_repositories m)"
    using RepositoryInfo_json.list_back [of L "ListRepositoriesResponse_repositories m"] ok by (auto simp: all_true)
  with ok show "\<exists>ob. ListRepositoriesResponse_toJSON L m = Inr (JObject ob) \<and> ListRepositoriesResponse_fromJSON L (JObject ob) = Inr m"
    by (simp add: ListRepositoriesResponse_toJSON_def ListRepositoriesResponse_fromJSON_def
       json_back)
qed

lemma ListRepositoriesResponse_partial_back: "ListRepositoriesResponse_fromPartial (ListRepositoriesResponse_as_partial m) = m"
  by (simp add: ListRepositoriesResponse_fromPartial_def
       ListRepositoriesResponse_as_partial_def partial_simps RepositoryInfo_partial_back)

lemma ListRepositoriesResponse_create_empty: "ListRepositoriesResponse_create None = createBaseListRepositoriesResponse"
  by (simp add: ListRepositoriesResponse_create_def ListRepositoriesResponse_fromPartial_def createBaseListRepositoriesResponse_def partial_simps)

lemma ListRepositoriesResponse_partial_ok:
  "partial_faithful ListRepositoriesResponse_create ListRepositoriesResponse_fromPartial ListRepositoriesResponse_as_partial createBaseListRepositoriesResponse
     (\<lambda>_. True)"
  by (simp add: partial_faithful_def ListRepositoriesResponse_create_empty ListRepositoriesResponse_partial_back)
     (simp add: ListRepositoriesResponse_create_def or_default_simps)

subsection \<open>RemoveRepositoryRequest\<close>

definition RemoveRepositoryRequest_fromJSON :: "json_lang \<Rightarrow> js \<Rightarrow> json_error + RemoveRepositoryRequest" where
  "RemoveRepositoryRequest_fromJSON L object =
     bindE (set_field L (js_string L) '''' [''id''] object) (\<lambda>v1.
       Inr \<lparr>RemoveRepositoryRequest_id = v1\<rparr>)"

definition RemoveRepositoryRequest_toJSON :: "json_lang \<Rightarrow> RemoveRepositoryRequest \<Rightarrow> json_error + js" where
  "RemoveRepositoryRequest_toJSON L m = json_object
     [(''id'', Inr (string_json (RemoveRepositoryRequest_id m)))]"

type_synonym RemoveRepositoryRequest_partial = "string option"

definition RemoveRepositoryRequest_fromPartial :: "RemoveRepositoryRequest_partial \<Rightarrow> RemoveRepositoryRequest" where
  "RemoveRepositoryRequest_fromPartial object =
     \<lparr>RemoveRepositoryRequest_id = or_default '''' object\<rparr>"

definition RemoveRepositoryRequest_create :: "RemoveRepositoryRequest_partial option \<Rightarrow> RemoveRepositoryRequest" where
  "RemoveRepositoryRequest_create base = RemoveRepositoryRequest_fromPartial (or_default (None) base)"

definition RemoveRepositoryRequest_as_partial :: "RemoveRepositoryRequest \<Rightarrow> RemoveRepositoryRequest_partial" where
  "RemoveRepositoryRequest_as_partial m = (Some (RemoveRepositoryRequest_id m))"

interpretation RemoveRepositoryRequest_json: json_message RemoveRepositoryRequest_toJSON RemoveRepositoryRequest_fromJSON "\<lambda>_. True"
  by unfold_locales (simp add: RemoveRepositoryRequest_toJSON_def RemoveRepositoryRequest_fromJSON_def
       json_back)

lemma RemoveRepositoryRequest_partial_back: "RemoveRepositoryRequest_fromPartial (RemoveRepositoryRequest_as_partial m) = m"
  by (simp add: RemoveRepositoryRequest_fromPartial_def RemoveRepositoryRequest_as_partial_def
       partial_simps)

lemma RemoveRepositoryRequest_create_empty: "RemoveRepositoryRequest_create None = createBaseRemoveRepositoryRequest"
  by (simp add: RemoveRepositoryRequest_create_def RemoveRepositoryRequest_fromPartial_def createBaseRemoveRepositoryRequest_def partial_simps)

lemma RemoveRepositoryRequest_partial_ok:
  "partial_faithful RemoveRepositoryRequest_create RemoveRepositoryRequest_fromPartial RemoveRepositoryRequest_as_partial createBaseRemoveRepositoryRequest
     (\<lambda>_. True)"
  by (simp add: partial_faithful_def RemoveRepositoryRequest_create_empty RemoveRepositoryRequest_partial_back)
     (simp add: RemoveRepositoryRequest_create_def or_default_simps)

subsection \<open>RemoveRepositoryResponse\<close>

definition RemoveRepositoryResponse_fromJSON :: "json_lang \<Rightarrow> js \<Rightarrow> json_error + RemoveRepositoryResponse" where
  "RemoveRepositoryResponse_fromJSON L object =
     bindE (set_field L (js_string L) '''' [''message''] object) (\<lambda>v1.
       Inr \<lparr>RemoveRepositoryResponse_message = v1\<rparr>)"

definition RemoveRepositoryResponse_toJSON :: "json_lang \<Rightarrow> RemoveRepositoryResponse \<Rightarrow> json_error + js" where
  "RemoveRepositoryResponse_toJSON L m = json_object
     [(''message'', Inr (string_json (RemoveRepositoryResponse_message m)))]"

type_synonym RemoveRepositoryResponse_partial = "string option"

definition RemoveRepositoryResponse_fromPartial :: "RemoveRepositoryResponse_partial \<Rightarrow> RemoveRepositoryResponse" where
  "RemoveRepositoryResponse_fromPartial object =
     \<lparr>RemoveRepositoryResponse_message = or_default '''' object\<rparr>"

definition RemoveRepositoryResponse_create :: "RemoveRepositoryResponse_partial option \<Rightarrow> RemoveRepositoryResponse" where
  "RemoveRepositoryResponse_create base = RemoveRepositoryResponse_fromPartial (or_default (None) base)"

definition RemoveRepositoryResponse_as_partial :: "RemoveRepositoryResponse \<Rightarrow> RemoveRepositoryResponse_partial" where
  "RemoveRepositoryResponse_as_partial m = (Some (RemoveRepositoryResponse_message m))"

interpretation RemoveRepositoryResponse_json: json_message RemoveRepositoryResponse_toJSON RemoveRepositoryResponse_fromJSON "\<lambda>_. True"
  by unfold_locales (simp add: RemoveRepositoryResponse_toJSON_def RemoveRepositoryResponse_fromJSON_def
       json_back)

lemma RemoveRepositoryResponse_partial_back: "RemoveRepositoryResponse_fromPartial (RemoveRepositoryResponse_as_partial m) = m"
  by (simp add: RemoveRepositoryResponse_fromPartial_def
       RemoveRepositoryResponse_as_partial_def partial_simps)

lemma RemoveRepositoryResponse_create_empty: "RemoveRepositoryResponse_create None = createBaseRemoveRepositoryResponse"
  by (simp add: RemoveRepositoryResponse_create_def RemoveRepositoryResponse_fromPartial_def createBaseRemoveRepositoryResponse_def partial_simps)

lemma RemoveRepositoryResponse_partial_ok:
  "partial_faithful RemoveRepositoryResponse_create RemoveRepositoryResponse_fromPartial RemoveRepositoryResponse_as_partial createBaseRemoveRepositoryResponse
     (\<lambda>_. True)"
  by (simp add: partial_faithful_def RemoveRepositoryResponse_create_empty RemoveRepositoryResponse_partial_back)
     (simp add: RemoveRepositoryResponse_create_def or_default_simps)

subsection \<open>TriggerSyncRequest\<close>

definition TriggerSyncRequest_fromJSON :: "json_lang \<Rightarrow> js \<Rightarrow> json_error + TriggerSyncRequest" where
  "TriggerSyncRequest_fromJSON L object =
     bindE (set_field L (js_string L) '''' [''id''] object) (\<lambda>v1.
     bindE (set_field L (\<lambda>v. Inr (js_boolean L v)) False [''force''] object) (\<lambda>v2.
       Inr \<lparr>TriggerSyncRequest_id = v1,
            TriggerSyncRequest_force = v2\<rparr>))"

definition TriggerSyncRequest_toJSON :: "json_lang \<Rightarrow> TriggerSyncRequest \<Rightarrow> json_error + js" where
  "TriggerSyncRequest_toJSON L m = json_object
     [(''id'', Inr (string_json (TriggerSyncRequest_id m))),
      (''force'', Inr (bool_json (TriggerSyncRequest_force m)))]"

type_synonym TriggerSyncRequest_partial = "string option \<times> bool option"

definition TriggerSyncRequest_fromPartial :: "TriggerSyncRequest_partial \<Rightarrow> TriggerSyncRequest" where
  "TriggerSyncRequest_fromPartial object =
     (case object of (p1, p2) \<Rightarrow>
       \<lparr>TriggerSyncRequest_id = or_default '''' p1,
        TriggerSyncRequest_force = or_default False p2\<rparr>)"

definition TriggerSyncRequest_create :: "TriggerSyncRequest_partial option \<Rightarrow> TriggerSyncRequest" where
  "TriggerSyncRequest_create base = TriggerSyncRequest_fromPartial (or_default (None, None) base)"

definition TriggerSyncRequest_as_partial :: "TriggerSyncRequest \<Rightarrow> TriggerSyncRequest_partial" where
  "TriggerSyncRequest_as_partial m = (Some (TriggerSyncRequest_id m), Some (TriggerSyncRequest_force m))"

interpretation TriggerSyncRequest_json: json_message TriggerSyncRequest_toJSON TriggerSyncRequest_fromJSON "\<lambda>_. True"
  by unfold_locales (simp add: TriggerSyncRequest_toJSON_def TriggerSyncRequest_fromJSON_def json_back)

lemma TriggerSyncRequest_partial_back: "TriggerSyncRequest_fromPartial (TriggerSyncRequest_as_partial m) = m"
  by (simp add: TriggerSyncRequest_fromPartial_def TriggerSyncRequest_as_partial_def
       partial_simps)

lemma TriggerSyncRequest_create_empty: "TriggerSyncRequest_create None = createBaseTriggerSyncRequest"
  by (simp add: TriggerSyncRequest_create_def TriggerSyncRequest_fromPartial_def createBaseTriggerSyncRequest_def partial_simps)

lemma TriggerSyncRequest_partial_ok:
  "partial_faithful TriggerSyncRequest_create TriggerSyncRequest_fromPartial TriggerSyncRequest_as_partial createBaseTriggerSyncRequest
     (\<lambda>_. True)"
  by (simp add: partial_faithful_def TriggerSyncRequest_create_empty TriggerSyncRequest_partial_back)
     (simp add: TriggerSyncRequest_create_def or_default_simps)

subsection \<open>TriggerSyncResponse\<close>

definition TriggerSyncResponse_fromJSON :: "json_lang \<Rightarrow> js \<Rightarrow> json_error + TriggerSyncResponse" where
  "TriggerSyncResponse_fromJSON L object =
     bindE (set_field L (js_int L) 0 [''secretsAdded'', ''secrets_added''] object) (\<lambda>v1.
     bindE (set_field L (js_int L) 0 [''secretsUpdated'', ''secrets_updated''] object) (\<lambda>v2.
     bindE (set_field L (js_int L) 0 [''secretsDeleted'', ''secrets_deleted''] object) (\<lambda>v3.
     bindE (set_field L (js_string L) '''' [''syncSha'', ''sync_sha''] object) (\<lambda>v4.
     bindE (array_field L (js_string L) [''errors''] object) (\<lambda>v5.
     bindE (set_field L (js_int L) 0 [''configsSynced'', ''configs_synced''] object) (\<lambda>v6.
     bindE (set_field L (js_int L) 0 [''configsConflicted'', ''configs_conflicted''] object) (\<lambda>v7.
       Inr \<lparr>TriggerSyncResponse_secretsAdded = v1,
            TriggerSyncResponse_secretsUpdated = v2,
            TriggerSyncResponse_secretsDeleted = v3,
            TriggerSyncResponse_syncSha = v4,
            TriggerSyncResponse_errors = v5,
            TriggerSyncResponse_configsSynced = v6,
            TriggerSyncResponse_configsConflicted = v7\<rparr>)))))))"

definition TriggerSyncResponse_toJSON :: "json_lang \<Rightarrow> TriggerSyncResponse \<Rightarrow> json_error + js" where
  "TriggerSyncResponse_toJSON L m = json_object
     [(''secretsAdded'', Inr (int_json (TriggerSyncResponse_secretsAdded m))),
      (''secretsUpdated'', Inr (int_json (TriggerSyncResponse_secretsUpdated m))),
      (''secretsDeleted'', Inr (int_json (TriggerSyncResponse_secretsDeleted m))),
      (''syncSha'', Inr (string_json (TriggerSyncResponse_syncSha m))),
      (''errors'', Inr (strings_json (TriggerSyncResponse_errors m))),
      (''configsSynced'', Inr (int_json (TriggerSyncResponse_configsSynced m))),
      (''configsConflicted'', Inr (int_json (TriggerSyncResponse_configsConflicted m)))]"

type_synonym TriggerSyncResponse_partial = "int option \<times> int option \<times> int option \<times> string option \<times> string list option \<times> int option \<times> int option"

definition TriggerSyncResponse_fromPartial :: "TriggerSyncResponse_partial \<Rightarrow> TriggerSyncResponse" where
  "TriggerSyncResponse_fromPartial object =
     (case object of (p1, p2, p3, p4, p5, p6, p7) \<Rightarrow>
       \<lparr>TriggerSyncResponse_secretsAdded = or_default 0 p1,
        TriggerSyncResponse_secretsUpdated = or_default 0 p2,
        TriggerSyncResponse_secretsDeleted = or_default 0 p3,
        TriggerSyncResponse_syncSha = or_default '''' p4,
        TriggerSyncResponse_errors = or_default [] p5,
        TriggerSyncResponse_configsSynced = or_default 0 p6,
        TriggerSyncResponse_configsConflicted = or_default 0 p7\<rparr>)"

definition TriggerSyncResponse_create :: "TriggerSyncResponse_partial option \<Rightarrow> TriggerSyncResponse" where
  "TriggerSyncResponse_create base = TriggerSyncResponse_fromPartial (or_default (None, None, None, None, None, None, None) base)"

definition TriggerSyncResponse_as_partial :: "TriggerSyncResponse \<Rightarrow> TriggerSyncResponse_partial" where
  "TriggerSyncResponse_as_partial m = (Some (TriggerSyncResponse_secretsAdded m), Some (TriggerSyncResponse_secretsUpdated m), Some (TriggerSyncResponse_secretsDeleted m), Some (TriggerSyncResponse_syncSha m), Some (TriggerSyncResponse_errors m), Some (TriggerSyncResponse_configsSynced m), Some (TriggerSyncResponse_configsConflicted m))"

definition json_ok_TriggerSyncResponse :: "TriggerSyncResponse \<Rightarrow> bool" where
  "json_ok_TriggerSyncResponse m \<longleftrightarrow> safe_int (TriggerSyncResponse_secretsAdded m) \<and> safe_int (TriggerSyncResponse_secretsUpdated m) \<and> safe_int (TriggerSyncResponse_secretsDeleted m) \<and> safe_int (TriggerSyncResponse_configsSynced m) \<and> safe_int (TriggerSyncResponse_configsConflicted m)"

interpretation TriggerSyncResponse_json: json_message TriggerSyncResponse_toJSON TriggerSyncResponse_fromJSON "json_ok_TriggerSyncResponse"
  by unfold_locales (simp add: TriggerSyncResponse_toJSON_def TriggerSyncResponse_fromJSON_def json_back
       json_ok_TriggerSyncResponse_def)

lemma TriggerSyncResponse_partial_back: "TriggerSyncResponse_fromPartial (TriggerSyncResponse_as_partial m) = m"
  by (simp add: TriggerSyncResponse_fromPartial_def TriggerSyncResponse_as_partial_def
       partial_simps)

lemma TriggerSyncResponse_create_empty: "TriggerSyncResponse_create None = createBaseTriggerSyncResponse"
  by (simp add: TriggerSyncResponse_create_def TriggerSyncResponse_fromPartial_def createBaseTriggerSyncResponse_def partial_simps)

lemma TriggerSyncResponse_partial_ok:
  "partial_faithful TriggerSyncResponse_create TriggerSyncResponse_fromPartial TriggerSyncResponse_as_partial createBaseTriggerSyncResponse
     (\<lambda>_. True)"
  by (simp add: partial_faithful_def TriggerSyncResponse_create_empty TriggerSyncResponse_partial_back)
     (simp add: TriggerSyncResponse_create_def or_default_simps)

subsection \<open>SyncBundleHeader\<close>

definition SyncBundleHeader_fromJSON :: "json_lang \<Rightarrow> js \<Rightarrow> json_error + SyncBundleHeader" where
  "SyncBundleHeader_fromJSON L object =
     bindE (set_field L (js_string L) '''' [''secretsPath'', ''secrets_path''] object) (\<lambda>v1.
     bindE (set_field L (js_string L) '''' [''headSha'', ''head_sha''] object) (\<lambda>v2.
     bindE (set_field L (js_string L) '''' [''configPath'', ''config_path''] object) (\<lambda>v3.
       Inr \<lparr>SyncBundleHeader_secretsPath = v1,
            SyncBundleHeader_headSha = v2,
            SyncBundleHeader_configPath = v3\<rparr>)))"

definition SyncBundleHeader_toJSON :: "json_lang \<Rightarrow> SyncBundleHeader \<Rightarrow> json_error + js" where
  "SyncBundleHeader_toJSON L m = json_object
     [(''secretsPath'', Inr (string_json (SyncBundleHeader_secretsPath m))),
      (''headSha'', Inr (string_json (SyncBundleHeader_headSha m))),
      (''configPath'', Inr (string_json (SyncBundleHeader_configPath m)))]"

type_synonym SyncBundleHeader_partial = "string option \<times> string option \<times> string option"

definition SyncBundleHeader_fromPartial :: "SyncBundleHeader_partial \<Rightarrow> SyncBundleHeader" where
  "SyncBundleHeader_fromPartial object =
     (case object of (p1, p2, p3) \<Rightarrow>
       \<lparr>SyncBundleHeader_secretsPath = or_default '''' p1,
        SyncBundleHeader_headSha = or_default '''' p2,
        SyncBundleHeader_configPath = or_default '''' p3\<rparr>)"

definition SyncBundleHeader_create :: "SyncBundleHeader_partial option \<Rightarrow> SyncBundleHeader" where
  "SyncBundleHeader_create base = SyncBundleHeader_fromPartial (or_default (None, None, None) base)"

definition SyncBundleHeader_as_partial :: "SyncBundleHeader \<Rightarrow> SyncBundleHeader_partial" where
  "SyncBundleHeader_as_partial m = (Some (SyncBundleHeader_secretsPath m), Some (SyncBundleHeader_headSha m), Some (SyncBundleHeader_configPath m))"

interpretation SyncBundleHeader_json: json_message SyncBundleHeader_toJSON SyncBundleHeader_fromJSON "\<lambda>_. True"
  by unfold_locales (simp add: SyncBundleHeader_toJSON_def SyncBundleHeader_fromJSON_def json_back)

lemma SyncBundleHeader_partial_back: "SyncBundleHeader_fromPartial (SyncBundleHeader_as_partial m) = m"
  by (simp add: SyncBundleHeader_fromPartial_def SyncBundleHeader_as_partial_def partial_simps)

lemma SyncBundleHeader_create_empty: "SyncBundleHeader_create None = createBaseSyncBundleHeader"
  by (simp add: SyncBundleHeader_create_def SyncBundleHeader_fromPartial_def createBaseSyncBundleHeader_def partial_simps)

lemma SyncBundleHeader_partial_ok:
  "partial_faithful SyncBundleHeader_create SyncBundleHeader_fromPartial SyncBundleHeader_as_partial createBaseSyncBundleHeader
     (\<lambda>_. True)"
  by (simp add: partial_faithful_def SyncBundleHeader_create_empty SyncBundleHeader_partial_back)
     (simp add: SyncBundleHeader_create_def or_default_simps)

subsection \<open>SyncBundleChunk\<close>

definition SyncBundleChunk_fromJSON :: "json_lang \<Rightarrow> js \<Rightarrow> json_error + SyncBundleChunk" where
  "SyncBundleChunk_fromJSON L object =
     bindE (set_field L (some_of (SyncBundleHeader_fromJSON L)) None [''header''] object) (\<lambda>v1.
     bindE (set_field L (some_of (bytesFromBase64 L)) None [''data''] object) (\<lambda>v2.
       Inr \<lparr>SyncBundleChunk_header = v1,
            SyncBundleChunk_data = v2\<rparr>))"

definition SyncBundleChunk_toJSON :: "json_lang \<Rightarrow> SyncBundleChunk \<Rightarrow> json_error + js" where
  "SyncBundleChunk_toJSON L m = json_object
     [(''header'', opt_json (SyncBundleHeader_toJSON L) (SyncBundleChunk_header m)),
      (''data'', Inr (opt_bytes_json (SyncBundleChunk_data m)))]"

type_synonym SyncBundleChunk_partial = "SyncBundleHeader_partial option \<times> byte list option"

definition SyncBundleChunk_fromPartial :: "SyncBundleChunk_partial \<Rightarrow> SyncBundleChunk" where
  "SyncBundleChunk_fromPartial object =
     (case object of (p1, p2) \<Rightarrow>
       \<lparr>SyncBundleChunk_header = map_option SyncBundleHeader_fromPartial p1,
        SyncBundleChunk_data = p2\<rparr>)"

definition SyncBundleChunk_create :: "SyncBundleChunk_partial option \<Rightarrow> SyncBundleChunk" where
  "SyncBundleChunk_create base = SyncBundleChunk_fromPartial (or_default (None, None) base)"

definition SyncBundleChunk_as_partial :: "SyncBundleChunk \<Rightarrow> SyncBundleChunk_partial" where
  "SyncBundleChunk_as_partial m = (map_option SyncBundleHeader_as_partial (SyncBundleChunk_header m), SyncBundleChunk_data m)"

interpretation SyncBundleChunk_json: json_message SyncBundleChunk_toJSON SyncBundleChunk_fromJSON "\<lambda>_. True"
proof
  fix L :: json_lang and m :: SyncBundleChunk
  assume ok: "lang_ok L" "(\<lambda>_. True) m"
  obtain v1 where v1: "opt_json (SyncBundleHeader_toJSON L) (SyncBundleChunk_header m) = Inr v1"
    "pick_if isSet (some_of (SyncBundleHeader_fromJSON L)) v1 (Inr None) = Inr (SyncBundleChunk_header m)"
    using SyncBundleHeader_json.opt_back [of L "SyncBundleChunk_header m"] ok by (auto simp: all_true)
  with ok show "\<exists>ob. SyncBundleChunk_toJSON L m = Inr (JObject ob) \<and> SyncBundleChunk_fromJSON L (JObject ob) = Inr m"
    by (simp add: SyncBundleChunk_toJSON_def SyncBundleChunk_fromJSON_def json_back bytes_back)
qed

lemma SyncBundleChunk_partial_back: "SyncBundleChunk_fromPartial (SyncBundleChunk_as_partial m) = m"
  by (simp add: SyncBundleChunk_fromPartial_def SyncBundleChunk_as_partial_def partial_simps
       SyncBundleHeader_partial_back option.map_comp comp_def)

lemma SyncBundleChunk_create_empty: "SyncBundleChunk_create None = createBaseSyncBundleChunk"
  by (simp add: SyncBundleChunk_create_def SyncBundleChunk_fromPartial_def createBaseSyncBundleChunk_def partial_simps)

lemma SyncBundleChunk_partial_ok:
  "partial_faithful SyncBundleChunk_create SyncBundleChunk_fromPartial SyncBundleChunk_as_partial createBaseSyncBundleChunk
     (\<lambda>_. True)"
  by (simp add: partial_faithful_def SyncBundleChunk_create_empty SyncBundleChunk_partial_back)
     (simp add: SyncBundleChunk_create_def or_default_simps)

subsection \<open>SyncBundleResponse\<close>

definition SyncBundleResponse_fromJSON :: "json_lang \<Rightarrow> js \<Rightarrow> json_error + SyncBundleResponse" where
  "SyncBundleResponse_fromJSON L object =
     bindE (set_field L (js_int L) 0 [''secretsAdded'', ''secrets_added''] object) (\<lambda>v1.
     bindE (set_field L (js_int L) 0 [''secretsUpdated'', ''secrets_updated''] object) (\<lambda>v2.
     bindE (set_field L (js_int L) 0 [''secretsDeleted'', ''secrets_deleted''] object) (\<lambda>v3.
     bindE (set_field L (js_string L) '''' [''syncSha'', ''sync_sha''] object) (\<lambda>v4.
     bindE (array_field L (js_string L) [''errors''] object) (\<lambda>v5.
     bindE (set_field L (js_int L) 0 [''configsSynced'', ''configs_synced''] object) (\<lambda>v6.
       Inr \<lparr>SyncBundleResponse_secretsAdded = v1,
            SyncBundleResponse_secretsUpdated = v2,
            SyncBundleResponse_secretsDeleted = v3,
            SyncBundleResponse_syncSha = v4,
            SyncBundleResponse_errors = v5,
            SyncBundleResponse_configsSynced = v6\<rparr>))))))"

definition SyncBundleResponse_toJSON :: "json_lang \<Rightarrow> SyncBundleResponse \<Rightarrow> json_error + js" where
  "SyncBundleResponse_toJSON L m = json_object
     [(''secretsAdded'', Inr (int_json (SyncBundleResponse_secretsAdded m))),
      (''secretsUpdated'', Inr (int_json (SyncBundleResponse_secretsUpdated m))),
      (''secretsDeleted'', Inr (int_json (SyncBundleResponse_secretsDeleted m))),
      (''syncSha'', Inr (string_json (SyncBundleResponse_syncSha m))),
      (''errors'', Inr (strings_json (SyncBundleResponse_errors m))),
      (''configsSynced'', Inr (int_json (SyncBundleResponse_configsSynced m)))]"

type_synonym SyncBundleResponse_partial = "int option \<times> int option \<times> int option \<times> string option \<times> string list option \<times> int option"

definition SyncBundleResponse_fromPartial :: "SyncBundleResponse_partial \<Rightarrow> SyncBundleResponse" where
  "SyncBundleResponse_fromPartial object =
     (case object of (p1, p2, p3, p4, p5, p6) \<Rightarrow>
       \<lparr>SyncBundleResponse_secretsAdded = or_default 0 p1,
        SyncBundleResponse_secretsUpdated = or_default 0 p2,
        SyncBundleResponse_secretsDeleted = or_default 0 p3,
        SyncBundleResponse_syncSha = or_default '''' p4,
        SyncBundleResponse_errors = or_default [] p5,
        SyncBundleResponse_configsSynced = or_default 0 p6\<rparr>)"

definition SyncBundleResponse_create :: "SyncBundleResponse_partial option \<Rightarrow> SyncBundleResponse" where
  "SyncBundleResponse_create base = SyncBundleResponse_fromPartial (or_default (None, None, None, None, None, None) base)"

definition SyncBundleResponse_as_partial :: "SyncBundleResponse \<Rightarrow> SyncBundleResponse_partial" where
  "SyncBundleResponse_as_partial m = (Some (SyncBundleResponse_secretsAdded m), Some (SyncBundleResponse_secretsUpdated m), Some (SyncBundleResponse_secretsDeleted m), Some (SyncBundleResponse_syncSha m), Some (SyncBundleResponse_errors m), Some (SyncBundleResponse_configsSynced m))"

definition json_ok_SyncBundleResponse :: "SyncBundleResponse \<Rightarrow> bool" where
  "json_ok_SyncBundleResponse m \<longleftrightarrow> safe_int (SyncBundleResponse_secretsAdded m) \<and> safe_int (SyncBundleResponse_secretsUpdated m) \<and> safe_int (SyncBundleResponse_secretsDeleted m) \<and> safe_int (SyncBundleResponse_configsSynced m)"

interpretation SyncBundleResponse_json: json_message SyncBundleResponse_toJSON SyncBundleResponse_fromJSON "json_ok_SyncBundleResponse"
  by unfold_locales (simp add: SyncBundleResponse_toJSON_def SyncBundleResponse_fromJSON_def json_back
       json_ok_SyncBundleResponse_def)

lemma SyncBundleResponse_partial_back: "SyncBundleResponse_fromPartial (SyncBundleResponse_as_partial m) = m"
  by (simp add: SyncBundleResponse_fromPartial_def SyncBundleResponse_as_partial_def
       partial_simps)

lemma SyncBundleResponse_create_empty: "SyncBundleResponse_create None = createBaseSyncBundleResponse"
  by (simp add: SyncBundleResponse_create_def SyncBundleResponse_fromPartial_def createBaseSyncBundleResponse_def partial_simps)

lemma SyncBundleResponse_partial_ok:
  "partial_faithful SyncBundleResponse_create SyncBundleResponse_fromPartial SyncBundleResponse_as_partial createBaseSyncBundleResponse
     (\<lambda>_. True)"
  by (simp add: partial_faithful_def SyncBundleResponse_create_empty SyncBundleResponse_partial_back)
     (simp add: SyncBundleResponse_create_def or_default_simps)

text \<open>The round trips, and the completions of partial messages, of this theory.\<close>

lemmas AdminRepositoryJson_faithful =
      RegisterRepositoryRequest_json.faithful RegisterRepositoryResponse_json.faithful
      ListRepositoriesRequest_json.faithful RepositoryInfo_json.faithful
      ListRepositoriesResponse_json.faithful RemoveRepositoryRequest_json.faithful
      RemoveRepositoryResponse_json.faithful TriggerSyncRequest_json.faithful
      TriggerSyncResponse_json.faithful SyncBundleHeader_json.faithful
      SyncBundleChunk_json.faithful SyncBundleResponse_json.faithful

lemmas AdminRepositoryJson_completed =
      RegisterRepositoryRequest_partial_ok RegisterRepositoryResponse_partial_ok
      ListRepositoriesRequest_partial_ok RepositoryInfo_partial_ok
      ListRepositoriesResponse_partial_ok RemoveRepositoryRequest_partial_ok
      RemoveRepositoryResponse_partial_ok TriggerSyncRequest_partial_ok
      TriggerSyncResponse_partial_ok SyncBundleHeader_partial_ok SyncBundleChunk_partial_ok
      SyncBundleResponse_partial_ok

end
