(* ===== verification/AdminConfigJson.thy ===== *)
theory AdminConfigJson
  imports AdminConfigMessages JsonCodec
begin

text \<open>
  \<open>fromJSON\<close>, \<open>toJSON\<close>, \<open>fromPartial\<close> and \<open>create\<close> of the messages of \<open>AdminConfigMessages\<close>, as
  \<open>src/gen/admin/v1/admin.ts\<close> has them, and the enumerations they mention. Each message is shown to
  keep the contract \<open>json_message\<close>: what \<open>toJSON\<close> writes, \<open>fromJSON\<close> reads back. \<open>\<dots>_as_partial\<close> is
  a message seen as a partial one; \<open>fromPartial\<close> gives it back.
\<close>

subsection \<open>JsonPatchOperation\<close>

definition JsonPatchOperation_fromJSON :: "json_lang \<Rightarrow> js \<Rightarrow> json_error + JsonPatchOperation" where
  "JsonPatchOperation_fromJSON L object =
     bindE (set_field L (js_string L) '''' [''op''] object) (\<lambda>v1.
     bindE (set_field L (js_string L) '''' [''path''] object) (\<lambda>v2.
     bindE (set_field L (js_string L) '''' [''from''] object) (\<lambda>v3.
     bindE (any_field_of L ''value'' object) (\<lambda>v4.
       Inr \<lparr>JsonPatchOperation_op = v1,
            JsonPatchOperation_path = v2,
            JsonPatchOperation_from = v3,
            JsonPatchOperation_value = v4\<rparr>))))"

definition JsonPatchOperation_toJSON :: "json_lang \<Rightarrow> JsonPatchOperation \<Rightarrow> json_error + js" where
  "JsonPatchOperation_toJSON L m = json_object
     [(''op'', Inr (string_json (JsonPatchOperation_op m))),
      (''path'', Inr (string_json (JsonPatchOperation_path m))),
      (''from'', Inr (string_json (JsonPatchOperation_from m))),
      (''value'', Inr (JsonPatchOperation_value m))]"

type_synonym JsonPatchOperation_partial = "string option \<times> string option \<times> string option \<times> js"

definition JsonPatchOperation_fromPartial :: "JsonPatchOperation_partial \<Rightarrow> JsonPatchOperation" where
  "JsonPatchOperation_fromPartial object =
     (case object of (p1, p2, p3, p4) \<Rightarrow>
       \<lparr>JsonPatchOperation_op = or_default '''' p1,
        JsonPatchOperation_path = or_default '''' p2,
        JsonPatchOperation_from = or_default '''' p3,
        JsonPatchOperation_value = any_or_undefined p4\<rparr>)"

definition JsonPatchOperation_create :: "JsonPatchOperation_partial option \<Rightarrow> JsonPatchOperation" where
  "JsonPatchOperation_create base = JsonPatchOperation_fromPartial (or_default (None, None, None, JUndefined) base)"

definition JsonPatchOperation_as_partial :: "JsonPatchOperation \<Rightarrow> JsonPatchOperation_partial" where
  "JsonPatchOperation_as_partial m = (Some (JsonPatchOperation_op m), Some (JsonPatchOperation_path m), Some (JsonPatchOperation_from m), JsonPatchOperation_value m)"

definition json_ok_JsonPatchOperation :: "JsonPatchOperation \<Rightarrow> bool" where
  "json_ok_JsonPatchOperation m \<longleftrightarrow> JsonPatchOperation_value m \<noteq> JNull"

interpretation JsonPatchOperation_json: json_message JsonPatchOperation_toJSON JsonPatchOperation_fromJSON "json_ok_JsonPatchOperation"
  by unfold_locales (simp add: JsonPatchOperation_toJSON_def JsonPatchOperation_fromJSON_def json_back
       json_ok_JsonPatchOperation_def)

lemma JsonPatchOperation_partial_back: "JsonPatchOperation_value m \<noteq> JNull \<Longrightarrow> JsonPatchOperation_fromPartial (JsonPatchOperation_as_partial m) = m"
  by (simp add: JsonPatchOperation_fromPartial_def JsonPatchOperation_as_partial_def
       partial_simps)

lemma JsonPatchOperation_create_empty: "JsonPatchOperation_create None = createBaseJsonPatchOperation"
  by (simp add: JsonPatchOperation_create_def JsonPatchOperation_fromPartial_def createBaseJsonPatchOperation_def partial_simps)

lemma JsonPatchOperation_partial_ok:
  "partial_faithful JsonPatchOperation_create JsonPatchOperation_fromPartial JsonPatchOperation_as_partial createBaseJsonPatchOperation
     (\<lambda>m. JsonPatchOperation_value m \<noteq> JNull)"
  by (simp add: partial_faithful_def JsonPatchOperation_create_empty JsonPatchOperation_partial_back)
     (simp add: JsonPatchOperation_create_def or_default_simps)

subsection \<open>PatchServiceConfigRequest\<close>

definition PatchServiceConfigRequest_fromJSON :: "json_lang \<Rightarrow> js \<Rightarrow> json_error + PatchServiceConfigRequest" where
  "PatchServiceConfigRequest_fromJSON L object =
     bindE (set_field L (js_string L) '''' [''namespace''] object) (\<lambda>v1.
     bindE (set_field L (js_string L) '''' [''service''] object) (\<lambda>v2.
     bindE (array_field L (JsonPatchOperation_fromJSON L) [''operations''] object) (\<lambda>v3.
       Inr \<lparr>PatchServiceConfigRequest_namespace = v1,
            PatchServiceConfigRequest_service = v2,
            PatchServiceConfigRequest_operations = v3\<rparr>)))"

definition PatchServiceConfigRequest_toJSON :: "json_lang \<Rightarrow> PatchServiceConfigRequest \<Rightarrow> json_error + js" where
  "PatchServiceConfigRequest_toJSON L m = json_object
     [(''namespace'', Inr (string_json (PatchServiceConfigRequest_namespace m))),
      (''service'', Inr (string_json (PatchServiceConfigRequest_service m))),
      (''operations'', list_json (JsonPatchOperation_toJSON L) (PatchServiceConfigRequest_operations m))]"

type_synonym PatchServiceConfigRequest_partial = "string option \<times> string option \<times> JsonPatchOperation_partial list option"

definition PatchServiceConfigRequest_fromPartial :: "PatchServiceConfigRequest_partial \<Rightarrow> PatchServiceConfigRequest" where
  "PatchServiceConfigRequest_fromPartial object =
     (case object of (p1, p2, p3) \<Rightarrow>
       \<lparr>PatchServiceConfigRequest_namespace = or_default '''' p1,
        PatchServiceConfigRequest_service = or_default '''' p2,
        PatchServiceConfigRequest_operations = or_default [] (map_option (map JsonPatchOperation_fromPartial) p3)\<rparr>)"

definition PatchServiceConfigRequest_create :: "PatchServiceConfigRequest_partial option \<Rightarrow> PatchServiceConfigRequest" where
  "PatchServiceConfigRequest_create base = PatchServiceConfigRequest_fromPartial (or_default (None, None, None) base)"

definition PatchServiceConfigRequest_as_partial :: "PatchServiceConfigRequest \<Rightarrow> PatchServiceConfigRequest_partial" where
  "PatchServiceConfigRequest_as_partial m = (Some (PatchServiceConfigRequest_namespace m), Some (PatchServiceConfigRequest_service m), Some (map JsonPatchOperation_as_partial (PatchServiceConfigRequest_operations m)))"

definition json_ok_PatchServiceConfigRequest :: "PatchServiceConfigRequest \<Rightarrow> bool" where
  "json_ok_PatchServiceConfigRequest m \<longleftrightarrow> list_all json_ok_JsonPatchOperation (PatchServiceConfigRequest_operations m)"

interpretation PatchServiceConfigRequest_json: json_message PatchServiceConfigRequest_toJSON PatchServiceConfigRequest_fromJSON "json_ok_PatchServiceConfigRequest"
proof
  fix L :: json_lang and m :: PatchServiceConfigRequest
  assume ok: "lang_ok L" "json_ok_PatchServiceConfigRequest m"
  obtain v3 where v3: "list_json (JsonPatchOperation_toJSON L) (PatchServiceConfigRequest_operations m) = Inr v3"
    "pick_if is_array (map_array (JsonPatchOperation_fromJSON L)) v3 (Inr []) = Inr (PatchServiceConfigRequest_operations m)"
    using JsonPatchOperation_json.list_back [of L "PatchServiceConfigRequest_operations m"] ok by (auto simp: json_ok_PatchServiceConfigRequest_def)
  with ok show "\<exists>ob. PatchServiceConfigRequest_toJSON L m = Inr (JObject ob) \<and> PatchServiceConfigRequest_fromJSON L (JObject ob) = Inr m"
    by (simp add: PatchServiceConfigRequest_toJSON_def PatchServiceConfigRequest_fromJSON_def
       json_back json_ok_PatchServiceConfigRequest_def)
qed

lemma PatchServiceConfigRequest_partial_back: "list_all (\<lambda>v. JsonPatchOperation_value v \<noteq> JNull) (PatchServiceConfigRequest_operations m) \<Longrightarrow> PatchServiceConfigRequest_fromPartial (PatchServiceConfigRequest_as_partial m) = m"
  by (simp add: PatchServiceConfigRequest_fromPartial_def
       PatchServiceConfigRequest_as_partial_def partial_simps JsonPatchOperation_partial_back)

lemma PatchServiceConfigRequest_create_empty: "PatchServiceConfigRequest_create None = createBasePatchServiceConfigRequest"
  by (simp add: PatchServiceConfigRequest_create_def PatchServiceConfigRequest_fromPartial_def createBasePatchServiceConfigRequest_def partial_simps)

lemma PatchServiceConfigRequest_partial_ok:
  "partial_faithful PatchServiceConfigRequest_create PatchServiceConfigRequest_fromPartial PatchServiceConfigRequest_as_partial createBasePatchServiceConfigRequest
     (\<lambda>m. list_all (\<lambda>v. JsonPatchOperation_value v \<noteq> JNull) (PatchServiceConfigRequest_operations m))"
  by (simp add: partial_faithful_def PatchServiceConfigRequest_create_empty PatchServiceConfigRequest_partial_back)
     (simp add: PatchServiceConfigRequest_create_def or_default_simps)

subsection \<open>PatchServiceConfigResponse\<close>

definition PatchServiceConfigResponse_fromJSON :: "json_lang \<Rightarrow> js \<Rightarrow> json_error + PatchServiceConfigResponse" where
  "PatchServiceConfigResponse_fromJSON L object =
     bindE (set_field L (js_int L) 0 [''version''] object) (\<lambda>v1.
       Inr \<lparr>PatchServiceConfigResponse_version = v1\<rparr>)"

definition PatchServiceConfigResponse_toJSON :: "json_lang \<Rightarrow> PatchServiceConfigResponse \<Rightarrow> json_error + js" where
  "PatchServiceConfigResponse_toJSON L m = json_object
     [(''version'', Inr (int_json (PatchServiceConfigResponse_version m)))]"

type_synonym PatchServiceConfigResponse_partial = "int option"

definition PatchServiceConfigResponse_fromPartial :: "PatchServiceConfigResponse_partial \<Rightarrow> PatchServiceConfigResponse" where
  "PatchServiceConfigResponse_fromPartial object =
     \<lparr>PatchServiceConfigResponse_version = or_default 0 object\<rparr>"

definition PatchServiceConfigResponse_create :: "PatchServiceConfigResponse_partial option \<Rightarrow> PatchServiceConfigResponse" where
  "PatchServiceConfigResponse_create base = PatchServiceConfigResponse_fromPartial (or_default (None) base)"

definition PatchServiceConfigResponse_as_partial :: "PatchServiceConfigResponse \<Rightarrow> PatchServiceConfigResponse_partial" where
  "PatchServiceConfigResponse_as_partial m = (Some (PatchServiceConfigResponse_version m))"

definition json_ok_PatchServiceConfigResponse :: "PatchServiceConfigResponse \<Rightarrow> bool" where
  "json_ok_PatchServiceConfigResponse m \<longleftrightarrow> safe_int (PatchServiceConfigResponse_version m)"

interpretation PatchServiceConfigResponse_json: json_message PatchServiceConfigResponse_toJSON PatchServiceConfigResponse_fromJSON "json_ok_PatchServiceConfigResponse"
  by unfold_locales (simp add: PatchServiceConfigResponse_toJSON_def PatchServiceConfigResponse_fromJSON_def
       json_back json_ok_PatchServiceConfigResponse_def)

lemma PatchServiceConfigResponse_partial_back: "PatchServiceConfigResponse_fromPartial (PatchServiceConfigResponse_as_partial m) = m"
  by (simp add: PatchServiceConfigResponse_fromPartial_def
       PatchServiceConfigResponse_as_partial_def partial_simps)

lemma PatchServiceConfigResponse_create_empty: "PatchServiceConfigResponse_create None = createBasePatchServiceConfigResponse"
  by (simp add: PatchServiceConfigResponse_create_def PatchServiceConfigResponse_fromPartial_def createBasePatchServiceConfigResponse_def partial_simps)

lemma PatchServiceConfigResponse_partial_ok:
  "partial_faithful PatchServiceConfigResponse_create PatchServiceConfigResponse_fromPartial PatchServiceConfigResponse_as_partial createBasePatchServiceConfigResponse
     (\<lambda>_. True)"
  by (simp add: partial_faithful_def PatchServiceConfigResponse_create_empty PatchServiceConfigResponse_partial_back)
     (simp add: PatchServiceConfigResponse_create_def or_default_simps)

subsection \<open>AdminGetServiceConfigRequest\<close>

definition AdminGetServiceConfigRequest_fromJSON :: "json_lang \<Rightarrow> js \<Rightarrow> json_error + AdminGetServiceConfigRequest" where
  "AdminGetServiceConfigRequest_fromJSON L object =
     bindE (set_field L (js_string L) '''' [''namespace''] object) (\<lambda>v1.
     bindE (set_field L (js_string L) '''' [''service''] object) (\<lambda>v2.
       Inr \<lparr>AdminGetServiceConfigRequest_namespace = v1,
            AdminGetServiceConfigRequest_service = v2\<rparr>))"

definition AdminGetServiceConfigRequest_toJSON :: "json_lang \<Rightarrow> AdminGetServiceConfigRequest \<Rightarrow> json_error + js" where
  "AdminGetServiceConfigRequest_toJSON L m = json_object
     [(''namespace'', Inr (string_json (AdminGetServiceConfigRequest_namespace m))),
      (''service'', Inr (string_json (AdminGetServiceConfigRequest_service m)))]"

type_synonym AdminGetServiceConfigRequest_partial = "string option \<times> string option"

definition AdminGetServiceConfigRequest_fromPartial :: "AdminGetServiceConfigRequest_partial \<Rightarrow> AdminGetServiceConfigRequest" where
  "AdminGetServiceConfigRequest_fromPartial object =
     (case object of (p1, p2) \<Rightarrow>
       \<lparr>AdminGetServiceConfigRequest_namespace = or_default '''' p1,
        AdminGetServiceConfigRequest_service = or_default '''' p2\<rparr>)"

definition AdminGetServiceConfigRequest_create :: "AdminGetServiceConfigRequest_partial option \<Rightarrow> AdminGetServiceConfigRequest" where
  "AdminGetServiceConfigRequest_create base = AdminGetServiceConfigRequest_fromPartial (or_default (None, None) base)"

definition AdminGetServiceConfigRequest_as_partial :: "AdminGetServiceConfigRequest \<Rightarrow> AdminGetServiceConfigRequest_partial" where
  "AdminGetServiceConfigRequest_as_partial m = (Some (AdminGetServiceConfigRequest_namespace m), Some (AdminGetServiceConfigRequest_service m))"

interpretation AdminGetServiceConfigRequest_json: json_message AdminGetServiceConfigRequest_toJSON AdminGetServiceConfigRequest_fromJSON "\<lambda>_. True"
  by unfold_locales (simp add: AdminGetServiceConfigRequest_toJSON_def
       AdminGetServiceConfigRequest_fromJSON_def json_back)

lemma AdminGetServiceConfigRequest_partial_back: "AdminGetServiceConfigRequest_fromPartial (AdminGetServiceConfigRequest_as_partial m) = m"
  by (simp add: AdminGetServiceConfigRequest_fromPartial_def
       AdminGetServiceConfigRequest_as_partial_def partial_simps)

lemma AdminGetServiceConfigRequest_create_empty: "AdminGetServiceConfigRequest_create None = createBaseAdminGetServiceConfigRequest"
  by (simp add: AdminGetServiceConfigRequest_create_def AdminGetServiceConfigRequest_fromPartial_def createBaseAdminGetServiceConfigRequest_def partial_simps)

lemma AdminGetServiceConfigRequest_partial_ok:
  "partial_faithful AdminGetServiceConfigRequest_create AdminGetServiceConfigRequest_fromPartial AdminGetServiceConfigRequest_as_partial createBaseAdminGetServiceConfigRequest
     (\<lambda>_. True)"
  by (simp add: partial_faithful_def AdminGetServiceConfigRequest_create_empty AdminGetServiceConfigRequest_partial_back)
     (simp add: AdminGetServiceConfigRequest_create_def or_default_simps)

subsection \<open>AdminGetServiceConfigResponse\<close>

definition AdminGetServiceConfigResponse_fromJSON :: "json_lang \<Rightarrow> js \<Rightarrow> json_error + AdminGetServiceConfigResponse" where
  "AdminGetServiceConfigResponse_fromJSON L object =
     bindE (any_field_of L ''content'' object) (\<lambda>v1.
     bindE (set_field L (js_int L) 0 [''version''] object) (\<lambda>v2.
       Inr \<lparr>AdminGetServiceConfigResponse_content = v1,
            AdminGetServiceConfigResponse_version = v2\<rparr>))"

definition AdminGetServiceConfigResponse_toJSON :: "json_lang \<Rightarrow> AdminGetServiceConfigResponse \<Rightarrow> json_error + js" where
  "AdminGetServiceConfigResponse_toJSON L m = json_object
     [(''content'', Inr (AdminGetServiceConfigResponse_content m)),
      (''version'', Inr (int_json (AdminGetServiceConfigResponse_version m)))]"

type_synonym AdminGetServiceConfigResponse_partial = "js \<times> int option"

definition AdminGetServiceConfigResponse_fromPartial :: "AdminGetServiceConfigResponse_partial \<Rightarrow> AdminGetServiceConfigResponse" where
  "AdminGetServiceConfigResponse_fromPartial object =
     (case object of (p1, p2) \<Rightarrow>
       \<lparr>AdminGetServiceConfigResponse_content = any_or_undefined p1,
        AdminGetServiceConfigResponse_version = or_default 0 p2\<rparr>)"

definition AdminGetServiceConfigResponse_create :: "AdminGetServiceConfigResponse_partial option \<Rightarrow> AdminGetServiceConfigResponse" where
  "AdminGetServiceConfigResponse_create base = AdminGetServiceConfigResponse_fromPartial (or_default (JUndefined, None) base)"

definition AdminGetServiceConfigResponse_as_partial :: "AdminGetServiceConfigResponse \<Rightarrow> AdminGetServiceConfigResponse_partial" where
  "AdminGetServiceConfigResponse_as_partial m = (AdminGetServiceConfigResponse_content m, Some (AdminGetServiceConfigResponse_version m))"

definition json_ok_AdminGetServiceConfigResponse :: "AdminGetServiceConfigResponse \<Rightarrow> bool" where
  "json_ok_AdminGetServiceConfigResponse m \<longleftrightarrow> AdminGetServiceConfigResponse_content m \<noteq> JNull \<and> safe_int (AdminGetServiceConfigResponse_version m)"

interpretation AdminGetServiceConfigResponse_json: json_message AdminGetServiceConfigResponse_toJSON AdminGetServiceConfigResponse_fromJSON "json_ok_AdminGetServiceConfigResponse"
  by unfold_locales (simp add: AdminGetServiceConfigResponse_toJSON_def
       AdminGetServiceConfigResponse_fromJSON_def json_back
       json_ok_AdminGetServiceConfigResponse_def)

lemma AdminGetServiceConfigResponse_partial_back: "AdminGetServiceConfigResponse_content m \<noteq> JNull \<Longrightarrow> AdminGetServiceConfigResponse_fromPartial (AdminGetServiceConfigResponse_as_partial m) = m"
  by (simp add: AdminGetServiceConfigResponse_fromPartial_def
       AdminGetServiceConfigResponse_as_partial_def partial_simps)

lemma AdminGetServiceConfigResponse_create_empty: "AdminGetServiceConfigResponse_create None = createBaseAdminGetServiceConfigResponse"
  by (simp add: AdminGetServiceConfigResponse_create_def AdminGetServiceConfigResponse_fromPartial_def createBaseAdminGetServiceConfigResponse_def partial_simps)

lemma AdminGetServiceConfigResponse_partial_ok:
  "partial_faithful AdminGetServiceConfigResponse_create AdminGetServiceConfigResponse_fromPartial AdminGetServiceConfigResponse_as_partial createBaseAdminGetServiceConfigResponse
     (\<lambda>m. AdminGetServiceConfigResponse_content m \<noteq> JNull)"
  by (simp add: partial_faithful_def AdminGetServiceConfigResponse_create_empty AdminGetServiceConfigResponse_partial_back)
     (simp add: AdminGetServiceConfigResponse_create_def or_default_simps)

subsection \<open>PutServiceConfigRequest\<close>

definition PutServiceConfigRequest_fromJSON :: "json_lang \<Rightarrow> js \<Rightarrow> json_error + PutServiceConfigRequest" where
  "PutServiceConfigRequest_fromJSON L object =
     bindE (set_field L (js_string L) '''' [''namespace''] object) (\<lambda>v1.
     bindE (set_field L (js_string L) '''' [''service''] object) (\<lambda>v2.
     bindE (any_field_of L ''content'' object) (\<lambda>v3.
     bindE (set_field L (js_int L) 0 [''expectedVersion'', ''expected_version''] object) (\<lambda>v4.
       Inr \<lparr>PutServiceConfigRequest_namespace = v1,
            PutServiceConfigRequest_service = v2,
            PutServiceConfigRequest_content = v3,
            PutServiceConfigRequest_expectedVersion = v4\<rparr>))))"

definition PutServiceConfigRequest_toJSON :: "json_lang \<Rightarrow> PutServiceConfigRequest \<Rightarrow> json_error + js" where
  "PutServiceConfigRequest_toJSON L m = json_object
     [(''namespace'', Inr (string_json (PutServiceConfigRequest_namespace m))),
      (''service'', Inr (string_json (PutServiceConfigRequest_service m))),
      (''content'', Inr (PutServiceConfigRequest_content m)),
      (''expectedVersion'', Inr (int_json (PutServiceConfigRequest_expectedVersion m)))]"

type_synonym PutServiceConfigRequest_partial = "string option \<times> string option \<times> js \<times> int option"

definition PutServiceConfigRequest_fromPartial :: "PutServiceConfigRequest_partial \<Rightarrow> PutServiceConfigRequest" where
  "PutServiceConfigRequest_fromPartial object =
     (case object of (p1, p2, p3, p4) \<Rightarrow>
       \<lparr>PutServiceConfigRequest_namespace = or_default '''' p1,
        PutServiceConfigRequest_service = or_default '''' p2,
        PutServiceConfigRequest_content = any_or_undefined p3,
        PutServiceConfigRequest_expectedVersion = or_default 0 p4\<rparr>)"

definition PutServiceConfigRequest_create :: "PutServiceConfigRequest_partial option \<Rightarrow> PutServiceConfigRequest" where
  "PutServiceConfigRequest_create base = PutServiceConfigRequest_fromPartial (or_default (None, None, JUndefined, None) base)"

definition PutServiceConfigRequest_as_partial :: "PutServiceConfigRequest \<Rightarrow> PutServiceConfigRequest_partial" where
  "PutServiceConfigRequest_as_partial m = (Some (PutServiceConfigRequest_namespace m), Some (PutServiceConfigRequest_service m), PutServiceConfigRequest_content m, Some (PutServiceConfigRequest_expectedVersion m))"

definition json_ok_PutServiceConfigRequest :: "PutServiceConfigRequest \<Rightarrow> bool" where
  "json_ok_PutServiceConfigRequest m \<longleftrightarrow> PutServiceConfigRequest_content m \<noteq> JNull \<and> safe_int (PutServiceConfigRequest_expectedVersion m)"

interpretation PutServiceConfigRequest_json: json_message PutServiceConfigRequest_toJSON PutServiceConfigRequest_fromJSON "json_ok_PutServiceConfigRequest"
  by unfold_locales (simp add: PutServiceConfigRequest_toJSON_def PutServiceConfigRequest_fromJSON_def
       json_back json_ok_PutServiceConfigRequest_def)

lemma PutServiceConfigRequest_partial_back: "PutServiceConfigRequest_content m \<noteq> JNull \<Longrightarrow> PutServiceConfigRequest_fromPartial (PutServiceConfigRequest_as_partial m) = m"
  by (simp add: PutServiceConfigRequest_fromPartial_def PutServiceConfigRequest_as_partial_def
       partial_simps)

lemma PutServiceConfigRequest_create_empty: "PutServiceConfigRequest_create None = createBasePutServiceConfigRequest"
  by (simp add: PutServiceConfigRequest_create_def PutServiceConfigRequest_fromPartial_def createBasePutServiceConfigRequest_def partial_simps)

lemma PutServiceConfigRequest_partial_ok:
  "partial_faithful PutServiceConfigRequest_create PutServiceConfigRequest_fromPartial PutServiceConfigRequest_as_partial createBasePutServiceConfigRequest
     (\<lambda>m. PutServiceConfigRequest_content m \<noteq> JNull)"
  by (simp add: partial_faithful_def PutServiceConfigRequest_create_empty PutServiceConfigRequest_partial_back)
     (simp add: PutServiceConfigRequest_create_def or_default_simps)

subsection \<open>PutServiceConfigResponse\<close>

definition PutServiceConfigResponse_fromJSON :: "json_lang \<Rightarrow> js \<Rightarrow> json_error + PutServiceConfigResponse" where
  "PutServiceConfigResponse_fromJSON L object =
     bindE (set_field L (js_int L) 0 [''version''] object) (\<lambda>v1.
       Inr \<lparr>PutServiceConfigResponse_version = v1\<rparr>)"

definition PutServiceConfigResponse_toJSON :: "json_lang \<Rightarrow> PutServiceConfigResponse \<Rightarrow> json_error + js" where
  "PutServiceConfigResponse_toJSON L m = json_object
     [(''version'', Inr (int_json (PutServiceConfigResponse_version m)))]"

type_synonym PutServiceConfigResponse_partial = "int option"

definition PutServiceConfigResponse_fromPartial :: "PutServiceConfigResponse_partial \<Rightarrow> PutServiceConfigResponse" where
  "PutServiceConfigResponse_fromPartial object =
     \<lparr>PutServiceConfigResponse_version = or_default 0 object\<rparr>"

definition PutServiceConfigResponse_create :: "PutServiceConfigResponse_partial option \<Rightarrow> PutServiceConfigResponse" where
  "PutServiceConfigResponse_create base = PutServiceConfigResponse_fromPartial (or_default (None) base)"

definition PutServiceConfigResponse_as_partial :: "PutServiceConfigResponse \<Rightarrow> PutServiceConfigResponse_partial" where
  "PutServiceConfigResponse_as_partial m = (Some (PutServiceConfigResponse_version m))"

definition json_ok_PutServiceConfigResponse :: "PutServiceConfigResponse \<Rightarrow> bool" where
  "json_ok_PutServiceConfigResponse m \<longleftrightarrow> safe_int (PutServiceConfigResponse_version m)"

interpretation PutServiceConfigResponse_json: json_message PutServiceConfigResponse_toJSON PutServiceConfigResponse_fromJSON "json_ok_PutServiceConfigResponse"
  by unfold_locales (simp add: PutServiceConfigResponse_toJSON_def PutServiceConfigResponse_fromJSON_def
       json_back json_ok_PutServiceConfigResponse_def)

lemma PutServiceConfigResponse_partial_back: "PutServiceConfigResponse_fromPartial (PutServiceConfigResponse_as_partial m) = m"
  by (simp add: PutServiceConfigResponse_fromPartial_def
       PutServiceConfigResponse_as_partial_def partial_simps)

lemma PutServiceConfigResponse_create_empty: "PutServiceConfigResponse_create None = createBasePutServiceConfigResponse"
  by (simp add: PutServiceConfigResponse_create_def PutServiceConfigResponse_fromPartial_def createBasePutServiceConfigResponse_def partial_simps)

lemma PutServiceConfigResponse_partial_ok:
  "partial_faithful PutServiceConfigResponse_create PutServiceConfigResponse_fromPartial PutServiceConfigResponse_as_partial createBasePutServiceConfigResponse
     (\<lambda>_. True)"
  by (simp add: partial_faithful_def PutServiceConfigResponse_create_empty PutServiceConfigResponse_partial_back)
     (simp add: PutServiceConfigResponse_create_def or_default_simps)

text \<open>The round trips, and the completions of partial messages, of this theory.\<close>

lemmas AdminConfigJson_faithful =
      JsonPatchOperation_json.faithful PatchServiceConfigRequest_json.faithful
      PatchServiceConfigResponse_json.faithful AdminGetServiceConfigRequest_json.faithful
      AdminGetServiceConfigResponse_json.faithful PutServiceConfigRequest_json.faithful
      PutServiceConfigResponse_json.faithful

lemmas AdminConfigJson_completed =
      JsonPatchOperation_partial_ok PatchServiceConfigRequest_partial_ok
      PatchServiceConfigResponse_partial_ok AdminGetServiceConfigRequest_partial_ok
      AdminGetServiceConfigResponse_partial_ok PutServiceConfigRequest_partial_ok
      PutServiceConfigResponse_partial_ok

end
