(* ===== verification/Spec2Isabelle.thy ===== *)
theory Spec2Isabelle
  imports WaitForRestart Workload AdminClient JsonPatch Sops PbWire
    Samples GitOpsExample SecretsService AdminService GitOpsService EchoMain
    SecretsJson AdminSealJson AdminPolicyJson AdminSopsJson AdminRepositoryJson AdminConfigJson StructJson
begin

text \<open>
  The TypeScript client of Signet (\<open>src/typescript\<close>): a library that connects a workload or an
  operator to a Signet server over gRPC, and two example programs. Paths below are relative to
  \<open>src/typescript/src\<close>.

  \<^bold>\<open>The program.\<close> A workload dials the server with the identity it fetches from the SPIFFE
  Workload API (\<open>workload.ts\<close>), reads its secrets and configuration with the messages of the workload
  API (\<open>gen/signet/v1/secrets.ts\<close>), and blocks in \<open>waitForRestart\<close> until something changes and the
  fleet-wide restart lock is held (\<open>restart.ts\<close>). Streams of the gRPC library are pushed into a
  mailbox (\<open>async-mailbox.ts\<close>) and pulled out of it by receive loops; an abort signal is raced against
  promises (\<open>errors.ts\<close>). An operator dials with a bearer token (\<open>client.ts\<close>), seals secrets for a
  repository (\<open>sopsEncrypt.ts\<close>) and patches configuration (\<open>jsonpatch.ts\<close>) with the messages of the
  admin API (\<open>gen/admin/v1/admin.ts\<close>). The generated code is a set of codecs over an external reader and
  writer, with conversions to and from JSON.

  \<^bold>\<open>How it is modelled.\<close> A class or a running asynchronous function is a record, an operation a
  function that returns the new state and the promises it settles; an \<open>await\<close> is a program point of a
  state machine, whose events are the ways the \<open>await\<close> can settle, and a concurrent execution is a
  list of events in any order (\<open>Prelude.run\<close>). One event is one task of the event loop with the
  reactions it triggers. A thrown or rejected value is a \<open>thrown\<close>, a result \<open>thrown + 'a\<close>. JavaScript
  strings are lists of code units below 256; characters above that range are outside the model.
  Times are whole milliseconds; \<open>timer_delay\<close> is what \<open>setTimeout\<close> and \<open>setInterval\<close> make of a delay
  that does not fit 31 bits.

  \<^bold>\<open>Theories.\<close>
  \<^item> \<open>Prelude\<close>: strings, thrown values, timers, runs, and the locales \<open>event_machine\<close> (an invariant every
    step keeps) and \<open>budgeted_machine\<close> (a bound on the outputs of a run).
  \<^item> \<open>Errors\<close> (\<open>errors.ts\<close>): \<open>asError\<close>, \<open>errMessage\<close>, \<open>abortedError\<close>, \<open>raceAbort\<close>.
  \<^item> \<open>Mailbox\<close> (\<open>async-mailbox.ts\<close>): the class \<open>AsyncMailbox\<close>; the \<open>k\<close>-th \<open>next()\<close> gets the \<open>k\<close>-th item
    under every interleaving.
  \<^item> \<open>Streams\<close> (\<open>restart.ts\<close>): \<open>lockStreamFromGrpc\<close>, \<open>watchStreamFromGrpc\<close>, and the contract
    \<open>recv_source\<close> the receive loops rely on.
  \<^item> \<open>BundleWatch\<close>, \<open>WatchLoop\<close> (\<open>restart.ts\<close>): the class \<open>BundleWatch\<close>, \<open>runWatchLoop\<close>, \<open>watchBundle\<close>.
  \<^item> \<open>Lock\<close> (\<open>restart.ts\<close>): the class \<open>Lock\<close>, \<open>acquireLockWithStream\<close>, \<open>acquireLock\<close>: losing, releasing,
    what is sent, how the acquisition settles, heartbeats.
  \<^item> \<open>Debounce\<close>, \<open>WaitForRestart\<close> (\<open>restart.ts\<close>): \<open>debounceUntilQuiet\<close> and \<open>waitForRestart\<close>, composed of
    the machines of the watch loop, the debouncer and the lock; \<open>follows\<close> is the simulation of the
    abstract \<open>plan\<close>.
  \<^item> \<open>Workload\<close> (\<open>workload.ts\<close>): the retry, the credentials, PEM, the trust domain check, both dial
    functions.
  \<^item> \<open>AdminClient\<close> (\<open>client.ts\<close>), \<open>JsonPatch\<close> (\<open>jsonpatch.ts\<close>), \<open>Bytes\<close> and \<open>Sops\<close> (\<open>sopsEncrypt.ts\<close>).
  \<^item> \<open>Wire\<close>, \<open>Codec\<close>, \<open>MessageCodec\<close>: what every generated \<open>encode\<close> and \<open>decode\<close> shares, and the locales
    \<open>decoder_returns\<close>, \<open>codec\<close> and \<open>message_codec\<close>; \<open>PbWire\<close>: the protobuf wire format, an instance.
  \<^item> \<open>JsValue\<close>, \<open>StructCodec\<close>, \<open>StructJson\<close> (\<open>gen/google/protobuf/struct.ts\<close>) and \<open>TimestampCodec\<close>
    (\<open>gen/google/protobuf/timestamp.ts\<close>, \<open>toTimestamp\<close> and \<open>fromTimestamp\<close>).
  \<^item> \<open>SecretsMessages\<close>, \<open>AdminSealMessages\<close>, \<open>AdminPolicyMessages\<close>, \<open>AdminSopsMessages\<close>,
    \<open>AdminRepositoryMessages\<close>, \<open>AdminConfigMessages\<close>: all messages of both APIs. For a message \<open>M\<close> the
    definitions \<open>M_encode\<close>, \<open>M_field\<close> (the \<open>switch\<close> of \<open>decode\<close>), \<open>M_dec\<close>, \<open>createBaseM\<close>, and an
    \<open>interpretation\<close> of \<open>message_codec\<close>. A type of the admin API whose name the workload API has too
    carries the prefix \<open>Admin\<close>.
  \<^item> \<open>JsNumber\<close>, \<open>JsonCodec\<close> and the theories \<open>\<dots>Json\<close>: \<open>M_fromJSON\<close>, \<open>M_toJSON\<close>, \<open>M_create\<close>, \<open>M_fromPartial\<close>
    of all messages and the enumerations, each an \<open>interpretation\<close> of \<open>json_message\<close>.
  \<^item> \<open>Rpc\<close>, \<open>SecretsService\<close>, \<open>AdminService\<close>, \<open>GitOpsService\<close>: the method tables of the three services,
    each method an \<open>interpretation\<close> of \<open>rpc_contract\<close>, and the kinds of calls their server and client
    interfaces declare.
  \<^item> \<open>EchoBundle\<close>, \<open>EchoMain\<close> (\<open>../examples/echo/index.ts\<close>): the example that fetches, prints and waits, a
    machine around that of \<open>waitForRestart\<close>; \<open>GitOpsExample\<close> (\<open>../examples/gitops-workload/main.ts\<close>).
  \<^item> \<open>Samples\<close>: concrete messages for the witnesses.

  \<^bold>\<open>What the lemmas show.\<close> Of the asynchronous parts: each call of \<open>next()\<close>, \<open>recv()\<close> and \<open>release()\<close>
  is answered at most once and, where the code promises it, eventually (\<open>answered_once_run\<close>,
  \<open>releases_answered_run\<close>, \<open>set_answers\<close>); the loss of a lock is reported at most once
  (\<open>lost_events_bounded\<close>); nothing is sent after a release (\<open>released_run\<close>) and heartbeats go on until
  then (\<open>beats_after\<close>); loops end exactly on an abort (\<open>loop_aborted_iff\<close>); the composition follows its
  plan (\<open>wait_follows_plan\<close>). Of the codecs: a decoder returns on every byte string
  (\<open>dec_loop_returns\<close>), what was encoded is decoded (\<open>message_codec\<close>, \<open>codec\<close>), what \<open>toJSON\<close> writes
  \<open>fromJSON\<close> reads (\<open>json_message\<close>). Of the rest: transport and trust decisions, round trips of PEM,
  SOPS leaves and dates, and the exit codes of the echo program.

  \<^bold>\<open>External code\<close> is a parameter: the protobuf reader and writer (a record \<open>wire\<close>, with \<open>wire_ok\<close> and
  \<open>wire_progress\<close> for what its documentation says; \<open>pb_wire\<close> satisfies both), cryptography, age, clock
  and YAML (\<open>crypto\<close>, with \<open>gcm_ok\<close>), conversions of the language that are not one line (\<open>json_lang\<close>,
  with \<open>lang_ok\<close>), certificate parsing, the Workload API client and the gRPC constructors
  (\<open>workload_libs\<close>). \<open>Unrepresentable\<close> marks an input of \<open>fromJSON\<close> for which the code would store a
  value outside the declared type of a field.

  \<^bold>\<open>Bounds and fuel.\<close> \<open>decode_limit\<close> is the recursion limit 100 of the generated decoders; a round trip
  is claimed for messages nested no deeper, and shorter than the \<open>2 ^ 32\<close> bytes a length prefix can
  say (\<open>small\<close>). \<open>dec_loop\<close> is a partial function; \<open>dec_loop_returns\<close> shows it returns. \<open>fl\<close> rounds to a
  double with at most 1074 doublings and 1024 halvings, the exponent range of a double. Integers
  are exact in JSON up to \<open>2 ^ 53\<close> (\<open>safe_int\<close>). The retry has five attempts.

  \<^bold>\<open>Not modelled.\<close> \<open>index.ts\<close> (re-exports only); \<open>readCAFile\<close> and \<open>secretsClient\<close> (one library call each);
  the \<open>unref\<close> of timers; a listener of the \<open>lost\<close> event that throws; \<open>Metadata.set\<close> refusing a token with
  characters no header may have; the overloads of the generated client interfaces beyond the kind of the
  call; the clients in other languages of the repository, which share no code with this one.
\<close>

section \<open>Samples for the witnesses\<close>

definition sample_acquired :: AcquireRestartLockResponse where
  "sample_acquired = \<lparr>AcquireRestartLockResponse_messageType = 2, AcquireRestartLockResponse_position = 0,
     AcquireRestartLockResponse_token = ''t'', AcquireRestartLockResponse_expiresAt = None\<rparr>"

definition sample_options :: lock_options where
  "sample_options = \<lparr>signal = Some False, abort_reason = None, heartbeatIntervalMs = None\<rparr>"

definition sample_watch_options :: watch_options where
  "sample_watch_options = \<lparr>has_signal = True, backoffMinMs = None, backoffMaxMs = None\<rparr>"

lemma sample_lock_held:
  "result (lock_after ''ns'' ''svc'' 30 sample_options [Received sample_acquired, AcquiredReaction]) =
     Some (Inr ())"
  unfolding acquire_result
  by (simp add: sample_options_def sample_acquired_def is_acquired_message_def MESSAGE_TYPE_ACQUIRED_def
      race_spec_def acquire_outcome_def)

section \<open>The restart lock\<close>

text \<open>C1: Once \<open>release()\<close> has been called on an acquired lock, the heartbeat is off, the sending side
  of the stream is closed, nothing more is sent and no \<open>lost\<close> event is emitted, whatever
  happens afterwards.\<close>

theorem released_lock_is_silent:
  assumes "result (lock_after ns svc ttl opts es) = Some (Inr ())"
  shows "let a = lock_after ns svc ttl opts (es @ [CallRelease]);
             (b, outs) = run (acquisition_step opts ttl) a fs
         in heartbeat_timer (the_lock b) = None \<and> send_closed (out b) \<and>
            written (out b) = written (out a) \<and> (\<forall>e. LostEvent e \<notin> set outs)"
proof -
  let ?a = "lock_after ns svc ttl opts (es @ [CallRelease])"
  let ?b = "fst (run (acquisition_step opts ttl) ?a fs)"
  have inv: "lock_inv ?a" by (rule lock_after_inv)
  have rel: "released (the_lock ?a)"
    unfolding fst_run_snoc by (rule release_releases [OF assms])
  have b: "released (the_lock ?b)" "written (out ?b) = written (out ?a)"
    using released_run [OF inv rel] by blast+
  moreover have "lock_inv ?b" by (rule acq.run_inv [OF inv])
  moreover have "filter (\<lambda>ev. \<exists>e. ev = LostEvent e) (snd (run (acquisition_step opts ttl) ?a fs)) = []"
    using lost_events_bounded [OF inv, of opts ttl fs] rel by (simp add: lost_fuel_def)
  ultimately show ?thesis
    by (auto simp: Let_def lock_inv_def acq_inv_def filter_empty_conv split: prod.split)
qed

theorem released_lock_is_silent_witness:
  "\<forall>e. LostEvent e \<notin> set (snd (run (acquisition_step sample_options 30)
     (lock_after ''ns'' ''svc'' 30 sample_options
        ([Received sample_acquired, AcquiredReaction] @ [CallRelease]))
     [HeartbeatTick, ReceiveFails (mk_error ''gone'')]))"
  using released_lock_is_silent [OF sample_lock_held, of "[HeartbeatTick, ReceiveFails (mk_error ''gone'')]"]
  unfolding Let_def case_prod_beta by blast

text \<open>C2: The loss of a lock is reported at most once, and the \<open>lost\<close> promise then holds the error of
  the event.\<close>

theorem lock_lost_at_most_once:
  "length (filter (\<lambda>ev. \<exists>e. ev = LostEvent e) (snd (lock_run ns svc ttl opts es))) \<le> 1 \<and>
   (\<forall>e. LostEvent e \<in> set (snd (lock_run ns svc ttl opts es)) \<longrightarrow>
        lost (the_lock (lock_after ns svc ttl opts es)) = Some e)"
proof
  have "lost_fuel (start_acquisition ns svc ttl opts) \<le> 1" by (simp add: lost_fuel_def)
  with lost_events_bounded [where opts = opts and ttl = ttl and es = es,
      OF start_acquisition_inv [where ns = ns and svc = svc and ttl = ttl and opts = opts]]
  show "length (filter (\<lambda>ev. \<exists>e. ev = LostEvent e) (snd (lock_run ns svc ttl opts es))) \<le> 1"
    by linarith
qed (use lost_promise in blast)

theorem lock_lost_at_most_once_witness:
  "lost (the_lock (lock_after ''ns'' ''svc'' 30 sample_options
     [Received sample_acquired, ReceiveFails (mk_error ''gone'')])) = Some (mk_error ''gone'')"
proof -
  have "LostEvent (mk_error ''gone'') \<in> set (snd (lock_run ''ns'' ''svc'' 30 sample_options
      [Received sample_acquired, ReceiveFails (mk_error ''gone'')]))"
    by (simp add: sample_acquired_def MESSAGE_TYPE_ACQUIRED_def lock_ops lock_new_def mk_error_def
        Let_def)
  with lock_lost_at_most_once [where ns = "''ns''" and svc = "''svc''" and ttl = 30 and opts = sample_options and
      es = "[Received sample_acquired, ReceiveFails (mk_error ''gone'')]"]
  show ?thesis by blast
qed

text \<open>C3: \<open>acquireLockWithStream\<close> settles as the race of the \<open>acquired\<close> promise against the abort
  signal decides: the promise resolves on the first \<open>ACQUIRED\<close> response and rejects when the
  stream fails before it; an abort that comes first gives the abort error.\<close>

theorem acquire_settles_as_raced:
  "acquired (lock_after ns svc ttl opts es) = acquired_by es \<and>
   result (lock_after ns svc ttl opts es) =
     acquire_outcome opts (race_spec (signal opts) (race_events None es))"
  by (simp add: acquired_after acquire_result)

text \<open>C4: Whatever else happens (ticks, an abort, \<open>release()\<close>, reactions) between the receives of a lock
  stream that ends or fails with an error: if an \<open>ACQUIRED\<close> response came first, a lock that has not been
  released by then reports that very error as its loss, once and for good, and a released one
  never reports a loss; this supposes only that the acquisition has not failed by then, as it
  does on an abort. Without an \<open>ACQUIRED\<close> response the lock is never handed out: the promise is
  rejected with an error that names the stream's, and so is the call when the reaction runs,
  unless the signal was aborted before that.\<close>

theorem stream_failure_reported:
  assumes "stream_end lock_closed_msg gs = Some (Inl err)"
    and "stream_part es @ [ReceiveFails err] = events_of_stream gs"
  shows "let a = lock_after ns svc ttl opts es;
             b = lock_after ns svc ttl opts (es @ ReceiveFails err # fs);
             outs = snd (lock_run ns svc ttl opts (es @ ReceiveFails err # fs))
         in if \<exists>r \<in> set (stream_values gs). is_acquired_message r
            then (\<forall>e. result a \<noteq> Some (Inl e)) \<longrightarrow>
              lost (the_lock b) = (if released (the_lock a) then None else Some (as_error err)) \<and>
              lost_events outs = (if released (the_lock a) then [] else [as_error err])
            else result b \<noteq> Some (Inr ()) \<and>
              acquired b = Some (Inl (stream_ended_error (as_error err))) \<and>
              (AcquiredReaction \<in> set fs \<longrightarrow>
               result b = Some (Inl (if aborted_by opts (es @ takeWhile (\<lambda>e. e \<noteq> AcquiredReaction) fs)
                 then aborted_error (abort_reason opts) ''AcquireRestartLock''
                 else stream_ended_error (as_error err))))"
proof -
  let ?b = "lock_after ns svc ttl opts (es @ ReceiveFails err # fs)"
  have part: "stream_part es = map Received (stream_values gs)"
    using assms by (simp add: events_of_stream_eq)
  show ?thesis
  proof (cases "\<exists>r \<in> set (stream_values gs). is_acquired_message r")
    case True
    with acquired_stream_end [OF part True, where ns = ns and svc = svc and ttl = ttl and opts = opts and
        err = err and fs = fs] show ?thesis
      unfolding Let_def by simp
  next
    case False
    note fails = stream_end_unacquired [OF part False, where ns = ns and svc = svc and ttl = ttl and
        opts = opts and err = err and fs = fs]
    have "result ?b \<noteq> Some (Inr ())"
      using fails(1) lock_after_inv [where ns = ns and svc = svc and ttl = ttl and opts = opts and
          es = "es @ ReceiveFails err # fs"]
      unfolding lock_inv_def acq_inv_def by auto
    with fails False show ?thesis unfolding Let_def by simp
  qed
qed

theorem stream_failure_reported_witness:
  "lost (the_lock (lock_after ''ns'' ''svc'' 30 sample_options
     ([Received sample_acquired, AcquiredReaction] @ ReceiveFails (mk_error lock_closed_msg) #
        [SignalAbort, CallRelease]))) = Some (mk_error lock_closed_msg) \<and>
   result (lock_after ''ns'' ''svc'' 30 sample_options
     ([HeartbeatTick] @ ReceiveFails (mk_error lock_closed_msg) # [SignalAbort, AcquiredReaction])) =
     Some (Inl (aborted_error None ''AcquireRestartLock''))"
proof
  let ?gs = "[Grpc (OnData sample_acquired), CallRecv, Grpc OnEnd]"
  have ends: "stream_end lock_closed_msg ?gs = Some (Inl (mk_error lock_closed_msg))"
    "stream_values ?gs = [sample_acquired]" "is_acquired_message sample_acquired"
    by (simp_all add: stream_end_def stream_values_def sample_acquired_def is_acquired_message_def
        MESSAGE_TYPE_ACQUIRED_def)
  then have part: "stream_part [Received sample_acquired, AcquiredReaction] @ [ReceiveFails (mk_error lock_closed_msg)] =
      events_of_stream ?gs" by (simp add: events_of_stream_eq stream_part_def)
  have "\<not> released (the_lock (lock_after ''ns'' ''svc'' 30 sample_options [Received sample_acquired, AcquiredReaction]))"
    by (rule released_iff_called_fresh) simp
  with stream_failure_reported [OF ends(1) part, where ns = "''ns''" and svc = "''svc''" and ttl = 30
      and opts = sample_options and fs = "[SignalAbort, CallRelease]"] ends(2,3) sample_lock_held
  show "lost (the_lock (lock_after ''ns'' ''svc'' 30 sample_options
     ([Received sample_acquired, AcquiredReaction] @ ReceiveFails (mk_error lock_closed_msg) #
        [SignalAbort, CallRelease]))) = Some (mk_error lock_closed_msg)"
    unfolding Let_def by (simp add: mk_error_def del: run.simps acquisition_step.simps)
next
  let ?gs = "[CallRecv, Grpc OnEnd] :: AcquireRestartLockResponse stream_event list"
  have ends: "stream_end lock_closed_msg ?gs = Some (Inl (mk_error lock_closed_msg))" "stream_values ?gs = []"
    by (simp_all add: stream_end_def stream_values_def)
  then have "stream_part [HeartbeatTick] @ [ReceiveFails (mk_error lock_closed_msg)] = events_of_stream ?gs"
    by (simp add: events_of_stream_eq stream_part_def)
  from stream_failure_reported [OF ends(1) this, where ns = "''ns''" and svc = "''svc''" and ttl = 30
      and opts = sample_options and fs = "[SignalAbort, AcquiredReaction]"] ends(2)
  show "result (lock_after ''ns'' ''svc'' 30 sample_options
     ([HeartbeatTick] @ ReceiveFails (mk_error lock_closed_msg) # [SignalAbort, AcquiredReaction])) =
     Some (Inl (aborted_error None ''AcquireRestartLock''))"
    unfolding Let_def
    by (simp add: aborted_by_def sample_options_def del: run.simps acquisition_step.simps)
qed

text \<open>C5: What goes over the lock stream is the initial request followed by heartbeats, never more of
  them than timer ticks, and none before the lock is held. Serialized by the method table they
  reach the server as the same requests in the same order, as long as the time to live is an
  \<open>int32\<close>; otherwise the initial request cannot be serialized at all.\<close>

theorem lock_sends_only_heartbeats:
  assumes "wire_ok W"
    and "\<forall>b. requestSerialize (SecretsService_acquireRestartLock W) (initial_request ns svc ttl) = Some b \<longrightarrow> small b"
    and "\<forall>b. requestSerialize (SecretsService_acquireRestartLock W) heartbeat_request = Some b \<longrightarrow> small b"
  shows "\<exists>n. written (out (lock_after ns svc ttl opts es)) =
         initial_request ns svc ttl # replicate n heartbeat_request \<and>
       n \<le> length (filter (\<lambda>e. e = HeartbeatTick) es) \<and>
       (n = 0 \<or> got_acquired (lock_after ns svc ttl opts es)) \<and>
       (if in_int32 ttl
        then (\<exists>bs. map (requestSerialize (SecretsService_acquireRestartLock W))
                     (written (out (lock_after ns svc ttl opts es))) = map Some bs \<and>
                   map (requestDeserialize (SecretsService_acquireRestartLock W)) bs =
                     map (Some \<circ> Inr) (initial_request ns svc ttl # replicate n heartbeat_request))
        else requestSerialize (SecretsService_acquireRestartLock W) (initial_request ns svc ttl) = None)"
proof -
  obtain n where n: "written (out (lock_after ns svc ttl opts es)) =
      initial_request ns svc ttl # replicate n heartbeat_request"
    "n \<le> length (filter (\<lambda>e. e = HeartbeatTick) es)" "n = 0 \<or> got_acquired (lock_after ns svc ttl opts es)"
    using written_run [where ns = ns and svc = svc and ttl = ttl and opts = opts and es = es] by auto
  let ?M = "SecretsService_acquireRestartLock W"
  have carried: "carried (requestSerialize ?M) (requestDeserialize ?M) valid_AcquireRestartLockRequest (\<lambda>_. 1)"
    using SecretsService_acquireRestartLock_rpc.calls [OF assms(1)] by (simp add: carries_calls_def)
  have "\<exists>bs. map (requestSerialize ?M) (written (out (lock_after ns svc ttl opts es))) = map Some bs \<and>
      map (requestDeserialize ?M) bs = map (Some \<circ> Inr) (initial_request ns svc ttl # replicate n heartbeat_request)"
    if "in_int32 ttl"
    unfolding n(1)
  proof (rule carried_stream [OF carried])
    show "\<forall>m \<in> set (initial_request ns svc ttl # replicate n heartbeat_request).
        valid_AcquireRestartLockRequest m \<and> 1 \<le> decode_limit"
      using that by (auto simp: valid_AcquireRestartLockRequest_def initial_request_def heartbeat_request_def
          decode_limit_def in_int32_def)
  qed (use assms(2,3) in auto)
  with n unserializable [OF assms(1)] show ?thesis by (intro exI [of _ n]) simp
qed

theorem lock_sends_only_heartbeats_witness:
  "\<exists>n. written (out (lock_after ''ns'' ''svc'' 30 sample_options
       [Received sample_acquired, HeartbeatTick])) =
     initial_request ''ns'' ''svc'' 30 # replicate n heartbeat_request \<and> n \<le> 1"
  using lock_sends_only_heartbeats [OF pb_wire_ok, where ns = "''ns''" and svc = "''svc''" and ttl = 30 and
      opts = sample_options and es = "[Received sample_acquired, HeartbeatTick]"] lock_requests_small
  by (auto simp del: run.simps)

text \<open>C6: While the lock is held the heartbeat timer runs until \<open>release()\<close> is called, whatever else
  happens: an abort of the signal, a failure of the stream, the loss of the lock. Each tick
  writes a heartbeat, and the abort of the signal changes nothing at all.\<close>

theorem heartbeats_end_with_release:
  assumes "result (lock_after ns svc ttl opts es) = Some (Inr ())"
    and "\<not> released (the_lock (lock_after ns svc ttl opts es))"
  shows "(heartbeat_timer (the_lock (lock_after ns svc ttl opts (es @ fs))) = None \<longleftrightarrow> CallRelease \<in> set fs) \<and>
     (CallRelease \<notin> set fs \<longrightarrow>
        written (out (lock_after ns svc ttl opts (es @ fs @ [HeartbeatTick]))) =
          written (out (lock_after ns svc ttl opts (es @ fs))) @ [heartbeat_request]) \<and>
     lock_after ns svc ttl opts (es @ [SignalAbort]) = lock_after ns svc ttl opts es"
proof -
  let ?a = "lock_after ns svc ttl opts (es @ fs)"
  have held: "result ?a = Some (Inr ())" by (rule result_kept_run [OF assms(1)])
  moreover from held have "got_acquired ?a" by (rule held_got_acquired)
  ultimately have beats: "send_closed (out ?a) \<longleftrightarrow> released (the_lock ?a)"
    "heartbeat_timer (the_lock ?a) = None \<longleftrightarrow> released (the_lock ?a)"
    using beats_after [where ns = ns and svc = svc and ttl = ttl and opts = opts and es = "es @ fs"]
    by (simp_all add: beats_inv_def)
  have rel: "released (the_lock ?a) \<longleftrightarrow> CallRelease \<in> set fs"
    using released_iff_called [OF assms(1)] assms(2) by blast
  have "written (out (lock_after ns svc ttl opts ((es @ fs) @ [HeartbeatTick]))) =
      written (out ?a) @ [heartbeat_request]" if "CallRelease \<notin> set fs"
    using that beats rel unfolding fst_run_snoc by (auto simp: sink_send_def)
  with beats rel abort_after_acquired [OF assms(1) race_after_settled [OF assms(1)]] show ?thesis
    by (simp add: fst_run_snoc)
qed

theorem heartbeats_end_with_release_witness:
  "heartbeat_timer (the_lock (lock_after ''ns'' ''svc'' 30 sample_options
     ([Received sample_acquired, AcquiredReaction] @ [SignalAbort, ReceiveFails (mk_error ''gone'')]))) \<noteq> None"
proof -
  have "\<not> released (the_lock (lock_after ''ns'' ''svc'' 30 sample_options
      ([] @ [Received sample_acquired, AcquiredReaction])))"
    using released_iff_called_fresh [where ns = "''ns''" and svc = "''svc''" and ttl = 30 and
        opts = sample_options and es = "[Received sample_acquired, AcquiredReaction]"] by simp
  then show ?thesis
    using heartbeats_end_with_release [OF sample_lock_held, of "[SignalAbort, ReceiveFails (mk_error ''gone'')]"]
    by simp
qed

text \<open>C7: Every call of \<open>release()\<close> resolves exactly once, or is still waiting for the receive loop;
  when the receive loop has ended none is waiting.\<close>

theorem releases_resolve_once:
  "distinct (releases_of (snd (lock_run ns svc ttl opts es)) @
     waiting_releases (lock_after ns svc ttl opts es)) \<and>
   set (releases_of (snd (lock_run ns svc ttl opts es)) @
     waiting_releases (lock_after ns svc ttl opts es)) =
     {..<release_calls (lock_after ns svc ttl opts es)} \<and>
   (recv_done (the_lock (lock_after ns svc ttl opts es)) \<longrightarrow>
    waiting_releases (lock_after ns svc ttl opts es) = [])"
proof -
  have "lock_inv (lock_after ns svc ttl opts es)" by (rule lock_after_inv)
  then show ?thesis
    using releases_answered_run [where ns = ns and svc = svc and ttl = ttl and opts = opts and es = es]
    unfolding releases_answered_def lock_inv_def acq_inv_def by blast
qed

theorem releases_resolve_once_witness:
  "waiting_releases (lock_after ''ns'' ''svc'' 30 sample_options
     [Received sample_acquired, AcquiredReaction, CallRelease, ReceiveFails (mk_error ''gone'')]) = []"
proof -
  have "recv_done (the_lock (lock_after ''ns'' ''svc'' 30 sample_options
      ([Received sample_acquired, AcquiredReaction, CallRelease] @ [ReceiveFails (mk_error ''gone'')])))"
    unfolding fst_run_snoc by (rule recv_done_after_failure)
  with releases_resolve_once [where ns = "''ns''" and svc = "''svc''" and ttl = 30 and opts = sample_options
      and es = "[Received sample_acquired, AcquiredReaction, CallRelease, ReceiveFails (mk_error ''gone'')]"]
  show ?thesis by simp
qed
text \<open>C8: The token and the expiry of the lock are those of the last response that set them, among the
  responses received before the stream failed.\<close>

theorem lock_tracks_responses:
  "expires_at (the_lock (lock_after ns svc ttl opts es)) = fold expiry_after (responses es) None \<and>
   token (the_lock (lock_after ns svc ttl opts es)) = fold token_after (responses es) ''''"
  by (rule tracked_fields)

text \<open>C9: By default the heartbeat timer of a held lock ticks every quarter of the time to live, as long as
  that interval fits the timer; above 8589934 seconds it ticks every millisecond.\<close>

theorem heartbeat_period:
  assumes "heartbeatIntervalMs opts = None"
    and "result (lock_after ns svc (ttl_secs x) opts es) = Some (Inr ())"
    and "\<not> released (the_lock (lock_after ns svc (ttl_secs x) opts es))"
  shows "heartbeat_timer (the_lock (lock_after ns svc (ttl_secs x) opts es)) =
     Some (if ttl_secs x \<le> 8589934 then ttl_secs x * 250 else 1)"
  using held_timer [OF assms(2,3)] heartbeat_delay [OF assms(1) ttl_secs_ge, of x] by simp

theorem heartbeat_period_witness:
  "heartbeat_timer (the_lock (lock_after ''ns'' ''svc'' 30 sample_options
     [Received sample_acquired, AcquiredReaction])) = Some 7500"
proof -
  have ttl: "ttl_secs 30 = 30" by (simp add: ttl_secs_def math_trunc_def)
  have "\<not> released (the_lock (lock_after ''ns'' ''svc'' 30 sample_options [Received sample_acquired, AcquiredReaction]))"
    by (rule released_iff_called_fresh) simp
  with heartbeat_period [where opts = sample_options and x = 30 and ns = "''ns''" and svc = "''svc''" and
      es = "[Received sample_acquired, AcquiredReaction]"] sample_lock_held
  show ?thesis by (simp add: ttl sample_options_def del: run.simps acquisition_step.simps)
qed

section \<open>Watching for changes\<close>

text \<open>C10: A consumer of \<open>watchBundle\<close> is told of at most as many changes as \<open>EVENT_TYPE_CHANGED\<close>
  responses were received, across all reconnections.\<close>

theorem changes_come_from_responses:
  "length (filter (\<lambda>(k, b). b) (snd (loop_run opts a es)))
     \<le> length (filter (\<lambda>e. e = Recv EVENT_TYPE_CHANGED) es)"
proof -
  obtain ws where ws: "(watch (loop_after opts a es), snd (loop_run opts a es)) = run bw_step bw_start ws"
    "watch_trace_ok es ws" using watch_trace by blast
  from ws(1) have "snd (loop_run opts a es) = snd (run bw_step bw_start ws)" by (metis snd_conv)
  with bw_trues_bounded [of ws] ws(2) show ?thesis by (simp add: watch_trace_ok_def)
qed

text \<open>C11: The watch loop returns exactly when its signal is aborted; then the watch is closed, every
  stream it opened has been cancelled and every \<open>next()\<close> has been answered.\<close>

theorem watch_stops_on_abort:
  "(pc (loop_after opts a es) = Returned \<longleftrightarrow> has_signal opts \<and> (a \<or> Abort \<in> set es)) \<and>
   (pc (loop_after opts a es) = Returned \<longrightarrow>
    watch_closed (fst (watch (loop_after opts a es))) \<and>
    cancelled (loop_after opts a es) = [0..<opened (loop_after opts a es)] \<and>
    set (map fst (snd (loop_run opts a es))) = {..<length (filter (\<lambda>e. e = ConsumerNext) es)})"
proof -
  have inv: "loop_inv opts (loop_after opts a es)" by (rule loop_after_inv)
  obtain ws where ws: "(watch (loop_after opts a es), snd (loop_run opts a es)) = run bw_step bw_start ws"
    "watch_trace_ok es ws" using watch_trace by blast
  from ws(1) have eq: "watch (loop_after opts a es) = fst (run bw_step bw_start ws)"
    "snd (loop_run opts a es) = snd (run bw_step bw_start ws)" by (metis fst_conv, metis snd_conv)
  have "set (map fst (snd (loop_run opts a es))) = {..<length (filter (\<lambda>e. e = ConsumerNext) es)}"
    if "watch_closed (fst (watch (loop_after opts a es)))"
    using closed_all_answered [of ws] that eq ws(2) by (simp add: watch_trace_ok_def)
  with inv show ?thesis unfolding loop_inv_def loop_aborted_iff by blast
qed

theorem watch_stops_on_abort_witness:
  "watch_closed (fst (watch (loop_after sample_watch_options False [OpenFails, ConsumerNext, Abort])))"
  using watch_stops_on_abort [of sample_watch_options False "[OpenFails, ConsumerNext, Abort]"]
  by (simp add: sample_watch_options_def)

text \<open>C12: After \<open>n\<close> failures in a row, starting from a running loop with options \<open>lo\<close> and \<open>hi\<close>, the
  sleeps were \<open>lo\<close>, then \<open>lo * 2\<close>, \<open>lo * 4\<close>, \<dots> capped at \<open>hi\<close>: each as long as \<open>setTimeout\<close> can hold it
  (from 1 to 2147483647 milliseconds, otherwise one millisecond).\<close>

theorem reconnect_backoff:
  assumes "\<not> (has_signal opts \<and> a)" and "0 \<le> backoff_min opts" and "0 \<le> backoff_max opts"
  shows "slept (loop_after opts a (concat (map cycle_events cs))) =
     map (\<lambda>i. timer_delay (if i = 0 then backoff_min opts
            else min (backoff_min opts * 2 ^ i) (backoff_max opts)))
       [0..<length cs]"
proof -
  let ?s = "fst (watch_bundle opts a)"
  have s: "pc ?s = Opening" "\<not> aborted ?s" "0 < opened ?s" "slept ?s = []" "backoff ?s = backoff_min opts"
    using assms(1) by (auto simp: watch_bundle_def loop_ops)
  show ?thesis
    unfolding loop_after_eq failing_cycles_slept [OF s(1-3)] s(4,5)
    by (simp add: backoff_seq_closed [OF assms(2,3)])
qed

theorem reconnect_backoff_witness:
  "slept (loop_after sample_watch_options False
     (concat (map cycle_events [FailsToOpen, FailsToReceive, FailsToOpen, FailsToOpen, FailsToOpen, FailsToOpen]))) =
   [1000, 2000, 4000, 8000, 16000, 30000] \<and>
   slept (loop_after \<lparr>has_signal = False, backoffMinMs = Some 2000000000, backoffMaxMs = Some 5000000000\<rparr> False
     (concat (map cycle_events [FailsToOpen, FailsToOpen]))) = [2000000000, 1]"
proof
  have "\<not> (has_signal sample_watch_options \<and> False)" "0 \<le> backoff_min sample_watch_options"
    "0 \<le> backoff_max sample_watch_options" "backoff_min sample_watch_options = 1000"
    "backoff_max sample_watch_options = 30000"
    by (simp_all add: sample_watch_options_def backoff_min_def backoff_max_def
        DEFAULT_BACKOFF_MIN_MS_def DEFAULT_BACKOFF_MAX_MS_def)
  with reconnect_backoff [of sample_watch_options False
      "[FailsToOpen, FailsToReceive, FailsToOpen, FailsToOpen, FailsToOpen, FailsToOpen]"]
  show "slept (loop_after sample_watch_options False
     (concat (map cycle_events [FailsToOpen, FailsToReceive, FailsToOpen, FailsToOpen, FailsToOpen, FailsToOpen]))) =
   [1000, 2000, 4000, 8000, 16000, 30000]" by (simp add: upt_rec timer_delay_def)
next
  let ?opts = "\<lparr>has_signal = False, backoffMinMs = Some 2000000000, backoffMaxMs = Some 5000000000\<rparr>"
  show "slept (loop_after ?opts False (concat (map cycle_events [FailsToOpen, FailsToOpen]))) = [2000000000, 1]"
    using reconnect_backoff [of ?opts False "[FailsToOpen, FailsToOpen]"]
    by (simp add: upt_rec timer_delay_def backoff_min_def backoff_max_def)
qed

text \<open>C13: A change signalled on an open watch is not lost: a waiting \<open>next()\<close> gets it at once, or the
  next call does, whatever else is signalled in between and even if the watch is closed.\<close>

theorem change_reaches_consumer:
  assumes "\<not> watch_closed (fst s)" and "NextChange \<notin> set es"
  shows "(\<exists>k. snd (bw_step s SignalChange) = [(k, True)]) \<or>
     (\<exists>k. snd (bw_step (fst (run bw_step (fst (bw_step s SignalChange)) es)) NextChange) = [(k, True)])"
  using change_not_lost [OF assms(1), of es] assms(2) by blast

theorem change_reaches_consumer_witness:
  "\<exists>k. snd (bw_step (fst (run bw_step (fst (bw_step bw_start SignalChange)) [SignalChange, CloseWatch]))
     NextChange) = [(k, True)]"
proof -
  have "\<not> watch_closed (fst bw_start)" "snd (bw_step bw_start SignalChange) = []"
    by (simp_all add: bw_start_def bundle_watch_new_def signal_change_def)
  with change_reaches_consumer [of bw_start "[SignalChange, CloseWatch]"] show ?thesis by auto
qed

text \<open>C14: Every \<open>next()\<close> of a \<open>BundleWatch\<close> is answered once or still waiting, under every interleaving
  of signals, calls and the close; it waits only while nothing is pending and the watch is open.\<close>

theorem watch_answers_once:
  "distinct (map fst (snd (run bw_step bw_start es)) @ bw_waiters (fst (fst (run bw_step bw_start es)))) \<and>
   set (map fst (snd (run bw_step bw_start es))) \<union> set (bw_waiters (fst (fst (run bw_step bw_start es)))) =
     {..<length (filter (\<lambda>e. e = NextChange) es)} \<and>
   (bw_waiters (fst (fst (run bw_step bw_start es))) \<noteq> [] \<longrightarrow>
    \<not> pending (fst (fst (run bw_step bw_start es))) \<and> \<not> watch_closed (fst (fst (run bw_step bw_start es))))"
proof -
  have "bw_inv (fst (run bw_step bw_start es))" by (rule bw_true.run_inv) simp
  with answered_once_run [of es] show ?thesis
    by (auto simp: answered_once_def bw_count bw_inv_def)
qed

theorem watch_answers_once_witness:
  "\<not> watch_closed (fst (fst (run bw_step bw_start [SignalChange, NextChange, NextChange])))"
proof -
  have "bw_waiters (fst (fst (run bw_step bw_start [SignalChange, NextChange, NextChange]))) = [1]"
    by (simp add: bw_start_def bundle_watch_new_def signal_change_def watch_next_def)
  with watch_answers_once [of "[SignalChange, NextChange, NextChange]"] show ?thesis by simp
qed

section \<open>Waiting for a restart\<close>

text \<open>C15: \<open>debounceUntilQuiet\<close> returns exactly when, before the signal is aborted or the watch closed,
  its timer has run out without a change being signalled meanwhile; the timer runs for
  \<open>debounceMs\<close> milliseconds if they are at least 1 and at most 2147483647, for one otherwise.\<close>

theorem debounce_waits_for_quiet:
  assumes "\<not> watch_closed (fst w)" and "bw_waiters (fst w) = []"
  shows "deb_result (debounce_until_quiet reason debounceMs w es) = Some (Inr ()) \<longleftrightarrow>
     (\<exists>p r. es = p @ replicate (nat (timer_delay debounceMs)) Elapse @ r \<and>
        WatchClosed \<notin> set p \<and> SignalAborted \<notin> set p)"
  using debounce_returns_iff [OF assms] by (simp add: undisturbed_def)

theorem debounce_waits_for_quiet_witness:
  "deb_result (debounce_until_quiet None 2 bw_start
     [Elapse, ChangeSignalled, Elapse, Elapse]) = Some (Inr ()) \<and>
   deb_result (debounce_until_quiet None 2147483648 bw_start [Elapse]) = Some (Inr ())"
proof -
  have fresh: "\<not> watch_closed (fst bw_start)" "bw_waiters (fst bw_start) = []"
    by (simp_all add: bw_start_def bundle_watch_new_def)
  note iff = debounce_waits_for_quiet [OF fresh, of None]
  have events: "[Elapse, ChangeSignalled, Elapse, Elapse] =
      [Elapse, ChangeSignalled] @ replicate (nat (timer_delay 2)) Elapse @ []"
    "[Elapse] = [] @ replicate (nat (timer_delay 2147483648)) Elapse @ []"
    by (simp_all add: timer_delay_def numeral_2_eq_2)
  show ?thesis
    unfolding iff by (intro conjI exI, rule events(1), simp, simp, rule events(2), simp_all)
qed

text \<open>C16: \<open>waitForRestart\<close> settles as its plan says, under every interleaving of the watch's stream,
  the timer, the lock's stream and the abort: wait for a change, start over the timer at every
  further change, ask for the lock when it runs out, give up on an abort. So the lock is asked
  for only after a change, and at least the timer's delay later: \<open>debounceMs\<close> milliseconds, as
  long as \<open>setTimeout\<close> can hold them (up to 2147483647, otherwise one).\<close>

theorem wait_follows_the_plan:
  "wait_result (wait_for_restart A es) = plan_result A (plan_after A es) \<and>
   (\<forall>les. plan_after A es = AskLock les \<longrightarrow>
      (\<exists>p q. es = p @ OnLoop (Recv EVENT_TYPE_CHANGED) # q \<and>
         wait_delay A \<le> length (filter (\<lambda>e. e = Elapses) q)))"
  using wait_result_plan [of A es] asked_after_quiet [of A es] by (auto simp: quiet_change_def)

definition sample_wait :: wait_args where
  "sample_wait = \<lparr>wait_ns = ''ns'', wait_svc = ''svc'', wait_ttl = Finite 30, wait_debounce = 2,
     wait_signal = Some False, wait_reason = None, wait_opened = Inr (), wait_number_text = (\<lambda>n. '''')\<rparr>"

definition sample_wait_events :: "wait_event list" where
  "sample_wait_events =
     [OnLoop OpenOk, OnLoop (Recv 1), Elapses, OnLoop (Recv 1), Elapses, Elapses,
      OnLock (Received sample_acquired), OnLock AcquiredReaction]"

lemma sample_plan:
  "plan_after sample_wait sample_wait_events = AskLock [Received sample_acquired, AcquiredReaction]"
  by (simp add: plan_after_def sample_wait_events_def sample_wait_def plan_start_def plan_sys_step_def
      watch_bundle_def loop_ops loop_step.simps EVENT_TYPE_CHANGED_def ask_or_wait_def watch_opts_def wait_delay_def timer_delay_def
      split_beta Let_def)

theorem wait_follows_the_plan_witness:
  "\<exists>p q. sample_wait_events = p @ OnLoop (Recv EVENT_TYPE_CHANGED) # q \<and>
     2 \<le> length (filter (\<lambda>e. e = Elapses) q)"
  using wait_follows_the_plan [of sample_wait sample_wait_events] sample_plan
  by (simp add: sample_wait_def wait_delay_def timer_delay_def)

section \<open>Streams and races\<close>

text \<open>C17: Whatever the interleaving of gRPC events and \<open>next()\<close> calls, the \<open>k\<close>-th \<open>next()\<close> of an
  \<open>AsyncMailbox\<close> is answered at most once, with the \<open>k\<close>-th value pushed before the stream ended
  or else with the item that ended it, and it is pending exactly while there is neither.\<close>

theorem mailbox_delivers_in_order:
  "set (answers es) = {(k, a). k < calls_of_next es \<and> nth_answer es k = Some a} \<and>
   distinct (map fst (answers es))"
  by (simp add: set_answers distinct_answers)

text \<open>C18: The \<open>k\<close>-th \<open>recv()\<close> of either stream adapter gives the \<open>k\<close>-th message the gRPC stream
  delivered before it ended, and every later one rejects with the stream's error, or with the
  adapter's own message when the server closed the stream.\<close>

theorem recv_follows_stream:
  "set (lock_stream_recv es) =
     {(k, r). k < length (filter (\<lambda>e. e = CallRecv) es) \<and>
        (if k < length (stream_values es) then r = Inr (stream_values es ! k)
         else stream_end lock_closed_msg es = Some r)} \<and>
   set (watch_stream_recv fs) =
     {(k, r). k < length (filter (\<lambda>e. e = CallRecv) fs) \<and>
        (if k < length (stream_values fs) then r = Inr (stream_values fs ! k)
         else stream_end watch_closed_msg fs = Some r)}"
  by (auto simp: lock_stream_recv_def watch_stream_recv_def set_recv_answers stream_outcome_eq)

text \<open>C19: \<open>raceAbort\<close> gives the promise's outcome if that comes before the abort, the abort marker
  otherwise (at once if the signal is already aborted), and leaves no listener on the signal
  once it has settled.\<close>

theorem race_abort_outcome:
  "race_out (race_abort sig es) = race_spec sig es \<and>
   (race_spec sig es \<noteq> None \<longrightarrow> \<not> race_listens (race_abort sig es))"
  using race_settled_no_listener [of sig es] by (auto simp: race_abort_spec)

theorem race_abort_outcome_witness:
  "\<not> race_listens (race_abort (Some False) [SignalAborts, Settled (Inr (1 :: nat))])"
  using race_abort_outcome [of "Some False" "[SignalAborts, Settled (Inr (1 :: nat))]"]
  by (simp add: race_spec_def)

section \<open>Workload identity\<close>

text \<open>C20: The retry settles with the first decisive probe (a success, or an error other than \<open>no
  identity issued\<close>) if one of the first five is, having slept the schedule's delays before it, at
  most 15 seconds in total. If all five fail for lack of an identity it sleeps the whole
  schedule and gives up with an error that names the last failure.\<close>

theorem retry_outcome:
  "(\<forall>k \<le> 4. decisive (probe k) \<and> retriable probe k \<longrightarrow>
      retryUntilIdentityIssued probe = (probe k, take k workloadDialBackoffMs) \<and>
      sum_list (snd (retryUntilIdentityIssued probe)) \<le> 15000) \<and>
   ((\<forall>j < 5. \<exists>err. probe j = Inl err \<and> isNoIdentityIssuedErr err) \<longrightarrow>
      (\<exists>err. probe 4 = Inl err \<and> retryUntilIdentityIssued probe =
        (Inl (mk_error (''no identity issued after 5 attempts: '' @ err_message err)), [1000, 2000, 4000, 8000])))"
proof (intro conjI allI impI)
  fix k :: nat
  assume "k \<le> 4" "decisive (probe k) \<and> retriable probe k"
  then show "retryUntilIdentityIssued probe = (probe k, take k workloadDialBackoffMs)"
    and "sum_list (snd (retryUntilIdentityIssued probe)) \<le> 15000"
    using retry_decisive [of k probe] retry_total_wait [of k] by simp_all
next
  assume "\<forall>j < 5. \<exists>err. probe j = Inl err \<and> isNoIdentityIssuedErr err"
  then show "\<exists>err. probe 4 = Inl err \<and> retryUntilIdentityIssued probe =
      (Inl (mk_error (''no identity issued after 5 attempts: '' @ err_message err)), [1000, 2000, 4000, 8000])"
    using retry_exhausted [of probe] by (simp add: retriable_def gave_up_def workloadDialBackoffMs_def)
qed

theorem retry_outcome_witness:
  "retryUntilIdentityIssued (\<lambda>k :: nat. if k < 2 then Inl (Err ''denied'' (Some ''PERMISSION_DENIED'')) else Inr k) =
     (Inr 2, [1000, 2000]) \<and>
   retryUntilIdentityIssued (\<lambda>k :: nat. Inl (Err ''denied'' (Some ''PERMISSION_DENIED'')) :: thrown + nat) =
     (Inl (mk_error ''no identity issued after 5 attempts: denied''), [1000, 2000, 4000, 8000])"
proof
  let ?p = "\<lambda>k :: nat. if k < 2 then Inl (Err ''denied'' (Some ''PERMISSION_DENIED'')) else Inr k"
  have "decisive (?p 2) \<and> retriable ?p 2" by (simp add: decisive_def retriable_def)
  then have "retryUntilIdentityIssued ?p = (?p 2, take 2 workloadDialBackoffMs)"
    using conjunct1 [OF retry_outcome [of ?p], rule_format, of 2] by simp
  then show "retryUntilIdentityIssued ?p = (Inr 2, [1000, 2000])"
    by (simp add: workloadDialBackoffMs_def numeral_2_eq_2)
next
  show "retryUntilIdentityIssued (\<lambda>k :: nat. Inl (Err ''denied'' (Some ''PERMISSION_DENIED'')) :: thrown + nat) =
      (Inl (mk_error ''no identity issued after 5 attempts: denied''), [1000, 2000, 4000, 8000])"
    using retry_outcome [of "\<lambda>k :: nat. Inl (Err ''denied'' (Some ''PERMISSION_DENIED'')) :: thrown + nat"]
    by (simp add: err_message_def)
qed

text \<open>C21: \<open>workloadChannelCredentials\<close> always clears the keep-alive timer it set; it gives credentials
  only after connecting to the given socket, and only from an identity one of the first five
  fetches returned: its trust bundle, certificate chain and key in PEM, bound to the check for the
  normalised trust domain. \<open>dialWorkload\<close> and \<open>dialWorkloadGitOps\<close> give a client exactly when these
  credentials exist and the client's constructor, given the address, these very credentials and the channel
  options, returns that client.\<close>

theorem workload_credentials_from_identity:
  "snd (workloadChannelCredentials L opts) \<in> {[], [SetKeepAlive, ClearKeepAlive]} \<and>
   (\<forall>creds. fst (workloadChannelCredentials L opts) = Inr creds \<longrightarrow>
      (\<exists>expected svid svids k. normalizeTrustDomain (trustDomain opts) = Inr expected \<and>
         createClient L (workloadSocket opts) = Inr () \<and> k \<le> 4 \<and>
         fetchX509SVID L k = Some (Inr (svid # svids)) \<and> built_from L expected svid creds)) \<and>
   (\<forall>c. dialWorkload L newSecrets opts = Inr c \<longleftrightarrow>
      (\<exists>creds. fst (workloadChannelCredentials L opts) = Inr creds \<and>
         newSecrets (workload_address opts) creds (channelOptions opts) = Inr (connection_client c))) \<and>
   (\<forall>c. dialWorkloadGitOps L newGitOps opts = Inr c \<longleftrightarrow>
      (\<exists>creds. fst (workloadChannelCredentials L opts) = Inr creds \<and>
         newGitOps (workload_address opts) creds (channelOptions opts) = Inr (connection_client c)))"
  using workload_keep_alive [of L opts] workload_ok [of L opts] unfolding dial_ok by blast

definition sample_svid :: X509SVID where
  "sample_svid = \<lparr>x509Svid = [1], x509SvidKey = [2], svid_bundle = [3]\<rparr>"

definition sample_libs :: "byte list workload_libs" where
  "sample_libs = \<lparr>createClient = (\<lambda>_. Inr ()), fetchX509SVID = (\<lambda>k. Some (Inr [sample_svid])),
     pem_chain = (\<lambda>der. Inr (base64 der)), createSsl = (\<lambda>roots key chain v. Inr (roots @ key @ chain))\<rparr>"

definition sample_dial :: "unit dial_workload_options" where
  "sample_dial = \<lparr>workload_address = ''signet:8443'', workloadSocket = None,
     trustDomain = ''spiffe://example.org'', channelOptions = None\<rparr>"

theorem workload_credentials_from_identity_witness:
  "\<exists>svid creds. built_from sample_libs ''example.org'' svid creds \<and>
     dialWorkload sample_libs (\<lambda>address cr opts. Inr (address, cr)) sample_dial =
       Inr \<lparr>connection_client = (''signet:8443'', creds)\<rparr>"
proof -
  have trust: "normalizeTrustDomain ''spiffe://example.org'' = Inr ''example.org''" by code_simp
  have "retryUntilIdentityIssued (\<lambda>k. fetchFirstX509SVID (fetchX509SVID sample_libs k)) =
      (Inr sample_svid, [])"
    using retry_decisive [of 0 "\<lambda>k. fetchFirstX509SVID (fetchX509SVID sample_libs k)"]
    by (simp add: decisive_def retriable_def fetchFirstX509SVID_def sample_libs_def)
  then obtain creds where creds: "fst (workloadChannelCredentials sample_libs sample_dial) = Inr creds"
    by (simp add: workloadChannelCredentials_def authorizeTrustDomainMember_def sample_dial_def trust
        credentialsFromSVID_def sample_libs_def)
  have domain: "trustDomain sample_dial = ''spiffe://example.org''" "workload_address sample_dial = ''signet:8443''"
    by (simp_all add: sample_dial_def)
  note facts = workload_credentials_from_identity [of sample_libs sample_dial
      "\<lambda>address cr opts. Inr (address, cr)" "\<lambda>address cr opts. Inr (address, cr)"]
  from facts creds domain trust obtain svid where "built_from sample_libs ''example.org'' svid creds" by auto
  moreover from facts creds domain have "dialWorkload sample_libs (\<lambda>address cr opts. Inr (address, cr)) sample_dial =
       Inr \<lparr>connection_client = (''signet:8443'', creds)\<rparr>" by auto
  ultimately show ?thesis by blast
qed

text \<open>C22: A server is accepted only if one of the subject alternative names of its certificate is a
  SPIFFE URI of exactly the expected trust domain: \<open>URI:spiffe://\<close>, the domain, and nothing or a
  path; the domain is not empty and holds no slash. This is for certificates none of whose names
  contains a comma, and for a trust domain that is not the bare scheme \<open>spiffe://\<close> (with either, the
  check can be passed otherwise: \<open>quoted_name_accepted\<close>, \<open>empty_trust_domain_accepted\<close>).\<close>

theorem accepted_server_is_member:
  assumes "authorizeTrustDomainMember t = Inr check" and "check (Some (join_names names)) = None"
    and "list_all plain_name names" and "js_trim t \<noteq> ''spiffe://''"
  shows "\<exists>expected r. normalizeTrustDomain t = Inr expected \<and> expected \<noteq> '''' \<and> CHR ''/'' \<notin> set expected \<and>
     ''URI:spiffe://'' @ expected @ r \<in> set names \<and> (r = '''' \<or> hd r = CHR ''/'')"
proof -
  obtain expected where e: "normalizeTrustDomain t = Inr expected" "check = checkServerIdentity expected"
    using assms(1) by (auto simp: authorizeTrustDomainMember_def split: sum.splits)
  with accepted_name [OF assms(3), of expected] assms(2) normalize_no_slash [OF e(1)]
    normalize_not_empty [OF e(1) assms(4)] show ?thesis by auto
qed

theorem accepted_server_is_member_witness:
  "\<exists>r. ''URI:spiffe://'' @ ''example.org'' @ r \<in> {''DNS:x'', ''URI:spiffe://example.org/server''}"
proof -
  have trust: "normalizeTrustDomain ''example.org'' = Inr ''example.org''" by code_simp
  then have check: "authorizeTrustDomainMember ''example.org'' = Inr (checkServerIdentity ''example.org'')"
    by (simp add: authorizeTrustDomainMember_def)
  have san: "checkServerIdentity ''example.org''
      (Some (join_names [''DNS:x'', ''URI:spiffe://example.org/server''])) = None"
    by code_simp
  have plain: "list_all plain_name [''DNS:x'', ''URI:spiffe://example.org/server'']"
    "js_trim ''example.org'' \<noteq> ''spiffe://''" by code_simp+
  from trust accepted_server_is_member [OF check san plain] show ?thesis by auto
qed

text \<open>C23: For a certificate none of whose subject alternative names contains a comma, the check
  accepts exactly if the first SPIFFE name belongs to the expected trust domain; further SPIFFE
  names do not count.\<close>

theorem first_spiffe_name_decides:
  assumes "list_all plain_name names"
  shows "checkServerIdentity expected (Some (join_names names)) = None \<longleftrightarrow>
     (\<exists>name. find (starts_with ''URI:spiffe://'') names = Some name \<and> trustDomainOf (drop 4 name) = expected)"
proof -
  have "length ''URI:'' = 4" by simp
  then show ?thesis
    unfolding check_accepts_iff extract_join_names [OF assms] uri_prefix_def
    by (auto simp del: list.size)
qed

theorem first_spiffe_name_decides_witness:
  "checkServerIdentity ''example.org'' (Some (join_names [''DNS:x'', ''URI:spiffe://example.org/a''])) = None"
proof -
  have plain: "list_all plain_name [''DNS:x'', ''URI:spiffe://example.org/a'']" by code_simp
  have find: "find (starts_with ''URI:spiffe://'') [''DNS:x'', ''URI:spiffe://example.org/a''] =
      Some ''URI:spiffe://example.org/a''" by code_simp
  have "trustDomainOf (drop 4 ''URI:spiffe://example.org/a'') = ''example.org''" by code_simp
  with find first_spiffe_name_decides [OF plain, of "''example.org''"] show ?thesis by blast
qed



section \<open>Operator access\<close>

text \<open>C25: Plaintext transport is chosen exactly when no TLS was asked for (no \<open>forceTLS\<close>, no CA) and
  the caller asked for plaintext or the host is a loopback host; plaintext together with TLS
  options is an error.\<close>

theorem transport_decision:
  "(adminTransportMode address caPem forceTLS plaintext = Inr False \<longleftrightarrow>
      \<not> forceTLS \<and> caPem \<in> {None, Some (PemText '''')} \<and> (plaintext \<or> isLoopbackHost (hostOf address))) \<and>
   ((\<exists>e. adminTransportMode address caPem forceTLS plaintext = Inl e) \<longleftrightarrow>
      plaintext \<and> (forceTLS \<or> caPem \<notin> {None, Some (PemText '''')}))"
  unfolding transport_plaintext_only transport_error by (auto simp: has_ca_pem_def)

theorem transport_decision_witness:
  "adminTransportMode ''localhost:8444'' (Some (PemText '''')) False False = Inr False \<and>
   (\<exists>e. adminTransportMode ''localhost:8444'' (Some (PemBuffer [])) False True = Inl e)"
proof
  have "isLoopbackHost (hostOf ''localhost:8444'')" by code_simp
  then show "adminTransportMode ''localhost:8444'' (Some (PemText '''')) False False = Inr False"
    using transport_decision [of "''localhost:8444''" "Some (PemText '''')" False False] by simp
  show "\<exists>e. adminTransportMode ''localhost:8444'' (Some (PemBuffer [])) False True = Inl e"
    using transport_decision [of "''localhost:8444''" "Some (PemBuffer [])" False True] by simp
qed

text \<open>C26: \<open>dialAdmin\<close> and \<open>gitOpsClient\<close> connect to the given address with a token that is not blank. It
  never travels in plaintext to a host that is not a loopback host unless the caller asked for
  plaintext, and never in plaintext when a CA was given. Over TLS exactly the bytes of the given CA
  (of a text its UTF-8 form; the empty text is no CA) are the root certificates, and they hold at least
  one certificate and only certificates that parse.\<close>

theorem token_protected:
  assumes "dialAdmin to_text parse opts = Inr (address, creds, ints) \<or>
     gitOpsClient to_text parse opts = Inr (address, creds, ints)"
  shows "address = admin_address opts \<and> js_trim (admin_token opts) \<noteq> '''' \<and>
     (creds = Insecure \<longrightarrow> admin_caPem opts \<in> {None, Some (PemText '''')} \<and>
        (or_false (admin_plaintext opts) \<or> isLoopbackHost (hostOf address))) \<and>
     (\<forall>ca. creds = Ssl ca \<longrightarrow>
        ca = (case admin_caPem opts of
                None \<Rightarrow> None
              | Some (PemText s) \<Rightarrow> (if s = '''' then None else Some (utf8 s))
              | Some (PemBuffer b) \<Rightarrow> Some b) \<and>
        (\<forall>buf. ca = Some buf \<longrightarrow> pem_blocks (to_text buf) \<noteq> [] \<and>
           (\<forall>b \<in> set (pem_blocks (to_text buf)). parse b = None)))"
proof -
  have c: "adminChannelCredentials to_text parse opts = Inr creds" "address = admin_address opts"
    using assms by (auto simp: dialAdmin_def gitOpsClient_def bindE_Inr_iff)
  moreover have "js_trim (admin_token opts) \<noteq> ''''"
    using c(1) by (auto simp: adminChannelCredentials_def)
  moreover have "creds = Insecure \<Longrightarrow> admin_caPem opts \<in> {None, Some (PemText '''')} \<and>
      (or_false (admin_plaintext opts) \<or> isLoopbackHost (hostOf (admin_address opts)))"
    using insecure_only [of to_text parse opts] c(1) by (auto simp: has_ca_pem_def)
  moreover have "ca_bytes (admin_caPem opts) =
      (case admin_caPem opts of None \<Rightarrow> None
       | Some (PemText s) \<Rightarrow> (if s = '''' then None else Some (utf8 s)) | Some (PemBuffer b) \<Rightarrow> Some b)"
    by (cases "admin_caPem opts" rule: ca_bytes.cases) simp_all
  moreover have "ca = ca_bytes (admin_caPem opts) \<and>
      (\<forall>buf. ca = Some buf \<longrightarrow> pem_blocks (to_text buf) \<noteq> [] \<and>
         (\<forall>b \<in> set (pem_blocks (to_text buf)). parse b = None))" if "creds = Ssl ca" for ca
    using ssl_ca [of to_text parse opts ca] c(1) that by blast
  ultimately show ?thesis by simp
qed

definition sample_pem :: string where
  "sample_pem = ''-----BEGIN CERTIFICATE-----A-----END CERTIFICATE-----''"

definition sample_dial_admin :: dial_admin_options where
  "sample_dial_admin = \<lparr>admin_address = ''signet:8444'', admin_token = ''t'',
     admin_caPem = Some (PemText sample_pem), admin_forceTLS = None, admin_plaintext = None,
     channel_interceptors = None\<rparr>"

theorem token_protected_witness:
  "\<exists>ints. dialAdmin (\<lambda>b. map (char_of \<circ> unat) b) (\<lambda>b. None) sample_dial_admin =
      Inr (''signet:8444'', Ssl (Some (utf8 sample_pem)), ints) \<and>
     pem_blocks (map (char_of \<circ> unat) (utf8 sample_pem)) \<noteq> []"
proof -
  have pem: "sample_pem \<noteq> ''''" by (simp add: sample_pem_def)
  have trim: "js_trim ''t'' = ''t''" by code_simp
  have blocks: "pem_blocks (map (char_of \<circ> unat) (utf8 sample_pem)) \<noteq> []" by code_simp
  have "adminChannelCredentials (\<lambda>b. map (char_of \<circ> unat) b) (\<lambda>b. None) sample_dial_admin =
      Inr (Ssl (Some (utf8 sample_pem)))"
    using pem trim blocks
    by (simp add: adminChannelCredentials_def adminTransportMode_def normalizeCAPem_def first_invalid_ok
        has_ca_pem_def sample_dial_admin_def or_false_def Let_def)
  then have dial: "dialAdmin (\<lambda>b. map (char_of \<circ> unat) b) (\<lambda>b. None) sample_dial_admin =
      Inr (''signet:8444'', Ssl (Some (utf8 sample_pem)), mergeAuthInterceptor sample_dial_admin)"
    by (simp add: dialAdmin_def sample_dial_admin_def)
  with token_protected [OF disjI1, OF dial] show ?thesis by blast
qed

text \<open>C27: Every call carries the trimmed token as bearer credential, as long as the caller's own
  interceptors leave that header alone.\<close>

theorem bearer_on_every_call:
  assumes "\<forall>i \<in> set (case channel_interceptors opts of None \<Rightarrow> [] | Some is \<Rightarrow> is).
     \<forall>md. i md ''authorization'' = md ''authorization''"
  shows "outgoing (mergeAuthInterceptor opts) md ''authorization'' =
     Some (''Bearer '' @ js_trim (admin_token opts))"
  unfolding mergeAuthInterceptor_def by (rule bearer_present [OF assms])

definition sample_admin_options :: dial_admin_options where
  "sample_admin_options = \<lparr>admin_address = '''', admin_token = '' t '', admin_caPem = None,
     admin_forceTLS = None, admin_plaintext = None,
     channel_interceptors = Some [\<lambda>md. md(''trace'' \<mapsto> ''1'')]\<rparr>"

theorem bearer_on_every_call_witness:
  "outgoing (mergeAuthInterceptor sample_admin_options) (\<lambda>k. None) ''authorization'' = Some ''Bearer t''"
proof -
  have "js_trim '' t '' = ''t''" by code_simp
  with bearer_on_every_call [of sample_admin_options "\<lambda>k. None"]
  show ?thesis by (simp add: sample_admin_options_def)
qed

text \<open>C28: In front of a numeric port the host is recognised: an IPv4 address is a loopback address exactly
  if it lies in \<open>127.0.0.0/8\<close>, the bracketed \<open>::1\<close> is one, and of the names that are no IPv4 address
  (and have no colon and no leading bracket) only \<open>localhost\<close> is.\<close>

theorem loopback_addresses:
  assumes "a < 256" "b < 256" "c < 256" "d < 256" and "port \<noteq> []" "list_all is_digit port"
    and "CHR '':'' \<notin> set name" "name = [] \<or> hd name \<noteq> CHR ''[''" "\<not> isIPv4 name"
  shows "(isLoopbackHost (hostOf (dotted a b c d @ CHR '':'' # port)) \<longleftrightarrow> a = 127) \<and>
     isLoopbackHost (hostOf (''[::1]:'' @ port)) \<and>
     (isLoopbackHost (hostOf (name @ CHR '':'' # port)) \<longleftrightarrow> name = ''localhost'')"
proof -
  have p: "CHR '':'' \<notin> set port" using assms(6) by (auto simp: list_all_iff)
  have clean: "CHR '':'' \<notin> set (show_byte n)" "CHR ''['' \<notin> set (show_byte n)" if "n < 256" for n
    using show_byte_digits [OF that] by (auto simp: list_all_iff is_digit_def)
  have "CHR '':'' \<notin> set (dotted a b c d)" "CHR ''['' \<notin> set (dotted a b c d)"
    using assms(1-4) clean by (simp_all add: dotted_def)
  then have "hostOf (dotted a b c d @ CHR '':'' # port) = dotted a b c d"
    using p by (intro hostOf_plain) (auto dest: hd_in_set)
  moreover have "hostOf (CHR ''['' # ''::1'' @ '']:'' @ port) = ''::1''"
    using assms(5,6) by (intro hostOf_bracketed) simp_all
  moreover have "hostOf (name @ CHR '':'' # port) = name"
    using p assms(7,8) by (intro hostOf_plain)
  moreover have "isLoopbackHost name \<longleftrightarrow> name = ''localhost''"
    using assms(7,9) unfolding loopback_iff by auto
  ultimately show ?thesis using dotted_loopback [OF assms(1-4)] by (simp add: loopback_iff)
qed

theorem loopback_addresses_witness:
  "isLoopbackHost (hostOf (dotted 127 0 0 1 @ '':8444'')) \<and> \<not> isLoopbackHost (hostOf (dotted 12 7 0 1 @ '':8444'')) \<and>
   \<not> isLoopbackHost (hostOf ''signet:8444'')"
proof -
  have "list_all is_digit ''8444''" "\<not> isIPv4 ''signet''" by code_simp+
  with loopback_addresses [of 127 0 0 1 "''8444''" "''signet''"] loopback_addresses [of 12 7 0 1 "''8444''" "''signet''"]
  show ?thesis by simp
qed

section \<open>Sealed secrets\<close>

text \<open>C29: The holder of the data key of a document written by \<open>encryptForSecret\<close> recovers the secret:
  the value leaf opens under its additional data, and the MAC leaf, bound to the timestamp in
  the document, is the hash of the secret.\<close>

theorem sealed_secret_opens:
  assumes "encryptForSecret C yaml publicKey value = Inr bytes" and "gcm_ok C"
  shows "\<exists>doc wrapped. bytes = utf8 (yaml doc) \<and> quoted_lastmodified doc \<and>
     doc_recipient doc = js_trim publicKey \<and>
     age_encrypt C (js_trim publicKey) (random32 C 0) = Inr wrapped \<and>
     doc_enc doc = armor_encode C wrapped \<and>
     sops_open C (random32 C 0) doc = Some (secret_bytes value)"
  using encrypt_shape [OF assms(1)] assms(2) by metis

definition sample_crypto :: crypto where
  "sample_crypto = \<lparr>random32 = (\<lambda>k. [of_nat k]), sha512 = rev, seal = (\<lambda>k n a p. (p, k @ n @ a)),
     unseal = (\<lambda>k n a c t. if t = k @ n @ a then Some c else None),
     iso_now = ''2026-01-02T03:04:05.678Z'', add_recipient = (\<lambda>r. None),
     age_encrypt = (\<lambda>r b. Inr b), armor_encode = (\<lambda>b. ''armored'')\<rparr>"

theorem sealed_secret_opens_witness:
  "\<exists>doc. doc_recipient doc = ''age1'' \<and> sops_open sample_crypto [0] doc = Some (utf8 ''secret'')"
proof -
  have trim: "js_trim ''age1'' = ''age1''" by code_simp
  have "\<exists>bytes. encryptForSecret sample_crypto (\<lambda>doc. ''yaml'') ''age1'' (SecretText ''secret'') = Inr bytes"
    by (simp add: encryptForSecret_def Let_def trim sample_crypto_def)
  then obtain bytes where
    b: "encryptForSecret sample_crypto (\<lambda>doc. ''yaml'') ''age1'' (SecretText ''secret'') = Inr bytes" by blast
  have "gcm_ok sample_crypto" by (simp add: gcm_ok_def sample_crypto_def)
  from sealed_secret_opens [OF b this] obtain doc where
    "doc_recipient doc = js_trim ''age1''"
    "sops_open sample_crypto (random32 sample_crypto 0) doc = Some (secret_bytes (SecretText ''secret''))"
    by blast
  then show ?thesis by (intro exI [of _ doc]) (simp add: trim, simp add: sample_crypto_def)
qed

text \<open>The timestamp of the document has no fraction of a second.\<close>

theorem timestamp_whole_seconds:
  assumes "list_all is_digit ds" and "ds \<noteq> []" and "CHR ''.'' \<notin> set t"
  shows "strip_fraction (t @ CHR ''.'' # ds @ ''Z'') = t @ ''Z'' \<and>
     strip_fraction (strip_fraction (t @ CHR ''.'' # ds @ ''Z'')) = t @ ''Z''"
  using strip_fraction_iso [OF assms(1,2), of t] strip_fraction_none [of "t @ ''Z''"] assms(3) by simp

theorem timestamp_whole_seconds_witness:
  "strip_fraction ''2026-01-02T03:04:05.678Z'' = ''2026-01-02T03:04:05Z''"
  using timestamp_whole_seconds [of "''678''" "''2026-01-02T03:04:05''"]
  by (simp add: is_digit_def)

section \<open>The wire\<close>

text \<open>C30: Every message of the workload API and of the operator API that holds what its fields allow
  can be written, and is read back unchanged as long as it is nested no deeper than the decoder
  allows and its bytes fit a length prefix.\<close>

theorem messages_roundtrip:
  "wire_ok W \<Longrightarrow>
   sound_codec W GetSecretRequest_dec GetSecretRequest_encode (\<lambda>_. True) (\<lambda>_. 1) \<and>
   sound_codec W GetSecretResponse_dec GetSecretResponse_encode valid_GetSecretResponse (\<lambda>_. 1) \<and>
   sound_codec W WatchSecretRequest_dec WatchSecretRequest_encode (\<lambda>_. True) (\<lambda>_. 1) \<and>
   sound_codec W WatchSecretResponse_dec WatchSecretResponse_encode valid_WatchSecretResponse (\<lambda>_. 1) \<and>
   sound_codec W GetConfigRequest_dec GetConfigRequest_encode (\<lambda>_. True) (\<lambda>_. 1) \<and>
   sound_codec W GetConfigResponse_dec GetConfigResponse_encode valid_GetConfigResponse depth_GetConfigResponse \<and>
   sound_codec W GetServiceConfigRequest_dec GetServiceConfigRequest_encode (\<lambda>_. True) (\<lambda>_. 1) \<and>
   sound_codec W GetServiceConfigResponse_dec GetServiceConfigResponse_encode valid_GetServiceConfigResponse depth_GetServiceConfigResponse \<and>
   sound_codec W WatchServiceConfigRequest_dec WatchServiceConfigRequest_encode (\<lambda>_. True) (\<lambda>_. 1) \<and>
   sound_codec W GetServiceBundleRequest_dec GetServiceBundleRequest_encode (\<lambda>_. True) (\<lambda>_. 1) \<and>
   sound_codec W GetServiceBundleResponse_dec GetServiceBundleResponse_encode valid_GetServiceBundleResponse depth_GetServiceBundleResponse \<and>
   sound_codec W WatchServiceBundleRequest_dec WatchServiceBundleRequest_encode (\<lambda>_. True) (\<lambda>_. 1) \<and>
   sound_codec W WatchServiceBundleResponse_dec WatchServiceBundleResponse_encode valid_WatchServiceBundleResponse (\<lambda>_. 1) \<and>
   sound_codec W AcquireRestartLockRequest_dec AcquireRestartLockRequest_encode valid_AcquireRestartLockRequest (\<lambda>_. 1) \<and>
   sound_codec W AcquireRestartLockResponse_dec AcquireRestartLockResponse_encode valid_AcquireRestartLockResponse depth_AcquireRestartLockResponse \<and>
   sound_codec W WatchServiceConfigResponse_dec WatchServiceConfigResponse_encode valid_WatchServiceConfigResponse depth_WatchServiceConfigResponse \<and>
   sound_codec W UnsealKeyRequest_dec UnsealKeyRequest_encode (\<lambda>_. True) (\<lambda>_. 1) \<and>
   sound_codec W UnsealKeyResponse_dec UnsealKeyResponse_encode valid_UnsealKeyResponse (\<lambda>_. 1) \<and>
   sound_codec W UnsealShareRequest_dec UnsealShareRequest_encode (\<lambda>_. True) (\<lambda>_. 1) \<and>
   sound_codec W UnsealShareResponse_dec UnsealShareResponse_encode valid_UnsealShareResponse (\<lambda>_. 1) \<and>
   sound_codec W SealRequest_dec SealRequest_encode (\<lambda>_. True) (\<lambda>_. 1) \<and>
   sound_codec W SealResponse_dec SealResponse_encode (\<lambda>_. True) (\<lambda>_. 1) \<and>
   sound_codec W StatusRequest_dec StatusRequest_encode (\<lambda>_. True) (\<lambda>_. 1) \<and>
   sound_codec W StatusResponse_dec StatusResponse_encode valid_StatusResponse (\<lambda>_. 1) \<and>
   sound_codec W RotateKEKRequest_dec RotateKEKRequest_encode (\<lambda>_. True) (\<lambda>_. 1) \<and>
   sound_codec W RotateKEKResponse_dec RotateKEKResponse_encode valid_RotateKEKResponse (\<lambda>_. 1) \<and>
   sound_codec W ListKEKsRequest_dec ListKEKsRequest_encode (\<lambda>_. True) (\<lambda>_. 1) \<and>
   sound_codec W KEKInfo_dec KEKInfo_encode (\<lambda>_. True) (\<lambda>_. 1) \<and>
   sound_codec W ListKEKsResponse_dec ListKEKsResponse_encode (\<lambda>_. True) depth_ListKEKsResponse \<and>
   sound_codec W PruneKEKRequest_dec PruneKEKRequest_encode (\<lambda>_. True) (\<lambda>_. 1) \<and>
   sound_codec W PruneKEKResponse_dec PruneKEKResponse_encode (\<lambda>_. True) (\<lambda>_. 1) \<and>
   sound_codec W RotateMasterKeyRequest_dec RotateMasterKeyRequest_encode (\<lambda>_. True) (\<lambda>_. 1) \<and>
   sound_codec W RotateMasterKeyResponse_dec RotateMasterKeyResponse_encode valid_RotateMasterKeyResponse (\<lambda>_. 1) \<and>
   sound_codec W CreatePolicyRequest_dec CreatePolicyRequest_encode (\<lambda>_. True) (\<lambda>_. 1) \<and>
   sound_codec W CreatePolicyResponse_dec CreatePolicyResponse_encode (\<lambda>_. True) (\<lambda>_. 1) \<and>
   sound_codec W ListPoliciesRequest_dec ListPoliciesRequest_encode (\<lambda>_. True) (\<lambda>_. 1) \<and>
   sound_codec W PolicyInfo_dec PolicyInfo_encode (\<lambda>_. True) (\<lambda>_. 1) \<and>
   sound_codec W ListPoliciesResponse_dec ListPoliciesResponse_encode (\<lambda>_. True) depth_ListPoliciesResponse \<and>
   sound_codec W DeletePolicyRequest_dec DeletePolicyRequest_encode (\<lambda>_. True) (\<lambda>_. 1) \<and>
   sound_codec W DeletePolicyResponse_dec DeletePolicyResponse_encode (\<lambda>_. True) (\<lambda>_. 1) \<and>
   sound_codec W DeleteSecretRequest_dec DeleteSecretRequest_encode (\<lambda>_. True) (\<lambda>_. 1) \<and>
   sound_codec W DeleteSecretResponse_dec DeleteSecretResponse_encode (\<lambda>_. True) (\<lambda>_. 1) \<and>
   sound_codec W DeleteConfigRequest_dec DeleteConfigRequest_encode (\<lambda>_. True) (\<lambda>_. 1) \<and>
   sound_codec W DeleteConfigResponse_dec DeleteConfigResponse_encode (\<lambda>_. True) (\<lambda>_. 1) \<and>
   sound_codec W GetSOPSPublicKeyRequest_dec GetSOPSPublicKeyRequest_encode (\<lambda>_. True) (\<lambda>_. 1) \<and>
   sound_codec W GetSOPSPublicKeyResponse_dec GetSOPSPublicKeyResponse_encode (\<lambda>_. True) (\<lambda>_. 1) \<and>
   sound_codec W RotateSOPSKeyRequest_dec RotateSOPSKeyRequest_encode (\<lambda>_. True) (\<lambda>_. 1) \<and>
   sound_codec W RotateSOPSKeyResponse_dec RotateSOPSKeyResponse_encode (\<lambda>_. True) (\<lambda>_. 1) \<and>
   sound_codec W ListSOPSKeysRequest_dec ListSOPSKeysRequest_encode (\<lambda>_. True) (\<lambda>_. 1) \<and>
   sound_codec W SOPSKeyInfo_dec SOPSKeyInfo_encode (\<lambda>_. True) (\<lambda>_. 1) \<and>
   sound_codec W ListSOPSKeysResponse_dec ListSOPSKeysResponse_encode (\<lambda>_. True) depth_ListSOPSKeysResponse \<and>
   sound_codec W PruneSOPSKeyRequest_dec PruneSOPSKeyRequest_encode (\<lambda>_. True) (\<lambda>_. 1) \<and>
   sound_codec W PruneSOPSKeyResponse_dec PruneSOPSKeyResponse_encode (\<lambda>_. True) (\<lambda>_. 1) \<and>
   sound_codec W RegisterRepositoryRequest_dec RegisterRepositoryRequest_encode (\<lambda>_. True) (\<lambda>_. 1) \<and>
   sound_codec W RegisterRepositoryResponse_dec RegisterRepositoryResponse_encode (\<lambda>_. True) (\<lambda>_. 1) \<and>
   sound_codec W ListRepositoriesRequest_dec ListRepositoriesRequest_encode (\<lambda>_. True) (\<lambda>_. 1) \<and>
   sound_codec W RepositoryInfo_dec RepositoryInfo_encode (\<lambda>_. True) (\<lambda>_. 1) \<and>
   sound_codec W ListRepositoriesResponse_dec ListRepositoriesResponse_encode (\<lambda>_. True) depth_ListRepositoriesResponse \<and>
   sound_codec W RemoveRepositoryRequest_dec RemoveRepositoryRequest_encode (\<lambda>_. True) (\<lambda>_. 1) \<and>
   sound_codec W RemoveRepositoryResponse_dec RemoveRepositoryResponse_encode (\<lambda>_. True) (\<lambda>_. 1) \<and>
   sound_codec W TriggerSyncRequest_dec TriggerSyncRequest_encode (\<lambda>_. True) (\<lambda>_. 1) \<and>
   sound_codec W TriggerSyncResponse_dec TriggerSyncResponse_encode valid_TriggerSyncResponse (\<lambda>_. 1) \<and>
   sound_codec W SyncBundleHeader_dec SyncBundleHeader_encode (\<lambda>_. True) (\<lambda>_. 1) \<and>
   sound_codec W SyncBundleChunk_dec SyncBundleChunk_encode (\<lambda>_. True) depth_SyncBundleChunk \<and>
   sound_codec W SyncBundleResponse_dec SyncBundleResponse_encode valid_SyncBundleResponse (\<lambda>_. 1) \<and>
   sound_codec W JsonPatchOperation_dec JsonPatchOperation_encode valid_JsonPatchOperation depth_JsonPatchOperation \<and>
   sound_codec W PatchServiceConfigRequest_dec PatchServiceConfigRequest_encode valid_PatchServiceConfigRequest depth_PatchServiceConfigRequest \<and>
   sound_codec W PatchServiceConfigResponse_dec PatchServiceConfigResponse_encode valid_PatchServiceConfigResponse (\<lambda>_. 1) \<and>
   sound_codec W AdminGetServiceConfigRequest_dec AdminGetServiceConfigRequest_encode (\<lambda>_. True) (\<lambda>_. 1) \<and>
   sound_codec W AdminGetServiceConfigResponse_dec AdminGetServiceConfigResponse_encode valid_AdminGetServiceConfigResponse depth_AdminGetServiceConfigResponse \<and>
   sound_codec W PutServiceConfigRequest_dec PutServiceConfigRequest_encode valid_PutServiceConfigRequest depth_PutServiceConfigRequest \<and>
   sound_codec W PutServiceConfigResponse_dec PutServiceConfigResponse_encode valid_PutServiceConfigResponse (\<lambda>_. 1)"
  by (intro conjI; rule
    SecretsMessages_sound AdminSealMessages_sound AdminPolicyMessages_sound
    AdminSopsMessages_sound AdminRepositoryMessages_sound AdminConfigMessages_sound)

theorem messages_roundtrip_witness:
  "sound_codec pb_wire AcquireRestartLockResponse_dec AcquireRestartLockResponse_encode
     valid_AcquireRestartLockResponse depth_AcquireRestartLockResponse"
  using messages_roundtrip [OF pb_wire_ok] by blast

text \<open>C31: A message from a newer version of either API is understood, for all messages: fields before
  and after it whose tag (field number and wire type) is not one of the message's own are skipped,
  as far as the reader can skip them, and the message is read as it was written (within the same
  limits). The list of numbers is that of the tags the message has.\<close>

theorem unknown_fields_ignored:
  "wire_ok W \<Longrightarrow>
   ignores_unknown W GetSecretRequest_dec GetSecretRequest_encode [10, 18, 26] (\<lambda>_. True) (\<lambda>_. 1) \<and>
   ignores_unknown W GetSecretResponse_dec GetSecretResponse_encode [10, 16] valid_GetSecretResponse (\<lambda>_. 1) \<and>
   ignores_unknown W WatchSecretRequest_dec WatchSecretRequest_encode [10, 18, 26] (\<lambda>_. True) (\<lambda>_. 1) \<and>
   ignores_unknown W WatchSecretResponse_dec WatchSecretResponse_encode [8, 18, 26, 34, 42, 48] valid_WatchSecretResponse (\<lambda>_. 1) \<and>
   ignores_unknown W GetConfigRequest_dec GetConfigRequest_encode [10, 18, 26] (\<lambda>_. True) (\<lambda>_. 1) \<and>
   ignores_unknown W GetConfigResponse_dec GetConfigResponse_encode [10, 16] valid_GetConfigResponse depth_GetConfigResponse \<and>
   ignores_unknown W GetServiceConfigRequest_dec GetServiceConfigRequest_encode [10, 18] (\<lambda>_. True) (\<lambda>_. 1) \<and>
   ignores_unknown W GetServiceConfigResponse_dec GetServiceConfigResponse_encode [10, 16] valid_GetServiceConfigResponse depth_GetServiceConfigResponse \<and>
   ignores_unknown W WatchServiceConfigRequest_dec WatchServiceConfigRequest_encode [10, 18] (\<lambda>_. True) (\<lambda>_. 1) \<and>
   ignores_unknown W GetServiceBundleRequest_dec GetServiceBundleRequest_encode [10, 18] (\<lambda>_. True) (\<lambda>_. 1) \<and>
   ignores_unknown W GetServiceBundleResponse_dec GetServiceBundleResponse_encode [10, 16] valid_GetServiceBundleResponse depth_GetServiceBundleResponse \<and>
   ignores_unknown W WatchServiceBundleRequest_dec WatchServiceBundleRequest_encode [10, 18] (\<lambda>_. True) (\<lambda>_. 1) \<and>
   ignores_unknown W WatchServiceBundleResponse_dec WatchServiceBundleResponse_encode [8, 18, 26] valid_WatchServiceBundleResponse (\<lambda>_. 1) \<and>
   ignores_unknown W AcquireRestartLockRequest_dec AcquireRestartLockRequest_encode [10, 18, 24, 32] valid_AcquireRestartLockRequest (\<lambda>_. 1) \<and>
   ignores_unknown W AcquireRestartLockResponse_dec AcquireRestartLockResponse_encode [8, 16, 26, 34] valid_AcquireRestartLockResponse depth_AcquireRestartLockResponse \<and>
   ignores_unknown W WatchServiceConfigResponse_dec WatchServiceConfigResponse_encode [8, 18, 26, 34, 40] valid_WatchServiceConfigResponse depth_WatchServiceConfigResponse \<and>
   ignores_unknown W UnsealKeyRequest_dec UnsealKeyRequest_encode [10] (\<lambda>_. True) (\<lambda>_. 1) \<and>
   ignores_unknown W UnsealKeyResponse_dec UnsealKeyResponse_encode [8, 16, 24, 34] valid_UnsealKeyResponse (\<lambda>_. 1) \<and>
   ignores_unknown W UnsealShareRequest_dec UnsealShareRequest_encode [10] (\<lambda>_. True) (\<lambda>_. 1) \<and>
   ignores_unknown W UnsealShareResponse_dec UnsealShareResponse_encode [8, 16, 24, 34] valid_UnsealShareResponse (\<lambda>_. 1) \<and>
   ignores_unknown W SealRequest_dec SealRequest_encode [] (\<lambda>_. True) (\<lambda>_. 1) \<and>
   ignores_unknown W SealResponse_dec SealResponse_encode [10] (\<lambda>_. True) (\<lambda>_. 1) \<and>
   ignores_unknown W StatusRequest_dec StatusRequest_encode [] (\<lambda>_. True) (\<lambda>_. 1) \<and>
   ignores_unknown W StatusResponse_dec StatusResponse_encode [8, 16, 24, 34] valid_StatusResponse (\<lambda>_. 1) \<and>
   ignores_unknown W RotateKEKRequest_dec RotateKEKRequest_encode [] (\<lambda>_. True) (\<lambda>_. 1) \<and>
   ignores_unknown W RotateKEKResponse_dec RotateKEKResponse_encode [10, 18, 24] valid_RotateKEKResponse (\<lambda>_. 1) \<and>
   ignores_unknown W ListKEKsRequest_dec ListKEKsRequest_encode [] (\<lambda>_. True) (\<lambda>_. 1) \<and>
   ignores_unknown W KEKInfo_dec KEKInfo_encode [10, 16, 26, 34] (\<lambda>_. True) (\<lambda>_. 1) \<and>
   ignores_unknown W ListKEKsResponse_dec ListKEKsResponse_encode [10] (\<lambda>_. True) depth_ListKEKsResponse \<and>
   ignores_unknown W PruneKEKRequest_dec PruneKEKRequest_encode [10] (\<lambda>_. True) (\<lambda>_. 1) \<and>
   ignores_unknown W PruneKEKResponse_dec PruneKEKResponse_encode [10] (\<lambda>_. True) (\<lambda>_. 1) \<and>
   ignores_unknown W RotateMasterKeyRequest_dec RotateMasterKeyRequest_encode [10] (\<lambda>_. True) (\<lambda>_. 1) \<and>
   ignores_unknown W RotateMasterKeyResponse_dec RotateMasterKeyResponse_encode [10, 16] valid_RotateMasterKeyResponse (\<lambda>_. 1) \<and>
   ignores_unknown W CreatePolicyRequest_dec CreatePolicyRequest_encode [10, 18, 26, 34, 42] (\<lambda>_. True) (\<lambda>_. 1) \<and>
   ignores_unknown W CreatePolicyResponse_dec CreatePolicyResponse_encode [10] (\<lambda>_. True) (\<lambda>_. 1) \<and>
   ignores_unknown W ListPoliciesRequest_dec ListPoliciesRequest_encode [] (\<lambda>_. True) (\<lambda>_. 1) \<and>
   ignores_unknown W PolicyInfo_dec PolicyInfo_encode [10, 18, 26, 34, 42, 50] (\<lambda>_. True) (\<lambda>_. 1) \<and>
   ignores_unknown W ListPoliciesResponse_dec ListPoliciesResponse_encode [10] (\<lambda>_. True) depth_ListPoliciesResponse \<and>
   ignores_unknown W DeletePolicyRequest_dec DeletePolicyRequest_encode [10] (\<lambda>_. True) (\<lambda>_. 1) \<and>
   ignores_unknown W DeletePolicyResponse_dec DeletePolicyResponse_encode [10] (\<lambda>_. True) (\<lambda>_. 1) \<and>
   ignores_unknown W DeleteSecretRequest_dec DeleteSecretRequest_encode [10, 18, 26] (\<lambda>_. True) (\<lambda>_. 1) \<and>
   ignores_unknown W DeleteSecretResponse_dec DeleteSecretResponse_encode [10] (\<lambda>_. True) (\<lambda>_. 1) \<and>
   ignores_unknown W DeleteConfigRequest_dec DeleteConfigRequest_encode [10, 18] (\<lambda>_. True) (\<lambda>_. 1) \<and>
   ignores_unknown W DeleteConfigResponse_dec DeleteConfigResponse_encode [10] (\<lambda>_. True) (\<lambda>_. 1) \<and>
   ignores_unknown W GetSOPSPublicKeyRequest_dec GetSOPSPublicKeyRequest_encode [] (\<lambda>_. True) (\<lambda>_. 1) \<and>
   ignores_unknown W GetSOPSPublicKeyResponse_dec GetSOPSPublicKeyResponse_encode [10, 18, 26, 34] (\<lambda>_. True) (\<lambda>_. 1) \<and>
   ignores_unknown W RotateSOPSKeyRequest_dec RotateSOPSKeyRequest_encode [] (\<lambda>_. True) (\<lambda>_. 1) \<and>
   ignores_unknown W RotateSOPSKeyResponse_dec RotateSOPSKeyResponse_encode [10, 18, 26, 34] (\<lambda>_. True) (\<lambda>_. 1) \<and>
   ignores_unknown W ListSOPSKeysRequest_dec ListSOPSKeysRequest_encode [] (\<lambda>_. True) (\<lambda>_. 1) \<and>
   ignores_unknown W SOPSKeyInfo_dec SOPSKeyInfo_encode [10, 18, 24, 34, 42, 50] (\<lambda>_. True) (\<lambda>_. 1) \<and>
   ignores_unknown W ListSOPSKeysResponse_dec ListSOPSKeysResponse_encode [10] (\<lambda>_. True) depth_ListSOPSKeysResponse \<and>
   ignores_unknown W PruneSOPSKeyRequest_dec PruneSOPSKeyRequest_encode [10] (\<lambda>_. True) (\<lambda>_. 1) \<and>
   ignores_unknown W PruneSOPSKeyResponse_dec PruneSOPSKeyResponse_encode [10] (\<lambda>_. True) (\<lambda>_. 1) \<and>
   ignores_unknown W RegisterRepositoryRequest_dec RegisterRepositoryRequest_encode [10, 18, 26, 34, 42, 50] (\<lambda>_. True) (\<lambda>_. 1) \<and>
   ignores_unknown W RegisterRepositoryResponse_dec RegisterRepositoryResponse_encode [10, 18, 26] (\<lambda>_. True) (\<lambda>_. 1) \<and>
   ignores_unknown W ListRepositoriesRequest_dec ListRepositoriesRequest_encode [] (\<lambda>_. True) (\<lambda>_. 1) \<and>
   ignores_unknown W RepositoryInfo_dec RepositoryInfo_encode [10, 18, 26, 34, 42, 50, 58, 66] (\<lambda>_. True) (\<lambda>_. 1) \<and>
   ignores_unknown W ListRepositoriesResponse_dec ListRepositoriesResponse_encode [10] (\<lambda>_. True) depth_ListRepositoriesResponse \<and>
   ignores_unknown W RemoveRepositoryRequest_dec RemoveRepositoryRequest_encode [10] (\<lambda>_. True) (\<lambda>_. 1) \<and>
   ignores_unknown W RemoveRepositoryResponse_dec RemoveRepositoryResponse_encode [10] (\<lambda>_. True) (\<lambda>_. 1) \<and>
   ignores_unknown W TriggerSyncRequest_dec TriggerSyncRequest_encode [10, 16] (\<lambda>_. True) (\<lambda>_. 1) \<and>
   ignores_unknown W TriggerSyncResponse_dec TriggerSyncResponse_encode [8, 16, 24, 34, 42, 48, 56] valid_TriggerSyncResponse (\<lambda>_. 1) \<and>
   ignores_unknown W SyncBundleHeader_dec SyncBundleHeader_encode [10, 18, 26] (\<lambda>_. True) (\<lambda>_. 1) \<and>
   ignores_unknown W SyncBundleChunk_dec SyncBundleChunk_encode [10, 18] (\<lambda>_. True) depth_SyncBundleChunk \<and>
   ignores_unknown W SyncBundleResponse_dec SyncBundleResponse_encode [8, 16, 24, 34, 42, 48] valid_SyncBundleResponse (\<lambda>_. 1) \<and>
   ignores_unknown W JsonPatchOperation_dec JsonPatchOperation_encode [10, 18, 26, 34] valid_JsonPatchOperation depth_JsonPatchOperation \<and>
   ignores_unknown W PatchServiceConfigRequest_dec PatchServiceConfigRequest_encode [10, 18, 26] valid_PatchServiceConfigRequest depth_PatchServiceConfigRequest \<and>
   ignores_unknown W PatchServiceConfigResponse_dec PatchServiceConfigResponse_encode [8] valid_PatchServiceConfigResponse (\<lambda>_. 1) \<and>
   ignores_unknown W AdminGetServiceConfigRequest_dec AdminGetServiceConfigRequest_encode [10, 18] (\<lambda>_. True) (\<lambda>_. 1) \<and>
   ignores_unknown W AdminGetServiceConfigResponse_dec AdminGetServiceConfigResponse_encode [10, 16] valid_AdminGetServiceConfigResponse depth_AdminGetServiceConfigResponse \<and>
   ignores_unknown W PutServiceConfigRequest_dec PutServiceConfigRequest_encode [10, 18, 26, 32] valid_PutServiceConfigRequest depth_PutServiceConfigRequest \<and>
   ignores_unknown W PutServiceConfigResponse_dec PutServiceConfigResponse_encode [8] valid_PutServiceConfigResponse (\<lambda>_. 1)"
  by (intro conjI; rule
    SecretsMessages_ignores AdminSealMessages_ignores AdminPolicyMessages_ignores
    AdminSopsMessages_ignores AdminRepositoryMessages_ignores AdminConfigMessages_ignores)

theorem unknown_fields_ignored_witness:
  "\<exists>b. GetSecretResponse_encode pb_wire \<lparr>GetSecretResponse_value = [1, 2], GetSecretResponse_version = 3\<rparr> = Some b \<and>
     decode_top (GetSecretResponse_dec pb_wire)
         ((varint 24 @ varint 5) @ b @ (varint 8 @ varint 9 @ varint 26 @ w_delimited [7])) =
       Some (Inr \<lparr>GetSecretResponse_value = [1, 2], GetSecretResponse_version = 3\<rparr>)"
proof -
  let ?m = "\<lparr>GetSecretResponse_value = [1, 2 :: byte], GetSecretResponse_version = 3\<rparr>"
  obtain b where b: "GetSecretResponse_encode pb_wire ?m = Some b" "small b"
    by (auto simp: GetSecretResponse_encode_def sample_encode f_bytes_def in_int32_def small_def)
  have s: "small (w_delimited [7])" by (simp add: small_def w_delimited_def varint_small)
  have "unknown_fields pb_wire [10, 16] (w_uint32 pb_wire 26 @ w_delimited [7] @ [])"
    using pb_skipped(2) [of 26 "[7]"] s by (intro unknown_fields_Cons) simp_all
  from unknown_fields_Cons [OF _ _ _ this, of 8 "varint 9"] pb_skipped(1) [of 8 9]
  have "unknown_fields pb_wire [10, 16] (w_uint32 pb_wire 8 @ varint 9 @ w_uint32 pb_wire 26 @ w_delimited [7] @ [])"
    by simp
  moreover have "unknown_fields pb_wire [10, 16] (w_uint32 pb_wire 24 @ varint 5 @ [])"
    using pb_skipped(1) [of 24 5] by (intro unknown_fields_Cons) simp_all
  ultimately have u: "unknown_fields pb_wire [10, 16] (varint 24 @ varint 5)"
    "unknown_fields pb_wire [10, 16] (varint 8 @ varint 9 @ varint 26 @ w_delimited [7])" by (simp_all add: pb_wire_def)
  have "valid_GetSecretResponse ?m" "1 \<le> decode_limit"
    by (simp_all add: valid_GetSecretResponse_def in_int32_def decode_limit_def)
  moreover have "ignores_unknown pb_wire GetSecretResponse_dec GetSecretResponse_encode [10, 16]
      valid_GetSecretResponse (\<lambda>_. 1)"
    using unknown_fields_ignored [OF pb_wire_ok] by blast
  ultimately show ?thesis using b u unfolding ignores_unknown_def by blast
qed

text \<open>C32: Decoding returns on every byte string, for every message of both APIs: it gives a message or
  an error.\<close>

theorem decoding_returns:
  "wire_progress W \<Longrightarrow>
   total_decoder W GetSecretRequest_dec \<and>
   total_decoder W GetSecretResponse_dec \<and>
   total_decoder W WatchSecretRequest_dec \<and>
   total_decoder W WatchSecretResponse_dec \<and>
   total_decoder W GetConfigRequest_dec \<and>
   total_decoder W GetConfigResponse_dec \<and>
   total_decoder W GetServiceConfigRequest_dec \<and>
   total_decoder W GetServiceConfigResponse_dec \<and>
   total_decoder W WatchServiceConfigRequest_dec \<and>
   total_decoder W GetServiceBundleRequest_dec \<and>
   total_decoder W GetServiceBundleResponse_dec \<and>
   total_decoder W WatchServiceBundleRequest_dec \<and>
   total_decoder W WatchServiceBundleResponse_dec \<and>
   total_decoder W AcquireRestartLockRequest_dec \<and>
   total_decoder W AcquireRestartLockResponse_dec \<and>
   total_decoder W WatchServiceConfigResponse_dec \<and>
   total_decoder W UnsealKeyRequest_dec \<and>
   total_decoder W UnsealKeyResponse_dec \<and>
   total_decoder W UnsealShareRequest_dec \<and>
   total_decoder W UnsealShareResponse_dec \<and>
   total_decoder W SealRequest_dec \<and>
   total_decoder W SealResponse_dec \<and>
   total_decoder W StatusRequest_dec \<and>
   total_decoder W StatusResponse_dec \<and>
   total_decoder W RotateKEKRequest_dec \<and>
   total_decoder W RotateKEKResponse_dec \<and>
   total_decoder W ListKEKsRequest_dec \<and>
   total_decoder W KEKInfo_dec \<and>
   total_decoder W ListKEKsResponse_dec \<and>
   total_decoder W PruneKEKRequest_dec \<and>
   total_decoder W PruneKEKResponse_dec \<and>
   total_decoder W RotateMasterKeyRequest_dec \<and>
   total_decoder W RotateMasterKeyResponse_dec \<and>
   total_decoder W CreatePolicyRequest_dec \<and>
   total_decoder W CreatePolicyResponse_dec \<and>
   total_decoder W ListPoliciesRequest_dec \<and>
   total_decoder W PolicyInfo_dec \<and>
   total_decoder W ListPoliciesResponse_dec \<and>
   total_decoder W DeletePolicyRequest_dec \<and>
   total_decoder W DeletePolicyResponse_dec \<and>
   total_decoder W DeleteSecretRequest_dec \<and>
   total_decoder W DeleteSecretResponse_dec \<and>
   total_decoder W DeleteConfigRequest_dec \<and>
   total_decoder W DeleteConfigResponse_dec \<and>
   total_decoder W GetSOPSPublicKeyRequest_dec \<and>
   total_decoder W GetSOPSPublicKeyResponse_dec \<and>
   total_decoder W RotateSOPSKeyRequest_dec \<and>
   total_decoder W RotateSOPSKeyResponse_dec \<and>
   total_decoder W ListSOPSKeysRequest_dec \<and>
   total_decoder W SOPSKeyInfo_dec \<and>
   total_decoder W ListSOPSKeysResponse_dec \<and>
   total_decoder W PruneSOPSKeyRequest_dec \<and>
   total_decoder W PruneSOPSKeyResponse_dec \<and>
   total_decoder W RegisterRepositoryRequest_dec \<and>
   total_decoder W RegisterRepositoryResponse_dec \<and>
   total_decoder W ListRepositoriesRequest_dec \<and>
   total_decoder W RepositoryInfo_dec \<and>
   total_decoder W ListRepositoriesResponse_dec \<and>
   total_decoder W RemoveRepositoryRequest_dec \<and>
   total_decoder W RemoveRepositoryResponse_dec \<and>
   total_decoder W TriggerSyncRequest_dec \<and>
   total_decoder W TriggerSyncResponse_dec \<and>
   total_decoder W SyncBundleHeader_dec \<and>
   total_decoder W SyncBundleChunk_dec \<and>
   total_decoder W SyncBundleResponse_dec \<and>
   total_decoder W JsonPatchOperation_dec \<and>
   total_decoder W PatchServiceConfigRequest_dec \<and>
   total_decoder W PatchServiceConfigResponse_dec \<and>
   total_decoder W AdminGetServiceConfigRequest_dec \<and>
   total_decoder W AdminGetServiceConfigResponse_dec \<and>
   total_decoder W PutServiceConfigRequest_dec \<and>
   total_decoder W PutServiceConfigResponse_dec"
  by (intro conjI; rule
    SecretsMessages_total AdminSealMessages_total AdminPolicyMessages_total
    AdminSopsMessages_total AdminRepositoryMessages_total AdminConfigMessages_total)

theorem decoding_returns_witness:
  "total_decoder pb_wire GetServiceBundleResponse_dec"
  using decoding_returns [OF pb_wire_progress] by blast

text \<open>C33: Every JSON value without \<open>undefined\<close> properties, with objects whose keys are in enumeration
  order and nested at most as deep as the decoder allows, can be written as a
  \<open>google.protobuf.Value\<close> and is read back as the same value.\<close>

theorem json_value_roundtrip:
  assumes "wire_ok W" and "wf_js v"
  shows "\<exists>b. any_encode W v = Some b \<and>
     (small b \<and> js_depth v \<le> decode_limit \<longrightarrow>
        (\<exists>m. decode_top (Value_dec W) b = Some (Inr m) \<and> Value_unwrap m = v))"
proof -
  obtain b where b: "any_encode W v = Some b" using any_encode_total [OF assms] by blast
  then obtain m where m: "Value_wrap v = Some m" "Value_encode W m = Some b"
    by (auto simp: any_encode_def bind_eq_Some_conv)
  have "decode_top (Value_dec W) b = Some (Inr m)" if "small b" "js_depth v \<le> decode_limit"
    using value_codec.decode_top_enc [OF assms(1) _ m(2)] that assms(2) m(1) Value_unwrap_wrap [OF m(1)]
    by auto
  with b Value_unwrap_wrap [OF m(1)] show ?thesis by blast
qed

theorem json_value_roundtrip_witness:
  "\<exists>b. any_encode pb_wire (JObject [(''a'', JArray [JNull, JBool True])]) = Some b"
  using json_value_roundtrip [OF pb_wire_ok, of "JObject [(''a'', JArray [JNull, JBool True])]"]
  by (auto simp: proto_key_def)

text \<open>C34: Every valid \<open>Date\<close> is carried by a \<open>Timestamp\<close> exactly, to the millisecond; the timestamp is
  in the wire format's canonical form exactly if the date is not before 1970 or falls on a whole
  second (the others get negative nanoseconds).\<close>

theorem date_roundtrip:
  assumes "valid_date (Date ms)"
  shows "\<exists>t. toTimestamp (Date ms) = Some t \<and> valid_Timestamp t \<and> fromTimestamp t = Date ms \<and>
     (canonical_timestamp t \<longleftrightarrow> 0 \<le> ms \<or> ms mod 1000 = 0)"
  using toTimestamp_valid [OF assms] fromTimestamp_toTimestamp [OF assms] toTimestamp_canonical_iff [of ms]
  by fastforce

theorem date_roundtrip_witness:
  "\<exists>t. toTimestamp (Date 1767323045678) = Some t \<and> fromTimestamp t = Date 1767323045678"
proof -
  have "valid_date (Date 1767323045678)" by (simp add: valid_date_def max_time_def)
  from date_roundtrip [OF this] show ?thesis by blast
qed

text \<open>A \<open>PatchServiceConfig\<close> request built with the \<open>jsonPatch\<dots>\<close> constructors arrives as it was
  built.\<close>

theorem patch_request_arrives:
  assumes "wire_ok W" and "\<forall>c \<in> set cs. wf_js (patch_value c) \<and> js_depth (patch_value c) \<le> 98"
    and "PatchServiceConfigRequest_encode W (patch_request ns svc cs) = Some b" and "small b"
  shows "decode_top (PatchServiceConfigRequest_dec W) b = Some (Inr (patch_request ns svc cs))"
  by (rule patch_request_roundtrip [OF assms])

theorem patch_request_arrives_witness:
  "\<exists>b. PatchServiceConfigRequest_encode pb_wire (patch_request ''n'' ''s'' [Append ''/a'' JNull, Remove ''/b'']) = Some b \<and>
     (small b \<longrightarrow> decode_top (PatchServiceConfigRequest_dec pb_wire) b =
        Some (Inr (patch_request ''n'' ''s'' [Append ''/a'' JNull, Remove ''/b''])))"
proof -
  let ?m = "patch_request ''n'' ''s'' [Append ''/a'' JNull, Remove ''/b'']"
  have "valid_PatchServiceConfigRequest ?m"
    by (simp add: valid_PatchServiceConfigRequest_def patch_request_def build_patch_valid
        del: build_patch.simps)
  from PatchServiceConfigRequest_codec.enc_total [OF pb_wire_ok this] obtain b where
    b: "PatchServiceConfigRequest_encode pb_wire ?m = Some b" by blast
  have "\<forall>c \<in> set [Append ''/a'' JNull, Remove ''/b'']. wf_js (patch_value c) \<and> js_depth (patch_value c) \<le> 98"
    by simp
  from patch_request_arrives [OF pb_wire_ok this b] b show ?thesis by blast
qed

section \<open>JSON and partial messages\<close>

text \<open>C35: What \<open>toJSON\<close> writes for a message of either API, \<open>fromJSON\<close> reads back as that message:
  enumerations by name, bytes in base64, dates as ISO strings, defaults left out. Messages with one
  of these in a field are excluded: a free-form value that is \<open>null\<close> (it is lost), an enumeration
  number the generated code does not recognise (it is read back as \<open>UNRECOGNIZED\<close>), an integer of
  \<open>2 ^ 53\<close> or more, an invalid date.\<close>

theorem messages_json_roundtrip:
  "lang_ok L \<Longrightarrow>
   json_faithful L GetSecretRequest_toJSON GetSecretRequest_fromJSON (\<lambda>_. True) \<and>
   json_faithful L GetSecretResponse_toJSON GetSecretResponse_fromJSON json_ok_GetSecretResponse \<and>
   json_faithful L WatchSecretRequest_toJSON WatchSecretRequest_fromJSON (\<lambda>_. True) \<and>
   json_faithful L WatchSecretResponse_toJSON WatchSecretResponse_fromJSON json_ok_WatchSecretResponse \<and>
   json_faithful L GetConfigRequest_toJSON GetConfigRequest_fromJSON (\<lambda>_. True) \<and>
   json_faithful L GetConfigResponse_toJSON GetConfigResponse_fromJSON json_ok_GetConfigResponse \<and>
   json_faithful L GetServiceConfigRequest_toJSON GetServiceConfigRequest_fromJSON (\<lambda>_. True) \<and>
   json_faithful L GetServiceConfigResponse_toJSON GetServiceConfigResponse_fromJSON json_ok_GetServiceConfigResponse \<and>
   json_faithful L WatchServiceConfigRequest_toJSON WatchServiceConfigRequest_fromJSON (\<lambda>_. True) \<and>
   json_faithful L GetServiceBundleRequest_toJSON GetServiceBundleRequest_fromJSON (\<lambda>_. True) \<and>
   json_faithful L GetServiceBundleResponse_toJSON GetServiceBundleResponse_fromJSON json_ok_GetServiceBundleResponse \<and>
   json_faithful L WatchServiceBundleRequest_toJSON WatchServiceBundleRequest_fromJSON (\<lambda>_. True) \<and>
   json_faithful L WatchServiceBundleResponse_toJSON WatchServiceBundleResponse_fromJSON json_ok_WatchServiceBundleResponse \<and>
   json_faithful L AcquireRestartLockRequest_toJSON AcquireRestartLockRequest_fromJSON json_ok_AcquireRestartLockRequest \<and>
   json_faithful L AcquireRestartLockResponse_toJSON AcquireRestartLockResponse_fromJSON json_ok_AcquireRestartLockResponse \<and>
   json_faithful L WatchServiceConfigResponse_toJSON WatchServiceConfigResponse_fromJSON json_ok_WatchServiceConfigResponse \<and>
   json_faithful L UnsealKeyRequest_toJSON UnsealKeyRequest_fromJSON (\<lambda>_. True) \<and>
   json_faithful L UnsealKeyResponse_toJSON UnsealKeyResponse_fromJSON json_ok_UnsealKeyResponse \<and>
   json_faithful L UnsealShareRequest_toJSON UnsealShareRequest_fromJSON (\<lambda>_. True) \<and>
   json_faithful L UnsealShareResponse_toJSON UnsealShareResponse_fromJSON json_ok_UnsealShareResponse \<and>
   json_faithful L SealRequest_toJSON SealRequest_fromJSON (\<lambda>_. True) \<and>
   json_faithful L SealResponse_toJSON SealResponse_fromJSON (\<lambda>_. True) \<and>
   json_faithful L StatusRequest_toJSON StatusRequest_fromJSON (\<lambda>_. True) \<and>
   json_faithful L StatusResponse_toJSON StatusResponse_fromJSON json_ok_StatusResponse \<and>
   json_faithful L RotateKEKRequest_toJSON RotateKEKRequest_fromJSON (\<lambda>_. True) \<and>
   json_faithful L RotateKEKResponse_toJSON RotateKEKResponse_fromJSON json_ok_RotateKEKResponse \<and>
   json_faithful L ListKEKsRequest_toJSON ListKEKsRequest_fromJSON (\<lambda>_. True) \<and>
   json_faithful L KEKInfo_toJSON KEKInfo_fromJSON (\<lambda>_. True) \<and>
   json_faithful L ListKEKsResponse_toJSON ListKEKsResponse_fromJSON (\<lambda>_. True) \<and>
   json_faithful L PruneKEKRequest_toJSON PruneKEKRequest_fromJSON (\<lambda>_. True) \<and>
   json_faithful L PruneKEKResponse_toJSON PruneKEKResponse_fromJSON (\<lambda>_. True) \<and>
   json_faithful L RotateMasterKeyRequest_toJSON RotateMasterKeyRequest_fromJSON (\<lambda>_. True) \<and>
   json_faithful L RotateMasterKeyResponse_toJSON RotateMasterKeyResponse_fromJSON json_ok_RotateMasterKeyResponse \<and>
   json_faithful L CreatePolicyRequest_toJSON CreatePolicyRequest_fromJSON (\<lambda>_. True) \<and>
   json_faithful L CreatePolicyResponse_toJSON CreatePolicyResponse_fromJSON (\<lambda>_. True) \<and>
   json_faithful L ListPoliciesRequest_toJSON ListPoliciesRequest_fromJSON (\<lambda>_. True) \<and>
   json_faithful L PolicyInfo_toJSON PolicyInfo_fromJSON (\<lambda>_. True) \<and>
   json_faithful L ListPoliciesResponse_toJSON ListPoliciesResponse_fromJSON (\<lambda>_. True) \<and>
   json_faithful L DeletePolicyRequest_toJSON DeletePolicyRequest_fromJSON (\<lambda>_. True) \<and>
   json_faithful L DeletePolicyResponse_toJSON DeletePolicyResponse_fromJSON (\<lambda>_. True) \<and>
   json_faithful L DeleteSecretRequest_toJSON DeleteSecretRequest_fromJSON (\<lambda>_. True) \<and>
   json_faithful L DeleteSecretResponse_toJSON DeleteSecretResponse_fromJSON (\<lambda>_. True) \<and>
   json_faithful L DeleteConfigRequest_toJSON DeleteConfigRequest_fromJSON (\<lambda>_. True) \<and>
   json_faithful L DeleteConfigResponse_toJSON DeleteConfigResponse_fromJSON (\<lambda>_. True) \<and>
   json_faithful L GetSOPSPublicKeyRequest_toJSON GetSOPSPublicKeyRequest_fromJSON (\<lambda>_. True) \<and>
   json_faithful L GetSOPSPublicKeyResponse_toJSON GetSOPSPublicKeyResponse_fromJSON (\<lambda>_. True) \<and>
   json_faithful L RotateSOPSKeyRequest_toJSON RotateSOPSKeyRequest_fromJSON (\<lambda>_. True) \<and>
   json_faithful L RotateSOPSKeyResponse_toJSON RotateSOPSKeyResponse_fromJSON (\<lambda>_. True) \<and>
   json_faithful L ListSOPSKeysRequest_toJSON ListSOPSKeysRequest_fromJSON (\<lambda>_. True) \<and>
   json_faithful L SOPSKeyInfo_toJSON SOPSKeyInfo_fromJSON (\<lambda>_. True) \<and>
   json_faithful L ListSOPSKeysResponse_toJSON ListSOPSKeysResponse_fromJSON (\<lambda>_. True) \<and>
   json_faithful L PruneSOPSKeyRequest_toJSON PruneSOPSKeyRequest_fromJSON (\<lambda>_. True) \<and>
   json_faithful L PruneSOPSKeyResponse_toJSON PruneSOPSKeyResponse_fromJSON (\<lambda>_. True) \<and>
   json_faithful L RegisterRepositoryRequest_toJSON RegisterRepositoryRequest_fromJSON (\<lambda>_. True) \<and>
   json_faithful L RegisterRepositoryResponse_toJSON RegisterRepositoryResponse_fromJSON (\<lambda>_. True) \<and>
   json_faithful L ListRepositoriesRequest_toJSON ListRepositoriesRequest_fromJSON (\<lambda>_. True) \<and>
   json_faithful L RepositoryInfo_toJSON RepositoryInfo_fromJSON (\<lambda>_. True) \<and>
   json_faithful L ListRepositoriesResponse_toJSON ListRepositoriesResponse_fromJSON (\<lambda>_. True) \<and>
   json_faithful L RemoveRepositoryRequest_toJSON RemoveRepositoryRequest_fromJSON (\<lambda>_. True) \<and>
   json_faithful L RemoveRepositoryResponse_toJSON RemoveRepositoryResponse_fromJSON (\<lambda>_. True) \<and>
   json_faithful L TriggerSyncRequest_toJSON TriggerSyncRequest_fromJSON (\<lambda>_. True) \<and>
   json_faithful L TriggerSyncResponse_toJSON TriggerSyncResponse_fromJSON json_ok_TriggerSyncResponse \<and>
   json_faithful L SyncBundleHeader_toJSON SyncBundleHeader_fromJSON (\<lambda>_. True) \<and>
   json_faithful L SyncBundleChunk_toJSON SyncBundleChunk_fromJSON (\<lambda>_. True) \<and>
   json_faithful L SyncBundleResponse_toJSON SyncBundleResponse_fromJSON json_ok_SyncBundleResponse \<and>
   json_faithful L JsonPatchOperation_toJSON JsonPatchOperation_fromJSON json_ok_JsonPatchOperation \<and>
   json_faithful L PatchServiceConfigRequest_toJSON PatchServiceConfigRequest_fromJSON json_ok_PatchServiceConfigRequest \<and>
   json_faithful L PatchServiceConfigResponse_toJSON PatchServiceConfigResponse_fromJSON json_ok_PatchServiceConfigResponse \<and>
   json_faithful L AdminGetServiceConfigRequest_toJSON AdminGetServiceConfigRequest_fromJSON (\<lambda>_. True) \<and>
   json_faithful L AdminGetServiceConfigResponse_toJSON AdminGetServiceConfigResponse_fromJSON json_ok_AdminGetServiceConfigResponse \<and>
   json_faithful L PutServiceConfigRequest_toJSON PutServiceConfigRequest_fromJSON json_ok_PutServiceConfigRequest \<and>
   json_faithful L PutServiceConfigResponse_toJSON PutServiceConfigResponse_fromJSON json_ok_PutServiceConfigResponse"
  by (intro conjI; (rule
    SecretsJson_faithful AdminSealJson_faithful AdminPolicyJson_faithful
    AdminSopsJson_faithful AdminRepositoryJson_faithful AdminConfigJson_faithful);
    assumption)

definition sample_lang :: json_lang where
  "sample_lang = \<lparr>string_of = (\<lambda>v. Inr ''[object Object]''), number_of = (\<lambda>v. Inr 0),
     boolean_of = (\<lambda>t. True), member_of = (\<lambda>v n. JUndefined),
     buffer_of = (\<lambda>v. case v of JString s \<Rightarrow> (case base64_decode s of None \<Rightarrow> Inr [] | Some b \<Rightarrow> Inr b)
                             | _ \<Rightarrow> Inl TypeError),
     parse_date = (\<lambda>s. case s of [] \<Rightarrow> InvalidDate
                     | c # t \<Rightarrow> Date (if c = CHR ''-'' then - int (length t) else int (length t))),
     iso_string = (\<lambda>ms. (if ms < 0 then CHR ''-'' else CHR ''+'') # replicate (nat \<bar>ms\<bar>) (CHR ''1''))\<rparr>"

lemma sample_lang_ok: "lang_ok sample_lang"
  by (simp add: lang_ok_def sample_lang_def)

theorem messages_json_roundtrip_witness:
  "json_faithful sample_lang AcquireRestartLockResponse_toJSON AcquireRestartLockResponse_fromJSON
     json_ok_AcquireRestartLockResponse"
  using messages_json_roundtrip [OF sample_lang_ok] by blast

text \<open>C36: For every message of either API, \<open>create()\<close> is the default message, \<open>create(base)\<close> is
  \<open>fromPartial(base)\<close>, and \<open>fromPartial\<close> of a complete message gives that message, except for
  messages with a free-form field that is \<open>null\<close> (it is lost).\<close>

theorem partial_messages_completed:
  "partial_faithful GetSecretRequest_create GetSecretRequest_fromPartial GetSecretRequest_as_partial createBaseGetSecretRequest (\<lambda>_. True) \<and>
   partial_faithful GetSecretResponse_create GetSecretResponse_fromPartial GetSecretResponse_as_partial createBaseGetSecretResponse (\<lambda>_. True) \<and>
   partial_faithful WatchSecretRequest_create WatchSecretRequest_fromPartial WatchSecretRequest_as_partial createBaseWatchSecretRequest (\<lambda>_. True) \<and>
   partial_faithful WatchSecretResponse_create WatchSecretResponse_fromPartial WatchSecretResponse_as_partial createBaseWatchSecretResponse (\<lambda>_. True) \<and>
   partial_faithful GetConfigRequest_create GetConfigRequest_fromPartial GetConfigRequest_as_partial createBaseGetConfigRequest (\<lambda>_. True) \<and>
   partial_faithful GetConfigResponse_create GetConfigResponse_fromPartial GetConfigResponse_as_partial createBaseGetConfigResponse (\<lambda>m. GetConfigResponse_value m \<noteq> JNull) \<and>
   partial_faithful GetServiceConfigRequest_create GetServiceConfigRequest_fromPartial GetServiceConfigRequest_as_partial createBaseGetServiceConfigRequest (\<lambda>_. True) \<and>
   partial_faithful GetServiceConfigResponse_create GetServiceConfigResponse_fromPartial GetServiceConfigResponse_as_partial createBaseGetServiceConfigResponse (\<lambda>_. True) \<and>
   partial_faithful WatchServiceConfigRequest_create WatchServiceConfigRequest_fromPartial WatchServiceConfigRequest_as_partial createBaseWatchServiceConfigRequest (\<lambda>_. True) \<and>
   partial_faithful GetServiceBundleRequest_create GetServiceBundleRequest_fromPartial GetServiceBundleRequest_as_partial createBaseGetServiceBundleRequest (\<lambda>_. True) \<and>
   partial_faithful GetServiceBundleResponse_create GetServiceBundleResponse_fromPartial GetServiceBundleResponse_as_partial createBaseGetServiceBundleResponse (\<lambda>_. True) \<and>
   partial_faithful WatchServiceBundleRequest_create WatchServiceBundleRequest_fromPartial WatchServiceBundleRequest_as_partial createBaseWatchServiceBundleRequest (\<lambda>_. True) \<and>
   partial_faithful WatchServiceBundleResponse_create WatchServiceBundleResponse_fromPartial WatchServiceBundleResponse_as_partial createBaseWatchServiceBundleResponse (\<lambda>_. True) \<and>
   partial_faithful AcquireRestartLockRequest_create AcquireRestartLockRequest_fromPartial AcquireRestartLockRequest_as_partial createBaseAcquireRestartLockRequest (\<lambda>_. True) \<and>
   partial_faithful AcquireRestartLockResponse_create AcquireRestartLockResponse_fromPartial AcquireRestartLockResponse_as_partial createBaseAcquireRestartLockResponse (\<lambda>_. True) \<and>
   partial_faithful WatchServiceConfigResponse_create WatchServiceConfigResponse_fromPartial WatchServiceConfigResponse_as_partial createBaseWatchServiceConfigResponse (\<lambda>_. True) \<and>
   partial_faithful UnsealKeyRequest_create UnsealKeyRequest_fromPartial UnsealKeyRequest_as_partial createBaseUnsealKeyRequest (\<lambda>_. True) \<and>
   partial_faithful UnsealKeyResponse_create UnsealKeyResponse_fromPartial UnsealKeyResponse_as_partial createBaseUnsealKeyResponse (\<lambda>_. True) \<and>
   partial_faithful UnsealShareRequest_create UnsealShareRequest_fromPartial UnsealShareRequest_as_partial createBaseUnsealShareRequest (\<lambda>_. True) \<and>
   partial_faithful UnsealShareResponse_create UnsealShareResponse_fromPartial UnsealShareResponse_as_partial createBaseUnsealShareResponse (\<lambda>_. True) \<and>
   partial_faithful SealRequest_create SealRequest_fromPartial SealRequest_as_partial createBaseSealRequest (\<lambda>_. True) \<and>
   partial_faithful SealResponse_create SealResponse_fromPartial SealResponse_as_partial createBaseSealResponse (\<lambda>_. True) \<and>
   partial_faithful StatusRequest_create StatusRequest_fromPartial StatusRequest_as_partial createBaseStatusRequest (\<lambda>_. True) \<and>
   partial_faithful StatusResponse_create StatusResponse_fromPartial StatusResponse_as_partial createBaseStatusResponse (\<lambda>_. True) \<and>
   partial_faithful RotateKEKRequest_create RotateKEKRequest_fromPartial RotateKEKRequest_as_partial createBaseRotateKEKRequest (\<lambda>_. True) \<and>
   partial_faithful RotateKEKResponse_create RotateKEKResponse_fromPartial RotateKEKResponse_as_partial createBaseRotateKEKResponse (\<lambda>_. True) \<and>
   partial_faithful ListKEKsRequest_create ListKEKsRequest_fromPartial ListKEKsRequest_as_partial createBaseListKEKsRequest (\<lambda>_. True) \<and>
   partial_faithful KEKInfo_create KEKInfo_fromPartial KEKInfo_as_partial createBaseKEKInfo (\<lambda>_. True) \<and>
   partial_faithful ListKEKsResponse_create ListKEKsResponse_fromPartial ListKEKsResponse_as_partial createBaseListKEKsResponse (\<lambda>_. True) \<and>
   partial_faithful PruneKEKRequest_create PruneKEKRequest_fromPartial PruneKEKRequest_as_partial createBasePruneKEKRequest (\<lambda>_. True) \<and>
   partial_faithful PruneKEKResponse_create PruneKEKResponse_fromPartial PruneKEKResponse_as_partial createBasePruneKEKResponse (\<lambda>_. True) \<and>
   partial_faithful RotateMasterKeyRequest_create RotateMasterKeyRequest_fromPartial RotateMasterKeyRequest_as_partial createBaseRotateMasterKeyRequest (\<lambda>_. True) \<and>
   partial_faithful RotateMasterKeyResponse_create RotateMasterKeyResponse_fromPartial RotateMasterKeyResponse_as_partial createBaseRotateMasterKeyResponse (\<lambda>_. True) \<and>
   partial_faithful CreatePolicyRequest_create CreatePolicyRequest_fromPartial CreatePolicyRequest_as_partial createBaseCreatePolicyRequest (\<lambda>_. True) \<and>
   partial_faithful CreatePolicyResponse_create CreatePolicyResponse_fromPartial CreatePolicyResponse_as_partial createBaseCreatePolicyResponse (\<lambda>_. True) \<and>
   partial_faithful ListPoliciesRequest_create ListPoliciesRequest_fromPartial ListPoliciesRequest_as_partial createBaseListPoliciesRequest (\<lambda>_. True) \<and>
   partial_faithful PolicyInfo_create PolicyInfo_fromPartial PolicyInfo_as_partial createBasePolicyInfo (\<lambda>_. True) \<and>
   partial_faithful ListPoliciesResponse_create ListPoliciesResponse_fromPartial ListPoliciesResponse_as_partial createBaseListPoliciesResponse (\<lambda>_. True) \<and>
   partial_faithful DeletePolicyRequest_create DeletePolicyRequest_fromPartial DeletePolicyRequest_as_partial createBaseDeletePolicyRequest (\<lambda>_. True) \<and>
   partial_faithful DeletePolicyResponse_create DeletePolicyResponse_fromPartial DeletePolicyResponse_as_partial createBaseDeletePolicyResponse (\<lambda>_. True) \<and>
   partial_faithful DeleteSecretRequest_create DeleteSecretRequest_fromPartial DeleteSecretRequest_as_partial createBaseDeleteSecretRequest (\<lambda>_. True) \<and>
   partial_faithful DeleteSecretResponse_create DeleteSecretResponse_fromPartial DeleteSecretResponse_as_partial createBaseDeleteSecretResponse (\<lambda>_. True) \<and>
   partial_faithful DeleteConfigRequest_create DeleteConfigRequest_fromPartial DeleteConfigRequest_as_partial createBaseDeleteConfigRequest (\<lambda>_. True) \<and>
   partial_faithful DeleteConfigResponse_create DeleteConfigResponse_fromPartial DeleteConfigResponse_as_partial createBaseDeleteConfigResponse (\<lambda>_. True) \<and>
   partial_faithful GetSOPSPublicKeyRequest_create GetSOPSPublicKeyRequest_fromPartial GetSOPSPublicKeyRequest_as_partial createBaseGetSOPSPublicKeyRequest (\<lambda>_. True) \<and>
   partial_faithful GetSOPSPublicKeyResponse_create GetSOPSPublicKeyResponse_fromPartial GetSOPSPublicKeyResponse_as_partial createBaseGetSOPSPublicKeyResponse (\<lambda>_. True) \<and>
   partial_faithful RotateSOPSKeyRequest_create RotateSOPSKeyRequest_fromPartial RotateSOPSKeyRequest_as_partial createBaseRotateSOPSKeyRequest (\<lambda>_. True) \<and>
   partial_faithful RotateSOPSKeyResponse_create RotateSOPSKeyResponse_fromPartial RotateSOPSKeyResponse_as_partial createBaseRotateSOPSKeyResponse (\<lambda>_. True) \<and>
   partial_faithful ListSOPSKeysRequest_create ListSOPSKeysRequest_fromPartial ListSOPSKeysRequest_as_partial createBaseListSOPSKeysRequest (\<lambda>_. True) \<and>
   partial_faithful SOPSKeyInfo_create SOPSKeyInfo_fromPartial SOPSKeyInfo_as_partial createBaseSOPSKeyInfo (\<lambda>_. True) \<and>
   partial_faithful ListSOPSKeysResponse_create ListSOPSKeysResponse_fromPartial ListSOPSKeysResponse_as_partial createBaseListSOPSKeysResponse (\<lambda>_. True) \<and>
   partial_faithful PruneSOPSKeyRequest_create PruneSOPSKeyRequest_fromPartial PruneSOPSKeyRequest_as_partial createBasePruneSOPSKeyRequest (\<lambda>_. True) \<and>
   partial_faithful PruneSOPSKeyResponse_create PruneSOPSKeyResponse_fromPartial PruneSOPSKeyResponse_as_partial createBasePruneSOPSKeyResponse (\<lambda>_. True) \<and>
   partial_faithful RegisterRepositoryRequest_create RegisterRepositoryRequest_fromPartial RegisterRepositoryRequest_as_partial createBaseRegisterRepositoryRequest (\<lambda>_. True) \<and>
   partial_faithful RegisterRepositoryResponse_create RegisterRepositoryResponse_fromPartial RegisterRepositoryResponse_as_partial createBaseRegisterRepositoryResponse (\<lambda>_. True) \<and>
   partial_faithful ListRepositoriesRequest_create ListRepositoriesRequest_fromPartial ListRepositoriesRequest_as_partial createBaseListRepositoriesRequest (\<lambda>_. True) \<and>
   partial_faithful RepositoryInfo_create RepositoryInfo_fromPartial RepositoryInfo_as_partial createBaseRepositoryInfo (\<lambda>_. True) \<and>
   partial_faithful ListRepositoriesResponse_create ListRepositoriesResponse_fromPartial ListRepositoriesResponse_as_partial createBaseListRepositoriesResponse (\<lambda>_. True) \<and>
   partial_faithful RemoveRepositoryRequest_create RemoveRepositoryRequest_fromPartial RemoveRepositoryRequest_as_partial createBaseRemoveRepositoryRequest (\<lambda>_. True) \<and>
   partial_faithful RemoveRepositoryResponse_create RemoveRepositoryResponse_fromPartial RemoveRepositoryResponse_as_partial createBaseRemoveRepositoryResponse (\<lambda>_. True) \<and>
   partial_faithful TriggerSyncRequest_create TriggerSyncRequest_fromPartial TriggerSyncRequest_as_partial createBaseTriggerSyncRequest (\<lambda>_. True) \<and>
   partial_faithful TriggerSyncResponse_create TriggerSyncResponse_fromPartial TriggerSyncResponse_as_partial createBaseTriggerSyncResponse (\<lambda>_. True) \<and>
   partial_faithful SyncBundleHeader_create SyncBundleHeader_fromPartial SyncBundleHeader_as_partial createBaseSyncBundleHeader (\<lambda>_. True) \<and>
   partial_faithful SyncBundleChunk_create SyncBundleChunk_fromPartial SyncBundleChunk_as_partial createBaseSyncBundleChunk (\<lambda>_. True) \<and>
   partial_faithful SyncBundleResponse_create SyncBundleResponse_fromPartial SyncBundleResponse_as_partial createBaseSyncBundleResponse (\<lambda>_. True) \<and>
   partial_faithful JsonPatchOperation_create JsonPatchOperation_fromPartial JsonPatchOperation_as_partial createBaseJsonPatchOperation (\<lambda>m. JsonPatchOperation_value m \<noteq> JNull) \<and>
   partial_faithful PatchServiceConfigRequest_create PatchServiceConfigRequest_fromPartial PatchServiceConfigRequest_as_partial createBasePatchServiceConfigRequest (\<lambda>m. list_all (\<lambda>v. JsonPatchOperation_value v \<noteq> JNull) (PatchServiceConfigRequest_operations m)) \<and>
   partial_faithful PatchServiceConfigResponse_create PatchServiceConfigResponse_fromPartial PatchServiceConfigResponse_as_partial createBasePatchServiceConfigResponse (\<lambda>_. True) \<and>
   partial_faithful AdminGetServiceConfigRequest_create AdminGetServiceConfigRequest_fromPartial AdminGetServiceConfigRequest_as_partial createBaseAdminGetServiceConfigRequest (\<lambda>_. True) \<and>
   partial_faithful AdminGetServiceConfigResponse_create AdminGetServiceConfigResponse_fromPartial AdminGetServiceConfigResponse_as_partial createBaseAdminGetServiceConfigResponse (\<lambda>m. AdminGetServiceConfigResponse_content m \<noteq> JNull) \<and>
   partial_faithful PutServiceConfigRequest_create PutServiceConfigRequest_fromPartial PutServiceConfigRequest_as_partial createBasePutServiceConfigRequest (\<lambda>m. PutServiceConfigRequest_content m \<noteq> JNull) \<and>
   partial_faithful PutServiceConfigResponse_create PutServiceConfigResponse_fromPartial PutServiceConfigResponse_as_partial createBasePutServiceConfigResponse (\<lambda>_. True)"
  by (intro conjI; rule
    SecretsJson_completed AdminSealJson_completed AdminPolicyJson_completed
    AdminSopsJson_completed AdminRepositoryJson_completed AdminConfigJson_completed)

text \<open>C37: A \<open>null\<close> value of a JSON patch operation does not survive \<open>toJSON\<close> and \<open>fromJSON\<close>, nor
  \<open>fromPartial\<close>: it comes back as \<open>undefined\<close>, while the wire format keeps it.\<close>

theorem null_patch_value_lost:
  "(\<exists>ob. JsonPatchOperation_toJSON L (jsonPatchReplace path JNull) = Inr (JObject ob) \<and>
      JsonPatchOperation_fromJSON L (JObject ob) = Inr (jsonPatchReplace path JUndefined)) \<and>
   JsonPatchOperation_fromPartial (JsonPatchOperation_as_partial (jsonPatchReplace path JNull)) =
     jsonPatchReplace path JUndefined"
  by (simp add: jsonPatchReplace_def JsonPatchOperation_toJSON_def JsonPatchOperation_fromJSON_def json_back
      JsonPatchOperation_fromPartial_def JsonPatchOperation_as_partial_def partial_simps
      null_dropped)

section \<open>The echo program\<close>

text \<open>C38: The document the echo program prints for a bundle response is what the server put into it: the
  configuration as it is, and every secret as the text whose base64 form the response carried.\<close>

theorem echo_prints_the_bundle:
  assumes "lang_ok (echo_lang L)" and "text_ok (echo_text L)" and "wire_ok W"
    and "wf_obj ob" and "lookup ''secrets'' ob = JObject (sealed_entries secrets)"
    and "canonical (map fst secrets)" and "in_int32 version"
    and "responseSerialize (SecretsService_getServiceBundle W)
           \<lparr>GetServiceBundleResponse_bundle = Some ob, GetServiceBundleResponse_configVersion = version\<rparr> = Some b"
    and "small b" and "obj_depth ob \<le> 99"
  shows "\<exists>resp. responseDeserialize (SecretsService_getServiceBundle W) b = Some (Inr resp) \<and>
     hd (snd (echo_step L c \<lparr>shutdown_requested = sh, echo_phase = Fetching\<rparr>
                (Fetched (Inr (GetServiceBundleResponse_bundle resp))))) =
       LogBundle (filter (\<lambda>(k, v). k \<noteq> ''secrets'') ob @ [(''secrets'', JObject (plain_entries secrets))])"
proof -
  let ?r = "\<lparr>GetServiceBundleResponse_bundle = Some ob, GetServiceBundleResponse_configVersion = version\<rparr>"
  have "valid_GetServiceBundleResponse ?r" "depth_GetServiceBundleResponse ?r \<le> decode_limit"
    using assms(4,7,10) by (simp_all add: valid_GetServiceBundleResponse_def depth_GetServiceBundleResponse_def
        opt_depth_def decode_limit_def)
  with assms(8,9) SecretsService_getServiceBundle_rpc.calls [OF assms(3)]
  have "responseDeserialize (SecretsService_getServiceBundle W) b = Some (Inr ?r)"
    unfolding carries_calls_def by (blast intro: carriedD)
  with decodeBundle_sealed [OF assms(1,2,6,5)] show ?thesis
    by (intro exI [of _ ?r]) (simp add: print_bundle_def split_beta)
qed

definition sample_env :: environment where
  "sample_env = (\<lambda>name. Some ''x'')"

definition sample_echo :: echo_libs where
  "sample_echo = \<lparr>echo_lang = sample_lang, echo_text = (\<lambda>b. case utf8_decode b of None \<Rightarrow> '''' | Some t \<Rightarrow> t), echo_error = (\<lambda>e. mk_error ''''),
     echo_opened = Inr (), echo_number_text = (\<lambda>n. ''''), echo_signal = ''SIGTERM''\<rparr>"

definition sample_config :: echo_config where
  "sample_config = \<lparr>echo_address = ''a'', echo_trustDomain = ''example.org'', echo_workloadSocket = ''s'',
     echo_namespace = ''ns'', echo_service = ''svc'', echo_sharedNamespace = Some ''other'',
     echo_sharedService = Some ''svc'', echo_lockTtlSeconds = Finite 30, echo_debounceSeconds = Finite 5\<rparr>"

theorem echo_prints_the_bundle_witness:
  "\<exists>bundle. hd (snd (echo_step sample_echo sample_config \<lparr>shutdown_requested = False, echo_phase = Fetching\<rparr>
       (Fetched (Inr bundle)))) =
     LogBundle [(''port'', JString ''80''), (''secrets'', JObject [(''k'', JString ''v'')])]"
proof -
  obtain b where b: "responseSerialize (SecretsService_getServiceBundle pb_wire)
      \<lparr>GetServiceBundleResponse_bundle = Some sample_bundle, GetServiceBundleResponse_configVersion = 3\<rparr> = Some b"
    "small b" using bundle_response_small unfolding sample_response_def by blast
  have keys: "canonical [''port'', ''secrets'']" "canonical [''k'']" by code_simp+
  then have ob: "wf_obj sample_bundle" "obj_depth sample_bundle \<le> 99"
    "lookup ''secrets'' sample_bundle = JObject (sealed_entries [(''k'', ''v'')])"
    by (simp_all add: wf_obj_def sample_bundle_def sealed_entries_def lookup_def obj_depth_def)
  have "lang_ok (echo_lang sample_echo)" "text_ok (echo_text sample_echo)"
    using sample_lang_ok by (simp_all add: sample_echo_def text_ok_def)
  from echo_prints_the_bundle [OF this pb_wire_ok ob(1,3) _ _ b ob(2), where sh = False and c = sample_config] keys(2)
  show ?thesis by (auto simp: in_int32_def sample_bundle_def plain_entries_def simp del: echo_step.simps)
qed

text \<open>C39: The echo program ends once, after closing its connection at most once: with code 0 only after
  a process signal, or after it announced the restart lock and released it; with code 1 only
  with an error message. A process signal that finds it blocked in \<open>waitForRestart\<close> ends it with
  code 0 at once.\<close>

theorem echo_ends:
  "(\<forall>code. echo_phase (fst (echo_main L env es)) = Ended code \<longrightarrow>
      ended_well (shutdown_requested (fst (echo_main L env es))) code (snd (echo_main L env es))) \<and>
   (\<forall>A w. echo_phase (fst (echo_main L env es)) = Blocked A w \<longrightarrow>
      echo_phase (fst (echo_main L env (es @ [Terminate]))) = Ended 0 \<and>
      snd (echo_main L env (es @ [Terminate])) = snd (echo_main L env es) @
        [LogLine (''signet-echo: received '' @ echo_signal L @ '', shutting down''), AbortController,
         CloseConnection, LogLine (''signet-echo: exiting after '' @ echo_signal L), Exit 0])"
  using echo_main_ends [of L env es] echo_main_blocked [of L env es] by blast

theorem echo_ends_witness:
  "ended_well False 1 (snd (echo_main sample_echo sample_env [Dialed (Inl (mk_error ''refused''))]))"
proof -
  have "js_trim ''x'' = ''x''" by code_simp
  then have "\<exists>c. loadConfig sample_env = Inr c" by (simp add: loadConfig_def requireEnv_def sample_env_def)
  then have "echo_phase (fst (echo_main sample_echo sample_env [Dialed (Inl (mk_error ''refused''))])) = Ended 1 \<and>
      \<not> shutdown_requested (fst (echo_main sample_echo sample_env [Dialed (Inl (mk_error ''refused''))]))"
    by (auto simp: echo_main_def fatal_def)
  with echo_ends [of sample_echo sample_env "[Dialed (Inl (mk_error ''refused''))]"] show ?thesis by auto
qed

section \<open>Where code and documentation part\<close>

text \<open>Once the lock is held, aborting the signal changes nothing: the heartbeats go on until
  \<open>release()\<close>.\<close>

theorem abort_after_acquisition_ignored:
  assumes "result (lock_after ns svc ttl opts es) = Some (Inr ())"
  shows "lock_after ns svc ttl opts (es @ [SignalAbort]) = lock_after ns svc ttl opts es"
  using abort_after_acquired [OF assms race_after_settled [OF assms]] by (simp add: fst_run_snoc)

theorem abort_after_acquisition_ignored_witness:
  "lock_after ''ns'' ''svc'' 30 sample_options ([Received sample_acquired, AcquiredReaction] @ [SignalAbort]) =
   lock_after ''ns'' ''svc'' 30 sample_options [Received sample_acquired, AcquiredReaction]"
  by (rule abort_after_acquisition_ignored [OF sample_lock_held])

text \<open>When the stream fails, the heartbeat timer of the lost lock keeps running and its next tick
  still writes to the stream, until \<open>release()\<close> is called.\<close>

theorem lost_lock_keeps_beating:
  assumes "heartbeat_timer (the_lock a) = Some ms" and "\<not> send_closed (out a)"
  shows "written (out (fst (run (acquisition_step opts ttl) a [ReceiveFails err, HeartbeatTick]))) =
     written (out a) @ [heartbeat_request]"
proof -
  let ?b = "fst (acquisition_step opts ttl a (ReceiveFails err))"
  have "heartbeat_timer (the_lock ?b) = Some ms" using timer_survives_loss assms(1) by simp
  moreover have "out ?b = out a" by (simp add: Let_def lock_ops)
  ultimately show ?thesis
    using assms(2) by (simp add: split_beta sink_send_def del: acquisition_step.simps(2))
qed

theorem lost_lock_keeps_beating_witness:
  "written (out (fst (run (acquisition_step sample_options 30)
     ((start_acquisition ''ns'' ''svc'' 30 sample_options)\<lparr>the_lock := start_heartbeat 7500 lock_new,
        out := sink_new\<rparr>) [ReceiveFails (mk_error ''gone''), HeartbeatTick]))) = [heartbeat_request]"
  using lost_lock_keeps_beating
    [of "(start_acquisition ''ns'' ''svc'' 30 sample_options)\<lparr>the_lock := start_heartbeat 7500 lock_new,
        out := sink_new\<rparr>" 7500 sample_options 30 "mk_error ''gone''"]
  by (simp add: start_heartbeat_def timer_delay_def sink_new_def)

text \<open>C40: The watch that \<open>waitForRestart\<close> opens ends only with an abort of its signal: after the lock
  is held, or the call has failed, its loop goes on receiving and reconnecting.\<close>

theorem wait_leaves_watch_running:
  "pc (wait_loop (wait_for_restart A es)) = Returned \<longleftrightarrow>
     wait_signal A \<noteq> None \<and> (wait_signal A = Some True \<or> Aborts \<in> set es)"
  by (rule wait_loop_running)

text \<open>With a back-off cap below the minimum the first sleep is the minimum, not the cap.\<close>

theorem first_sleep_ignores_cap:
  assumes "\<not> (has_signal opts \<and> a)" and "backoff_max opts < backoff_min opts"
  shows "slept (loop_after opts a [OpenFails]) = [timer_delay (backoff_min opts)] \<and>
     backoff_max opts < backoff_min opts"
  using assms by (auto simp: loop_run_def watch_bundle_def loop_ops)

theorem first_sleep_ignores_cap_witness:
  "slept (loop_after \<lparr>has_signal = False, backoffMinMs = None, backoffMaxMs = Some 500\<rparr> False [OpenFails]) = [1000]"
  using first_sleep_ignores_cap [of "\<lparr>has_signal = False, backoffMinMs = None, backoffMaxMs = Some 500\<rparr>" False]
  by (simp add: backoff_min_def backoff_max_def DEFAULT_BACKOFF_MIN_MS_def timer_delay_def)

text \<open>A trust domain that is only the scheme passes the check for emptiness, and a certificate
  whose SPIFFE identity has an empty trust domain is then accepted.\<close>

theorem empty_trust_domain_accepted:
  "normalizeTrustDomain ''spiffe://'' = Inr [] \<and>
   checkServerIdentity [] (Some ''URI:spiffe:///server'') = None"
  by code_simp

text \<open>A SPIFFE name is found inside another, quoted, subject alternative name: the list is split
  at every comma.\<close>

theorem quoted_name_accepted:
  "checkServerIdentity ''example.org''
     (Some (''DNS:'' @ [CHR 0x22] @ ''x, URI:spiffe://example.org/server'' @ [CHR 0x22])) = None"
  by code_simp

text \<open>An object read from a \<open>Struct\<close> never has the property \<open>__proto__\<close>, whatever was sent.\<close>

theorem proto_property_dropped:
  "proto_key \<notin> fst ` set (Struct_unwrap s) \<and> proto_key \<notin> fst ` set (struct_fields (Struct_wrap (Some ob)))"
  by (simp add: Struct_unwrap_def Struct_wrap_def obj_copy_no_proto)

text \<open>An empty buffer counts as a CA: with \<open>plaintext\<close> it is a conflict, without it the CA is
  rejected, where an empty string would have meant no CA.\<close>

theorem empty_ca_buffer_counts:
  "(\<exists>e. adminTransportMode address (Some (PemBuffer [])) False True = Inl e) \<and>
   adminTransportMode address (Some (PemText '''')) False True = Inr False"
  by (simp add: adminTransportMode_def has_ca_pem_def)

end
